(* ===== verification/Prelude.thy ===== *)
theory Prelude
  imports Main "HOL-Library.AList" "HOL-Library.Word" "HOL-Library.Multiset" "HOL-Library.Char_ord"
    "HOL-Library.List_Lexorder" "HOL-Library.Product_Lexorder"
begin

text \<open>
  Shared vocabulary of the development: the scalar types of \<open>Types.hpp\<close>, the exceptions of
  \<open>Exceptions.hpp\<close> and of \<open>fc\<close> as values of one datatype, the result type of a C++ function that may
  throw, the fixed-width integer arithmetic the code performs on \<open>int64_t\<close> and \<open>int32_t\<close>, and the
  finite maps that stand for \<open>std::map\<close>, \<open>std::unordered_map\<close> and the level maps.

  A map is an association list: the list order is the iteration order of the container, which the
  C++ standard leaves open for \<open>unordered_map\<close>; lookups are \<^const>\<open>map_of\<close>, \<open>m[k] = v\<close> is
  \<^const>\<open>AList.update\<close> and \<open>m.erase(k)\<close> is \<^const>\<open>AList.delete\<close>.
\<close>

named_theorems result_simps \<open>equations of the result type\<close>
named_theorems map_simps \<open>lookups after an update or an erasure\<close>
named_theorems arith_defs \<open>definitions of the fixed-width arithmetic\<close>


section \<open>Scalar types\<close>

text \<open>\<open>Types.hpp\<close>: hashes and keys are bit strings of their length, ids are \<open>fc::signed_int\<close>
  (an \<open>int32_t\<close>), amounts are \<open>int64_t\<close> and times are seconds in a \<open>uint32_t\<close>.\<close>

type_synonym Address = "160 word"
type_synonym PublicKeyType = "264 word"
type_synonym BlockIdType = "160 word"
type_synonym TransactionIdType = "160 word"
type_synonym SecretHashType = "160 word"
type_synonym DigestType = "256 word"
type_synonym SignatureType = "520 word"
type_synonym BalanceIdType = Address
type_synonym ContractIdType = Address
type_synonym AssetIdType = int
type_synonym AccountIdType = int
type_synonym ShareType = int
type_synonym SlateIdType = "64 word"
type_synonym ContractName = string
type_synonym time_point_sec = "32 word"


section \<open>Exceptions and results\<close>

text \<open>An exception is its \<open>fc\<close> exception code; the names are those the code throws, with the codes
  of \<open>Exceptions.hpp\<close> and of \<open>fc/exception/exception.hpp\<close>. \<open>fc_assert\<close> is the
  \<open>assert_exception\<close> of \<open>FC_ASSERT\<close>, \<open>out_of_range\<close> the standard exception that
  \<open>std::map::at\<close> raises, \<open>bad_cast\<close> what a failing \<open>fc::variant\<close> conversion raises.\<close>

datatype error = exn nat

abbreviation fc_assert :: error where "fc_assert \<equiv> exn 10"
abbreviation out_of_range :: error where "out_of_range \<equiv> exn 13"
abbreviation bad_cast :: error where "bad_cast \<equiv> exn 7"
abbreviation overflow_exception :: error where "overflow_exception \<equiv> exn 19"
abbreviation underflow_exception :: error where "underflow_exception \<equiv> exn 20"
abbreviation divide_by_zero_exception :: error where "divide_by_zero_exception \<equiv> exn 21"
abbreviation addition_overflow :: error where "addition_overflow \<equiv> exn 30002"
abbreviation subtraction_overflow :: error where "subtraction_overflow \<equiv> exn 30003"
abbreviation asset_type_mismatch :: error where "asset_type_mismatch \<equiv> exn 30004"
abbreviation asset_divide_by_self :: error where "asset_divide_by_self \<equiv> exn 30010"
abbreviation asset_divide_by_zero :: error where "asset_divide_by_zero \<equiv> exn 30011"
abbreviation price_multiplication_undefined :: error where "price_multiplication_undefined \<equiv> exn 31603"
abbreviation price_multiplication_underflow :: error where "price_multiplication_underflow \<equiv> exn 31602"
abbreviation price_multiplication_overflow :: error where "price_multiplication_overflow \<equiv> exn 31601"
abbreviation illegal_transaction :: error where "illegal_transaction \<equiv> exn 30015"
abbreviation duplicate_transaction :: error where "duplicate_transaction \<equiv> exn 30007"
abbreviation zero_amount :: error where "zero_amount \<equiv> exn 30008"
abbreviation invalid_address :: error where "invalid_address \<equiv> exn 30028"
abbreviation unlinkable_block :: error where "unlinkable_block \<equiv> exn 30013"
abbreviation block_numbers_not_sequential :: error where "block_numbers_not_sequential \<equiv> exn 30016"
abbreviation invalid_previous_block_id :: error where "invalid_previous_block_id \<equiv> exn 30017"
abbreviation invalid_block_time :: error where "invalid_block_time \<equiv> exn 30018"
abbreviation invalid_block_digest :: error where "invalid_block_digest \<equiv> exn 30021"
abbreviation invalid_delegate_signee :: error where "invalid_delegate_signee \<equiv> exn 30022"
abbreviation unknown_block :: error where "unknown_block \<equiv> exn 30025"
abbreviation block_older_than_undo_history :: error where "block_older_than_undo_history \<equiv> exn 30026"
abbreviation store_and_index_a_seen_block :: error where "store_and_index_a_seen_block \<equiv> exn 42001"
abbreviation negative_deposit :: error where "negative_deposit \<equiv> exn 31001"
abbreviation not_a_delegate :: error where "not_a_delegate \<equiv> exn 31002"
abbreviation unknown_balance_entry :: error where "unknown_balance_entry \<equiv> exn 31003"
abbreviation insufficient_funds :: error where "insufficient_funds \<equiv> exn 31004"
abbreviation missing_signature :: error where "missing_signature \<equiv> exn 31005"
abbreviation invalid_withdraw_condition :: error where "invalid_withdraw_condition \<equiv> exn 31007"
abbreviation negative_withdraw :: error where "negative_withdraw \<equiv> exn 31008"
abbreviation not_an_active_delegate :: error where "not_an_active_delegate \<equiv> exn 31009"
abbreviation expired_transaction :: error where "expired_transaction \<equiv> exn 31010"
abbreviation invalid_transaction_expiration :: error where "invalid_transaction_expiration \<equiv> exn 31011"
abbreviation oversized_transaction :: error where "oversized_transaction \<equiv> exn 31012"
abbreviation operator_and_owner_not_the_same :: error where "operator_and_owner_not_the_same \<equiv> exn 31013"
abbreviation too_much_signature :: error where "too_much_signature \<equiv> exn 31014"
abbreviation too_much_balances_withdraw_not_used_up :: error where "too_much_balances_withdraw_not_used_up \<equiv> exn 31015"
abbreviation deposit_to_one_address_twice :: error where "deposit_to_one_address_twice \<equiv> exn 31016"
abbreviation too_much_deposit :: error where "too_much_deposit \<equiv> exn 31017"
abbreviation invalid_account_name :: error where "invalid_account_name \<equiv> exn 31101"
abbreviation unknown_account_id :: error where "unknown_account_id \<equiv> exn 31102"
abbreviation unknown_account_name :: error where "unknown_account_name \<equiv> exn 31103"
abbreviation account_already_registered :: error where "account_already_registered \<equiv> exn 31107"
abbreviation account_key_in_use :: error where "account_key_in_use \<equiv> exn 31108"
abbreviation account_retracted :: error where "account_retracted \<equiv> exn 31109"
abbreviation unknown_delegate_slate :: error where "unknown_delegate_slate \<equiv> exn 31111"
abbreviation too_may_delegates_in_slate :: error where "too_may_delegates_in_slate \<equiv> exn 31112"
abbreviation pay_balance_remaining :: error where "pay_balance_remaining \<equiv> exn 31113"
abbreviation message_too_long :: error where "message_too_long \<equiv> exn 31114"
abbreviation invalid_precision :: error where "invalid_precision \<equiv> exn 31301"
abbreviation invalid_asset_symbol :: error where "invalid_asset_symbol \<equiv> exn 31302"
abbreviation unknown_asset_id :: error where "unknown_asset_id \<equiv> exn 31303"
abbreviation asset_symbol_in_use :: error where "asset_symbol_in_use \<equiv> exn 31304"
abbreviation invalid_asset_amount :: error where "invalid_asset_amount \<equiv> exn 31305"
abbreviation negative_issue :: error where "negative_issue \<equiv> exn 31306"
abbreviation over_issue :: error where "over_issue \<equiv> exn 31307"
abbreviation unknown_asset_symbol :: error where "unknown_asset_symbol \<equiv> exn 31308"
abbreviation asset_id_in_use :: error where "asset_id_in_use \<equiv> exn 31309"
abbreviation not_user_issued :: error where "not_user_issued \<equiv> exn 31310"
abbreviation invalid_asset_name :: error where "invalid_asset_name \<equiv> exn 31311"
abbreviation balance_operation_overflow :: error where "balance_operation_overflow \<equiv> exn 31312"
abbreviation invalid_delegate_account_name :: error where "invalid_delegate_account_name \<equiv> exn 31313"
abbreviation delegate_vote_limit :: error where "delegate_vote_limit \<equiv> exn 31401"
abbreviation insufficient_fee :: error where "insufficient_fee \<equiv> exn 31402"
abbreviation negative_fee :: error where "negative_fee \<equiv> exn 31403"
abbreviation missing_deposit :: error where "missing_deposit \<equiv> exn 31404"
abbreviation insufficient_relay_fee :: error where "insufficient_relay_fee \<equiv> exn 31405"
abbreviation contract_not_exist :: error where "contract_not_exist \<equiv> exn 32002"
abbreviation contract_destroyed :: error where "contract_destroyed \<equiv> exn 32004"
abbreviation contract_upgraded :: error where "contract_upgraded \<equiv> exn 32003"
abbreviation contract_no_permission :: error where "contract_no_permission \<equiv> exn 32007"
abbreviation contract_name_illegal :: error where "contract_name_illegal \<equiv> exn 32005"
abbreviation contract_desc_illegal :: error where "contract_desc_illegal \<equiv> exn 32006"
abbreviation contract_name_in_use :: error where "contract_name_in_use \<equiv> exn 32008"
abbreviation permanent_contract :: error where "permanent_contract \<equiv> exn 32010"
abbreviation contract_address_in_use :: error where "contract_address_in_use \<equiv> exn 32001"
abbreviation contract_code_invalid :: error where "contract_code_invalid \<equiv> exn 32009"
abbreviation not_be_result_of_execute :: error where "not_be_result_of_execute \<equiv> exn 32016"
abbreviation in_result_of_execute :: error where "in_result_of_execute \<equiv> exn 32021"
abbreviation invalid_margin_amount :: error where "invalid_margin_amount \<equiv> exn 32018"
abbreviation not_allow_withdraw_from_contract :: error where "not_allow_withdraw_from_contract \<equiv> exn 32019"
abbreviation deposit_contract_type_error :: error where "deposit_contract_type_error \<equiv> exn 32020"
abbreviation unsupported_chain_operation :: error where "unsupported_chain_operation \<equiv> exn 30005"
abbreviation method_can_not_be_called_explicitly :: error where "method_can_not_be_called_explicitly \<equiv> exn 32015"
abbreviation method_not_exist :: error where "method_not_exist \<equiv> exn 32013"
abbreviation contract_run_out_of_money :: error where "contract_run_out_of_money \<equiv> exn 32011"
abbreviation contract_parameter_length_over_limit :: error where "contract_parameter_length_over_limit \<equiv> exn 32017"
abbreviation contract_execute_error :: error where "contract_execute_error \<equiv> exn 32028"
abbreviation event_parameter_length_over_limit :: error where "event_parameter_length_over_limit \<equiv> exn 35001"
abbreviation out_of_max_trx_size :: error where "out_of_max_trx_size \<equiv> exn 30030"
abbreviation ignore_check_required_fee_state :: error where "ignore_check_required_fee_state \<equiv> exn 41001"

type_synonym 'a result = "error + 'a"

definition bindE :: "'a result \<Rightarrow> ('a \<Rightarrow> 'b result) \<Rightarrow> 'b result" where
  "bindE m f = (case m of Inl e \<Rightarrow> Inl e | Inr x \<Rightarrow> f x)"

lemma bindE_Inr [simp, result_simps]: "bindE (Inr x) f = f x"
  by (simp add: bindE_def)

lemma bindE_Inl [simp, result_simps]: "bindE (Inl e) f = Inl e"
  by (simp add: bindE_def)

lemma bindE_eq_Inr [result_simps]: "bindE m f = Inr y \<longleftrightarrow> (\<exists>x. m = Inr x \<and> f x = Inr y)"
  by (cases m) simp_all

lemma bindE_eq_Inl [result_simps]:
  "bindE m f = Inl e \<longleftrightarrow> m = Inl e \<or> (\<exists>x. m = Inr x \<and> f x = Inl e)"
  by (cases m) simp_all

lemma bindE_assoc: "bindE (bindE m f) g = bindE m (\<lambda>x. bindE (f x) g)"
  by (cases m) simp_all

lemma bindE_cong [fundef_cong]:
  "m = m' \<Longrightarrow> (\<And>x. m' = Inr x \<Longrightarrow> f x = f' x) \<Longrightarrow> bindE m f = bindE m' f'"
  by (cases m') simp_all

text \<open>A raising loop over the elements of a container, threading a state.\<close>

fun foldE :: "('a \<Rightarrow> 's \<Rightarrow> 's result) \<Rightarrow> 'a list \<Rightarrow> 's \<Rightarrow> 's result" where
  "foldE f [] s = Inr s"
| "foldE f (x # xs) s = bindE (f x s) (foldE f xs)"

lemma foldE_append: "foldE f (xs @ ys) s = bindE (foldE f xs s) (foldE f ys)"
  by (induction xs arbitrary: s) (auto simp: bindE_assoc intro: bindE_cong)

text \<open>The invariant rule of such a loop.\<close>

lemma foldE_invariant:
  assumes "foldE f xs s = Inr s'" and "P s"
    and "\<And>x s s'. x \<in> set xs \<Longrightarrow> P s \<Longrightarrow> f x s = Inr s' \<Longrightarrow> P s'"
  shows "P s'"
  using assms by (induction xs arbitrary: s) (auto simp: bindE_eq_Inr)

text \<open>\<open>std::map::at\<close>.\<close>

definition map_at :: "('k \<times> 'v) list \<Rightarrow> 'k \<Rightarrow> 'v result" where
  "map_at m k = (case map_of m k of None \<Rightarrow> Inl out_of_range | Some v \<Rightarrow> Inr v)"

lemma map_at_eq_Inr [result_simps]: "map_at m k = Inr v \<longleftrightarrow> map_of m k = Some v"
  by (simp add: map_at_def split: option.splits)


section \<open>Maps\<close>

lemma map_of_update [simp, map_simps]:
  "map_of (AList.update k v m) k' = (if k' = k then Some v else map_of m k')"
  by (simp add: update_conv')

lemma map_of_delete [simp, map_simps]:
  "map_of (AList.delete k m) k' = (if k' = k then None else map_of m k')"
  by (simp add: delete_conv')

text \<open>\<open>m[k]\<close> on an amount: a missing key reads as (and is created with) 0.\<close>

definition map_amount :: "('k \<times> int) list \<Rightarrow> 'k \<Rightarrow> int" where
  "map_amount m k = (case map_of m k of None \<Rightarrow> 0 | Some v \<Rightarrow> v)"

lemma map_amount_update [simp, map_simps]:
  "map_amount (AList.update k v m) k' = (if k' = k then v else map_amount m k')"
  by (simp add: map_amount_def)

lemma map_amount_Nil [simp]: "map_amount [] k = 0"
  by (simp add: map_amount_def)

text \<open>Insertion into a set kept as a list, and erasure from it.\<close>

definition set_insert :: "'a \<Rightarrow> 'a list \<Rightarrow> 'a list" where
  "set_insert x xs = (if x \<in> set xs then xs else xs @ [x])"

lemma set_set_insert [simp]: "set (set_insert x xs) = insert x (set xs)"
  by (auto simp: set_insert_def)

lemma set_removeAll_simp [simp]: "x \<in> set (removeAll y xs) \<longleftrightarrow> x \<in> set xs \<and> x \<noteq> y"
  by simp

text \<open>An ordered map (\<open>std::map\<close>): the association list stays sorted by key.\<close>

fun omap_update :: "'k::linorder \<Rightarrow> 'v \<Rightarrow> ('k \<times> 'v) list \<Rightarrow> ('k \<times> 'v) list" where
  "omap_update k v [] = [(k, v)]"
| "omap_update k v ((k', v') # m) =
    (if k < k' then (k, v) # (k', v') # m
     else if k = k' then (k, v) # m
     else (k', v') # omap_update k v m)"

lemma map_of_omap_update [simp, map_simps]:
  "map_of (omap_update k v m) k' = (if k' = k then Some v else map_of m k')"
  by (induction m) auto

lemma map_amount_omap_update [simp, map_simps]:
  "map_amount (omap_update k v m) k' = (if k' = k then v else map_amount m k')"
  by (simp add: map_amount_def)

lemma omap_update_not_Nil [simp]: "omap_update k v m \<noteq> []"
  by (cases m) (auto split: if_splits)

lemma set_omap_update_keys: "fst ` set (omap_update k v m) = insert k (fst ` set m)"
  by (induction m) force+

lemma sorted_omap_update: "sorted (map fst m) \<Longrightarrow> sorted (map fst (omap_update k v m))"
proof (induction m)
  case (Cons kv m)
  obtain k1 v1 where kv: "kv = (k1, v1)" by (cases kv)
  have "x \<in> fst ` set (omap_update k v m) \<Longrightarrow> k1 \<le> x" if "\<not> k < k1" "k1 \<noteq> k" for x
    using Cons.prems that kv by (auto simp: set_omap_update_keys)
  then show ?case using Cons kv by (auto simp: image_iff)
qed simp


section \<open>Fixed-width integers\<close>

text \<open>\<open>int64_t\<close> and \<open>int32_t\<close> values are integers in range. Where the code computes without a check
  the result is reduced to the width in two's complement, which is what the compiled code does.\<close>

definition INT64_MAX :: int where "INT64_MAX = 9223372036854775807"
definition INT64_MIN :: int where "INT64_MIN = - 9223372036854775808"

definition in_int64 :: "int \<Rightarrow> bool" where
  [arith_defs]: "in_int64 x \<longleftrightarrow> INT64_MIN \<le> x \<and> x \<le> INT64_MAX"

definition s64 :: "int \<Rightarrow> int" where
  [arith_defs]: "s64 x = (x + 9223372036854775808) mod 18446744073709551616 - 9223372036854775808"

definition s32 :: "int \<Rightarrow> int" where
  [arith_defs]: "s32 x = (x + 2147483648) mod 4294967296 - 2147483648"

definition u64 :: "int \<Rightarrow> int" where
  [arith_defs]: "u64 x = x mod 18446744073709551616"

declare INT64_MAX_def [arith_defs] INT64_MIN_def [arith_defs]

lemma in_int64_s64 [simp, intro]: "in_int64 (s64 x)"
  by (simp add: arith_defs)

lemma s64_id [simp]: "in_int64 x \<Longrightarrow> s64 x = x"
  by (simp add: arith_defs)

lemma s64_eq_iff: "s64 x = x \<longleftrightarrow> in_int64 x"
  by (metis in_int64_s64 s64_id)

lemma in_int64_0 [simp]: "in_int64 0"
  by (simp add: arith_defs)

end
