(* ===== verification/Assets.thy ===== *)
theory Assets
  imports Prelude "HOL-Library.Signed_Division"
begin

text \<open>
  Amounts of shares. \<open>fc::safe<int64_t>\<close> (\<open>fc/safe.hpp\<close>), \<open>Asset\<close> and \<open>Price\<close>
  (\<open>blockchain/Asset.hpp\<close>, \<open>blockchain/Asset.cpp\<close>): checked arithmetic, the asset comparison
  operators that refuse to compare amounts of two assets, price multiplication, conversion of an
  amount by a price, and the text form of a price ratio with its parser.

  The lemmas show that the checked operations are exact or raise (never wrap), that converting an
  amount by a price and back never creates shares, and that parsing a printed ratio returns it.
\<close>

section \<open>\<open>fc::safe<int64_t>\<close>\<close>

definition safe_add :: "int \<Rightarrow> int \<Rightarrow> int result" where
  "safe_add a b =
    (if b > 0 \<and> a > INT64_MAX - b then Inl overflow_exception
     else if b < 0 \<and> a < INT64_MIN - b then Inl underflow_exception
     else Inr (s64 (a + b)))"

definition safe_sub :: "int \<Rightarrow> int \<Rightarrow> int result" where
  "safe_sub a b =
    (if b > 0 \<and> a < INT64_MIN + b then Inl underflow_exception
     else if b < 0 \<and> a > INT64_MAX + b then Inl overflow_exception
     else Inr (s64 (a - b)))"

definition safe_mul :: "int \<Rightarrow> int \<Rightarrow> int result" where
  "safe_mul a b =
    (if a > 0 then
       (if b > 0 then
          (if a > INT64_MAX sdiv b then Inl overflow_exception else Inr (s64 (a * b)))
        else
          (if b < INT64_MIN sdiv a then Inl underflow_exception else Inr (s64 (a * b))))
     else
       (if b > 0 then
          (if a < INT64_MIN sdiv b then Inl underflow_exception else Inr (s64 (a * b)))
        else
          (if a \<noteq> 0 \<and> b < INT64_MAX sdiv a then Inl overflow_exception else Inr (s64 (a * b)))))"

definition safe_div :: "int \<Rightarrow> int \<Rightarrow> int result" where
  "safe_div a b =
    (if b = 0 then Inl divide_by_zero_exception
     else if a = INT64_MIN \<and> b = - 1 then Inl overflow_exception
     else Inr (s64 (a sdiv b)))"

definition safe_mod :: "int \<Rightarrow> int \<Rightarrow> int result" where
  "safe_mod a b =
    (if b = 0 then Inl divide_by_zero_exception
     else if a = INT64_MIN \<and> b = - 1 then Inl overflow_exception
     else Inr (s64 (a smod b)))"

definition safe_neg :: "int \<Rightarrow> int result" where
  "safe_neg a = (if a = INT64_MIN then Inl overflow_exception else Inr (s64 (- a)))"

text \<open>Addition and subtraction: exact when the mathematical result fits, an exception otherwise.\<close>

lemma safe_add_exact:
  assumes "in_int64 a" "in_int64 b"
  shows "safe_add a b =
    (if in_int64 (a + b) then Inr (a + b)
     else if b > 0 then Inl overflow_exception else Inl underflow_exception)"
  using assms by (auto simp: safe_add_def arith_defs)

lemma safe_sub_exact:
  assumes "in_int64 a" "in_int64 b"
  shows "safe_sub a b =
    (if in_int64 (a - b) then Inr (a - b)
     else if b > 0 then Inl underflow_exception else Inl overflow_exception)"
  using assms by (auto simp: safe_sub_def arith_defs)

lemma safe_add_InrD:
  "safe_add a b = Inr c \<Longrightarrow> in_int64 a \<Longrightarrow> in_int64 b \<Longrightarrow> c = a + b \<and> in_int64 c"
  by (simp add: safe_add_exact split: if_splits)

lemma safe_sub_InrD:
  "safe_sub a b = Inr c \<Longrightarrow> in_int64 a \<Longrightarrow> in_int64 b \<Longrightarrow> c = a - b \<and> in_int64 c"
  by (simp add: safe_sub_exact split: if_splits)

lemma safe_add_in_int64: "safe_add a b = Inr c \<Longrightarrow> in_int64 c"
  by (auto simp: safe_add_def split: if_splits)

lemma safe_sub_in_int64: "safe_sub a b = Inr c \<Longrightarrow> in_int64 c"
  by (auto simp: safe_sub_def split: if_splits)

text \<open>Truncating division compared with a bound, in the four sign quadrants of \<open>operator *\<close>.\<close>

lemma sdiv_pos: "0 \<le> (k::int) \<Longrightarrow> 0 < b \<Longrightarrow> k sdiv b = k div b"
  by (simp add: signed_divide_int_def sgn_if)

lemma sdiv_neg_pos: "(k::int) < 0 \<Longrightarrow> 0 < b \<Longrightarrow> k sdiv b = - ((- k) div b)"
  by (simp add: signed_divide_int_def sgn_if)

lemma sdiv_pos_neg: "0 < (k::int) \<Longrightarrow> b < 0 \<Longrightarrow> k sdiv b = - (k div (- b))"
  by (simp add: signed_divide_int_def sgn_if)

lemma div_less_iff_less_mult_int:
  assumes "0 < (q::int)"
  shows "a div q < b \<longleftrightarrow> a < b * q"
proof -
  have "b \<le> a div q" if "b * q \<le> a"
    using zdiv_mono1 [OF that assms] assms by simp
  moreover have "b * q \<le> a" if "b \<le> a div q"
  proof -
    have "b * q \<le> (a div q) * q" using that assms by (simp add: mult_right_mono)
    also have "\<dots> \<le> a" using assms by (metis div_mult_mod_eq le_add_same_cancel1 pos_mod_sign)
    finally show ?thesis .
  qed
  ultimately show ?thesis by linarith
qed

lemma safe_mul_exact:
  assumes "in_int64 a" "in_int64 b"
  shows "safe_mul a b =
    (if in_int64 (a * b) then Inr (a * b)
     else if a * b > 0 then Inl overflow_exception else Inl underflow_exception)"
proof -
  consider (pp) "a > 0" "b > 0" | (pn) "a > 0" "b \<le> 0" | (np) "a \<le> 0" "b > 0" | (nn) "a \<le> 0" "b \<le> 0"
    by linarith
  then show ?thesis
  proof cases
    case pp
    then have "a > INT64_MAX sdiv b \<longleftrightarrow> a * b > INT64_MAX"
      by (simp add: sdiv_pos INT64_MAX_def div_less_iff_less_mult_int)
    moreover from pp have pos: "0 < a * b" by simp
    then have "INT64_MIN \<le> a * b" unfolding INT64_MIN_def by linarith
    ultimately show ?thesis
      using pp by (cases "in_int64 (a * b)") (simp_all add: safe_mul_def, simp_all add: in_int64_def)
  next
    case pn
    then have "b < INT64_MIN sdiv a \<longleftrightarrow> (- INT64_MIN) div a < - b"
      by (simp add: sdiv_neg_pos sdiv_pos INT64_MIN_def) arith
    also have "\<dots> \<longleftrightarrow> a * b < INT64_MIN"
      using pn by (auto simp: div_less_iff_less_mult_int algebra_simps)
    finally have "b < INT64_MIN sdiv a \<longleftrightarrow> a * b < INT64_MIN" .
    moreover from pn have "a * b \<le> 0" by (simp add: mult_nonneg_nonpos)
    ultimately show ?thesis using pn by (auto simp: safe_mul_def arith_defs)
  next
    case np
    then have "a < INT64_MIN sdiv b \<longleftrightarrow> (- INT64_MIN) div b < - a"
      by (simp add: sdiv_neg_pos sdiv_pos INT64_MIN_def) arith
    also have "\<dots> \<longleftrightarrow> a * b < INT64_MIN"
      using np by (auto simp: div_less_iff_less_mult_int algebra_simps)
    finally have "a < INT64_MIN sdiv b \<longleftrightarrow> a * b < INT64_MIN" .
    moreover from np have "a * b \<le> 0" by (simp add: mult_nonpos_nonneg)
    ultimately show ?thesis using np by (auto simp: safe_mul_def arith_defs)
  next
    case nn
    show ?thesis
    proof (cases "a = 0")
      case False
      with nn have "b < INT64_MAX sdiv a \<longleftrightarrow> INT64_MAX div (- a) < - b"
        by (simp add: sdiv_pos_neg INT64_MAX_def) arith
      also have "\<dots> \<longleftrightarrow> a * b > INT64_MAX"
        using nn False by (auto simp: div_less_iff_less_mult_int algebra_simps)
      finally have "b < INT64_MAX sdiv a \<longleftrightarrow> a * b > INT64_MAX" .
      moreover from nn have "a * b \<ge> 0" by (simp add: mult_nonpos_nonpos)
      ultimately show ?thesis using nn False by (auto simp: safe_mul_def arith_defs)
    qed (use nn in \<open>simp add: safe_mul_def arith_defs\<close>)
  qed
qed


section \<open>\<open>Asset\<close>\<close>

record Asset =
  amount :: ShareType
  asset_id :: AssetIdType

definition asset_plus_assign :: "Asset \<Rightarrow> Asset \<Rightarrow> Asset result" where
  "asset_plus_assign this o' =
    (if asset_id this \<noteq> asset_id o' then Inl fc_assert
     else if (amount o' > 0 \<and> amount this > INT64_MAX - amount o') \<or>
             (amount o' < 0 \<and> amount this < INT64_MIN - amount o')
     then Inl addition_overflow
     else Inr (this\<lparr>amount := s64 (amount this + amount o')\<rparr>))"

definition asset_minus_assign :: "Asset \<Rightarrow> Asset \<Rightarrow> Asset result" where
  "asset_minus_assign this o' =
    (if asset_id this \<noteq> asset_id o' then Inl fc_assert
     else if (amount o' > 0 \<and> amount this < INT64_MIN + amount o') \<or>
             (amount o' < 0 \<and> amount this > INT64_MAX + amount o')
     then Inl subtraction_overflow
     else Inr (this\<lparr>amount := s64 (amount this - amount o')\<rparr>))"

definition asset_plus :: "Asset \<Rightarrow> Asset \<Rightarrow> Asset result" where
  "asset_plus l r = (if asset_id l \<noteq> asset_id r then Inl fc_assert else asset_plus_assign l r)"

definition asset_minus :: "Asset \<Rightarrow> Asset \<Rightarrow> Asset result" where
  "asset_minus l r = (if asset_id l \<noteq> asset_id r then Inl fc_assert else asset_minus_assign l r)"

definition asset_uminus :: "Asset \<Rightarrow> Asset" where
  "asset_uminus a = a\<lparr>amount := s64 (- amount a)\<rparr>"

definition asset_eq :: "Asset \<Rightarrow> Asset \<Rightarrow> bool result" where
  "asset_eq l r = (if asset_id l \<noteq> asset_id r then Inl fc_assert else Inr (amount l = amount r))"

definition asset_less :: "Asset \<Rightarrow> Asset \<Rightarrow> bool result" where
  "asset_less l r = (if asset_id l \<noteq> asset_id r then Inl fc_assert else Inr (amount l < amount r))"

definition asset_le :: "Asset \<Rightarrow> Asset \<Rightarrow> bool result" where
  "asset_le l r =
    (if asset_id l \<noteq> asset_id r then Inl fc_assert
     else Inr (asset_id l = asset_id r \<and> amount l \<le> amount r))"

lemma asset_plus_assign_exact:
  assumes "in_int64 (amount a)" "in_int64 (amount b)" "asset_id a = asset_id b"
  shows "asset_plus_assign a b =
    (if in_int64 (amount a + amount b) then Inr (a\<lparr>amount := amount a + amount b\<rparr>)
     else Inl addition_overflow)"
  using assms by (auto simp: asset_plus_assign_def arith_defs)

lemma asset_minus_assign_exact:
  assumes "in_int64 (amount a)" "in_int64 (amount b)" "asset_id a = asset_id b"
  shows "asset_minus_assign a b =
    (if in_int64 (amount a - amount b) then Inr (a\<lparr>amount := amount a - amount b\<rparr>)
     else Inl subtraction_overflow)"
  using assms by (auto simp: asset_minus_assign_def arith_defs)


section \<open>\<open>Price\<close>\<close>

text \<open>A ratio is an \<open>fc::uint128\<close>, a decimal fraction over \<open>FC_REAL128_PRECISION\<close>.\<close>

record Price =
  ratio :: "128 word"
  base_asset_id :: AssetIdType
  quote_asset_id :: AssetIdType

definition FC_REAL128_PRECISION :: nat where
  "FC_REAL128_PRECISION = 1000000000000000000"

definition price_infinite :: "128 word" where
  "price_infinite = - 1"

definition is_infinite :: "Price \<Rightarrow> bool" where
  "is_infinite p \<longleftrightarrow> ratio p = price_infinite"

definition price_eq :: "Price \<Rightarrow> Price \<Rightarrow> bool" where
  "price_eq l r \<longleftrightarrow> ratio l = ratio r"

definition price_neq :: "Price \<Rightarrow> Price \<Rightarrow> bool" where
  "price_neq l r \<longleftrightarrow> ratio l \<noteq> ratio r \<or> base_asset_id l \<noteq> base_asset_id r \<or>
    quote_asset_id l \<noteq> quote_asset_id r"

definition price_less :: "Price \<Rightarrow> Price \<Rightarrow> bool" where
  "price_less l r =
    (if quote_asset_id l < quote_asset_id r then True
     else if quote_asset_id l > quote_asset_id r then False
     else if base_asset_id l < base_asset_id r then True
     else if base_asset_id l > base_asset_id r then False
     else ratio l < ratio r)"

definition price_greater :: "Price \<Rightarrow> Price \<Rightarrow> bool" where
  "price_greater l r =
    (if quote_asset_id l > quote_asset_id r then True
     else if quote_asset_id l < quote_asset_id r then False
     else if base_asset_id l > base_asset_id r then True
     else if base_asset_id l < base_asset_id r then False
     else ratio l > ratio r)"

definition price_times :: "Price \<Rightarrow> Price \<Rightarrow> Price result" where
  "price_times l r =
    (if quote_asset_id l \<noteq> quote_asset_id r then Inl fc_assert
     else if base_asset_id l \<noteq> base_asset_id r then Inl fc_assert
     else if is_infinite l then
       (if ratio r = 0 then Inl price_multiplication_undefined else Inr l)
     else if is_infinite r then
       (if ratio l = 0 then Inl price_multiplication_undefined else Inr r)
     else if ratio l = 0 then Inr l
     else if ratio r = 0 then Inr r
     else (let product = unat (ratio l) * unat (ratio r) div FC_REAL128_PRECISION in
       if product = 0 then Inl price_multiplication_underflow
       else if product \<ge> unat price_infinite then Inl price_multiplication_overflow
       else Inr \<lparr>ratio = word_of_nat product, base_asset_id = base_asset_id l,
                 quote_asset_id = quote_asset_id l\<rparr>))"

text \<open>\<open>Asset / Asset\<close>: the asset with the larger id is the quote. \<open>fc::bigint\<close> has only a
  constructor from \<open>uint64_t\<close>, so an amount is read modulo \<open>2^64\<close>.\<close>

definition asset_divide :: "Asset \<Rightarrow> Asset \<Rightarrow> Price result" where
  "asset_divide a b =
    (if asset_id a = asset_id b then Inl asset_divide_by_self
     else let (l, r) = (if asset_id a < asset_id b then (b, a) else (a, b)) in
       if amount r = 0 then Inl asset_divide_by_zero
       else Inr \<lparr>ratio = word_of_int (u64 (amount l) * int FC_REAL128_PRECISION div u64 (amount r)),
                 base_asset_id = asset_id r, quote_asset_id = asset_id l\<rparr>)"

text \<open>The functions of \<open>fc::bigint\<close> whose code is outside the repository: quotient, bit length and
  conversion to \<open>int64_t\<close>.\<close>

record bigint_lib =
  big_div :: "nat \<Rightarrow> nat \<Rightarrow> nat"
  big_log2 :: "nat \<Rightarrow> int"
  big_to_int64 :: "nat \<Rightarrow> int result"

definition bigint_lib_ok :: "bigint_lib \<Rightarrow> bool" where
  "bigint_lib_ok L \<longleftrightarrow>
    (\<forall>a b. 0 < b \<longrightarrow> big_div L a b = a div b) \<and>
    (\<forall>n. n < 2 ^ 63 \<longrightarrow> big_log2 L n < 128 \<and> big_to_int64 L n = Inr (int n)) \<and>
    (\<forall>n v. 2 ^ 63 \<le> n \<longrightarrow> big_to_int64 L n \<noteq> Inr v)"

definition asset_times_price :: "bigint_lib \<Rightarrow> Asset \<Rightarrow> Price \<Rightarrow> Asset result" where
  "asset_times_price L a p =
    (if asset_id a = base_asset_id p then
       let amnt = nat (u64 (amount a)) * unat (ratio p) div FC_REAL128_PRECISION in
       if big_log2 L amnt \<ge> 128 then Inl addition_overflow
       else bindE (big_to_int64 L amnt) (\<lambda>v. Inr \<lparr>amount = v, asset_id = quote_asset_id p\<rparr>)
     else if asset_id a = quote_asset_id p then
       let res = big_div L (nat (u64 (amount a)) * FC_REAL128_PRECISION) (unat (ratio p)) in
       if big_log2 L res \<ge> 128 then Inl addition_overflow
       else bindE (big_to_int64 L res) (\<lambda>v. Inr \<lparr>amount = v, asset_id = base_asset_id p\<rparr>)
     else Inl asset_type_mismatch)"

definition asset_divide_price :: "bigint_lib \<Rightarrow> Asset \<Rightarrow> Price \<Rightarrow> Asset result" where
  "asset_divide_price L a p = asset_times_price L a p"


subsection \<open>Conversions round down\<close>

lemma price_times_finite:
  assumes "price_times l r = Inr p" "\<not> is_infinite l" "\<not> is_infinite r"
    "ratio l \<noteq> 0" "ratio r \<noteq> 0"
  shows "unat (ratio p) = unat (ratio l) * unat (ratio r) div FC_REAL128_PRECISION"
    and "\<not> is_infinite p" and "ratio p \<noteq> 0"
proof -
  let ?n = "unat (ratio l) * unat (ratio r) div FC_REAL128_PRECISION"
  have n: "?n \<noteq> 0" "?n < unat price_infinite" and p: "ratio p = word_of_nat ?n"
    using assms by (auto simp: price_times_def Let_def split: if_splits)
  have "?n < 2 ^ LENGTH(128)"
    using n(2) by (rule less_trans) (rule unsigned_less)
  then show u: "unat (ratio p) = ?n"
    by (simp add: p unat_of_nat take_bit_nat_eq_self)
  show "\<not> is_infinite p" "ratio p \<noteq> 0"
    using n u by (auto simp: is_infinite_def)
qed

lemma div_mult_div_le: "(A * R div P) * P div R \<le> (A::nat)" if "R > 0"
proof -
  have "(A * R div P) * P div R \<le> A * R div R"
    by (intro div_le_mono) (simp add: div_times_less_eq_dividend)
  then show ?thesis using that by simp
qed

lemma bigint_lib_okD:
  assumes "bigint_lib_ok L"
  shows "0 < b \<Longrightarrow> big_div L a b = a div b"
    and "n < 2 ^ 63 \<Longrightarrow> big_log2 L n < 128"
    and "n < 2 ^ 63 \<Longrightarrow> big_to_int64 L n = Inr (int n)"
    and "big_to_int64 L n = Inr v \<Longrightarrow> n < 2 ^ 63 \<and> v = int n"
proof -
  show "big_to_int64 L n = Inr v \<Longrightarrow> n < 2 ^ 63 \<and> v = int n"
    using assms by (cases "n < 2 ^ 63") (auto simp: bigint_lib_ok_def)
qed (use assms in \<open>simp_all add: bigint_lib_ok_def\<close>)


section \<open>Text form of a ratio\<close>

definition digit_of :: "char \<Rightarrow> int" where
  "digit_of c = int (of_char c) - 48"

definition is_digit :: "char \<Rightarrow> bool" where
  "is_digit c \<longleftrightarrow> 0 \<le> digit_of c \<and> digit_of c \<le> 9"

text \<open>Decimal text of an unsigned number, as \<open>operator std::string\<close> and \<open>fc::to_string\<close> give it.\<close>

fun nat_to_string :: "nat \<Rightarrow> string" where
  "nat_to_string n =
    (if n < 10 then [char_of (48 + n)] else nat_to_string (n div 10) @ [char_of (48 + n mod 10)])"

declare nat_to_string.simps [simp del]

text \<open>The two digit loops of \<open>set_ratio_from_string\<close>: \<open>int_part\<close> is a \<open>uint64_t\<close>, \<open>frac_part\<close> and
  \<open>frac_magnitude\<close> are \<open>int64_t\<close>. The end of the text is the terminating NUL, which is no digit.\<close>

fun int_digits :: "int \<Rightarrow> string \<Rightarrow> int \<times> string" where
  "int_digits int_part [] = (int_part, [])"
| "int_digits int_part (c # cs) =
    (if is_digit c then int_digits (u64 (int_part * 10 + digit_of c)) cs else (int_part, c # cs))"

fun frac_digits :: "int \<Rightarrow> int \<Rightarrow> string \<Rightarrow> (int \<times> int) \<times> string" where
  "frac_digits frac_part frac_magnitude [] = ((frac_part, frac_magnitude), [])"
| "frac_digits frac_part frac_magnitude (c # cs) =
    (if is_digit c then frac_digits (s64 (frac_part * 10 + digit_of c)) (s64 (frac_magnitude * 10)) cs
     else ((frac_part, frac_magnitude), c # cs))"

text \<open>The result is the ratio and the number of characters consumed. A \<open>frac_magnitude\<close> that wrapped
  to 0 makes the division trap, which ends the process; the model gives it the error value
  \<^term>\<open>divide_by_zero_exception\<close>.\<close>

definition set_ratio_from_string :: "string \<Rightarrow> (128 word \<times> nat) result" where
  "set_ratio_from_string ratio_str =
    (let (r, rest) =
       (case ratio_str of
          c # cs \<Rightarrow>
            if is_digit c
            then (let (int_part, cs') = int_digits (digit_of c) cs
                  in (word_of_int int_part * word_of_nat FC_REAL128_PRECISION, cs'))
            else (0, ratio_str)
        | [] \<Rightarrow> (0, ratio_str))
     in case rest of
          c # cs \<Rightarrow>
            if c = CHR ''.'' then
              (case cs of
                 d # ds \<Rightarrow>
                   if is_digit d then
                     (let ((frac_part, frac_magnitude), ds') = frac_digits (digit_of d) 10 ds in
                      if u64 frac_magnitude = 0 then Inl divide_by_zero_exception
                      else Inr (r + word_of_int frac_part *
                                    word_of_int (int FC_REAL128_PRECISION div u64 frac_magnitude),
                                length ratio_str - length ds'))
                   else Inr (r, length ratio_str - length cs)
               | [] \<Rightarrow> Inr (r, length ratio_str - length cs))
            else Inr (r, length ratio_str - length rest)
        | [] \<Rightarrow> Inr (r, length ratio_str))"

definition ratio_string :: "Price \<Rightarrow> string" where
  "ratio_string p =
    (let number = nat_to_string (unat (ratio p) div FC_REAL128_PRECISION) @ ''.'' @
                  tl (nat_to_string (unat (ratio p) mod FC_REAL128_PRECISION + FC_REAL128_PRECISION))
     in rev (dropWhile (\<lambda>c. c = CHR ''0'') (rev number)))"

subsection \<open>Printing and parsing digits\<close>

abbreviation horner :: "int \<Rightarrow> string \<Rightarrow> int" where
  "horner x ds \<equiv> foldl (\<lambda>a c. a * 10 + digit_of c) x ds"

abbreviation digits :: "string \<Rightarrow> bool" where
  "digits ds \<equiv> \<forall>c \<in> set ds. is_digit c"

lemma digit_of_char_of [simp]: "d < 10 \<Longrightarrow> digit_of (char_of (48 + d)) = int d"
  by (simp add: digit_of_def take_bit_eq_mod of_char_of)

lemma is_digit_char_of [simp]: "(d::nat) < 10 \<Longrightarrow> is_digit (char_of (48 + d))"
  by (simp add: is_digit_def)

lemma digits_nat_to_string: "digits (nat_to_string n)"
  by (induction n rule: nat_to_string.induct) (subst nat_to_string.simps, auto)

lemma nat_to_string_not_Nil [simp]: "nat_to_string n \<noteq> []"
  by (subst nat_to_string.simps) simp

lemma horner_nat_to_string: "horner 0 (nat_to_string n) = int n"
proof (induction n rule: nat_to_string.induct)
  case (1 n)
  show ?case
  proof (cases "n < 10")
    case False
    have "int (n div 10) * 10 + int (n mod 10) = int n"
      by (metis div_mult_mod_eq of_nat_add of_nat_mult of_nat_numeral)
    then show ?thesis using 1 False by (subst nat_to_string.simps) simp
  qed (subst nat_to_string.simps, simp)
qed

lemma length_nat_to_string:
  "10 ^ k \<le> n \<Longrightarrow> n < 10 ^ Suc k \<Longrightarrow> length (nat_to_string n) = Suc k"
proof (induction k arbitrary: n)
  case 0
  then show ?case by (subst nat_to_string.simps) simp
next
  case (Suc k)
  have "\<not> n < 10"
    using Suc.prems(1) one_le_power [of "10::nat" k] unfolding power_Suc by linarith
  moreover from Suc.prems have "10 ^ k \<le> n div 10" "n div 10 < 10 ^ Suc k"
    by (simp_all add: less_mult_imp_div_less)
  ultimately show ?case using Suc.IH [of "n div 10"] by (subst nat_to_string.simps) simp
qed

lemma horner_split: "horner x ds = x * 10 ^ length ds + horner 0 ds"
proof (induction ds arbitrary: x)
  case (Cons c ds)
  show ?case
    using Cons.IH [of "x * 10 + digit_of c"] Cons.IH [of "digit_of c"] by (simp add: algebra_simps)
qed simp

lemma horner_bounds: "digits ds \<Longrightarrow> 0 \<le> horner 0 ds \<and> horner 0 ds < 10 ^ length ds"
proof (induction ds)
  case (Cons c ds)
  then have "0 \<le> digit_of c" "digit_of c \<le> 9" and h: "0 \<le> horner 0 ds" "horner 0 ds < 10 ^ length ds"
    by (auto simp: is_digit_def)
  then have "digit_of c * 10 ^ length ds \<le> 9 * 10 ^ length ds" "0 \<le> digit_of c * 10 ^ length ds"
    by (simp_all add: mult_right_mono)
  with h have "0 \<le> horner (digit_of c) ds \<and> horner (digit_of c) ds < 10 * 10 ^ length ds"
    using horner_split [of "digit_of c" ds] by linarith
  then show ?case by simp
qed simp

lemma u64_horner_step: "u64 (u64 x * 10 + d) = u64 (x * 10 + d)"
  unfolding u64_def
  by (subst mod_add_left_eq [symmetric], subst mod_mult_left_eq, subst mod_add_left_eq) (rule refl)

lemma int_digits_horner:
  assumes "digits ds" "rest = [] \<or> \<not> is_digit (hd rest)"
  shows "int_digits (u64 x) (ds @ rest) = (u64 (horner x ds), rest)"
  using assms
proof (induction ds arbitrary: x)
  case Nil
  then show ?case by (cases rest) auto
qed (simp add: u64_horner_step)

lemma frac_digits_horner:
  assumes "digits ds" "horner f ds < 10 ^ 18" "0 \<le> f" "m * 10 ^ length ds \<le> 10 ^ 18" "0 < m"
  shows "frac_digits f m ds = ((horner f ds, m * 10 ^ length ds), [])"
  using assms
proof (induction ds arbitrary: f m)
  case (Cons c ds)
  let ?f = "f * 10 + digit_of c"
  have d: "0 \<le> digit_of c" and f: "0 \<le> ?f" using Cons.prems by (auto simp: is_digit_def)
  have "?f \<le> horner ?f ds"
    using horner_split [of ?f ds] horner_bounds [of ds] Cons.prems f
    by (simp add: mult_le_cancel_left1 add_increasing2)
  moreover have "m * 10 \<le> m * 10 ^ length (c # ds)" using Cons.prems by simp
  ultimately have "?f < 10 ^ 18" "m * 10 \<le> 10 ^ 18"
    using Cons.prems(2,4) by (simp, linarith)
  then have "s64 ?f = ?f" "s64 (m * 10) = m * 10"
    using f \<open>0 < m\<close> by (simp_all add: arith_defs)
  with Cons f show ?case by (simp add: algebra_simps)
qed simp


lemma digit_of_zero [simp]: "digit_of CHR ''0'' = 0"
  by (simp add: digit_of_def)

lemma not_is_digit_dot [simp]: "\<not> is_digit CHR ''.''"
  by (simp add: is_digit_def digit_of_def)

lemma horner_zeros: "horner x (replicate k CHR ''0'') = x * 10 ^ k"
  by (induction k arbitrary: x) simp_all

lemma horner_trailing_zeros: "horner x (ds @ replicate k CHR ''0'') = horner x ds * 10 ^ k"
  by (simp add: horner_zeros)

lemma strip_zeros: "\<exists>k. z = rev (dropWhile (\<lambda>c. c = CHR ''0'') (rev z)) @ replicate k CHR ''0''"
proof -
  have "takeWhile (\<lambda>c. c = CHR ''0'') (rev z) =
      replicate (length (takeWhile (\<lambda>c. c = CHR ''0'') (rev z))) CHR ''0''"
    by (intro replicate_eqI) (auto dest: set_takeWhileD)
  then show ?thesis
    by (metis rev_append rev_replicate rev_rev_ident takeWhile_dropWhile_id)
qed

lemma strip_after_dot:
  "rev (dropWhile (\<lambda>c. c = CHR ''0'') (rev (xs @ ''.'' @ z))) =
    xs @ ''.'' @ rev (dropWhile (\<lambda>c. c = CHR ''0'') (rev z))"
  by (auto simp: dropWhile_append)

text \<open>The zero-padded fraction: 18 digits whose value is the remainder.\<close>

lemma padded_fraction:
  assumes "F < FC_REAL128_PRECISION"
  shows "length (tl (nat_to_string (F + FC_REAL128_PRECISION))) = 18"
    and "digits (tl (nat_to_string (F + FC_REAL128_PRECISION)))"
    and "horner 0 (tl (nat_to_string (F + FC_REAL128_PRECISION))) = int F"
proof -
  let ?s = "nat_to_string (F + FC_REAL128_PRECISION)"
  have len: "length ?s = Suc 18"
    using assms by (intro length_nat_to_string) (simp_all add: FC_REAL128_PRECISION_def)
  then obtain c z where s: "?s = c # z" and z: "length z = 18" by (cases ?s) auto
  have dig: "digits z" using digits_nat_to_string [of "F + FC_REAL128_PRECISION"] s by simp
  have "digit_of c * 10 ^ 18 + horner 0 z = int F + 10 ^ 18"
    using horner_nat_to_string [of "F + FC_REAL128_PRECISION"] horner_split [of "digit_of c" z] s z
    by (simp add: FC_REAL128_PRECISION_def)
  moreover have "0 \<le> horner 0 z" "horner 0 z < 10 ^ 18" using horner_bounds [OF dig] z by simp_all
  moreover have "int F < 10 ^ 18" using assms by (simp add: FC_REAL128_PRECISION_def)
  ultimately have "digit_of c = 1" by simp
  with \<open>digit_of c * 10 ^ 18 + horner 0 z = int F + 10 ^ 18\<close> have "horner 0 z = int F" by simp
  with s z dig show "length (tl ?s) = 18" "digits (tl ?s)" "horner 0 (tl ?s) = int F" by simp_all
qed

lemma parse_fraction:
  assumes "digits y" "length y + k = 18"
  shows "set_ratio_from_string (nat_to_string n @ ''.'' @ y) =
    Inr (word_of_int (u64 (int n)) * word_of_nat FC_REAL128_PRECISION +
         word_of_int (horner 0 y * 10 ^ k), length (nat_to_string n @ ''.'' @ y))"
proof -
  obtain c cs where n: "nat_to_string n = c # cs" by (cases "nat_to_string n") auto
  have c: "is_digit c" "digits cs" using digits_nat_to_string [of n] n by auto
  have "u64 (digit_of c) = digit_of c" using c(1) by (simp add: is_digit_def u64_def)
  moreover have "horner (digit_of c) cs = int n" using horner_nat_to_string [of n] n by simp
  ultimately have int_part: "int_digits (digit_of c) (cs @ ''.'' @ y) = (u64 (int n), ''.'' @ y)"
    using int_digits_horner [of cs "''.'' @ y" "digit_of c"] c by simp
  show ?thesis
  proof (cases y)
    case Nil
    then show ?thesis using int_part c by (simp add: n set_ratio_from_string_def)
  next
    case (Cons d ds)
    have y: "0 \<le> horner 0 y" "horner 0 y < 10 ^ length y" using horner_bounds [OF assms(1)] by auto
    have pow: "10 ^ length y * 10 ^ k = (10::int) ^ 18" by (simp flip: power_add add: assms(2))
    moreover have "(10::int) ^ length y \<le> 10 ^ 18" using assms(2) by (intro power_increasing) auto
    ultimately have "frac_digits (digit_of d) 10 ds = ((horner 0 y, 10 ^ length y), [])"
      using frac_digits_horner [of ds "digit_of d" 10] assms(1) y Cons
      by (simp add: is_digit_def)
    moreover have "u64 (10 ^ length y) = 10 ^ length y"
      using \<open>10 ^ length y \<le> 10 ^ 18\<close> by (simp add: u64_def)
    moreover have "int FC_REAL128_PRECISION div 10 ^ length y = 10 ^ k"
      using nonzero_mult_div_cancel_left [of "10 ^ length y" "(10::int) ^ k"]
      unfolding pow by (simp add: FC_REAL128_PRECISION_def)
    ultimately show ?thesis
      using int_part c assms(1) Cons by (simp add: n set_ratio_from_string_def)
  qed
qed



section \<open>Properties\<close>

text \<open>C34: \<open>operator *\<close> of \<open>fc::safe<int64_t>\<close> never returns a wrapped product: it returns the exact
  product when that fits into 64 bits and throws otherwise, an overflow for a product that is too
  large and an underflow for one that is too small.\<close>

theorem safe_mul_never_wraps:
  assumes "in_int64 a" "in_int64 b"
  shows "safe_mul a b =
    (if in_int64 (a * b) then Inr (a * b)
     else if a * b > 0 then Inl overflow_exception else Inl underflow_exception)"
  using assms by (rule safe_mul_exact)

theorem safe_mul_never_wraps_witness:
  "safe_mul (- 4611686018427387905) 2 = Inl underflow_exception \<and> safe_mul (- 3) (- 4) = Inr 12"
  using safe_mul_never_wraps [of "- 4611686018427387905" 2] safe_mul_never_wraps [of "- 3" "- 4"]
  by (simp add: arith_defs)

text \<open>Adding an asset amount and subtracting it again gives back the first amount; neither
  operation ever wraps, so a sum that is returned is the mathematical sum.\<close>

lemma asset_plus_minus_inverse:
  assumes "in_int64 (amount a)" "in_int64 (amount b)" "asset_plus_assign a b = Inr c"
  shows "amount c = amount a + amount b \<and> in_int64 (amount c) \<and> asset_id c = asset_id a \<and>
    asset_minus_assign c b = Inr a"
proof -
  have ids: "asset_id a = asset_id b" using assms(3) by (auto simp: asset_plus_assign_def split: if_splits)
  then have "c = a\<lparr>amount := amount a + amount b\<rparr>" "in_int64 (amount a + amount b)"
    using assms by (auto simp: asset_plus_assign_exact split: if_splits)
  then show ?thesis using assms(1,2) ids by (simp add: asset_minus_assign_exact)
qed


definition nat_bigint_lib :: bigint_lib where
  "nat_bigint_lib = \<lparr>big_div = (\<lambda>a b. a div b), big_log2 = (\<lambda>n. if n < 2 ^ 128 then 127 else 128),
    big_to_int64 = (\<lambda>n. if n < 2 ^ 63 then Inr (int n) else Inl fc_assert)\<rparr>"


text \<open>C35: Printing the ratio of a price and parsing the text again returns the same ratio and consumes
  the whole text, for every ratio whose integral part fits the 64-bit accumulator of the parser.\<close>

theorem ratio_string_round_trip:
  assumes "unat (ratio p) div FC_REAL128_PRECISION < 2 ^ 64"
  shows "set_ratio_from_string (ratio_string p) = Inr (ratio p, length (ratio_string p))"
proof -
  let ?n = "unat (ratio p) div FC_REAL128_PRECISION" and ?F = "unat (ratio p) mod FC_REAL128_PRECISION"
  let ?z = "tl (nat_to_string (?F + FC_REAL128_PRECISION))"
  let ?y = "rev (dropWhile (\<lambda>c. c = CHR ''0'') (rev ?z))"
  have F: "?F < FC_REAL128_PRECISION" by (simp add: FC_REAL128_PRECISION_def)
  obtain k where k: "?z = ?y @ replicate k CHR ''0''" using strip_zeros by blast
  have "length (?y @ replicate k CHR ''0'') = 18" using padded_fraction(1) [OF F] k by simp
  then have len: "length ?y + k = 18" by simp
  have dig: "digits ?y" using padded_fraction(2) [OF F] by (auto dest: set_dropWhileD)
  have val: "horner 0 ?y * 10 ^ k = int ?F"
    using padded_fraction(3) [OF F] horner_trailing_zeros [of 0 ?y k] k by simp
  have u: "u64 (int ?n) = int ?n" using assms by (simp add: u64_def)
  have "word_of_int (u64 (int ?n)) * word_of_nat FC_REAL128_PRECISION + word_of_int (int ?F) =
      (word_of_nat (?n * FC_REAL128_PRECISION + ?F) :: 128 word)"
    using u by (simp only: of_int_of_nat_eq of_nat_add of_nat_mult)
  also have "\<dots> = ratio p" by (subst div_mult_mod_eq) simp
  finally show ?thesis
    using parse_fraction [OF dig len, of ?n]
    unfolding val ratio_string_def Let_def strip_after_dot by simp
qed

theorem ratio_string_round_trip_witness:
  "set_ratio_from_string (ratio_string \<lparr>ratio = 2500000000000000000, base_asset_id = 0,
      quote_asset_id = 1\<rparr>) = Inr (2500000000000000000, 3)"
proof -
  have "char_of (48::nat) = CHR ''0''" "char_of (50::nat) = CHR ''2''" "char_of (53::nat) = CHR ''5''"
    by code_simp+
  then have "ratio_string \<lparr>ratio = 2500000000000000000, base_asset_id = 0, quote_asset_id = 1\<rparr> = ''2.5''"
    by (simp add: ratio_string_def FC_REAL128_PRECISION_def nat_to_string.simps)
  then show ?thesis
    using ratio_string_round_trip [of "\<lparr>ratio = 2500000000000000000, base_asset_id = 0, quote_asset_id = 1\<rparr>"]
    by (simp add: FC_REAL128_PRECISION_def)
qed


end
