(* ===== verification/Entries.thy ===== *)
theory Entries
  imports Assets
begin

text \<open>
  The data the chain keeps: withdraw conditions and memos (\<open>WithdrawTypes\<close>), balance, account,
  asset, slate, slot, property and contract entries with their methods (\<open>*Entry.hpp\<close>,
  \<open>*Entry.cpp\<close>). A packed payload (\<open>WithdrawCondition::data\<close>) is modelled by the value that was
  packed; a wire type code outside the enum is the constructor with a number.

  Code outside the repository appears as an argument: \<open>addr_of\<close> is the \<open>Address\<close> of a public key and
  \<open>cond_addr\<close> the \<open>Address\<close> of a withdraw condition (both hashes).
\<close>

section \<open>Constants of \<open>Config.hpp\<close>\<close>

definition ALP_BLOCKCHAIN_PRECISION :: int where "ALP_BLOCKCHAIN_PRECISION = 100000"
definition ALP_BLOCKCHAIN_MAX_SHARES :: int where "ALP_BLOCKCHAIN_MAX_SHARES = 10000000000000000"
definition ALP_BLOCKCHAIN_NUM_DELEGATES :: nat where "ALP_BLOCKCHAIN_NUM_DELEGATES = 99"
definition ALP_BLOCKCHAIN_MAX_SLATE_SIZE :: nat where "ALP_BLOCKCHAIN_MAX_SLATE_SIZE = 99 + 99 div 10"
definition ALP_BLOCKCHAIN_MAX_UIA_MARKET_FEE :: "16 word" where "ALP_BLOCKCHAIN_MAX_UIA_MARKET_FEE = 10000"
definition ALP_BLOCKCHAIN_BLOCK_INTERVAL_SEC :: int where "ALP_BLOCKCHAIN_BLOCK_INTERVAL_SEC = 6"
definition ALP_BLOCKCHAIN_MAX_MEMO_SIZE :: nat where "ALP_BLOCKCHAIN_MAX_MEMO_SIZE = 19"
definition ALP_BLOCKCHAIN_EXTENDED_MEMO_SIZE :: nat where "ALP_BLOCKCHAIN_EXTENDED_MEMO_SIZE = 32"

lemmas config_defs = ALP_BLOCKCHAIN_PRECISION_def ALP_BLOCKCHAIN_MAX_SHARES_def
  ALP_BLOCKCHAIN_NUM_DELEGATES_def ALP_BLOCKCHAIN_MAX_SLATE_SIZE_def
  ALP_BLOCKCHAIN_MAX_UIA_MARKET_FEE_def ALP_BLOCKCHAIN_BLOCK_INTERVAL_SEC_def
  ALP_BLOCKCHAIN_MAX_MEMO_SIZE_def ALP_BLOCKCHAIN_EXTENDED_MEMO_SIZE_def


section \<open>Withdraw conditions\<close>

datatype WithdrawBalanceTypes = withdraw_common_type | withdraw_contract_type | withdraw_margin_type

record TransferMemo =
  one_time_key :: PublicKeyType
  encrypted_memo_data :: "8 word list"

record WithdrawWithSignature =
  sig_owner :: Address
  sig_memo :: "TransferMemo option"

record WithdrawWithMultisig =
  ms_required :: "32 word"
  ms_owners :: "Address list"
  ms_memo :: "TransferMemo option"

record withdraw_with_escrow =
  sender :: Address
  receiver :: Address
  escrow :: Address
  agreement_digest :: DigestType
  escrow_memo :: "TransferMemo option"

text \<open>The condition type together with its payload.\<close>

datatype WithdrawData =
    withdraw_null_type
  | withdraw_signature_type WithdrawWithSignature
  | withdraw_multisig_type WithdrawWithMultisig
  | withdraw_escrow_type withdraw_with_escrow
  | withdraw_other_type nat

record WithdrawCondition =
  wc_asset_id :: AssetIdType
  wc_slate_id :: SlateIdType
  wc_balance_type :: WithdrawBalanceTypes
  wc_data :: WithdrawData

definition condition_owners :: "WithdrawCondition \<Rightarrow> Address list" where
  "condition_owners c =
    (case wc_data c of
       withdraw_signature_type s \<Rightarrow> [sig_owner s]
     | withdraw_multisig_type m \<Rightarrow> ms_owners m
     | withdraw_escrow_type e \<Rightarrow> remdups [sender e, receiver e, escrow e]
     | _ \<Rightarrow> [])"

definition condition_owner :: "WithdrawCondition \<Rightarrow> Address option" where
  "condition_owner c =
    (case wc_data c of
       withdraw_signature_type s \<Rightarrow> Some (sig_owner s)
     | _ \<Rightarrow> None)"

definition signature_condition ::
  "Address \<Rightarrow> AssetIdType \<Rightarrow> SlateIdType \<Rightarrow> WithdrawBalanceTypes \<Rightarrow> WithdrawCondition" where
  "signature_condition owner asset slate bt =
    \<lparr>wc_asset_id = asset, wc_slate_id = slate, wc_balance_type = bt,
     wc_data = withdraw_signature_type \<lparr>sig_owner = owner, sig_memo = None\<rparr>\<rparr>"

definition multisig_condition ::
  "nat \<Rightarrow> Address list \<Rightarrow> AssetIdType \<Rightarrow> SlateIdType \<Rightarrow> WithdrawCondition" where
  "multisig_condition m addrs asset slate =
    \<lparr>wc_asset_id = asset, wc_slate_id = slate, wc_balance_type = withdraw_common_type,
     wc_data = withdraw_multisig_type
       \<lparr>ms_required = of_nat m, ms_owners = remdups (sort addrs), ms_memo = None\<rparr>\<rparr>"


section \<open>Memos\<close>

text \<open>The two character arrays of a memo have a constant length; \<open>memcpy\<close> overwrites a prefix.\<close>

record MemoData =
  md_message :: string

record ExtendedMemoData = MemoData +
  extra_memo :: string

definition memcpy :: "string \<Rightarrow> string \<Rightarrow> string" where
  "memcpy dst src = src @ drop (length src) dst"

text \<open>\<open>c_str()\<close> used as a C string: the text up to the first NUL.\<close>

definition c_str :: "string \<Rightarrow> string" where
  "c_str s = takeWhile (\<lambda>c. c \<noteq> CHR 0x00) s"

definition memo_set_message :: "MemoData \<Rightarrow> string \<Rightarrow> MemoData result" where
  "memo_set_message m message_str =
    (if message_str = '''' then Inr m
     else if length message_str > ALP_BLOCKCHAIN_MAX_MEMO_SIZE then Inl fc_assert
     else Inr (m\<lparr>md_message := memcpy (md_message m) message_str\<rparr>))"

definition memo_get_message :: "MemoData \<Rightarrow> string" where
  "memo_get_message m = c_str (md_message m)"

definition extended_memo_set_message :: "ExtendedMemoData \<Rightarrow> string \<Rightarrow> ExtendedMemoData result" where
  "extended_memo_set_message m message_str =
    (if message_str = '''' then Inr m
     else if length message_str > ALP_BLOCKCHAIN_MAX_MEMO_SIZE + ALP_BLOCKCHAIN_EXTENDED_MEMO_SIZE
     then Inl fc_assert
     else if length message_str \<le> ALP_BLOCKCHAIN_MAX_MEMO_SIZE
     then Inr (m\<lparr>md_message := memcpy (md_message m) message_str\<rparr>)
     else Inr (m\<lparr>md_message := memcpy (md_message m) (take ALP_BLOCKCHAIN_MAX_MEMO_SIZE message_str),
                 extra_memo := memcpy (extra_memo m) (drop ALP_BLOCKCHAIN_MAX_MEMO_SIZE message_str)\<rparr>))"

definition extended_memo_get_message :: "ExtendedMemoData \<Rightarrow> string" where
  "extended_memo_get_message m = c_str (md_message m @ extra_memo m)"

definition empty_extended_memo :: ExtendedMemoData where
  "empty_extended_memo =
    \<lparr>md_message = replicate ALP_BLOCKCHAIN_MAX_MEMO_SIZE CHR 0x00,
     extra_memo = replicate ALP_BLOCKCHAIN_EXTENDED_MEMO_SIZE CHR 0x00\<rparr>"


section \<open>Variants\<close>

text \<open>\<open>fc::variant\<close> as far as the chain stores it; a conversion to another type than the stored one
  raises \<^term>\<open>bad_cast\<close>.\<close>

datatype variant =
    null_variant
  | bool_variant bool
  | int_variant int
  | string_variant string
  | double_variant "64 word"
  | hash_variant "160 word"
  | array_variant "variant list"
  | object_variant "(string \<times> variant) list"

definition as_bool :: "variant \<Rightarrow> bool result" where
  "as_bool v = (case v of bool_variant b \<Rightarrow> Inr b | _ \<Rightarrow> Inl bad_cast)"

definition as_int64 :: "variant \<Rightarrow> int result" where
  "as_int64 v = (case v of int_variant i \<Rightarrow> Inr i | _ \<Rightarrow> Inl bad_cast)"

fun as_int_list :: "variant list \<Rightarrow> int list result" where
  "as_int_list [] = Inr []"
| "as_int_list (v # vs) = bindE (as_int64 v) (\<lambda>i. bindE (as_int_list vs) (\<lambda>is. Inr (i # is)))"

definition as_vector :: "variant \<Rightarrow> int list result" where
  "as_vector v = (case v of array_variant vs \<Rightarrow> as_int_list vs | _ \<Rightarrow> Inl bad_cast)"

lemma as_int_list_map [simp]: "as_int_list (map int_variant is) = Inr is"
  by (induction "is") (simp_all add: as_int64_def)

section \<open>Balances\<close>

record SnapshotEntry =
  original_address :: string
  original_balance :: ShareType

record BalanceEntry =
  be_condition :: WithdrawCondition
  be_balance :: ShareType
  be_restricted_owner :: "Address option"
  be_snapshot_info :: "SnapshotEntry option"
  be_deposit_date :: time_point_sec
  be_last_update :: time_point_sec
  be_meta_data :: variant

definition BalanceEntry_of_condition :: "WithdrawCondition \<Rightarrow> BalanceEntry" where
  "BalanceEntry_of_condition c =
    \<lparr>be_condition = c, be_balance = 0, be_restricted_owner = None, be_snapshot_info = None,
     be_deposit_date = 0, be_last_update = 0, be_meta_data = null_variant\<rparr>"

definition BalanceEntry_of_owner :: "Address \<Rightarrow> Asset \<Rightarrow> SlateIdType \<Rightarrow> BalanceEntry" where
  "BalanceEntry_of_owner owner balance_arg delegate_id =
    (BalanceEntry_of_condition
       (signature_condition owner (asset_id balance_arg) delegate_id withdraw_common_type))
      \<lparr>be_balance := amount balance_arg\<rparr>"

definition balance_entry_id :: "(WithdrawCondition \<Rightarrow> Address) \<Rightarrow> BalanceEntry \<Rightarrow> BalanceIdType" where
  "balance_entry_id cond_addr b = cond_addr (be_condition b)"

definition balance_slate_id :: "BalanceEntry \<Rightarrow> SlateIdType" where
  "balance_slate_id b = wc_slate_id (be_condition b)"

definition balance_asset_id :: "BalanceEntry \<Rightarrow> AssetIdType" where
  "balance_asset_id b = wc_asset_id (be_condition b)"

definition balance_owners :: "BalanceEntry \<Rightarrow> Address list" where
  "balance_owners b = condition_owners (be_condition b)"

definition balance_owner :: "BalanceEntry \<Rightarrow> Address option" where
  "balance_owner b = condition_owner (be_condition b)"

definition is_owner :: "BalanceEntry \<Rightarrow> Address \<Rightarrow> bool" where
  "is_owner b addr \<longleftrightarrow> addr \<in> set (balance_owners b)"

definition get_spendable_balance :: "BalanceEntry \<Rightarrow> time_point_sec \<Rightarrow> Asset" where
  "get_spendable_balance b at_time =
    (case wc_data (be_condition b) of
       withdraw_signature_type _ \<Rightarrow> \<lparr>amount = be_balance b, asset_id = wc_asset_id (be_condition b)\<rparr>
     | withdraw_escrow_type _ \<Rightarrow> \<lparr>amount = be_balance b, asset_id = wc_asset_id (be_condition b)\<rparr>
     | withdraw_multisig_type _ \<Rightarrow> \<lparr>amount = be_balance b, asset_id = wc_asset_id (be_condition b)\<rparr>
     | _ \<Rightarrow> \<lparr>amount = 0, asset_id = 0\<rparr>)"

definition get_multisig_balance_id ::
  "(WithdrawCondition \<Rightarrow> Address) \<Rightarrow> AssetIdType \<Rightarrow> nat \<Rightarrow> Address list \<Rightarrow> BalanceIdType" where
  "get_multisig_balance_id cond_addr asset m addrs =
    balance_entry_id cond_addr (BalanceEntry_of_condition (multisig_condition m addrs asset 0))"


section \<open>Accounts\<close>

datatype AccountType = titan_account | public_account | multisig_account

record MultisigMetaInfo =
  mm_required :: "32 word"
  mm_owners :: "Address list"

record AccountMetaInfo =
  ami_type :: AccountType
  ami_data :: "8 word list"

record DelegateStats =
  votes_for :: ShareType
  pay_rate :: "8 word"
  signing_key_history :: "(64 word \<times> PublicKeyType) list"
  last_block_num_produced :: "64 word"
  next_secret_hash :: "SecretHashType option"
  pay_balance :: ShareType
  total_paid :: ShareType
  total_burned :: ShareType
  blocks_produced :: "32 word"
  blocks_missed :: "32 word"

definition DelegateStats_init :: DelegateStats where
  "DelegateStats_init =
    \<lparr>votes_for = 0, pay_rate = 0, signing_key_history = [], last_block_num_produced = 0,
     next_secret_hash = None, pay_balance = 0, total_paid = 0, total_burned = 0,
     blocks_produced = 0, blocks_missed = 0\<rparr>"

record AccountEntry =
  ac_id :: AccountIdType
  ac_name :: string
  ac_public_data :: variant
  owner_key :: PublicKeyType
  active_key_history :: "(time_point_sec \<times> PublicKeyType) list"
  ac_registration_date :: time_point_sec
  ac_last_update :: time_point_sec
  delegate_info :: "DelegateStats option"
  ac_meta_data :: "AccountMetaInfo option"

definition AccountEntry_init :: AccountEntry where
  "AccountEntry_init =
    \<lparr>ac_id = 0, ac_name = '''', ac_public_data = null_variant, owner_key = 0,
     active_key_history = [], ac_registration_date = 0, ac_last_update = 0,
     delegate_info = None, ac_meta_data = None\<rparr>"

definition owner_address :: "(PublicKeyType \<Rightarrow> Address) \<Rightarrow> AccountEntry \<Rightarrow> Address" where
  "owner_address addr_of a = addr_of (owner_key a)"

definition is_delegate :: "AccountEntry \<Rightarrow> bool" where
  "is_delegate a \<longleftrightarrow> delegate_info a \<noteq> None"

definition delegate_pay_balance :: "AccountEntry \<Rightarrow> ShareType result" where
  "delegate_pay_balance a =
    (case delegate_info a of None \<Rightarrow> Inl fc_assert | Some d \<Rightarrow> Inr (pay_balance d))"

definition net_votes :: "AccountEntry \<Rightarrow> ShareType result" where
  "net_votes a = (case delegate_info a of None \<Rightarrow> Inl fc_assert | Some d \<Rightarrow> Inr (votes_for d))"

definition adjust_votes_for :: "AccountEntry \<Rightarrow> ShareType \<Rightarrow> AccountEntry result" where
  "adjust_votes_for a delta =
    (case delegate_info a of None \<Rightarrow> Inl fc_assert
     | Some d \<Rightarrow> Inr (a\<lparr>delegate_info := Some (d\<lparr>votes_for := s64 (votes_for d + delta)\<rparr>)\<rparr>))"

definition active_key :: "AccountEntry \<Rightarrow> PublicKeyType result" where
  "active_key a =
    (if active_key_history a = [] then Inl fc_assert else Inr (snd (last (active_key_history a))))"

definition is_retracted :: "AccountEntry \<Rightarrow> bool result" where
  "is_retracted a = bindE (active_key a) (\<lambda>k. Inr (k = 0))"

definition active_address :: "(PublicKeyType \<Rightarrow> Address) \<Rightarrow> AccountEntry \<Rightarrow> Address result" where
  "active_address addr_of a = bindE (active_key a) (\<lambda>k. Inr (addr_of k))"

definition set_active_key :: "AccountEntry \<Rightarrow> time_point_sec \<Rightarrow> PublicKeyType \<Rightarrow> AccountEntry result" where
  "set_active_key a now new_key =
    (if now = 0 then Inl fc_assert
     else Inr (a\<lparr>active_key_history := omap_update now new_key (active_key_history a)\<rparr>))"

definition delegate_pay_rate :: "AccountEntry \<Rightarrow> 8 word" where
  "delegate_pay_rate a = (case delegate_info a of None \<Rightarrow> - 1 | Some d \<Rightarrow> pay_rate d)"

definition set_signing_key :: "AccountEntry \<Rightarrow> 64 word \<Rightarrow> PublicKeyType \<Rightarrow> AccountEntry result" where
  "set_signing_key a block_num key =
    (case delegate_info a of None \<Rightarrow> Inl fc_assert
     | Some d \<Rightarrow> Inr (a\<lparr>delegate_info := Some
         (d\<lparr>signing_key_history := omap_update block_num key (signing_key_history d)\<rparr>)\<rparr>))"

definition signing_key :: "AccountEntry \<Rightarrow> PublicKeyType result" where
  "signing_key a =
    (case delegate_info a of None \<Rightarrow> Inl fc_assert
     | Some d \<Rightarrow> if signing_key_history d = [] then Inl fc_assert
                 else Inr (snd (last (signing_key_history d))))"

definition signing_address :: "(PublicKeyType \<Rightarrow> Address) \<Rightarrow> AccountEntry \<Rightarrow> Address result" where
  "signing_address addr_of a = bindE (signing_key a) (\<lambda>k. Inr (addr_of k))"

definition account_sanity_check :: "AccountEntry \<Rightarrow> unit result" where
  "account_sanity_check a =
    (if \<not> ac_id a > 0 then Inl fc_assert
     else if ac_name a = '''' then Inl fc_assert
     else if active_key_history a = [] then Inl fc_assert
     else case delegate_info a of
       None \<Rightarrow> Inr ()
     | Some d \<Rightarrow>
         if votes_for d < 0 then Inl fc_assert
         else if \<not> pay_rate d \<le> 100 then Inl fc_assert
         else if signing_key_history d = [] then Inl fc_assert
         else if pay_balance d < 0 then Inl fc_assert
         else Inr ())"


section \<open>The vote order\<close>

text \<open>\<open>VoteDel\<close>: more votes first, the lower delegate id first among equal votes.\<close>

datatype VoteDel = VoteDel (votes: ShareType) (vote_delegate_id: AccountIdType)

instantiation VoteDel :: linorder
begin

definition less_VoteDel :: "VoteDel \<Rightarrow> VoteDel \<Rightarrow> bool" where
  "less_VoteDel a b =
    (if votes a \<noteq> votes b then votes a > votes b else vote_delegate_id a < vote_delegate_id b)"

definition less_eq_VoteDel :: "VoteDel \<Rightarrow> VoteDel \<Rightarrow> bool" where
  "less_eq_VoteDel a b \<longleftrightarrow> a = b \<or> a < b"

instance
proof
  fix a b c :: VoteDel
  show "(a < b) = (a \<le> b \<and> \<not> b \<le> a)"
    by (cases a; cases b) (auto simp: less_eq_VoteDel_def less_VoteDel_def split: if_splits)
  show "a \<le> a" by (simp add: less_eq_VoteDel_def)
  show "a \<le> b \<or> b \<le> a"
    by (cases a; cases b) (auto simp: less_eq_VoteDel_def less_VoteDel_def split: if_splits)
  show "a \<le> b \<Longrightarrow> b \<le> a \<Longrightarrow> a = b"
    by (cases a; cases b) (auto simp: less_eq_VoteDel_def less_VoteDel_def split: if_splits)
  show "a \<le> b \<Longrightarrow> b \<le> c \<Longrightarrow> a \<le> c"
    by (cases a; cases b; cases c) (auto simp: less_eq_VoteDel_def less_VoteDel_def split: if_splits)
qed

end

text \<open>\<open>std::set<VoteDel>\<close>: a strictly sorted list.\<close>

definition vote_set_insert :: "VoteDel \<Rightarrow> VoteDel list \<Rightarrow> VoteDel list" where
  "vote_set_insert v vs = insort_insert v vs"

definition vote_set_erase :: "VoteDel \<Rightarrow> VoteDel list \<Rightarrow> VoteDel list" where
  "vote_set_erase v vs = removeAll v vs"

lemma set_vote_set_insert [simp]: "set (vote_set_insert v vs) = insert v (set vs)"
  by (simp add: vote_set_insert_def set_insort_insert)

lemma set_vote_set_erase [simp]: "set (vote_set_erase v vs) = set vs - {v}"
  by (simp add: vote_set_erase_def)

lemma sorted_vote_set_insert [simp]: "sorted vs \<Longrightarrow> sorted (vote_set_insert v vs)"
  by (simp add: vote_set_insert_def sorted_insort_insert)

lemma distinct_vote_set_insert [simp]: "distinct vs \<Longrightarrow> distinct (vote_set_insert v vs)"
  by (simp add: vote_set_insert_def distinct_insort_insert)

lemma sorted_vote_set_erase [simp]: "sorted vs \<Longrightarrow> sorted (vote_set_erase v vs)"
  using sorted_filter [of id vs "\<lambda>x. v \<noteq> x"] by (simp add: vote_set_erase_def removeAll_filter_not_eq)

lemma distinct_vote_set_erase [simp]: "distinct vs \<Longrightarrow> distinct (vote_set_erase v vs)"
  by (simp add: vote_set_erase_def distinct_removeAll)

section \<open>Assets\<close>

text \<open>\<open>AssetPermissions\<close> are bits of a \<open>uint32_t\<close>.\<close>

definition retractable :: "32 word" where "retractable = 1"
definition restricted :: "32 word" where "restricted = 2"
definition market_halt :: "32 word" where "market_halt = 4"
definition balance_halt :: "32 word" where "balance_halt = 8"
definition supply_unlimit :: "32 word" where "supply_unlimit = 16"

lemmas permission_defs =
  retractable_def restricted_def market_halt_def balance_halt_def supply_unlimit_def

record AssetEntry =
  as_id :: AssetIdType
  as_symbol :: string
  as_name :: string
  as_description :: string
  as_public_data :: variant
  as_issuer_account_id :: AccountIdType
  as_precision :: nat
  as_registration_date :: time_point_sec
  as_last_update :: time_point_sec
  maximum_share_supply :: ShareType
  current_share_supply :: ShareType
  collected_fees :: ShareType
  as_flags :: "32 word"
  as_issuer_permissions :: "32 word"
  as_transaction_fee :: ShareType
  as_market_fee :: "16 word"
  as_authority :: MultisigMetaInfo

definition AssetEntry_init :: AssetEntry where
  "AssetEntry_init =
    \<lparr>as_id = 0, as_symbol = '''', as_name = '''', as_description = '''',
     as_public_data = null_variant, as_issuer_account_id = - 1, as_precision = 0,
     as_registration_date = 0, as_last_update = 0, maximum_share_supply = 0,
     current_share_supply = 0, collected_fees = 0, as_flags = 0, as_issuer_permissions = - 1,
     as_transaction_fee = 0, as_market_fee = 0,
     as_authority = \<lparr>mm_required = 0, mm_owners = []\<rparr>\<rparr>"

definition is_user_issued :: "AssetEntry \<Rightarrow> bool" where
  "is_user_issued a \<longleftrightarrow> as_issuer_account_id a > 0"

definition is_retractable :: "AssetEntry \<Rightarrow> bool" where
  "is_retractable a \<longleftrightarrow> is_user_issued a \<and> and (as_flags a) retractable \<noteq> 0"

definition is_restricted :: "AssetEntry \<Rightarrow> bool" where
  "is_restricted a \<longleftrightarrow> is_user_issued a \<and> and (as_flags a) restricted \<noteq> 0"

definition is_balance_frozen :: "AssetEntry \<Rightarrow> bool" where
  "is_balance_frozen a \<longleftrightarrow> is_user_issued a \<and> and (as_flags a) balance_halt \<noteq> 0"

definition is_supply_unlimited :: "AssetEntry \<Rightarrow> bool" where
  "is_supply_unlimited a \<longleftrightarrow> is_user_issued a \<and> and (as_flags a) supply_unlimit \<noteq> 0"

definition available_shares :: "AssetEntry \<Rightarrow> ShareType" where
  "available_shares a = s64 (maximum_share_supply a - current_share_supply a)"

definition can_issue_amount :: "AssetEntry \<Rightarrow> ShareType \<Rightarrow> bool" where
  "can_issue_amount a amnt =
    (if amnt \<le> 0 then False
     else let new_share_supply = s64 (current_share_supply a + amnt) in
       new_share_supply > current_share_supply a \<and> new_share_supply \<le> maximum_share_supply a)"

definition can_issue :: "AssetEntry \<Rightarrow> Asset \<Rightarrow> bool" where
  "can_issue a asset =
    (if as_id a \<noteq> asset_id asset then False else can_issue_amount a (amount asset))"


section \<open>Slates, slots, properties\<close>

record SlateEntry =
  slate :: "AccountIdType list"
  duplicate_slate :: "AccountIdType list"

text \<open>\<open>SlateEntry::id\<close>; \<open>hash\<close> is the first word of the \<open>sha256\<close> of the packed set.\<close>

definition slate_entry_id :: "(AccountIdType list \<Rightarrow> SlateIdType) \<Rightarrow> SlateEntry \<Rightarrow> SlateIdType" where
  "slate_entry_id hash s = (if slate s = [] then 0 else hash (slate s))"

definition slate_sanity_check :: "SlateEntry \<Rightarrow> unit result" where
  "slate_sanity_check s = (if slate s = [] then Inl fc_assert else Inr ())"

record SlotIndex =
  si_delegate_id :: AccountIdType
  si_timestamp :: time_point_sec

record SlotEntry =
  slot_index :: SlotIndex
  slot_block_id :: "BlockIdType option"

datatype PropertyIdType =
    database_version | chain_id | last_asset_id | last_account_id | active_delegate_list_id
  | last_random_seed_id | statistics_enabled | confirmation_requirement | dirty_markets
  | node_vm_enabled | transaction_min_fee | transaction_max_fee | transaction_fee_ratio

record PropertyEntry =
  pr_id :: PropertyIdType
  pr_value :: variant

definition property_sanity_check :: "PropertyEntry \<Rightarrow> unit result" where
  "property_sanity_check p = (if pr_value p = null_variant then Inl fc_assert else Inr ())"


section \<open>Contracts\<close>

datatype ContractState = contract_valid | contract_deleted
datatype ContractLevel = contract_temp | contract_forever

record Code =
  abi :: "string list"
  offline_abi :: "string list"
  code_events :: "string list"
  storage_properties :: "(string \<times> nat) list"
  byte_code :: "8 word list"
  code_hash :: string

record ContractEntry =
  contract_name :: ContractName
  ct_id :: ContractIdType
  ct_level :: ContractLevel
  ct_owner :: PublicKeyType
  ct_state :: ContractState
  ct_description :: string
  ct_code :: Code
  ct_reserved :: "64 word option"
  ct_trx_id :: TransactionIdType
  register_time :: int

record StorageDataType =
  storage_type :: nat
  storage_data :: "8 word list"

record ContractStorageEntry =
  cs_id :: ContractIdType
  contract_storages :: "(string \<times> StorageDataType) list"


section \<open>Properties\<close>

lemma takeWhile_append_replicate:
  "CHR 0x00 \<notin> set s \<Longrightarrow> takeWhile (\<lambda>c. c \<noteq> CHR 0x00) (s @ replicate n CHR 0x00) = s"
  by (cases n) (auto simp: takeWhile_append)

text \<open>A memo text of at most 51 bytes without a NUL byte that is written into a fresh extended memo
  is read back unchanged, whether it fits the 19-byte field or spills into the extension; a longer
  text is refused.\<close>

theorem extended_memo_round_trip:
  assumes "CHR 0x00 \<notin> set msg"
  shows "if length msg \<le> 51
    then \<exists>m. extended_memo_set_message empty_extended_memo msg = Inr m \<and>
             extended_memo_get_message m = msg \<and>
             length (md_message m) = 19 \<and> length (extra_memo m) = 32
    else extended_memo_set_message empty_extended_memo msg = Inl fc_assert"
proof (cases "length msg \<le> 19")
  case True
  have "takeWhile (\<lambda>c. c \<noteq> CHR 0x00) (msg @ replicate (51 - length msg) CHR 0x00) = msg"
    by (rule takeWhile_append_replicate [OF assms])
  moreover have "msg @ replicate (51 - length msg) CHR 0x00 =
      msg @ replicate (19 - length msg) CHR 0x00 @ replicate 32 CHR 0x00"
    using True by (simp flip: replicate_add)
  ultimately show ?thesis using True
    by (auto simp: extended_memo_set_message_def extended_memo_get_message_def empty_extended_memo_def
        config_defs memcpy_def c_str_def)
next
  case False
  have "takeWhile (\<lambda>c. c \<noteq> CHR 0x00) (msg @ replicate (51 - length msg) CHR 0x00) = msg"
    by (rule takeWhile_append_replicate [OF assms])
  moreover have "(take 19 msg @ drop 19 msg) @ xs = take 19 msg @ drop 19 msg @ xs" for xs by simp
  ultimately show ?thesis using False
    by (auto simp: extended_memo_set_message_def extended_memo_get_message_def empty_extended_memo_def
        config_defs memcpy_def c_str_def simp del: append_assoc simp flip: append_assoc)
qed

theorem extended_memo_round_trip_witness:
  "\<exists>m. extended_memo_set_message empty_extended_memo ''pay for the second half of march'' = Inr m \<and>
    extended_memo_get_message m = ''pay for the second half of march''"
  using extended_memo_round_trip [of "''pay for the second half of march''"] by auto

end
