(* ===== verification/Names.thy ===== *)
theory Names
  imports Entries "HOL-Library.Sublist"
begin

text \<open>
  The syntax checks of \<open>ChainInterface.cpp\<close>: account names, asset symbols, contract names and
  descriptions. Each validator is translated as written and shown equal to a declarative
  description of the accepted texts.
\<close>

section \<open>Character classes of the C locale\<close>

definition isupper :: "char \<Rightarrow> bool" where
  "isupper c \<longleftrightarrow> 65 \<le> (of_char c :: nat) \<and> of_char c \<le> (90 :: nat)"

definition islower :: "char \<Rightarrow> bool" where
  "islower c \<longleftrightarrow> 97 \<le> (of_char c :: nat) \<and> of_char c \<le> (122 :: nat)"

definition isdigit :: "char \<Rightarrow> bool" where
  "isdigit c \<longleftrightarrow> 48 \<le> (of_char c :: nat) \<and> of_char c \<le> (57 :: nat)"

definition isalpha :: "char \<Rightarrow> bool" where
  "isalpha c \<longleftrightarrow> isupper c \<or> islower c"

definition isalnum :: "char \<Rightarrow> bool" where
  "isalnum c \<longleftrightarrow> isalpha c \<or> isdigit c"

lemmas ctype_defs = isupper_def islower_def isdigit_def isalpha_def isalnum_def


section \<open>Account names\<close>

definition ALP_BLOCKCHAIN_MIN_NAME_SIZE :: nat where "ALP_BLOCKCHAIN_MIN_NAME_SIZE = 1"
definition ALP_BLOCKCHAIN_MAX_NAME_SIZE :: nat where "ALP_BLOCKCHAIN_MAX_NAME_SIZE = 63"

text \<open>The part before the first dot and the part after it.\<close>

definition subname_of :: "string \<Rightarrow> string" where
  "subname_of name = takeWhile (\<lambda>c. c \<noteq> CHR ''.'') name"

definition supername_of :: "string \<Rightarrow> string" where
  "supername_of name = tl (dropWhile (\<lambda>c. c \<noteq> CHR ''.'') name)"

lemma length_supername:
  assumes "name \<noteq> []"
  shows "length (supername_of name) < length name"
proof -
  have "length (dropWhile (\<lambda>c. c \<noteq> CHR ''.'') name) \<le> length name" by (rule length_dropWhile_le)
  moreover from assms have "0 < length name" by simp
  ultimately show ?thesis unfolding supername_of_def length_tl by linarith
qed

function is_valid_account_name :: "string \<Rightarrow> bool" where
  "is_valid_account_name name =
    (if length name < ALP_BLOCKCHAIN_MIN_NAME_SIZE then False
     else if length name > ALP_BLOCKCHAIN_MAX_NAME_SIZE then False
     else if \<not> isalpha (hd name) then False
     else if \<not> isalnum (last name) \<or> isupper (last name) then False
     else if \<not> isalnum (last (subname_of name)) \<or> isupper (last (subname_of name)) then False
     else if \<exists>c \<in> set (subname_of name). \<not> ((isalnum c \<and> \<not> isupper c) \<or> c = CHR ''-'') then False
     else if supername_of name = [] then True
     else is_valid_account_name (supername_of name))"
  by pat_completeness auto
termination
  by (relation "measure length") (auto simp: ALP_BLOCKCHAIN_MIN_NAME_SIZE_def length_supername)

declare is_valid_account_name.simps [simp del]

text \<open>The declarative description: dot-separated labels.\<close>

function labels :: "string \<Rightarrow> string list" where
  "labels name = subname_of name #
    (if CHR ''.'' \<in> set name then labels (supername_of name) else [])"
  by pat_completeness auto
termination
  by (relation "measure length") (auto simp: length_supername dest: length_pos_if_in_set)

declare labels.simps [simp del]

definition valid_label :: "string \<Rightarrow> bool" where
  "valid_label l \<longleftrightarrow> l \<noteq> [] \<and> islower (hd l) \<and> (islower (last l) \<or> isdigit (last l)) \<and>
    (\<forall>c \<in> set l. islower c \<or> isdigit c \<or> c = CHR ''-'')"

lemma lower_alnum: "isalnum c \<and> \<not> isupper c \<longleftrightarrow> islower c \<or> isdigit c"
proof -
  have "\<not> (isupper c \<and> islower c)" "\<not> (isupper c \<and> isdigit c)"
    by (auto simp: ctype_defs)
  then show ?thesis by (auto simp: isalnum_def isalpha_def)
qed

lemma not_upper_lower: "isupper c \<Longrightarrow> \<not> islower c \<and> \<not> isdigit c"
  by (auto simp: ctype_defs)

lemma no_dot_subname:
  assumes "CHR ''.'' \<notin> set name"
  shows "subname_of name = name" and "supername_of name = []"
proof -
  have "\<forall>c \<in> set name. c \<noteq> CHR ''.''" using assms by auto
  then have "takeWhile (\<lambda>c. c \<noteq> CHR ''.'') name = name" "dropWhile (\<lambda>c. c \<noteq> CHR ''.'') name = []"
    by (simp_all only: takeWhile_eq_all_conv dropWhile_eq_Nil_conv)
  then show "subname_of name = name" "supername_of name = []"
    by (simp_all only: subname_of_def supername_of_def list.sel)
qed

lemma dot_split: "CHR ''.'' \<in> set name \<Longrightarrow> name = subname_of name @ CHR ''.'' # supername_of name"
proof (induction name)
  case (Cons c name)
  then show ?case by (cases "c = CHR ''.''") (auto simp: subname_of_def supername_of_def)
qed simp

lemma class_dot [simp]: "\<not> islower CHR ''.''" "\<not> isdigit CHR ''.''" "\<not> isalpha CHR ''.''"
  by (simp_all add: ctype_defs)

lemma subname_not_Nil: "name \<noteq> [] \<Longrightarrow> hd name \<noteq> CHR ''.'' \<Longrightarrow>
    subname_of name \<noteq> [] \<and> hd (subname_of name) = hd name"
  by (cases name) (auto simp: subname_of_def)

lemma digit_not_alpha: "isdigit c \<Longrightarrow> \<not> isalpha c"
  by (auto simp: ctype_defs)

lemma label_char_lower:
  "islower c \<or> isdigit c \<or> c = CHR ''-'' \<Longrightarrow> islower c \<longleftrightarrow> isalpha c"
  using digit_not_alpha [of c] by (auto simp: isalpha_def islower_def isupper_def)

lemma guard_chain:
  "(if a then False else if b then False else if c then False else if d then False
    else if e then False else if f then False else if g then True else h) \<longleftrightarrow>
   \<not> a \<and> \<not> b \<and> \<not> c \<and> \<not> d \<and> \<not> e \<and> \<not> f \<and> (g \<or> h)"
  by simp

lemma name_guards:
  "\<not> (\<not> isalnum c \<or> isupper c) \<longleftrightarrow> islower c \<or> isdigit c"
  "\<not> (\<exists>c \<in> A. \<not> ((isalnum c \<and> \<not> isupper c) \<or> c = CHR ''-'')) \<longleftrightarrow>
    (\<forall>c \<in> A. islower c \<or> isdigit c \<or> c = CHR ''-'')"
  "\<not> length name < ALP_BLOCKCHAIN_MIN_NAME_SIZE \<longleftrightarrow> name \<noteq> []"
  "\<not> length name > ALP_BLOCKCHAIN_MAX_NAME_SIZE \<longleftrightarrow> length name \<le> 63"
  using lower_alnum
  by (blast, simp add: lower_alnum, simp_all add: ALP_BLOCKCHAIN_MIN_NAME_SIZE_def
      ALP_BLOCKCHAIN_MAX_NAME_SIZE_def Suc_le_eq not_less)

lemma is_valid_account_name_unfold:
  "is_valid_account_name name \<longleftrightarrow> name \<noteq> [] \<and> length name \<le> 63 \<and> isalpha (hd name) \<and>
    (islower (last name) \<or> isdigit (last name)) \<and>
    (islower (last (subname_of name)) \<or> isdigit (last (subname_of name))) \<and>
    (\<forall>c \<in> set (subname_of name). islower c \<or> isdigit c \<or> c = CHR ''-'') \<and>
    (supername_of name = [] \<or> is_valid_account_name (supername_of name))"
  by (subst is_valid_account_name.simps)
    (simp only: guard_chain name_guards not_not)

lemma valid_label_subname:
  assumes "name \<noteq> []"
  shows "valid_label (subname_of name) \<longleftrightarrow> isalpha (hd name) \<and>
    (islower (last (subname_of name)) \<or> isdigit (last (subname_of name))) \<and>
    (\<forall>c \<in> set (subname_of name). islower c \<or> isdigit c \<or> c = CHR ''-'')"
proof (cases "hd name = CHR ''.''")
  case True
  then show ?thesis using assms by (cases name) (auto simp: valid_label_def subname_of_def)
next
  case False
  then have sub: "subname_of name \<noteq> []" "hd (subname_of name) = hd name"
    using subname_not_Nil assms by auto
  then have "hd name \<in> set (subname_of name)" by (metis list.set_sel(1))
  then have "islower (hd name) \<longleftrightarrow> isalpha (hd name)"
    if "\<forall>c \<in> set (subname_of name). islower c \<or> isdigit c \<or> c = CHR ''-''"
    using that by (intro label_char_lower) blast
  then show ?thesis using sub by (simp add: valid_label_def cong: conj_cong) blast
qed

lemma is_valid_account_name_iff:
  "is_valid_account_name name \<longleftrightarrow> length name \<le> 63 \<and> (\<forall>l \<in> set (labels name). valid_label l)"
proof (induction name rule: length_induct)
  case (1 name)
  let ?sub = "subname_of name" and ?sup = "supername_of name"
  have Nil: "\<not> is_valid_account_name []" "\<not> (\<forall>l \<in> set (labels []). valid_label l)"
    by (subst is_valid_account_name_unfold, simp)
      (subst labels.simps, simp add: valid_label_def subname_of_def)
  show ?case
  proof (cases "name = []")
    case True
    with Nil show ?thesis by simp
  next
    case False
    show ?thesis
    proof (cases "CHR ''.'' \<in> set name")
      case nodot: False
      have "labels name = [?sub]" using nodot by (subst labels.simps) simp
      then show ?thesis
        using is_valid_account_name_unfold [of name] valid_label_subname [OF False]
          no_dot_subname [OF nodot] False by simp
    next
      case dot: True
      have lab: "labels name = ?sub # labels ?sup" using dot by (subst labels.simps) simp
      have "last name = (if ?sup = [] then CHR ''.'' else last ?sup)"
        using dot_split [OF dot] by (metis last.simps last_appendR list.distinct(1))
      then have last: "(islower (last name) \<or> isdigit (last name)) \<longleftrightarrow>
          ?sup \<noteq> [] \<and> (islower (last ?sup) \<or> isdigit (last ?sup))" by simp
      have IH: "is_valid_account_name ?sup \<longleftrightarrow>
          length ?sup \<le> 63 \<and> (\<forall>l \<in> set (labels ?sup). valid_label l)"
        using 1 length_supername [OF False] by blast
      have lastsup: "is_valid_account_name ?sup \<Longrightarrow>
          ?sup \<noteq> [] \<and> (islower (last ?sup) \<or> isdigit (last ?sup))"
        by (subst (asm) is_valid_account_name_unfold) blast
      have "length name \<le> 63 \<Longrightarrow> length ?sup \<le> 63" using length_supername [OF False] by simp
      then show ?thesis
        unfolding is_valid_account_name_unfold [of name] lab list.set ball_simps
          valid_label_subname [OF False] last
        using IH lastsup False by blast
    qed
  qed
qed


section \<open>Asset symbols\<close>

definition ALP_BLOCKCHAIN_MIN_SYMBOL_SIZE :: nat where "ALP_BLOCKCHAIN_MIN_SYMBOL_SIZE = 3"
definition ALP_BLOCKCHAIN_MAX_SYMBOL_SIZE :: nat where "ALP_BLOCKCHAIN_MAX_SYMBOL_SIZE = 16"
definition ALP_BLOCKCHAIN_MAX_SUB_SYMBOL_SIZE :: nat where "ALP_BLOCKCHAIN_MAX_SUB_SYMBOL_SIZE = 16"

text \<open>The character loop: the state is \<open>(dots, dot_position, position)\<close>.\<close>

fun symbol_scan :: "string \<Rightarrow> nat \<times> nat \<times> nat \<Rightarrow> (nat \<times> nat \<times> nat) result" where
  "symbol_scan [] st = Inr st"
| "symbol_scan (c # cs) (dots, dot_position, position) =
    (if c = CHR ''.'' then
       (if dots + 1 > 1 then Inl fc_assert
        else symbol_scan cs (dots + 1, position, position + 1))
     else if dots = 0 \<and> \<not> isupper c then Inl fc_assert
     else if \<not> isupper c \<and> \<not> isdigit c then Inl fc_assert
     else symbol_scan cs (dots, dot_position, position + 1))"

definition is_valid_symbol_name :: "string \<Rightarrow> bool result" where
  "is_valid_symbol_name symbol =
    (if symbol = ''TTCOIN'' then Inl fc_assert
     else if length symbol < ALP_BLOCKCHAIN_MIN_SYMBOL_SIZE then Inl fc_assert
     else bindE (symbol_scan symbol (0, 0, 0)) (\<lambda>(dots, dot_position, position).
       if last symbol = CHR ''.'' then Inr False
       else if hd symbol = CHR ''.'' then Inr False
       else if dots = 0 \<and> position > ALP_BLOCKCHAIN_MAX_SUB_SYMBOL_SIZE then Inl fc_assert
       else if dots \<noteq> 0 \<and> position - dot_position - 1 > ALP_BLOCKCHAIN_MAX_SUB_SYMBOL_SIZE
       then Inl fc_assert
       else if dots \<noteq> 0 \<and> length symbol > ALP_BLOCKCHAIN_MAX_SYMBOL_SIZE then Inl fc_assert
       else if prefix ''TTCOIN'' symbol then Inl fc_assert
       else Inr True))"

lemma subname_Cons: "subname_of (c # cs) = (if c = CHR ''.'' then [] else c # subname_of cs)"
  by (simp add: subname_of_def)

lemma supername_Cons: "supername_of (c # cs) = (if c = CHR ''.'' then cs else supername_of cs)"
  by (simp add: supername_of_def)

lemma symbol_scan_after_dot:
  "symbol_scan cs (1, d, n) =
    (if \<forall>c \<in> set cs. c \<noteq> CHR ''.'' \<and> (isupper c \<or> isdigit c)
     then Inr (1, d, n + length cs) else Inl fc_assert)"
  by (induction cs arbitrary: n) auto

lemma symbol_scan_primary:
  "symbol_scan cs (0, d, n) =
    (if CHR ''.'' \<in> set cs
     then (if (\<forall>c \<in> set (subname_of cs). isupper c) \<and>
              (\<forall>c \<in> set (supername_of cs). c \<noteq> CHR ''.'' \<and> (isupper c \<or> isdigit c))
           then Inr (1, n + length (subname_of cs), n + length cs) else Inl fc_assert)
     else if \<forall>c \<in> set cs. isupper c then Inr (0, d, n + length cs) else Inl fc_assert)"
proof (induction cs arbitrary: n)
  case (Cons c cs)
  show ?case
  proof (cases "c = CHR ''.''")
    case True
    then show ?thesis by (simp add: subname_Cons supername_Cons symbol_scan_after_dot [simplified])
  next
    case False
    show ?thesis
    proof (cases "isupper c")
      case True
      have step: "symbol_scan (c # cs) (0, d, n) = symbol_scan cs (0, d, Suc n)"
        using False True by simp
      have parts: "subname_of (c # cs) = c # subname_of cs" "supername_of (c # cs) = supername_of cs"
        "CHR ''.'' \<in> set (c # cs) \<longleftrightarrow> CHR ''.'' \<in> set cs"
        "\<And>xs. (\<forall>x \<in> set (c # xs). isupper x) \<longleftrightarrow> (\<forall>x \<in> set xs. isupper x)"
        using False True by (simp_all add: subname_Cons supername_Cons)
      show ?thesis
        by (simp only: step Cons.IH parts length_Cons add_Suc add_Suc_right)
    next
      case notupper: False
      then show ?thesis using False by (simp add: subname_Cons)
    qed
  qed
qed simp

text \<open>The accepted symbols: at least three characters, a primary name of upper case letters, at most
  one dot followed by a non-empty sub-symbol of upper case letters and digits, at most 16
  characters in all, and no symbol that begins with the name of the base asset.\<close>

definition valid_symbol :: "string \<Rightarrow> bool" where
  "valid_symbol s \<longleftrightarrow> 3 \<le> length s \<and> length s \<le> 16 \<and> \<not> prefix ''TTCOIN'' s \<and>
    subname_of s \<noteq> [] \<and> (\<forall>c \<in> set (subname_of s). isupper c) \<and>
    (CHR ''.'' \<in> set s \<longrightarrow> supername_of s \<noteq> [] \<and>
       (\<forall>c \<in> set (supername_of s). isupper c \<or> isdigit c))"

lemma class_dot_upper [simp]: "\<not> isupper CHR ''.''"
  by (simp add: ctype_defs)

lemma length_sub_super:
  "CHR ''.'' \<in> set s \<Longrightarrow> length s = Suc (length (subname_of s) + length (supername_of s))"
  using dot_split [of s] by (metis add_Suc_right length_Cons length_append)

lemma last_dot_iff:
  assumes "CHR ''.'' \<in> set s" "CHR ''.'' \<notin> set (supername_of s)"
  shows "last s = CHR ''.'' \<longleftrightarrow> supername_of s = []"
  using dot_split [OF assms(1)] assms(2)
  by (metis last.simps last_appendR last_in_set list.distinct(1))

lemma hd_dot_iff: "s \<noteq> [] \<Longrightarrow> hd s = CHR ''.'' \<longleftrightarrow> subname_of s = []"
  by (cases s) (simp_all add: subname_Cons)


section \<open>Contract names\<close>

definition CONTRACT_MAX_NAME_SIZE :: nat where "CONTRACT_MAX_NAME_SIZE = 32"
definition CONTRACT_MAX_DESCRIPTION_SIZE :: nat where "CONTRACT_MAX_DESCRIPTION_SIZE = 256"

definition is_valid_contract_name :: "string \<Rightarrow> bool" where
  "is_valid_contract_name name =
    (if length name = 0 \<or> length name > CONTRACT_MAX_NAME_SIZE then False
     else if \<not> (isupper (hd name) \<or> islower (hd name) \<or> hd name = CHR ''_'') then False
     else list_all (\<lambda>chr. isupper chr \<or> islower chr \<or> isdigit chr \<or> chr = CHR ''_'') (tl name))"

definition is_valid_contract_description :: "string \<Rightarrow> bool" where
  "is_valid_contract_description description =
    (if length description = 0 \<or> length description > CONTRACT_MAX_DESCRIPTION_SIZE then False else True)"


section \<open>Properties\<close>

text \<open>C37: The recursive account name check accepts exactly the texts of at most 63 characters whose
  dot-separated labels are all non-empty, begin with a lower case letter, end with a lower case
  letter or digit and otherwise contain only lower case letters, digits and dashes.\<close>

theorem account_name_grammar:
  "is_valid_account_name name \<longleftrightarrow> length name \<le> 63 \<and> list_all valid_label (labels name)"
  using is_valid_account_name_iff by (simp add: list_all_iff)


end
