(* ===== verification/Transactions.thy ===== *)
theory Transactions
  imports Names
begin

text \<open>
  Operations and transactions (\<open>Operations.hpp\<close>, \<open>*Operations.hpp\<close>, \<open>Transaction.hpp\<close>,
  \<open>Transaction.cpp\<close>). The polymorphic \<open>Operation\<close> (a type code with a packed payload) is a datatype
  with one constructor per type code that holds the unpacked payload; a transaction nested in a
  \<open>TransactionOperation\<close> makes the two datatypes mutually recursive.
\<close>

section \<open>Operation payloads\<close>

type_synonym balance_map = "(BalanceIdType \<times> ShareType) list"

record WithdrawOperation =
  wd_balance_id :: BalanceIdType
  wd_amount :: ShareType
  claim_input_data :: "8 word list"

record DepositOperation =
  dp_amount :: ShareType
  dp_condition :: WithdrawCondition

record WithdrawContractOperation =
  wcn_balance_id :: BalanceIdType
  wcn_amount :: ShareType
  wcn_contract :: ContractIdType

record DepositContractOperation =
  dcn_amount :: ShareType
  dcn_condition :: WithdrawCondition

record ReleaseEscrowOperation =
  escrow_id :: BalanceIdType
  released_by :: Address
  amount_to_receiver :: ShareType
  amount_to_sender :: ShareType

record UpdateBalanceVoteOperation =
  ubv_balance_id :: BalanceIdType
  new_restricted_owner :: "Address option"
  new_slate :: SlateIdType

record RegisterAccountOperation =
  ra_name :: string
  ra_public_data :: variant
  ra_owner_key :: PublicKeyType
  ra_active_key :: PublicKeyType
  ra_delegate_pay_rate :: "8 word"
  ra_meta_data :: "AccountMetaInfo option"

record UpdateAccountOperation =
  ua_account_id :: AccountIdType
  ua_public_data :: "variant option"
  ua_active_key :: "PublicKeyType option"
  ua_delegate_pay_rate :: "8 word"

record UpdateSigningKeyOperation =
  usk_account_id :: AccountIdType
  usk_signing_key :: PublicKeyType

record WithdrawPayOperation =
  wp_amount :: ShareType
  wp_account_id :: AccountIdType

record CreateAssetOperation =
  ca_symbol :: string
  ca_name :: string
  ca_description :: string
  ca_public_data :: variant
  ca_issuer_account_id :: AccountIdType
  ca_maximum_share_supply :: ShareType
  ca_precision :: nat

record UpdateAssetOperation =
  up_asset_id :: AssetIdType
  up_name :: "string option"
  up_description :: "string option"
  up_public_data :: "variant option"
  up_maximum_share_supply :: "ShareType option"
  up_precision :: "nat option"

record UpdateAssetExtOperation = UpdateAssetOperation +
  ux_flags :: "32 word"
  ux_issuer_permissions :: "32 word"
  ux_issuer_account_id :: AccountIdType
  ux_market_fee :: "16 word"
  ux_transaction_fee :: ShareType
  ux_authority :: MultisigMetaInfo

record EventOperation =
  ev_id :: ContractIdType
  event_type :: string
  event_param :: string
  is_truncated :: bool

record StorageDataChangeType =
  storage_before :: StorageDataType
  storage_after :: StorageDataType

record StorageOperation =
  so_contract_id :: ContractIdType
  contract_change_storages :: "(string \<times> StorageDataChangeType) list"

record UpgradeContractOperation =
  ug_id :: ContractIdType
  ug_name :: string
  ug_desc :: string
  ug_exec_limit :: Asset
  ug_transaction_fee :: Asset
  ug_balances :: balance_map

record DestroyContractOperation =
  dc_id :: ContractIdType
  dc_exec_limit :: Asset
  dc_transaction_fee :: Asset
  dc_balances :: balance_map

record OnDestroyOperation =
  od_id :: ContractIdType
  od_amount :: Asset

record OnUpgradeOperation =
  ou_id :: ContractIdType
  ou_name :: string
  ou_desc :: string

record RegisterContractOperation =
  rc_contract_code :: Code
  rc_initcost :: Asset
  rc_transaction_fee :: Asset
  rc_balances :: balance_map
  rc_owner :: PublicKeyType
  rc_register_time :: int

record CallContractOperation =
  cc_caller :: PublicKeyType
  cc_balances :: balance_map
  cc_contract :: ContractIdType
  cc_costlimit :: Asset
  cc_transaction_fee :: Asset
  cc_method :: string
  cc_args :: string

record ContractInfoOperation =
  ci_contract_id :: ContractIdType
  ci_owner :: PublicKeyType
  ci_code :: Code
  ci_register_time :: int

record TransferContractOperation =
  tc_from :: PublicKeyType
  tc_costlimit :: Asset
  tc_transaction_fee :: Asset
  tc_transfer_amount :: Asset
  tc_balances :: balance_map
  tc_contract_id :: ContractIdType

record UpdateTransferConfigOperation =
  utc_delegate_account_name :: string
  utc_min_transaction_fee :: int
  utc_max_transaction_fee :: int
  utc_transaction_fee_ratio :: "64 word"


section \<open>Operations and transactions\<close>

datatype ResultTransactionType =
  origin_transaction | complete_result_transaction | incomplete_result_transaction

datatype Operation =
    null_op
  | withdraw_op WithdrawOperation
  | deposit_op DepositOperation
  | register_account_op RegisterAccountOperation
  | update_account_op UpdateAccountOperation
  | withdraw_pay_op WithdrawPayOperation
  | create_asset_op CreateAssetOperation
  | update_asset_op UpdateAssetOperation
  | issue_asset_op Asset
  | define_slate_op "AccountIdType list"
  | release_escrow_op ReleaseEscrowOperation
  | update_signing_key_op UpdateSigningKeyOperation
  | update_balance_vote_op UpdateBalanceVoteOperation
  | update_asset_ext_op UpdateAssetExtOperation
  | imessage_memo_op string
  | contract_info_op ContractInfoOperation
  | register_contract_op RegisterContractOperation
  | upgrade_contract_op UpgradeContractOperation
  | destroy_contract_op DestroyContractOperation
  | call_contract_op CallContractOperation
  | transfer_contract_op TransferContractOperation
  | withdraw_contract_op WithdrawContractOperation
  | deposit_contract_op DepositContractOperation
  | balances_withdraw_op balance_map
  | transaction_op SignedTransaction
  | storage_op StorageOperation
  | event_op EventOperation
  | on_destroy_op OnDestroyOperation
  | on_upgrade_op OnUpgradeOperation
  | on_call_success_op
  | update_transfer_config_op UpdateTransferConfigOperation
and SignedTransaction = SignedTransaction
  (expiration: time_point_sec)
  (reserved: "64 word option")
  (alp_account: string)
  (alp_inport_asset: Asset)
  (operations: "Operation list")
  (result_trx_type: ResultTransactionType)
  (result_trx_id: TransactionIdType)
  (signatures: "SignatureType list")

text \<open>\<open>OperationTypeEnum\<close>.\<close>

fun op_type :: "Operation \<Rightarrow> nat" where
  "op_type null_op = 0"
| "op_type (withdraw_op _) = 1"
| "op_type (deposit_op _) = 2"
| "op_type (register_account_op _) = 3"
| "op_type (update_account_op _) = 4"
| "op_type (withdraw_pay_op _) = 5"
| "op_type (create_asset_op _) = 6"
| "op_type (update_asset_op _) = 7"
| "op_type (issue_asset_op _) = 8"
| "op_type (define_slate_op _) = 18"
| "op_type (release_escrow_op _) = 23"
| "op_type (update_signing_key_op _) = 24"
| "op_type (update_balance_vote_op _) = 27"
| "op_type (update_asset_ext_op _) = 30"
| "op_type (imessage_memo_op _) = 66"
| "op_type (contract_info_op _) = 68"
| "op_type (register_contract_op _) = 70"
| "op_type (upgrade_contract_op _) = 71"
| "op_type (destroy_contract_op _) = 72"
| "op_type (call_contract_op _) = 73"
| "op_type (transfer_contract_op _) = 74"
| "op_type (withdraw_contract_op _) = 80"
| "op_type (deposit_contract_op _) = 82"
| "op_type (balances_withdraw_op _) = 88"
| "op_type (transaction_op _) = 90"
| "op_type (storage_op _) = 91"
| "op_type (event_op _) = 100"
| "op_type (on_destroy_op _) = 108"
| "op_type (on_upgrade_op _) = 109"
| "op_type on_call_success_op = 110"
| "op_type (update_transfer_config_op _) = 111"

definition with_operations :: "SignedTransaction \<Rightarrow> Operation list \<Rightarrow> SignedTransaction" where
  "with_operations t ops =
    SignedTransaction (expiration t) (reserved t) (alp_account t) (alp_inport_asset t) ops
      (result_trx_type t) (result_trx_id t) (signatures t)"

lemma with_operations_simps [simp]:
  "operations (with_operations t ops) = ops"
  "expiration (with_operations t ops) = expiration t"
  "signatures (with_operations t ops) = signatures t"
  "result_trx_type (with_operations t ops) = result_trx_type t"
  "result_trx_id (with_operations t ops) = result_trx_id t"
  "with_operations (with_operations t ops) ops' = with_operations t ops'"
  by (simp_all add: with_operations_def)

definition emplace_back :: "SignedTransaction \<Rightarrow> Operation \<Rightarrow> SignedTransaction" where
  "emplace_back t op = with_operations t (operations t @ [op])"

definition empty_transaction :: SignedTransaction where
  "empty_transaction = SignedTransaction 0 None '''' \<lparr>amount = 0, asset_id = 0\<rparr> [] origin_transaction 0 []"

text \<open>\<open>SignedTransaction::id\<close>: the hash \<open>trx_hash\<close> of the packed transaction without its result type and
  result id.\<close>

definition trx_id :: "(SignedTransaction \<Rightarrow> TransactionIdType) \<Rightarrow> SignedTransaction \<Rightarrow> TransactionIdType" where
  "trx_id trx_hash t =
    trx_hash (SignedTransaction (expiration t) (reserved t) (alp_account t) (alp_inport_asset t)
      (operations t) origin_transaction 0 (signatures t))"


section \<open>Builders of \<open>Transaction\<close>\<close>

definition push_transaction :: "SignedTransaction \<Rightarrow> SignedTransaction \<Rightarrow> SignedTransaction" where
  "push_transaction t trx = emplace_back t (transaction_op trx)"

definition push_storage_operation :: "SignedTransaction \<Rightarrow> StorageOperation \<Rightarrow> SignedTransaction" where
  "push_storage_operation t op = emplace_back t (storage_op op)"

definition push_event_operation :: "SignedTransaction \<Rightarrow> EventOperation \<Rightarrow> SignedTransaction" where
  "push_event_operation t op = emplace_back t (event_op op)"

definition push_balances_withdraw_operation :: "SignedTransaction \<Rightarrow> balance_map \<Rightarrow> SignedTransaction" where
  "push_balances_withdraw_operation t bs = emplace_back t (balances_withdraw_op bs)"

definition check_operations_legality :: "SignedTransaction \<Rightarrow> bool" where
  "check_operations_legality t =
    (let ops = operations t in
     if ops = [] then False
     else
       let has_contract_op = list_ex (\<lambda>op. op_type op \<ge> 70 \<and> op_type op \<le> 74) ops in
       if has_contract_op \<and> length ops \<noteq> 1 then False
       else case hd ops of
         transaction_op trx \<Rightarrow>
           if length (operations trx) \<noteq> 1 then False
           else if op_type (hd (operations trx)) \<noteq> 70 \<and> op_type (hd (operations trx)) \<noteq> 73 \<and>
             op_type (hd (operations trx)) \<noteq> 74 \<and> op_type (hd (operations trx)) \<noteq> 72 \<and>
             op_type (hd (operations trx)) \<noteq> 71
           then False else True
       | _ \<Rightarrow> \<not> list_ex (\<lambda>op. op_type op = 90) (tl ops))"

definition define_slate :: "SignedTransaction \<Rightarrow> AccountIdType list \<Rightarrow> SignedTransaction" where
  "define_slate t ids = with_operations t (define_slate_op ids # operations t)"

definition withdraw :: "SignedTransaction \<Rightarrow> BalanceIdType \<Rightarrow> ShareType \<Rightarrow> SignedTransaction result" where
  "withdraw t account amnt =
    (if \<not> amnt > 0 then Inl fc_assert
     else Inr (emplace_back t
       (withdraw_op \<lparr>wd_balance_id = account, wd_amount = amnt, claim_input_data = []\<rparr>)))"

definition trx_withdraw_from_contract ::
  "SignedTransaction \<Rightarrow> BalanceIdType \<Rightarrow> ShareType \<Rightarrow> ContractIdType \<Rightarrow> SignedTransaction result" where
  "trx_withdraw_from_contract t account amnt contract_id =
    (if \<not> amnt > 0 then Inl fc_assert
     else Inr (emplace_back t (withdraw_contract_op
       \<lparr>wcn_balance_id = account, wcn_amount = amnt, wcn_contract = contract_id\<rparr>)))"

definition withdraw_pay :: "SignedTransaction \<Rightarrow> AccountIdType \<Rightarrow> ShareType \<Rightarrow> SignedTransaction result" where
  "withdraw_pay t account amnt =
    (if \<not> amnt > 0 then Inl fc_assert
     else Inr (emplace_back t (withdraw_pay_op \<lparr>wp_amount = amnt, wp_account_id = account\<rparr>)))"

text \<open>\<open>DepositOperation(owner, amount, slate)\<close>: a signature condition of the common balance type.\<close>

definition DepositOperation_of :: "Address \<Rightarrow> Asset \<Rightarrow> SlateIdType \<Rightarrow> DepositOperation result" where
  "DepositOperation_of owner amnt slate_id =
    (if \<not> amount amnt > 0 then Inl fc_assert
     else Inr \<lparr>dp_amount = amount amnt,
       dp_condition = signature_condition owner (asset_id amnt) slate_id withdraw_common_type\<rparr>)"

definition deposit :: "SignedTransaction \<Rightarrow> Address \<Rightarrow> Asset \<Rightarrow> SignedTransaction result" where
  "deposit t owner amnt =
    (if \<not> amount amnt > 0 then Inl fc_assert
     else bindE (DepositOperation_of owner amnt 0) (\<lambda>op. Inr (emplace_back t (deposit_op op))))"

definition deposit_multisig :: "SignedTransaction \<Rightarrow> MultisigMetaInfo \<Rightarrow> Asset \<Rightarrow> SignedTransaction result" where
  "deposit_multisig t info amnt =
    (if \<not> amount amnt > 0 then Inl fc_assert
     else Inr (emplace_back t (deposit_op
       \<lparr>dp_amount = amount amnt,
        dp_condition = \<lparr>wc_asset_id = asset_id amnt, wc_slate_id = 0,
          wc_balance_type = withdraw_common_type,
          wc_data = withdraw_multisig_type
            \<lparr>ms_required = mm_required info, ms_owners = mm_owners info, ms_memo = None\<rparr>\<rparr>\<rparr>)))"

text \<open>\<open>by_account\<close> and \<open>by_escrow\<close> are what the memo encryption returned.\<close>

definition deposit_to_account ::
  "SignedTransaction \<Rightarrow> WithdrawWithSignature \<Rightarrow> Asset \<Rightarrow> SignedTransaction" where
  "deposit_to_account t by_account amnt = emplace_back t (deposit_op
     \<lparr>dp_amount = amount amnt,
      dp_condition = \<lparr>wc_asset_id = asset_id amnt, wc_slate_id = 0,
        wc_balance_type = withdraw_common_type, wc_data = withdraw_signature_type by_account\<rparr>\<rparr>)"

definition deposit_to_escrow ::
  "SignedTransaction \<Rightarrow> withdraw_with_escrow \<Rightarrow> Address \<Rightarrow> DigestType \<Rightarrow> Asset \<Rightarrow> SignedTransaction" where
  "deposit_to_escrow t by_escrow escrow_key agreement amnt = emplace_back t (deposit_op
     \<lparr>dp_amount = amount amnt,
      dp_condition = \<lparr>wc_asset_id = asset_id amnt, wc_slate_id = 0,
        wc_balance_type = withdraw_common_type,
        wc_data = withdraw_escrow_type
          (by_escrow\<lparr>escrow := escrow_key, agreement_digest := agreement\<rparr>)\<rparr>\<rparr>)"

definition release_escrow ::
  "SignedTransaction \<Rightarrow> Address \<Rightarrow> Address \<Rightarrow> ShareType \<Rightarrow> ShareType \<Rightarrow> SignedTransaction" where
  "release_escrow t escrow_account by to_sender to_receiver = emplace_back t (release_escrow_op
     \<lparr>escrow_id = escrow_account, released_by = by, amount_to_receiver = to_receiver,
      amount_to_sender = to_sender\<rparr>)"

definition register_account ::
  "SignedTransaction \<Rightarrow> string \<Rightarrow> variant \<Rightarrow> PublicKeyType \<Rightarrow> PublicKeyType \<Rightarrow> 8 word \<Rightarrow>
   AccountMetaInfo option \<Rightarrow> SignedTransaction" where
  "register_account t name public_data master active rate info = emplace_back t (register_account_op
     \<lparr>ra_name = name, ra_public_data = public_data, ra_owner_key = master, ra_active_key = active,
      ra_delegate_pay_rate = rate, ra_meta_data = info\<rparr>)"

definition update_account ::
  "SignedTransaction \<Rightarrow> AccountIdType \<Rightarrow> 8 word \<Rightarrow> variant option \<Rightarrow> PublicKeyType option \<Rightarrow>
   SignedTransaction" where
  "update_account t account rate public_data active = emplace_back t (update_account_op
     \<lparr>ua_account_id = account, ua_public_data = public_data, ua_active_key = active,
      ua_delegate_pay_rate = rate\<rparr>)"

definition create_asset ::
  "SignedTransaction \<Rightarrow> string \<Rightarrow> string \<Rightarrow> string \<Rightarrow> variant \<Rightarrow> AccountIdType \<Rightarrow> ShareType \<Rightarrow> nat \<Rightarrow>
   SignedTransaction result" where
  "create_asset t symbol name description data issuer_id max_share_supply precision =
    (if \<not> max_share_supply > 0 then Inl fc_assert
     else if \<not> max_share_supply \<le> ALP_BLOCKCHAIN_MAX_SHARES then Inl fc_assert
     else Inr (emplace_back t (create_asset_op
       \<lparr>ca_symbol = symbol, ca_name = name, ca_description = description, ca_public_data = data,
        ca_issuer_account_id = issuer_id, ca_maximum_share_supply = max_share_supply,
        ca_precision = precision\<rparr>)))"

definition call_contract ::
  "SignedTransaction \<Rightarrow> ContractIdType \<Rightarrow> string \<Rightarrow> string \<Rightarrow> PublicKeyType \<Rightarrow> Asset \<Rightarrow> Asset \<Rightarrow>
   balance_map \<Rightarrow> SignedTransaction" where
  "call_contract t contract meth arguments caller costlimit fee balances =
    emplace_back t (call_contract_op
      \<lparr>cc_caller = caller, cc_balances = balances, cc_contract = contract, cc_costlimit = costlimit,
       cc_transaction_fee = fee, cc_method = meth, cc_args = arguments\<rparr>)"

definition issue :: "SignedTransaction \<Rightarrow> Asset \<Rightarrow> SignedTransaction" where
  "issue t amount_to_issue = emplace_back t (issue_asset_op amount_to_issue)"

definition update_signing_key :: "SignedTransaction \<Rightarrow> AccountIdType \<Rightarrow> PublicKeyType \<Rightarrow> SignedTransaction" where
  "update_signing_key t account key =
    emplace_back t (update_signing_key_op \<lparr>usk_account_id = account, usk_signing_key = key\<rparr>)"

definition update_balance_vote :: "SignedTransaction \<Rightarrow> BalanceIdType \<Rightarrow> Address option \<Rightarrow> SignedTransaction" where
  "update_balance_vote t balance owner = emplace_back t (update_balance_vote_op
     \<lparr>ubv_balance_id = balance, new_restricted_owner = owner, new_slate = 0\<rparr>)"

text \<open>One iteration of the loop of \<open>set_slates\<close>.\<close>

definition set_slate_op :: "SlateIdType \<Rightarrow> Operation \<Rightarrow> Operation" where
  "set_slate_op slate_id op =
    (case op of
       deposit_op d \<Rightarrow>
         if wc_asset_id (dp_condition d) = 0
         then deposit_op (d\<lparr>dp_condition := (dp_condition d)\<lparr>wc_slate_id := slate_id\<rparr>\<rparr>)
         else op
     | update_balance_vote_op u \<Rightarrow> update_balance_vote_op (u\<lparr>new_slate := slate_id\<rparr>)
     | _ \<Rightarrow> op)"

fun set_slates_from :: "nat \<Rightarrow> nat \<Rightarrow> SlateIdType \<Rightarrow> Operation list \<Rightarrow> Operation list" where
  "set_slates_from 0 i slate_id ops = ops"
| "set_slates_from (Suc n) i slate_id ops =
    set_slates_from n (Suc i) slate_id (ops[i := set_slate_op slate_id (ops ! i)])"

definition set_slates :: "SignedTransaction \<Rightarrow> SlateIdType \<Rightarrow> SignedTransaction" where
  "set_slates t slate_id =
    with_operations t (set_slates_from (length (operations t)) 0 slate_id (operations t))"

definition AddtionImessage :: "SignedTransaction \<Rightarrow> string \<Rightarrow> SignedTransaction" where
  "AddtionImessage t imessage = emplace_back t (imessage_memo_op imessage)"

definition upgrade_contract ::
  "SignedTransaction \<Rightarrow> ContractIdType \<Rightarrow> string \<Rightarrow> string \<Rightarrow> Asset \<Rightarrow> Asset \<Rightarrow> balance_map \<Rightarrow>
   SignedTransaction" where
  "upgrade_contract t contract name desc execlimit fee balances = emplace_back t (upgrade_contract_op
     \<lparr>ug_id = contract, ug_name = name, ug_desc = desc, ug_exec_limit = execlimit,
      ug_transaction_fee = fee, ug_balances = balances\<rparr>)"

definition destroy_contract ::
  "SignedTransaction \<Rightarrow> ContractIdType \<Rightarrow> Asset \<Rightarrow> Asset \<Rightarrow> balance_map \<Rightarrow> SignedTransaction" where
  "destroy_contract t contract exec_limit fee balances = emplace_back t (destroy_contract_op
     \<lparr>dc_id = contract, dc_exec_limit = exec_limit, dc_transaction_fee = fee, dc_balances = balances\<rparr>)"


section \<open>Properties\<close>

text \<open>The five operations that run or change a contract.\<close>

definition contract_kind :: "Operation \<Rightarrow> bool" where
  "contract_kind op \<longleftrightarrow> 70 \<le> op_type op \<and> op_type op \<le> 74"

lemma contract_kind_alt:
  "(op_type op \<noteq> 70 \<and> op_type op \<noteq> 73 \<and> op_type op \<noteq> 74 \<and> op_type op \<noteq> 72 \<and> op_type op \<noteq> 71) \<longleftrightarrow>
    \<not> contract_kind op"
  by (auto simp: contract_kind_def)

lemma op_type_transaction: "op_type op = 90 \<longleftrightarrow> (\<exists>trx. op = transaction_op trx)"
  by (cases op) auto



lemma set_slates_from_map:
  "i + n = length ops \<Longrightarrow>
    set_slates_from n i s ops = take i ops @ map (set_slate_op s) (drop i ops)"
proof (induction n arbitrary: i ops)
  case (Suc n)
  then have "i < length ops" by simp
  with Suc show ?case
    by (simp add: take_Suc_conv_app_nth Cons_nth_drop_Suc [symmetric] drop_update_cancel)
qed simp

lemma set_slate_op_idem: "set_slate_op s (set_slate_op s' op) = set_slate_op s op"
  by (cases op) (simp_all add: set_slate_op_def)

text \<open>Setting the voting slate rewrites every operation in place: the slate of each deposit of the
  base asset and of each vote update, nothing else, and a later call replaces an earlier one.\<close>

lemma set_slates_pointwise:
  "operations (set_slates t s) = map (set_slate_op s) (operations t) \<and>
   set_slates (set_slates t s') s = set_slates t s"
  by (simp add: set_slates_def set_slates_from_map set_slate_op_idem comp_def)

end
