(* ===== verification/Blocks.thy ===== *)
theory Blocks
  imports Transactions
begin

text \<open>
  Blocks (\<open>Block.hpp\<close>, \<open>Block.cpp\<close>) and block slots (\<open>Time.cpp\<close>). A block number packs the index
  of the producing node into the upper 16 bits and the number of blocks that node has produced into
  the lower 48; a \<open>FullBlock\<close> names its parents, so that blocks form a graph. Hashes of packed data
  are arguments: \<open>trx_hash\<close> (transaction ids), \<open>ids_hash\<close> (lists of ids), \<open>hdr_hash\<close> and
  \<open>hdr_digest\<close> (block headers).
\<close>

unbundle bit_operations_syntax

section \<open>Block numbers\<close>

definition BlockNumberType :: "64 word \<Rightarrow> 16 word \<Rightarrow> 64 word" where
  "BlockNumberType num node = (push_bit 48 (ucast node)) OR (take_bit 48 num)"

definition node_index :: "64 word \<Rightarrow> 16 word" where
  "node_index num = ucast (drop_bit 48 num)"

definition produced :: "64 word \<Rightarrow> 64 word" where
  "produced num = take_bit 48 num"


section \<open>Block structures\<close>

record BlockHeader =
  block_num :: "64 word"
  rank :: "64 word"
  timestamp :: time_point_sec
  transaction_digest :: DigestType
  parent_digest :: DigestType

record SignedBlockHeader = BlockHeader +
  delegate_signature :: SignatureType

record FullBlock = SignedBlockHeader +
  parents :: "BlockIdType list"
  childs :: "BlockIdType list"
  user_transactions :: "SignedTransaction list"

record DigestBlock = SignedBlockHeader +
  user_transaction_ids :: "TransactionIdType list"
  parent_block_ids :: "BlockIdType list"

definition nodeindex :: "'a BlockHeader_scheme \<Rightarrow> 16 word" where
  "nodeindex b = node_index (block_num b)"

definition header_produced :: "'a BlockHeader_scheme \<Rightarrow> 64 word" where
  "header_produced b = produced (block_num b)"

definition existChild :: "FullBlock \<Rightarrow> BlockIdType \<Rightarrow> bool" where
  "existChild b child = list_ex (\<lambda>ch. ch = child) (childs b)"

definition existParent :: "FullBlock \<Rightarrow> BlockIdType \<Rightarrow> bool" where
  "existParent b parent = list_ex (\<lambda>ch. ch = parent) (parents b)"

text \<open>\<open>SignedBlockHeader::id\<close> hashes the header part of a block; a block converts to its header.\<close>

definition header_of :: "'a SignedBlockHeader_scheme \<Rightarrow> SignedBlockHeader" where
  "header_of b =
    \<lparr>block_num = block_num b, rank = rank b, timestamp = timestamp b,
     transaction_digest = transaction_digest b, parent_digest = parent_digest b,
     delegate_signature = delegate_signature b\<rparr>"

definition block_id :: "(SignedBlockHeader \<Rightarrow> BlockIdType) \<Rightarrow> 'a SignedBlockHeader_scheme \<Rightarrow> BlockIdType" where
  "block_id hdr_hash b = hdr_hash (header_of b)"

definition DigestBlock_of :: "(SignedTransaction \<Rightarrow> TransactionIdType) \<Rightarrow> FullBlock \<Rightarrow> DigestBlock" where
  "DigestBlock_of trx_hash b =
    \<lparr>block_num = block_num b, rank = rank b, timestamp = timestamp b,
     transaction_digest = transaction_digest b, parent_digest = parent_digest b,
     delegate_signature = delegate_signature b,
     user_transaction_ids = map (trx_id trx_hash) (user_transactions b),
     parent_block_ids = parents b\<rparr>"

definition calculate_transaction_digest :: "(160 word list \<Rightarrow> DigestType) \<Rightarrow> DigestBlock \<Rightarrow> DigestType" where
  "calculate_transaction_digest ids_hash b = ids_hash (user_transaction_ids b)"

definition calculate_parent_digest :: "(160 word list \<Rightarrow> DigestType) \<Rightarrow> DigestBlock \<Rightarrow> DigestType" where
  "calculate_parent_digest ids_hash b = ids_hash (parent_block_ids b)"

definition validate_digest :: "(160 word list \<Rightarrow> DigestType) \<Rightarrow> DigestBlock \<Rightarrow> bool" where
  "validate_digest ids_hash b \<longleftrightarrow> calculate_transaction_digest ids_hash b = transaction_digest b"

definition validate_parent_digest :: "(160 word list \<Rightarrow> DigestType) \<Rightarrow> DigestBlock \<Rightarrow> bool" where
  "validate_parent_digest ids_hash b \<longleftrightarrow> calculate_parent_digest ids_hash b = parent_digest b"

text \<open>The loop of \<open>validate_unique\<close> and \<open>validate_parent_unique\<close>: insert each id into a set and stop at
  the first one that was there.\<close>

fun unique_from :: "'a list \<Rightarrow> 'a list \<Rightarrow> bool" where
  "unique_from seen [] = True"
| "unique_from seen (x # ids) = (if x \<in> set seen then False else unique_from (x # seen) ids)"

definition validate_unique :: "DigestBlock \<Rightarrow> bool" where
  "validate_unique b = unique_from [] (user_transaction_ids b)"

definition validate_parent_unique :: "DigestBlock \<Rightarrow> bool" where
  "validate_parent_unique b = unique_from [] (parent_block_ids b)"


section \<open>Slots\<close>

text \<open>The quotient and the product are taken in \<open>int64_t\<close> and stored in a \<open>uint32_t\<close>.\<close>

definition get_slot_number :: "time_point_sec \<Rightarrow> 32 word" where
  "get_slot_number ts = word_of_int (uint ts div ALP_BLOCKCHAIN_BLOCK_INTERVAL_SEC)"

definition get_slot_start_time :: "32 word \<Rightarrow> time_point_sec" where
  "get_slot_start_time slot_number = word_of_int (uint slot_number * ALP_BLOCKCHAIN_BLOCK_INTERVAL_SEC)"

definition get_slot_start_time_of :: "time_point_sec \<Rightarrow> time_point_sec" where
  "get_slot_start_time_of ts = get_slot_start_time (get_slot_number ts)"


section \<open>Properties\<close>

lemma unique_from_iff: "unique_from seen ids \<longleftrightarrow> distinct ids \<and> set ids \<inter> set seen = {}"
  by (induction ids arbitrary: seen) auto

lemma block_number_parts:
  "node_index (BlockNumberType num node) = node" "produced (BlockNumberType num node) = take_bit 48 num"
  by (simp_all add: node_index_def produced_def BlockNumberType_def)
    (rule bit_word_eqI, auto simp: bit_simps)+

text \<open>C39: A block number keeps its two parts apart: packing a production count below \<open>2^48\<close> and a node
  index and unpacking them gives both back, and every 64-bit number is the packing of its parts, so
  two numbers with equal parts are equal.\<close>

theorem block_number_round_trip:
  "node_index (BlockNumberType num node) = node \<and>
   produced (BlockNumberType num node) = take_bit 48 num \<and>
   BlockNumberType (produced n) (node_index n) = n"
  by (simp add: block_number_parts, simp add: node_index_def produced_def BlockNumberType_def)
    (rule bit_word_eqI, auto simp: bit_simps)

text \<open>The slot of a time starts at the largest multiple of the 6-second interval that is not after
  the time, less than one interval before it, and a slot's start lies in that slot; no wrap-around
  occurs for any 32-bit time.\<close>

theorem slot_start_time_bounds:
  "uint (get_slot_start_time_of ts) \<le> uint ts \<and>
   uint ts < uint (get_slot_start_time_of ts) + 6 \<and>
   6 dvd uint (get_slot_start_time_of ts) \<and>
   get_slot_number (get_slot_start_time_of ts) = get_slot_number ts"
proof -
  have b: "0 \<le> uint ts" "uint ts < 4294967296" using uint_lt2p [of ts] by simp_all
  have d: "0 \<le> uint ts div 6" "uint ts div 6 < 4294967296" "uint ts div 6 * 6 < 4294967296"
    using b by linarith+
  have q: "uint (get_slot_number ts) = uint ts div 6"
    using d by (simp add: get_slot_number_def config_defs uint_word_of_int)
  have s: "uint (get_slot_start_time_of ts) = uint ts div 6 * 6"
    using d unfolding get_slot_start_time_of_def get_slot_start_time_def q config_defs
    by (simp only: uint_word_of_int) (simp add: mod_pos_pos_trivial)
  have "uint ts div 6 * 6 \<le> uint ts" "uint ts < uint ts div 6 * 6 + 6" by linarith+
  then show ?thesis unfolding s by (simp add: get_slot_number_def s config_defs)
qed

text \<open>The uniqueness checks of a block accept exactly the blocks whose transaction ids (parent ids)
  are pairwise different.\<close>

lemma validate_unique_iff_distinct:
  "validate_unique b = distinct (user_transaction_ids b) \<and>
   validate_parent_unique b = distinct (parent_block_ids b)"
  by (simp add: validate_unique_def validate_parent_unique_def unique_from_iff)

end
