(* ===== verification/Chain_State.thy ===== *)
theory Chain_State
  imports Blocks
begin

text \<open>
  The chain state: the maps of the database (\<open>ChainDatabaseImpl.hpp\<close>, \<open>ChainDatabase.cpp\<close>), the
  pending overlay (\<open>PendingChainState\<close>) and the entry functions \<open>lookup\<close>, \<open>store\<close> and \<open>remove\<close>
  (\<open>*Entry.cpp\<close>) that work on either through the virtual methods of \<open>ChainInterface\<close>.

  A value of type \<open>chain\<close> is an object behind a \<open>ChainInterfacePtr\<close>: the database, or an overlay with
  the state it was created on (\<open>_prev_state\<close>, absent when the weak pointer is empty). For each virtual
  method the definition with prefix \<open>cd_\<close> is the method of \<open>ChainDatabase\<close>, the one with prefix
  \<open>ps_\<close> the method of \<open>PendingChainState\<close>, and the one without prefix the virtual call.

  A store or removal that throws has no resulting state: every caller drops the overlay it was
  working on when an exception leaves it.
\<close>

section \<open>The environment\<close>

text \<open>Code outside the repository and process-wide values: hash and key functions of \<open>fc\<close>, the clock,
  and the values that \<open>get_chain_id\<close> (inside the digest) and \<open>get_statistics_enabled\<close> keep in a
  function-local \<open>static\<close> after their first call.\<close>

record env =
  env_addr_of :: "PublicKeyType \<Rightarrow> Address"
  env_pts_addr :: "PublicKeyType \<Rightarrow> bool \<Rightarrow> nat \<Rightarrow> Address"
  env_cond_addr :: "WithdrawCondition \<Rightarrow> Address"
  env_slate_hash :: "AccountIdType list \<Rightarrow> SlateIdType"
  env_trx_hash :: "SignedTransaction \<Rightarrow> TransactionIdType"
  env_trx_digest :: "SignedTransaction \<Rightarrow> DigestType"
  env_recover :: "SignatureType \<Rightarrow> DigestType \<Rightarrow> bool \<Rightarrow> PublicKeyType result"
  env_data_size :: "SignedTransaction \<Rightarrow> nat"
  env_now :: time_point_sec
  env_statistics_enabled :: bool


section \<open>Evaluation states and transaction entries\<close>

text \<open>\<open>TransactionEvaluationState\<close> without the pointer \<open>_current_state\<close>, which the evaluation
  functions take and return next to it.\<close>

record TransactionEvaluationState =
  trx :: SignedTransaction
  signed_keys :: "Address list"
  validation_error :: "error option"
  deposits :: "(AssetIdType \<times> ShareType) list"
  withdraws :: "(AssetIdType \<times> ShareType) list"
  yield_map :: "(AssetIdType \<times> ShareType) list"
  deposit_behavior :: "BalanceIdType \<times> ShareType"
  deltas :: "(nat \<times> (AssetIdType \<times> ShareType) list) list"
  required_fees :: Asset
  total_withdraw :: Asset
  alt_fees_paid :: Asset
  balance :: "(AssetIdType \<times> ShareType) list"
  delegate_vote_deltas :: "(AccountIdType \<times> ShareType) list"
  imessage_length :: nat
  skip_signature_check :: bool
  enforce_canonical_signatures :: bool
  skip_vote_adjustment :: bool
  max_fee :: "(AssetIdType \<times> ShareType) list"
  evaluate_contract_testing :: bool
  p_result_trx :: SignedTransaction
  current_op_index :: nat
  skipexec :: bool
  throw_exec_exception :: bool
  exec_cost :: Asset
  contract_operator :: PublicKeyType
  evaluate_contract_result :: bool
  event_vector :: "EventOperation list"
  contract_balance_remain :: "ShareType list"
  withdrawed_contract_balance :: "BalanceIdType list"
  owner_balance_not_usedup :: "Address list"
  deposit_address :: "Address list"
  deposit_count :: int

record TransactionLocation =
  loc_block_num :: "64 word"
  loc_trx_num :: "32 word"

record TransactionEntry =
  te_state :: TransactionEvaluationState
  chain_location :: TransactionLocation

record ResultTIdEntry = res :: TransactionIdType
record RequestIdEntry = req :: TransactionIdType
record ContractTrxEntry = cte_trx_id :: TransactionIdType
record ContractinTrxEntry = cie_contract_id :: ContractIdType


section \<open>The pending overlay and the database\<close>

record pending_state =
  ps_property_id_to_entry :: "(PropertyIdType \<times> PropertyEntry) list"
  ps_property_id_remove :: "PropertyIdType list"
  ps_account_id_to_entry :: "(AccountIdType \<times> AccountEntry) list"
  ps_account_id_remove :: "AccountIdType list"
  ps_account_name_to_id :: "(string \<times> AccountIdType) list"
  ps_account_address_to_id :: "(Address \<times> AccountIdType) list"
  ps_asset_id_to_entry :: "(AssetIdType \<times> AssetEntry) list"
  ps_asset_id_remove :: "AssetIdType list"
  ps_asset_symbol_to_id :: "(string \<times> AssetIdType) list"
  ps_slate_id_to_entry :: "(SlateIdType \<times> SlateEntry) list"
  ps_slate_id_remove :: "SlateIdType list"
  ps_balance_id_to_entry :: "(BalanceIdType \<times> BalanceEntry) list"
  ps_balance_id_remove :: "BalanceIdType list"
  ps_transaction_id_to_entry :: "(TransactionIdType \<times> TransactionEntry) list"
  ps_transaction_id_remove :: "TransactionIdType list"
  ps_transaction_digests :: "DigestType list"
  ps_slot_index_to_entry :: "(SlotIndex \<times> SlotEntry) list"
  ps_slot_index_remove :: "SlotIndex list"
  ps_slot_timestamp_to_delegate :: "(time_point_sec \<times> AccountIdType) list"
  ps_contract_id_to_entry :: "(ContractIdType \<times> ContractEntry) list"
  ps_contract_id_remove :: "ContractIdType list"
  ps_contract_name_to_id :: "(ContractName \<times> ContractIdType) list"
  ps_contract_id_to_storage :: "(ContractIdType \<times> ContractStorageEntry) list"
  ps_request_id_to_result_id :: "(TransactionIdType \<times> ResultTIdEntry) list"
  ps_req_to_res_to_remove :: "TransactionIdType list"
  ps_result_id_to_request_id :: "(TransactionIdType \<times> RequestIdEntry) list"
  ps_res_to_req_to_remove :: "TransactionIdType list"
  ps_trx_to_contract_id :: "(TransactionIdType \<times> ContractinTrxEntry) list"
  ps_trx_to_contract_id_remove :: "TransactionIdType list"
  ps_contract_to_trx_id :: "(ContractIdType \<times> ContractTrxEntry) list"
  ps_contract_to_trx_id_remove :: "ContractIdType list"

record chain_database =
  db_property_id_to_entry :: "(PropertyIdType \<times> PropertyEntry) list"
  db_account_id_to_entry :: "(AccountIdType \<times> AccountEntry) list"
  db_account_name_to_id :: "(string \<times> AccountIdType) list"
  db_account_address_to_id :: "(Address \<times> AccountIdType) list"
  db_delegate_votes :: "VoteDel list"
  db_asset_id_to_entry :: "(AssetIdType \<times> AssetEntry) list"
  db_asset_symbol_to_id :: "(string \<times> AssetIdType) list"
  db_slate_id_to_entry :: "(SlateIdType \<times> SlateEntry) list"
  db_balance_id_to_entry :: "(BalanceIdType \<times> BalanceEntry) list"
  db_transaction_id_to_entry :: "(TransactionIdType \<times> TransactionEntry) list"
  db_unique_transactions :: "(time_point_sec \<times> DigestType) list"
  db_address_to_transaction_ids :: "(Address \<times> TransactionIdType list) list"
  db_slot_index_to_entry :: "(SlotIndex \<times> SlotEntry) list"
  db_slot_timestamp_to_delegate :: "(time_point_sec \<times> AccountIdType) list"
  db_recent_operations :: "(nat \<times> Operation list) list"
  db_contract_id_to_entry :: "(ContractIdType \<times> ContractEntry) list"
  db_contract_id_to_storage :: "(ContractIdType \<times> ContractStorageEntry) list"
  db_contract_name_to_id :: "(ContractName \<times> ContractIdType) list"
  db_request_to_result_id :: "(TransactionIdType \<times> ResultTIdEntry) list"
  db_result_to_request_id :: "(TransactionIdType \<times> RequestIdEntry) list"
  db_trx_to_contract_id :: "(TransactionIdType \<times> ContractinTrxEntry) list"
  db_contract_to_trx_id :: "(ContractIdType \<times> ContractTrxEntry) list"
  db_head_block_header :: SignedBlockHeader

datatype chain = ChainDatabase chain_database | PendingChainState pending_state "chain option"

definition empty_pending_state :: pending_state where
  "empty_pending_state =
    \<lparr>ps_property_id_to_entry = [], ps_property_id_remove = [], ps_account_id_to_entry = [],
     ps_account_id_remove = [], ps_account_name_to_id = [], ps_account_address_to_id = [],
     ps_asset_id_to_entry = [], ps_asset_id_remove = [], ps_asset_symbol_to_id = [],
     ps_slate_id_to_entry = [], ps_slate_id_remove = [], ps_balance_id_to_entry = [],
     ps_balance_id_remove = [], ps_transaction_id_to_entry = [], ps_transaction_id_remove = [],
     ps_transaction_digests = [], ps_slot_index_to_entry = [], ps_slot_index_remove = [],
     ps_slot_timestamp_to_delegate = [], ps_contract_id_to_entry = [], ps_contract_id_remove = [],
     ps_contract_name_to_id = [], ps_contract_id_to_storage = [], ps_request_id_to_result_id = [],
     ps_req_to_res_to_remove = [], ps_result_id_to_request_id = [], ps_res_to_req_to_remove = [],
     ps_trx_to_contract_id = [], ps_trx_to_contract_id_remove = [], ps_contract_to_trx_id = [],
     ps_contract_to_trx_id_remove = []\<rparr>"

text \<open>A virtual call that changes the object.\<close>

definition on_chain ::
  "(chain_database \<Rightarrow> chain_database) \<Rightarrow> (pending_state \<Rightarrow> pending_state) \<Rightarrow> chain \<Rightarrow> chain" where
  "on_chain f g ch =
    (case ch of ChainDatabase d \<Rightarrow> ChainDatabase (f d)
     | PendingChainState s prev \<Rightarrow> PendingChainState (g s) prev)"

text \<open>The three cases of a lookup in an overlay: stored in it, removed in it, or left to the previous
  state.\<close>

definition overlay :: "('k \<times> 'v) list \<Rightarrow> 'k list \<Rightarrow> ('k \<Rightarrow> 'v option) option \<Rightarrow> 'k \<Rightarrow> 'v option" where
  "overlay stored removed prev k =
    (case map_of stored k of
       Some v \<Rightarrow> Some v
     | None \<Rightarrow> if k \<in> set removed then None
               else (case prev of None \<Rightarrow> None | Some f \<Rightarrow> f k))"

definition get_head_block_num_db :: "chain_database \<Rightarrow> 64 word" where
  "get_head_block_num_db d = block_num (db_head_block_header d)"

fun get_head_block_num :: "chain \<Rightarrow> 64 word" where
  "get_head_block_num (ChainDatabase d) = get_head_block_num_db d"
| "get_head_block_num (PendingChainState s prev) =
    (case prev of None \<Rightarrow> 1 | Some p \<Rightarrow> get_head_block_num p)"

fun get_head_block_timestamp :: "chain \<Rightarrow> time_point_sec" where
  "get_head_block_timestamp (ChainDatabase d) = timestamp (db_head_block_header d)"
| "get_head_block_timestamp (PendingChainState s prev) =
    (case prev of None \<Rightarrow> 0 | Some p \<Rightarrow> get_head_block_timestamp p)"



section \<open>Properties\<close>

definition cd_property_lookup_by_id :: "chain_database \<Rightarrow> PropertyIdType \<Rightarrow> PropertyEntry option" where
  "cd_property_lookup_by_id d k = map_of (db_property_id_to_entry d) k"

definition ps_property_lookup_by_id ::
  "pending_state \<Rightarrow> (PropertyIdType \<Rightarrow> PropertyEntry option) option \<Rightarrow> PropertyIdType \<Rightarrow> PropertyEntry option" where
  "ps_property_lookup_by_id s prev k = overlay (ps_property_id_to_entry s) (ps_property_id_remove s) prev k"

fun property_lookup_by_id :: "chain \<Rightarrow> PropertyIdType \<Rightarrow> PropertyEntry option" where
  "property_lookup_by_id (ChainDatabase d) k = cd_property_lookup_by_id d k"
| "property_lookup_by_id (PendingChainState s prev) k = ps_property_lookup_by_id s (map_option property_lookup_by_id prev) k"

definition cd_property_insert_into_id_map :: "PropertyIdType \<Rightarrow> PropertyEntry \<Rightarrow> chain_database \<Rightarrow> chain_database" where
  "cd_property_insert_into_id_map k v d = d\<lparr>db_property_id_to_entry := AList.update k v (db_property_id_to_entry d)\<rparr>"

definition ps_property_insert_into_id_map :: "PropertyIdType \<Rightarrow> PropertyEntry \<Rightarrow> pending_state \<Rightarrow> pending_state" where
  "ps_property_insert_into_id_map k v s =
    s\<lparr>ps_property_id_remove := removeAll k (ps_property_id_remove s),
      ps_property_id_to_entry := AList.update k v (ps_property_id_to_entry s)\<rparr>"

definition property_insert_into_id_map :: "PropertyIdType \<Rightarrow> PropertyEntry \<Rightarrow> chain \<Rightarrow> chain" where
  "property_insert_into_id_map k v = on_chain (cd_property_insert_into_id_map k v) (ps_property_insert_into_id_map k v)"

definition cd_property_erase_from_id_map :: "PropertyIdType \<Rightarrow> chain_database \<Rightarrow> chain_database" where
  "cd_property_erase_from_id_map k d = d\<lparr>db_property_id_to_entry := AList.delete k (db_property_id_to_entry d)\<rparr>"

definition ps_property_erase_from_id_map :: "PropertyIdType \<Rightarrow> pending_state \<Rightarrow> pending_state" where
  "ps_property_erase_from_id_map k s =
    s\<lparr>ps_property_id_to_entry := AList.delete k (ps_property_id_to_entry s),
      ps_property_id_remove := set_insert k (ps_property_id_remove s)\<rparr>"

definition property_erase_from_id_map :: "PropertyIdType \<Rightarrow> chain \<Rightarrow> chain" where
  "property_erase_from_id_map k = on_chain (cd_property_erase_from_id_map k) (ps_property_erase_from_id_map k)"


section \<open>Accounts\<close>

definition cd_account_lookup_by_id :: "chain_database \<Rightarrow> AccountIdType \<Rightarrow> AccountEntry option" where
  "cd_account_lookup_by_id d k = map_of (db_account_id_to_entry d) k"

definition ps_account_lookup_by_id ::
  "pending_state \<Rightarrow> (AccountIdType \<Rightarrow> AccountEntry option) option \<Rightarrow> AccountIdType \<Rightarrow> AccountEntry option" where
  "ps_account_lookup_by_id s prev k = overlay (ps_account_id_to_entry s) (ps_account_id_remove s) prev k"

fun account_lookup_by_id :: "chain \<Rightarrow> AccountIdType \<Rightarrow> AccountEntry option" where
  "account_lookup_by_id (ChainDatabase d) k = cd_account_lookup_by_id d k"
| "account_lookup_by_id (PendingChainState s prev) k = ps_account_lookup_by_id s (map_option account_lookup_by_id prev) k"

definition cd_account_lookup_by_name :: "chain_database \<Rightarrow> string \<Rightarrow> AccountEntry option" where
  "cd_account_lookup_by_name d k =
    (case map_of (db_account_name_to_id d) k of Some i \<Rightarrow> cd_account_lookup_by_id d i | None \<Rightarrow> None)"

definition ps_account_lookup_by_name ::
  "pending_state \<Rightarrow> (string \<Rightarrow> AccountEntry option result) option \<Rightarrow> string \<Rightarrow> AccountEntry option result" where
  "ps_account_lookup_by_name s prev k =
    (case map_of (ps_account_name_to_id s) k of
       Some i \<Rightarrow> bindE (map_at (ps_account_id_to_entry s) i) (\<lambda>e. Inr (Some e))
     | None \<Rightarrow>
        (case prev of
           None \<Rightarrow> Inr None
         | Some f \<Rightarrow> bindE (f k) (\<lambda>entry.
             case entry of
               Some e \<Rightarrow> if ac_id e \<notin> set (ps_account_id_remove s) then Inr (Some e) else Inr None
             | None \<Rightarrow> Inr None)))"

fun account_lookup_by_name :: "chain \<Rightarrow> string \<Rightarrow> AccountEntry option result" where
  "account_lookup_by_name (ChainDatabase d) k = Inr (cd_account_lookup_by_name d k)"
| "account_lookup_by_name (PendingChainState s prev) k = ps_account_lookup_by_name s (map_option account_lookup_by_name prev) k"

definition cd_account_lookup_by_address :: "chain_database \<Rightarrow> Address \<Rightarrow> AccountEntry option" where
  "cd_account_lookup_by_address d k =
    (case map_of (db_account_address_to_id d) k of Some i \<Rightarrow> cd_account_lookup_by_id d i | None \<Rightarrow> None)"

definition ps_account_lookup_by_address ::
  "pending_state \<Rightarrow> (Address \<Rightarrow> AccountEntry option result) option \<Rightarrow> Address \<Rightarrow> AccountEntry option result" where
  "ps_account_lookup_by_address s prev k =
    (case map_of (ps_account_address_to_id s) k of
       Some i \<Rightarrow> bindE (map_at (ps_account_id_to_entry s) i) (\<lambda>e. Inr (Some e))
     | None \<Rightarrow>
        (case prev of
           None \<Rightarrow> Inr None
         | Some f \<Rightarrow> bindE (f k) (\<lambda>entry.
             case entry of
               Some e \<Rightarrow> if ac_id e \<notin> set (ps_account_id_remove s) then Inr (Some e) else Inr None
             | None \<Rightarrow> Inr None)))"

fun account_lookup_by_address :: "chain \<Rightarrow> Address \<Rightarrow> AccountEntry option result" where
  "account_lookup_by_address (ChainDatabase d) k = Inr (cd_account_lookup_by_address d k)"
| "account_lookup_by_address (PendingChainState s prev) k = ps_account_lookup_by_address s (map_option account_lookup_by_address prev) k"

definition cd_account_insert_into_id_map :: "AccountIdType \<Rightarrow> AccountEntry \<Rightarrow> chain_database \<Rightarrow> chain_database" where
  "cd_account_insert_into_id_map k v d = d\<lparr>db_account_id_to_entry := AList.update k v (db_account_id_to_entry d)\<rparr>"

definition ps_account_insert_into_id_map :: "AccountIdType \<Rightarrow> AccountEntry \<Rightarrow> pending_state \<Rightarrow> pending_state" where
  "ps_account_insert_into_id_map k v s =
    s\<lparr>ps_account_id_remove := removeAll k (ps_account_id_remove s),
      ps_account_id_to_entry := AList.update k v (ps_account_id_to_entry s)\<rparr>"

definition account_insert_into_id_map :: "AccountIdType \<Rightarrow> AccountEntry \<Rightarrow> chain \<Rightarrow> chain" where
  "account_insert_into_id_map k v = on_chain (cd_account_insert_into_id_map k v) (ps_account_insert_into_id_map k v)"

definition cd_account_erase_from_id_map :: "AccountIdType \<Rightarrow> chain_database \<Rightarrow> chain_database" where
  "cd_account_erase_from_id_map k d = d\<lparr>db_account_id_to_entry := AList.delete k (db_account_id_to_entry d)\<rparr>"

definition ps_account_erase_from_id_map :: "AccountIdType \<Rightarrow> pending_state \<Rightarrow> pending_state" where
  "ps_account_erase_from_id_map k s =
    s\<lparr>ps_account_id_to_entry := AList.delete k (ps_account_id_to_entry s),
      ps_account_id_remove := set_insert k (ps_account_id_remove s)\<rparr>"

definition account_erase_from_id_map :: "AccountIdType \<Rightarrow> chain \<Rightarrow> chain" where
  "account_erase_from_id_map k = on_chain (cd_account_erase_from_id_map k) (ps_account_erase_from_id_map k)"

definition cd_account_insert_into_name_map :: "string \<Rightarrow> AccountIdType \<Rightarrow> chain_database \<Rightarrow> chain_database" where
  "cd_account_insert_into_name_map k v d = d\<lparr>db_account_name_to_id := AList.update k v (db_account_name_to_id d)\<rparr>"

definition ps_account_insert_into_name_map :: "string \<Rightarrow> AccountIdType \<Rightarrow> pending_state \<Rightarrow> pending_state" where
  "ps_account_insert_into_name_map k v s = s\<lparr>ps_account_name_to_id := AList.update k v (ps_account_name_to_id s)\<rparr>"

definition account_insert_into_name_map :: "string \<Rightarrow> AccountIdType \<Rightarrow> chain \<Rightarrow> chain" where
  "account_insert_into_name_map k v = on_chain (cd_account_insert_into_name_map k v) (ps_account_insert_into_name_map k v)"

definition cd_account_erase_from_name_map :: "string \<Rightarrow> chain_database \<Rightarrow> chain_database" where
  "cd_account_erase_from_name_map k d = d\<lparr>db_account_name_to_id := AList.delete k (db_account_name_to_id d)\<rparr>"

definition ps_account_erase_from_name_map :: "string \<Rightarrow> pending_state \<Rightarrow> pending_state" where
  "ps_account_erase_from_name_map k s = s\<lparr>ps_account_name_to_id := AList.delete k (ps_account_name_to_id s)\<rparr>"

definition account_erase_from_name_map :: "string \<Rightarrow> chain \<Rightarrow> chain" where
  "account_erase_from_name_map k = on_chain (cd_account_erase_from_name_map k) (ps_account_erase_from_name_map k)"

definition cd_account_insert_into_address_map :: "Address \<Rightarrow> AccountIdType \<Rightarrow> chain_database \<Rightarrow> chain_database" where
  "cd_account_insert_into_address_map k v d = d\<lparr>db_account_address_to_id := AList.update k v (db_account_address_to_id d)\<rparr>"

definition ps_account_insert_into_address_map :: "Address \<Rightarrow> AccountIdType \<Rightarrow> pending_state \<Rightarrow> pending_state" where
  "ps_account_insert_into_address_map k v s = s\<lparr>ps_account_address_to_id := AList.update k v (ps_account_address_to_id s)\<rparr>"

definition account_insert_into_address_map :: "Address \<Rightarrow> AccountIdType \<Rightarrow> chain \<Rightarrow> chain" where
  "account_insert_into_address_map k v = on_chain (cd_account_insert_into_address_map k v) (ps_account_insert_into_address_map k v)"

definition cd_account_erase_from_address_map :: "Address \<Rightarrow> chain_database \<Rightarrow> chain_database" where
  "cd_account_erase_from_address_map k d = d\<lparr>db_account_address_to_id := AList.delete k (db_account_address_to_id d)\<rparr>"

definition ps_account_erase_from_address_map :: "Address \<Rightarrow> pending_state \<Rightarrow> pending_state" where
  "ps_account_erase_from_address_map k s = s\<lparr>ps_account_address_to_id := AList.delete k (ps_account_address_to_id s)\<rparr>"

definition account_erase_from_address_map :: "Address \<Rightarrow> chain \<Rightarrow> chain" where
  "account_erase_from_address_map k = on_chain (cd_account_erase_from_address_map k) (ps_account_erase_from_address_map k)"

text \<open>The vote index exists in the database only.\<close>

definition cd_account_insert_into_vote_set :: "VoteDel \<Rightarrow> chain_database \<Rightarrow> chain_database" where
  "cd_account_insert_into_vote_set v d = d\<lparr>db_delegate_votes := vote_set_insert v (db_delegate_votes d)\<rparr>"

definition ps_account_insert_into_vote_set :: "VoteDel \<Rightarrow> pending_state \<Rightarrow> pending_state" where
  "ps_account_insert_into_vote_set v s = s"

definition account_insert_into_vote_set :: "VoteDel \<Rightarrow> chain \<Rightarrow> chain" where
  "account_insert_into_vote_set v =
    on_chain (cd_account_insert_into_vote_set v) (ps_account_insert_into_vote_set v)"

definition cd_account_erase_from_vote_set :: "VoteDel \<Rightarrow> chain_database \<Rightarrow> chain_database" where
  "cd_account_erase_from_vote_set v d = d\<lparr>db_delegate_votes := vote_set_erase v (db_delegate_votes d)\<rparr>"

definition ps_account_erase_from_vote_set :: "VoteDel \<Rightarrow> pending_state \<Rightarrow> pending_state" where
  "ps_account_erase_from_vote_set v s = s"

definition account_erase_from_vote_set :: "VoteDel \<Rightarrow> chain \<Rightarrow> chain" where
  "account_erase_from_vote_set v =
    on_chain (cd_account_erase_from_vote_set v) (ps_account_erase_from_vote_set v)"


section \<open>Assets\<close>

definition cd_asset_lookup_by_id :: "chain_database \<Rightarrow> AssetIdType \<Rightarrow> AssetEntry option" where
  "cd_asset_lookup_by_id d k = map_of (db_asset_id_to_entry d) k"

definition ps_asset_lookup_by_id ::
  "pending_state \<Rightarrow> (AssetIdType \<Rightarrow> AssetEntry option) option \<Rightarrow> AssetIdType \<Rightarrow> AssetEntry option" where
  "ps_asset_lookup_by_id s prev k = overlay (ps_asset_id_to_entry s) (ps_asset_id_remove s) prev k"

fun asset_lookup_by_id :: "chain \<Rightarrow> AssetIdType \<Rightarrow> AssetEntry option" where
  "asset_lookup_by_id (ChainDatabase d) k = cd_asset_lookup_by_id d k"
| "asset_lookup_by_id (PendingChainState s prev) k = ps_asset_lookup_by_id s (map_option asset_lookup_by_id prev) k"

definition cd_asset_lookup_by_symbol :: "chain_database \<Rightarrow> string \<Rightarrow> AssetEntry option" where
  "cd_asset_lookup_by_symbol d k =
    (case map_of (db_asset_symbol_to_id d) k of Some i \<Rightarrow> cd_asset_lookup_by_id d i | None \<Rightarrow> None)"

definition ps_asset_lookup_by_symbol ::
  "pending_state \<Rightarrow> (string \<Rightarrow> AssetEntry option result) option \<Rightarrow> string \<Rightarrow> AssetEntry option result" where
  "ps_asset_lookup_by_symbol s prev k =
    (case map_of (ps_asset_symbol_to_id s) k of
       Some i \<Rightarrow> bindE (map_at (ps_asset_id_to_entry s) i) (\<lambda>e. Inr (Some e))
     | None \<Rightarrow>
        (case prev of
           None \<Rightarrow> Inr None
         | Some f \<Rightarrow> bindE (f k) (\<lambda>entry.
             case entry of
               Some e \<Rightarrow> if as_id e \<notin> set (ps_asset_id_remove s) then Inr (Some e) else Inr None
             | None \<Rightarrow> Inr None)))"

fun asset_lookup_by_symbol :: "chain \<Rightarrow> string \<Rightarrow> AssetEntry option result" where
  "asset_lookup_by_symbol (ChainDatabase d) k = Inr (cd_asset_lookup_by_symbol d k)"
| "asset_lookup_by_symbol (PendingChainState s prev) k = ps_asset_lookup_by_symbol s (map_option asset_lookup_by_symbol prev) k"

definition cd_asset_insert_into_id_map :: "AssetIdType \<Rightarrow> AssetEntry \<Rightarrow> chain_database \<Rightarrow> chain_database" where
  "cd_asset_insert_into_id_map k v d = d\<lparr>db_asset_id_to_entry := AList.update k v (db_asset_id_to_entry d)\<rparr>"

definition ps_asset_insert_into_id_map :: "AssetIdType \<Rightarrow> AssetEntry \<Rightarrow> pending_state \<Rightarrow> pending_state" where
  "ps_asset_insert_into_id_map k v s =
    s\<lparr>ps_asset_id_remove := removeAll k (ps_asset_id_remove s),
      ps_asset_id_to_entry := AList.update k v (ps_asset_id_to_entry s)\<rparr>"

definition asset_insert_into_id_map :: "AssetIdType \<Rightarrow> AssetEntry \<Rightarrow> chain \<Rightarrow> chain" where
  "asset_insert_into_id_map k v = on_chain (cd_asset_insert_into_id_map k v) (ps_asset_insert_into_id_map k v)"

definition cd_asset_erase_from_id_map :: "AssetIdType \<Rightarrow> chain_database \<Rightarrow> chain_database" where
  "cd_asset_erase_from_id_map k d = d\<lparr>db_asset_id_to_entry := AList.delete k (db_asset_id_to_entry d)\<rparr>"

definition ps_asset_erase_from_id_map :: "AssetIdType \<Rightarrow> pending_state \<Rightarrow> pending_state" where
  "ps_asset_erase_from_id_map k s =
    s\<lparr>ps_asset_id_to_entry := AList.delete k (ps_asset_id_to_entry s),
      ps_asset_id_remove := set_insert k (ps_asset_id_remove s)\<rparr>"

definition asset_erase_from_id_map :: "AssetIdType \<Rightarrow> chain \<Rightarrow> chain" where
  "asset_erase_from_id_map k = on_chain (cd_asset_erase_from_id_map k) (ps_asset_erase_from_id_map k)"

definition cd_asset_insert_into_symbol_map :: "string \<Rightarrow> AssetIdType \<Rightarrow> chain_database \<Rightarrow> chain_database" where
  "cd_asset_insert_into_symbol_map k v d = d\<lparr>db_asset_symbol_to_id := AList.update k v (db_asset_symbol_to_id d)\<rparr>"

definition ps_asset_insert_into_symbol_map :: "string \<Rightarrow> AssetIdType \<Rightarrow> pending_state \<Rightarrow> pending_state" where
  "ps_asset_insert_into_symbol_map k v s = s\<lparr>ps_asset_symbol_to_id := AList.update k v (ps_asset_symbol_to_id s)\<rparr>"

definition asset_insert_into_symbol_map :: "string \<Rightarrow> AssetIdType \<Rightarrow> chain \<Rightarrow> chain" where
  "asset_insert_into_symbol_map k v = on_chain (cd_asset_insert_into_symbol_map k v) (ps_asset_insert_into_symbol_map k v)"

definition cd_asset_erase_from_symbol_map :: "string \<Rightarrow> chain_database \<Rightarrow> chain_database" where
  "cd_asset_erase_from_symbol_map k d = d\<lparr>db_asset_symbol_to_id := AList.delete k (db_asset_symbol_to_id d)\<rparr>"

definition ps_asset_erase_from_symbol_map :: "string \<Rightarrow> pending_state \<Rightarrow> pending_state" where
  "ps_asset_erase_from_symbol_map k s = s\<lparr>ps_asset_symbol_to_id := AList.delete k (ps_asset_symbol_to_id s)\<rparr>"

definition asset_erase_from_symbol_map :: "string \<Rightarrow> chain \<Rightarrow> chain" where
  "asset_erase_from_symbol_map k = on_chain (cd_asset_erase_from_symbol_map k) (ps_asset_erase_from_symbol_map k)"


section \<open>Slates\<close>

definition cd_slate_lookup_by_id :: "chain_database \<Rightarrow> SlateIdType \<Rightarrow> SlateEntry option" where
  "cd_slate_lookup_by_id d k = map_of (db_slate_id_to_entry d) k"

definition ps_slate_lookup_by_id ::
  "pending_state \<Rightarrow> (SlateIdType \<Rightarrow> SlateEntry option) option \<Rightarrow> SlateIdType \<Rightarrow> SlateEntry option" where
  "ps_slate_lookup_by_id s prev k = overlay (ps_slate_id_to_entry s) (ps_slate_id_remove s) prev k"

fun slate_lookup_by_id :: "chain \<Rightarrow> SlateIdType \<Rightarrow> SlateEntry option" where
  "slate_lookup_by_id (ChainDatabase d) k = cd_slate_lookup_by_id d k"
| "slate_lookup_by_id (PendingChainState s prev) k = ps_slate_lookup_by_id s (map_option slate_lookup_by_id prev) k"

definition cd_slate_insert_into_id_map :: "SlateIdType \<Rightarrow> SlateEntry \<Rightarrow> chain_database \<Rightarrow> chain_database" where
  "cd_slate_insert_into_id_map k v d = d\<lparr>db_slate_id_to_entry := AList.update k v (db_slate_id_to_entry d)\<rparr>"

definition ps_slate_insert_into_id_map :: "SlateIdType \<Rightarrow> SlateEntry \<Rightarrow> pending_state \<Rightarrow> pending_state" where
  "ps_slate_insert_into_id_map k v s =
    s\<lparr>ps_slate_id_remove := removeAll k (ps_slate_id_remove s),
      ps_slate_id_to_entry := AList.update k v (ps_slate_id_to_entry s)\<rparr>"

definition slate_insert_into_id_map :: "SlateIdType \<Rightarrow> SlateEntry \<Rightarrow> chain \<Rightarrow> chain" where
  "slate_insert_into_id_map k v = on_chain (cd_slate_insert_into_id_map k v) (ps_slate_insert_into_id_map k v)"

definition cd_slate_erase_from_id_map :: "SlateIdType \<Rightarrow> chain_database \<Rightarrow> chain_database" where
  "cd_slate_erase_from_id_map k d = d\<lparr>db_slate_id_to_entry := AList.delete k (db_slate_id_to_entry d)\<rparr>"

definition ps_slate_erase_from_id_map :: "SlateIdType \<Rightarrow> pending_state \<Rightarrow> pending_state" where
  "ps_slate_erase_from_id_map k s =
    s\<lparr>ps_slate_id_to_entry := AList.delete k (ps_slate_id_to_entry s),
      ps_slate_id_remove := set_insert k (ps_slate_id_remove s)\<rparr>"

definition slate_erase_from_id_map :: "SlateIdType \<Rightarrow> chain \<Rightarrow> chain" where
  "slate_erase_from_id_map k = on_chain (cd_slate_erase_from_id_map k) (ps_slate_erase_from_id_map k)"


section \<open>Balances\<close>

definition cd_balance_lookup_by_id :: "chain_database \<Rightarrow> BalanceIdType \<Rightarrow> BalanceEntry option" where
  "cd_balance_lookup_by_id d k = map_of (db_balance_id_to_entry d) k"

definition ps_balance_lookup_by_id ::
  "pending_state \<Rightarrow> (BalanceIdType \<Rightarrow> BalanceEntry option) option \<Rightarrow> BalanceIdType \<Rightarrow> BalanceEntry option" where
  "ps_balance_lookup_by_id s prev k = overlay (ps_balance_id_to_entry s) (ps_balance_id_remove s) prev k"

fun balance_lookup_by_id :: "chain \<Rightarrow> BalanceIdType \<Rightarrow> BalanceEntry option" where
  "balance_lookup_by_id (ChainDatabase d) k = cd_balance_lookup_by_id d k"
| "balance_lookup_by_id (PendingChainState s prev) k = ps_balance_lookup_by_id s (map_option balance_lookup_by_id prev) k"

definition cd_balance_insert_into_id_map :: "BalanceIdType \<Rightarrow> BalanceEntry \<Rightarrow> chain_database \<Rightarrow> chain_database" where
  "cd_balance_insert_into_id_map k v d = d\<lparr>db_balance_id_to_entry := AList.update k v (db_balance_id_to_entry d)\<rparr>"

definition ps_balance_insert_into_id_map :: "BalanceIdType \<Rightarrow> BalanceEntry \<Rightarrow> pending_state \<Rightarrow> pending_state" where
  "ps_balance_insert_into_id_map k v s =
    s\<lparr>ps_balance_id_remove := removeAll k (ps_balance_id_remove s),
      ps_balance_id_to_entry := AList.update k v (ps_balance_id_to_entry s)\<rparr>"

definition balance_insert_into_id_map :: "BalanceIdType \<Rightarrow> BalanceEntry \<Rightarrow> chain \<Rightarrow> chain" where
  "balance_insert_into_id_map k v = on_chain (cd_balance_insert_into_id_map k v) (ps_balance_insert_into_id_map k v)"

definition cd_balance_erase_from_id_map :: "BalanceIdType \<Rightarrow> chain_database \<Rightarrow> chain_database" where
  "cd_balance_erase_from_id_map k d = d\<lparr>db_balance_id_to_entry := AList.delete k (db_balance_id_to_entry d)\<rparr>"

definition ps_balance_erase_from_id_map :: "BalanceIdType \<Rightarrow> pending_state \<Rightarrow> pending_state" where
  "ps_balance_erase_from_id_map k s =
    s\<lparr>ps_balance_id_to_entry := AList.delete k (ps_balance_id_to_entry s),
      ps_balance_id_remove := set_insert k (ps_balance_id_remove s)\<rparr>"

definition balance_erase_from_id_map :: "BalanceIdType \<Rightarrow> chain \<Rightarrow> chain" where
  "balance_erase_from_id_map k = on_chain (cd_balance_erase_from_id_map k) (ps_balance_erase_from_id_map k)"


section \<open>Transactions\<close>

definition cd_transaction_lookup_by_id :: "chain_database \<Rightarrow> TransactionIdType \<Rightarrow> TransactionEntry option" where
  "cd_transaction_lookup_by_id d k = map_of (db_transaction_id_to_entry d) k"

definition ps_transaction_lookup_by_id ::
  "pending_state \<Rightarrow> (TransactionIdType \<Rightarrow> TransactionEntry option) option \<Rightarrow> TransactionIdType \<Rightarrow> TransactionEntry option" where
  "ps_transaction_lookup_by_id s prev k = overlay (ps_transaction_id_to_entry s) (ps_transaction_id_remove s) prev k"

fun transaction_lookup_by_id :: "chain \<Rightarrow> TransactionIdType \<Rightarrow> TransactionEntry option" where
  "transaction_lookup_by_id (ChainDatabase d) k = cd_transaction_lookup_by_id d k"
| "transaction_lookup_by_id (PendingChainState s prev) k = ps_transaction_lookup_by_id s (map_option transaction_lookup_by_id prev) k"

text \<open>\<open>scan_addresses\<close>: the addresses the callback is called with, in order.\<close>

definition scan_addresses :: "TransactionEvaluationState \<Rightarrow> chain \<Rightarrow> Address list" where
  "scan_addresses st ch = concat (map (\<lambda>op.
     case op of
       withdraw_op w \<Rightarrow>
         (case balance_lookup_by_id ch (wd_balance_id w) of
            Some b \<Rightarrow> balance_owners b
          | None \<Rightarrow> [])
     | deposit_op dp \<Rightarrow> condition_owners (dp_condition dp)
     | _ \<Rightarrow> []) (operations (trx st)))"

definition MAX_RECENT_OPERATIONS :: nat where "MAX_RECENT_OPERATIONS = 20"

definition store_recent_operation :: "Operation \<Rightarrow> chain_database \<Rightarrow> chain_database" where
  "store_recent_operation op d =
    (let q = (case map_of (db_recent_operations d) (op_type op) of None \<Rightarrow> [] | Some q \<Rightarrow> q) @ [op];
         q' = (if length q > MAX_RECENT_OPERATIONS then tl q else q)
     in d\<lparr>db_recent_operations := AList.update (op_type op) q' (db_recent_operations d)\<rparr>)"

definition add_address_transaction :: "TransactionIdType \<Rightarrow> Address \<Rightarrow> chain_database \<Rightarrow> chain_database" where
  "add_address_transaction i addr d =
    (let ids = (case map_of (db_address_to_transaction_ids d) addr of None \<Rightarrow> [] | Some ids \<Rightarrow> ids)
     in d\<lparr>db_address_to_transaction_ids :=
           AList.update addr (set_insert i ids) (db_address_to_transaction_ids d)\<rparr>)"

definition cd_transaction_insert_into_id_map ::
  "env \<Rightarrow> TransactionIdType \<Rightarrow> TransactionEntry \<Rightarrow> chain_database \<Rightarrow> chain_database" where
  "cd_transaction_insert_into_id_map E k v d =
    (let d = d\<lparr>db_transaction_id_to_entry := AList.update k v (db_transaction_id_to_entry d)\<rparr> in
     if env_statistics_enabled E
     then
       let d = fold (add_address_transaction k) (scan_addresses (te_state v) (ChainDatabase d)) d
       in fold store_recent_operation (operations (trx (te_state v))) d
     else d)"

definition ps_transaction_insert_into_id_map ::
  "TransactionIdType \<Rightarrow> TransactionEntry \<Rightarrow> pending_state \<Rightarrow> pending_state" where
  "ps_transaction_insert_into_id_map k v s =
    s\<lparr>ps_transaction_id_remove := removeAll k (ps_transaction_id_remove s),
      ps_transaction_id_to_entry := AList.update k v (ps_transaction_id_to_entry s)\<rparr>"

definition transaction_insert_into_id_map ::
  "env \<Rightarrow> TransactionIdType \<Rightarrow> TransactionEntry \<Rightarrow> chain \<Rightarrow> chain" where
  "transaction_insert_into_id_map E k v =
    on_chain (cd_transaction_insert_into_id_map E k v) (ps_transaction_insert_into_id_map k v)"

definition remove_address_transaction :: "TransactionIdType \<Rightarrow> Address \<Rightarrow> chain_database \<Rightarrow> chain_database" where
  "remove_address_transaction i addr d =
    (case map_of (db_address_to_transaction_ids d) addr of
       None \<Rightarrow> d
     | Some ids \<Rightarrow>
         let ids = removeAll i ids in
         if ids \<noteq> []
         then d\<lparr>db_address_to_transaction_ids := AList.update addr ids (db_address_to_transaction_ids d)\<rparr>
         else d\<lparr>db_address_to_transaction_ids := AList.delete addr (db_address_to_transaction_ids d)\<rparr>)"

definition cd_transaction_erase_from_id_map ::
  "env \<Rightarrow> TransactionIdType \<Rightarrow> chain_database \<Rightarrow> chain_database" where
  "cd_transaction_erase_from_id_map E k d =
    (let d = (if env_statistics_enabled E
              then (case cd_transaction_lookup_by_id d k of
                      Some v \<Rightarrow> fold (remove_address_transaction k)
                                  (scan_addresses (te_state v) (ChainDatabase d)) d
                    | None \<Rightarrow> d)
              else d)
     in d\<lparr>db_transaction_id_to_entry := AList.delete k (db_transaction_id_to_entry d)\<rparr>)"

definition ps_transaction_erase_from_id_map :: "TransactionIdType \<Rightarrow> pending_state \<Rightarrow> pending_state" where
  "ps_transaction_erase_from_id_map k s =
    s\<lparr>ps_transaction_id_to_entry := AList.delete k (ps_transaction_id_to_entry s),
      ps_transaction_id_remove := set_insert k (ps_transaction_id_remove s)\<rparr>"

definition transaction_erase_from_id_map :: "env \<Rightarrow> TransactionIdType \<Rightarrow> chain \<Rightarrow> chain" where
  "transaction_erase_from_id_map E k =
    on_chain (cd_transaction_erase_from_id_map E k) (ps_transaction_erase_from_id_map k)"

text \<open>\<open>UniqueTransactionKey\<close>.\<close>

definition UniqueTransactionKey :: "env \<Rightarrow> SignedTransaction \<Rightarrow> time_point_sec \<times> DigestType" where
  "UniqueTransactionKey E t = (expiration t, env_trx_digest E t)"

definition cd_transaction_insert_into_unique_set ::
  "env \<Rightarrow> SignedTransaction \<Rightarrow> chain_database \<Rightarrow> chain_database" where
  "cd_transaction_insert_into_unique_set E t d =
    d\<lparr>db_unique_transactions := set_insert (UniqueTransactionKey E t) (db_unique_transactions d)\<rparr>"

definition ps_transaction_insert_into_unique_set ::
  "env \<Rightarrow> SignedTransaction \<Rightarrow> pending_state \<Rightarrow> pending_state" where
  "ps_transaction_insert_into_unique_set E t s =
    s\<lparr>ps_transaction_digests := set_insert (env_trx_digest E t) (ps_transaction_digests s)\<rparr>"

definition transaction_insert_into_unique_set :: "env \<Rightarrow> SignedTransaction \<Rightarrow> chain \<Rightarrow> chain" where
  "transaction_insert_into_unique_set E t =
    on_chain (cd_transaction_insert_into_unique_set E t) (ps_transaction_insert_into_unique_set E t)"

definition cd_transaction_erase_from_unique_set ::
  "env \<Rightarrow> SignedTransaction \<Rightarrow> chain_database \<Rightarrow> chain_database" where
  "cd_transaction_erase_from_unique_set E t d =
    d\<lparr>db_unique_transactions := removeAll (UniqueTransactionKey E t) (db_unique_transactions d)\<rparr>"

definition ps_transaction_erase_from_unique_set ::
  "env \<Rightarrow> SignedTransaction \<Rightarrow> pending_state \<Rightarrow> pending_state" where
  "ps_transaction_erase_from_unique_set E t s =
    s\<lparr>ps_transaction_digests := removeAll (env_trx_digest E t) (ps_transaction_digests s)\<rparr>"

definition transaction_erase_from_unique_set :: "env \<Rightarrow> SignedTransaction \<Rightarrow> chain \<Rightarrow> chain" where
  "transaction_erase_from_unique_set E t =
    on_chain (cd_transaction_erase_from_unique_set E t) (ps_transaction_erase_from_unique_set E t)"

definition cd_is_known_transaction :: "env \<Rightarrow> chain_database \<Rightarrow> SignedTransaction \<Rightarrow> bool" where
  "cd_is_known_transaction E d t \<longleftrightarrow> UniqueTransactionKey E t \<in> set (db_unique_transactions d)"

fun is_known_transaction :: "env \<Rightarrow> chain \<Rightarrow> SignedTransaction \<Rightarrow> bool" where
  "is_known_transaction E (ChainDatabase d) t = cd_is_known_transaction E d t"
| "is_known_transaction E (PendingChainState s prev) t =
    (if env_trx_digest E t \<in> set (ps_transaction_digests s) then True
     else (case prev of Some p \<Rightarrow> is_known_transaction E p t | None \<Rightarrow> False))"


section \<open>Slots\<close>

definition cd_slot_lookup_by_index :: "chain_database \<Rightarrow> SlotIndex \<Rightarrow> SlotEntry option" where
  "cd_slot_lookup_by_index d k = map_of (db_slot_index_to_entry d) k"

definition ps_slot_lookup_by_index ::
  "pending_state \<Rightarrow> (SlotIndex \<Rightarrow> SlotEntry option) option \<Rightarrow> SlotIndex \<Rightarrow> SlotEntry option" where
  "ps_slot_lookup_by_index s prev k = overlay (ps_slot_index_to_entry s) (ps_slot_index_remove s) prev k"

fun slot_lookup_by_index :: "chain \<Rightarrow> SlotIndex \<Rightarrow> SlotEntry option" where
  "slot_lookup_by_index (ChainDatabase d) k = cd_slot_lookup_by_index d k"
| "slot_lookup_by_index (PendingChainState s prev) k = ps_slot_lookup_by_index s (map_option slot_lookup_by_index prev) k"

definition cd_slot_insert_into_index_map :: "SlotIndex \<Rightarrow> SlotEntry \<Rightarrow> chain_database \<Rightarrow> chain_database" where
  "cd_slot_insert_into_index_map k v d = d\<lparr>db_slot_index_to_entry := AList.update k v (db_slot_index_to_entry d)\<rparr>"

definition ps_slot_insert_into_index_map :: "SlotIndex \<Rightarrow> SlotEntry \<Rightarrow> pending_state \<Rightarrow> pending_state" where
  "ps_slot_insert_into_index_map k v s =
    s\<lparr>ps_slot_index_remove := removeAll k (ps_slot_index_remove s),
      ps_slot_index_to_entry := AList.update k v (ps_slot_index_to_entry s)\<rparr>"

definition slot_insert_into_index_map :: "SlotIndex \<Rightarrow> SlotEntry \<Rightarrow> chain \<Rightarrow> chain" where
  "slot_insert_into_index_map k v = on_chain (cd_slot_insert_into_index_map k v) (ps_slot_insert_into_index_map k v)"

definition cd_slot_erase_from_index_map :: "SlotIndex \<Rightarrow> chain_database \<Rightarrow> chain_database" where
  "cd_slot_erase_from_index_map k d = d\<lparr>db_slot_index_to_entry := AList.delete k (db_slot_index_to_entry d)\<rparr>"

definition ps_slot_erase_from_index_map :: "SlotIndex \<Rightarrow> pending_state \<Rightarrow> pending_state" where
  "ps_slot_erase_from_index_map k s =
    s\<lparr>ps_slot_index_to_entry := AList.delete k (ps_slot_index_to_entry s),
      ps_slot_index_remove := set_insert k (ps_slot_index_remove s)\<rparr>"

definition slot_erase_from_index_map :: "SlotIndex \<Rightarrow> chain \<Rightarrow> chain" where
  "slot_erase_from_index_map k = on_chain (cd_slot_erase_from_index_map k) (ps_slot_erase_from_index_map k)"

definition cd_slot_insert_into_timestamp_map :: "time_point_sec \<Rightarrow> AccountIdType \<Rightarrow> chain_database \<Rightarrow> chain_database" where
  "cd_slot_insert_into_timestamp_map k v d = d\<lparr>db_slot_timestamp_to_delegate := AList.update k v (db_slot_timestamp_to_delegate d)\<rparr>"

definition ps_slot_insert_into_timestamp_map :: "time_point_sec \<Rightarrow> AccountIdType \<Rightarrow> pending_state \<Rightarrow> pending_state" where
  "ps_slot_insert_into_timestamp_map k v s = s\<lparr>ps_slot_timestamp_to_delegate := AList.update k v (ps_slot_timestamp_to_delegate s)\<rparr>"

definition slot_insert_into_timestamp_map :: "time_point_sec \<Rightarrow> AccountIdType \<Rightarrow> chain \<Rightarrow> chain" where
  "slot_insert_into_timestamp_map k v = on_chain (cd_slot_insert_into_timestamp_map k v) (ps_slot_insert_into_timestamp_map k v)"

definition cd_slot_erase_from_timestamp_map :: "time_point_sec \<Rightarrow> chain_database \<Rightarrow> chain_database" where
  "cd_slot_erase_from_timestamp_map k d = d\<lparr>db_slot_timestamp_to_delegate := AList.delete k (db_slot_timestamp_to_delegate d)\<rparr>"

definition ps_slot_erase_from_timestamp_map :: "time_point_sec \<Rightarrow> pending_state \<Rightarrow> pending_state" where
  "ps_slot_erase_from_timestamp_map k s = s\<lparr>ps_slot_timestamp_to_delegate := AList.delete k (ps_slot_timestamp_to_delegate s)\<rparr>"

definition slot_erase_from_timestamp_map :: "time_point_sec \<Rightarrow> chain \<Rightarrow> chain" where
  "slot_erase_from_timestamp_map k = on_chain (cd_slot_erase_from_timestamp_map k) (ps_slot_erase_from_timestamp_map k)"

definition cd_slot_lookup_by_timestamp :: "chain_database \<Rightarrow> time_point_sec \<Rightarrow> SlotEntry option" where
  "cd_slot_lookup_by_timestamp d k =
    (case map_of (db_slot_timestamp_to_delegate d) k of
       None \<Rightarrow> None
     | Some delegate_id \<Rightarrow>
         map_of (db_slot_index_to_entry d) \<lparr>si_delegate_id = delegate_id, si_timestamp = k\<rparr>)"

definition ps_slot_lookup_by_timestamp ::
  "pending_state \<Rightarrow> (time_point_sec \<Rightarrow> SlotEntry option result) option \<Rightarrow> time_point_sec \<Rightarrow>
   SlotEntry option result" where
  "ps_slot_lookup_by_timestamp s prev k =
    (case map_of (ps_slot_timestamp_to_delegate s) k of
       Some i \<Rightarrow> bindE (map_at (ps_slot_index_to_entry s) \<lparr>si_delegate_id = i, si_timestamp = k\<rparr>)
                   (\<lambda>e. Inr (Some e))
     | None \<Rightarrow>
        (case prev of
           None \<Rightarrow> Inr None
         | Some f \<Rightarrow> bindE (f k) (\<lambda>entry.
             case entry of
               Some e \<Rightarrow> if slot_index e \<notin> set (ps_slot_index_remove s) then Inr (Some e) else Inr None
             | None \<Rightarrow> Inr None)))"

fun slot_lookup_by_timestamp :: "chain \<Rightarrow> time_point_sec \<Rightarrow> SlotEntry option result" where
  "slot_lookup_by_timestamp (ChainDatabase d) k = Inr (cd_slot_lookup_by_timestamp d k)"
| "slot_lookup_by_timestamp (PendingChainState s prev) k =
    ps_slot_lookup_by_timestamp s (map_option slot_lookup_by_timestamp prev) k"


section \<open>Contracts\<close>

definition cd_contract_lookup_by_id :: "chain_database \<Rightarrow> ContractIdType \<Rightarrow> ContractEntry option" where
  "cd_contract_lookup_by_id d k = map_of (db_contract_id_to_entry d) k"

definition ps_contract_lookup_by_id ::
  "pending_state \<Rightarrow> (ContractIdType \<Rightarrow> ContractEntry option) option \<Rightarrow> ContractIdType \<Rightarrow> ContractEntry option" where
  "ps_contract_lookup_by_id s prev k = overlay (ps_contract_id_to_entry s) (ps_contract_id_remove s) prev k"

fun contract_lookup_by_id :: "chain \<Rightarrow> ContractIdType \<Rightarrow> ContractEntry option" where
  "contract_lookup_by_id (ChainDatabase d) k = cd_contract_lookup_by_id d k"
| "contract_lookup_by_id (PendingChainState s prev) k = ps_contract_lookup_by_id s (map_option contract_lookup_by_id prev) k"

definition cd_contract_insert_into_id_map :: "ContractIdType \<Rightarrow> ContractEntry \<Rightarrow> chain_database \<Rightarrow> chain_database" where
  "cd_contract_insert_into_id_map k v d = d\<lparr>db_contract_id_to_entry := AList.update k v (db_contract_id_to_entry d)\<rparr>"

definition ps_contract_insert_into_id_map :: "ContractIdType \<Rightarrow> ContractEntry \<Rightarrow> pending_state \<Rightarrow> pending_state" where
  "ps_contract_insert_into_id_map k v s =
    s\<lparr>ps_contract_id_remove := removeAll k (ps_contract_id_remove s),
      ps_contract_id_to_entry := AList.update k v (ps_contract_id_to_entry s)\<rparr>"

definition contract_insert_into_id_map :: "ContractIdType \<Rightarrow> ContractEntry \<Rightarrow> chain \<Rightarrow> chain" where
  "contract_insert_into_id_map k v = on_chain (cd_contract_insert_into_id_map k v) (ps_contract_insert_into_id_map k v)"

definition cd_contract_erase_from_id_map :: "ContractIdType \<Rightarrow> chain_database \<Rightarrow> chain_database" where
  "cd_contract_erase_from_id_map k d = d\<lparr>db_contract_id_to_entry := AList.delete k (db_contract_id_to_entry d)\<rparr>"

definition ps_contract_erase_from_id_map :: "ContractIdType \<Rightarrow> pending_state \<Rightarrow> pending_state" where
  "ps_contract_erase_from_id_map k s =
    s\<lparr>ps_contract_id_to_entry := AList.delete k (ps_contract_id_to_entry s),
      ps_contract_id_remove := set_insert k (ps_contract_id_remove s)\<rparr>"

definition contract_erase_from_id_map :: "ContractIdType \<Rightarrow> chain \<Rightarrow> chain" where
  "contract_erase_from_id_map k = on_chain (cd_contract_erase_from_id_map k) (ps_contract_erase_from_id_map k)"

definition cd_contract_insert_into_name_map :: "ContractName \<Rightarrow> ContractIdType \<Rightarrow> chain_database \<Rightarrow> chain_database" where
  "cd_contract_insert_into_name_map k v d = d\<lparr>db_contract_name_to_id := AList.update k v (db_contract_name_to_id d)\<rparr>"

definition ps_contract_insert_into_name_map :: "ContractName \<Rightarrow> ContractIdType \<Rightarrow> pending_state \<Rightarrow> pending_state" where
  "ps_contract_insert_into_name_map k v s = s\<lparr>ps_contract_name_to_id := AList.update k v (ps_contract_name_to_id s)\<rparr>"

definition contract_insert_into_name_map :: "ContractName \<Rightarrow> ContractIdType \<Rightarrow> chain \<Rightarrow> chain" where
  "contract_insert_into_name_map k v = on_chain (cd_contract_insert_into_name_map k v) (ps_contract_insert_into_name_map k v)"

definition cd_contract_erase_from_name_map :: "ContractName \<Rightarrow> chain_database \<Rightarrow> chain_database" where
  "cd_contract_erase_from_name_map k d = d\<lparr>db_contract_name_to_id := AList.delete k (db_contract_name_to_id d)\<rparr>"

definition ps_contract_erase_from_name_map :: "ContractName \<Rightarrow> pending_state \<Rightarrow> pending_state" where
  "ps_contract_erase_from_name_map k s = s\<lparr>ps_contract_name_to_id := AList.delete k (ps_contract_name_to_id s)\<rparr>"

definition contract_erase_from_name_map :: "ContractName \<Rightarrow> chain \<Rightarrow> chain" where
  "contract_erase_from_name_map k = on_chain (cd_contract_erase_from_name_map k) (ps_contract_erase_from_name_map k)"

definition cd_contractstorage_insert_into_id_map :: "ContractIdType \<Rightarrow> ContractStorageEntry \<Rightarrow> chain_database \<Rightarrow> chain_database" where
  "cd_contractstorage_insert_into_id_map k v d = d\<lparr>db_contract_id_to_storage := AList.update k v (db_contract_id_to_storage d)\<rparr>"

definition ps_contractstorage_insert_into_id_map :: "ContractIdType \<Rightarrow> ContractStorageEntry \<Rightarrow> pending_state \<Rightarrow> pending_state" where
  "ps_contractstorage_insert_into_id_map k v s = s\<lparr>ps_contract_id_to_storage := AList.update k v (ps_contract_id_to_storage s)\<rparr>"

definition contractstorage_insert_into_id_map :: "ContractIdType \<Rightarrow> ContractStorageEntry \<Rightarrow> chain \<Rightarrow> chain" where
  "contractstorage_insert_into_id_map k v = on_chain (cd_contractstorage_insert_into_id_map k v) (ps_contractstorage_insert_into_id_map k v)"

definition cd_contractstorage_erase_from_id_map :: "ContractIdType \<Rightarrow> chain_database \<Rightarrow> chain_database" where
  "cd_contractstorage_erase_from_id_map k d = d\<lparr>db_contract_id_to_storage := AList.delete k (db_contract_id_to_storage d)\<rparr>"

definition ps_contractstorage_erase_from_id_map :: "ContractIdType \<Rightarrow> pending_state \<Rightarrow> pending_state" where
  "ps_contractstorage_erase_from_id_map k s = s\<lparr>ps_contract_id_to_storage := AList.delete k (ps_contract_id_to_storage s)\<rparr>"

definition contractstorage_erase_from_id_map :: "ContractIdType \<Rightarrow> chain \<Rightarrow> chain" where
  "contractstorage_erase_from_id_map k = on_chain (cd_contractstorage_erase_from_id_map k) (ps_contractstorage_erase_from_id_map k)"

definition cd_contract_lookup_by_name :: "chain_database \<Rightarrow> ContractName \<Rightarrow> ContractEntry option" where
  "cd_contract_lookup_by_name d k =
    (case map_of (db_contract_name_to_id d) k of Some i \<Rightarrow> cd_contract_lookup_by_id d i | None \<Rightarrow> None)"

definition ps_contract_lookup_by_name ::
  "pending_state \<Rightarrow> (ContractIdType \<Rightarrow> ContractEntry option) option \<Rightarrow>
   (ContractName \<Rightarrow> ContractEntry option) option \<Rightarrow> ContractName \<Rightarrow> ContractEntry option" where
  "ps_contract_lookup_by_name s prev_id prev k =
    (case map_of (ps_contract_name_to_id s) k of
       Some i \<Rightarrow> ps_contract_lookup_by_id s prev_id i
     | None \<Rightarrow>
        (case prev of
           None \<Rightarrow> None
         | Some f \<Rightarrow> (case f k of
             Some e \<Rightarrow> if ct_id e \<notin> set (ps_contract_id_remove s) then Some e else None
           | None \<Rightarrow> None)))"

fun contract_lookup_by_name :: "chain \<Rightarrow> ContractName \<Rightarrow> ContractEntry option" where
  "contract_lookup_by_name (ChainDatabase d) k = cd_contract_lookup_by_name d k"
| "contract_lookup_by_name (PendingChainState s prev) k =
    ps_contract_lookup_by_name s (map_option contract_lookup_by_id prev)
      (map_option contract_lookup_by_name prev) k"

definition cd_contractstorage_lookup_by_id ::
  "chain_database \<Rightarrow> ContractIdType \<Rightarrow> ContractStorageEntry option" where
  "cd_contractstorage_lookup_by_id d k = map_of (db_contract_id_to_storage d) k"

definition ps_contractstorage_lookup_by_id ::
  "pending_state \<Rightarrow> (ContractIdType \<Rightarrow> ContractStorageEntry option) option \<Rightarrow> ContractIdType \<Rightarrow>
   ContractStorageEntry option" where
  "ps_contractstorage_lookup_by_id s prev k =
    (case map_of (ps_contract_id_to_storage s) k of
       Some e \<Rightarrow> Some e
     | None \<Rightarrow>
        (case prev of
           None \<Rightarrow> None
         | Some f \<Rightarrow> (case f k of
             Some e \<Rightarrow> if k \<notin> set (ps_contract_id_remove s) then Some e else None
           | None \<Rightarrow> None)))"

fun contractstorage_lookup_by_id :: "chain \<Rightarrow> ContractIdType \<Rightarrow> ContractStorageEntry option" where
  "contractstorage_lookup_by_id (ChainDatabase d) k = cd_contractstorage_lookup_by_id d k"
| "contractstorage_lookup_by_id (PendingChainState s prev) k =
    ps_contractstorage_lookup_by_id s (map_option contractstorage_lookup_by_id prev) k"


section \<open>Results of requests\<close>

definition cd_contract_lookup_resultid_by_reqestid :: "chain_database \<Rightarrow> TransactionIdType \<Rightarrow> ResultTIdEntry option" where
  "cd_contract_lookup_resultid_by_reqestid d k = map_of (db_request_to_result_id d) k"

definition ps_contract_lookup_resultid_by_reqestid ::
  "pending_state \<Rightarrow> (TransactionIdType \<Rightarrow> ResultTIdEntry option) option \<Rightarrow> TransactionIdType \<Rightarrow> ResultTIdEntry option" where
  "ps_contract_lookup_resultid_by_reqestid s prev k = overlay (ps_request_id_to_result_id s) (ps_req_to_res_to_remove s) prev k"

fun contract_lookup_resultid_by_reqestid :: "chain \<Rightarrow> TransactionIdType \<Rightarrow> ResultTIdEntry option" where
  "contract_lookup_resultid_by_reqestid (ChainDatabase d) k = cd_contract_lookup_resultid_by_reqestid d k"
| "contract_lookup_resultid_by_reqestid (PendingChainState s prev) k = ps_contract_lookup_resultid_by_reqestid s (map_option contract_lookup_resultid_by_reqestid prev) k"

definition cd_contract_store_resultid_by_reqestid :: "TransactionIdType \<Rightarrow> ResultTIdEntry \<Rightarrow> chain_database \<Rightarrow> chain_database" where
  "cd_contract_store_resultid_by_reqestid k v d = d\<lparr>db_request_to_result_id := AList.update k v (db_request_to_result_id d)\<rparr>"

definition ps_contract_store_resultid_by_reqestid :: "TransactionIdType \<Rightarrow> ResultTIdEntry \<Rightarrow> pending_state \<Rightarrow> pending_state" where
  "ps_contract_store_resultid_by_reqestid k v s =
    s\<lparr>ps_req_to_res_to_remove := removeAll k (ps_req_to_res_to_remove s),
      ps_request_id_to_result_id := AList.update k v (ps_request_id_to_result_id s)\<rparr>"

definition contract_store_resultid_by_reqestid :: "TransactionIdType \<Rightarrow> ResultTIdEntry \<Rightarrow> chain \<Rightarrow> chain" where
  "contract_store_resultid_by_reqestid k v = on_chain (cd_contract_store_resultid_by_reqestid k v) (ps_contract_store_resultid_by_reqestid k v)"

definition cd_contract_erase_resultid_by_reqestid :: "TransactionIdType \<Rightarrow> chain_database \<Rightarrow> chain_database" where
  "cd_contract_erase_resultid_by_reqestid k d = d\<lparr>db_request_to_result_id := AList.delete k (db_request_to_result_id d)\<rparr>"

definition ps_contract_erase_resultid_by_reqestid :: "TransactionIdType \<Rightarrow> pending_state \<Rightarrow> pending_state" where
  "ps_contract_erase_resultid_by_reqestid k s =
    s\<lparr>ps_request_id_to_result_id := AList.delete k (ps_request_id_to_result_id s),
      ps_req_to_res_to_remove := set_insert k (ps_req_to_res_to_remove s)\<rparr>"

definition contract_erase_resultid_by_reqestid :: "TransactionIdType \<Rightarrow> chain \<Rightarrow> chain" where
  "contract_erase_resultid_by_reqestid k = on_chain (cd_contract_erase_resultid_by_reqestid k) (ps_contract_erase_resultid_by_reqestid k)"


section \<open>Requests of results\<close>

definition cd_contract_lookup_requestid_by_resultid :: "chain_database \<Rightarrow> TransactionIdType \<Rightarrow> RequestIdEntry option" where
  "cd_contract_lookup_requestid_by_resultid d k = map_of (db_result_to_request_id d) k"

definition ps_contract_lookup_requestid_by_resultid ::
  "pending_state \<Rightarrow> (TransactionIdType \<Rightarrow> RequestIdEntry option) option \<Rightarrow> TransactionIdType \<Rightarrow> RequestIdEntry option" where
  "ps_contract_lookup_requestid_by_resultid s prev k = overlay (ps_result_id_to_request_id s) (ps_res_to_req_to_remove s) prev k"

fun contract_lookup_requestid_by_resultid :: "chain \<Rightarrow> TransactionIdType \<Rightarrow> RequestIdEntry option" where
  "contract_lookup_requestid_by_resultid (ChainDatabase d) k = cd_contract_lookup_requestid_by_resultid d k"
| "contract_lookup_requestid_by_resultid (PendingChainState s prev) k = ps_contract_lookup_requestid_by_resultid s (map_option contract_lookup_requestid_by_resultid prev) k"

definition cd_contract_store_requestid_by_resultid :: "TransactionIdType \<Rightarrow> RequestIdEntry \<Rightarrow> chain_database \<Rightarrow> chain_database" where
  "cd_contract_store_requestid_by_resultid k v d = d\<lparr>db_result_to_request_id := AList.update k v (db_result_to_request_id d)\<rparr>"

definition ps_contract_store_requestid_by_resultid :: "TransactionIdType \<Rightarrow> RequestIdEntry \<Rightarrow> pending_state \<Rightarrow> pending_state" where
  "ps_contract_store_requestid_by_resultid k v s =
    s\<lparr>ps_res_to_req_to_remove := removeAll k (ps_res_to_req_to_remove s),
      ps_result_id_to_request_id := AList.update k v (ps_result_id_to_request_id s)\<rparr>"

definition contract_store_requestid_by_resultid :: "TransactionIdType \<Rightarrow> RequestIdEntry \<Rightarrow> chain \<Rightarrow> chain" where
  "contract_store_requestid_by_resultid k v = on_chain (cd_contract_store_requestid_by_resultid k v) (ps_contract_store_requestid_by_resultid k v)"

definition cd_contract_erase_requestid_by_resultid :: "TransactionIdType \<Rightarrow> chain_database \<Rightarrow> chain_database" where
  "cd_contract_erase_requestid_by_resultid k d = d\<lparr>db_result_to_request_id := AList.delete k (db_result_to_request_id d)\<rparr>"

definition ps_contract_erase_requestid_by_resultid :: "TransactionIdType \<Rightarrow> pending_state \<Rightarrow> pending_state" where
  "ps_contract_erase_requestid_by_resultid k s =
    s\<lparr>ps_result_id_to_request_id := AList.delete k (ps_result_id_to_request_id s),
      ps_res_to_req_to_remove := set_insert k (ps_res_to_req_to_remove s)\<rparr>"

definition contract_erase_requestid_by_resultid :: "TransactionIdType \<Rightarrow> chain \<Rightarrow> chain" where
  "contract_erase_requestid_by_resultid k = on_chain (cd_contract_erase_requestid_by_resultid k) (ps_contract_erase_requestid_by_resultid k)"


section \<open>Contracts of transactions\<close>

definition cd_contract_lookup_contractid_by_trxid :: "chain_database \<Rightarrow> TransactionIdType \<Rightarrow> ContractinTrxEntry option" where
  "cd_contract_lookup_contractid_by_trxid d k = map_of (db_trx_to_contract_id d) k"

definition ps_contract_lookup_contractid_by_trxid ::
  "pending_state \<Rightarrow> (TransactionIdType \<Rightarrow> ContractinTrxEntry option) option \<Rightarrow> TransactionIdType \<Rightarrow> ContractinTrxEntry option" where
  "ps_contract_lookup_contractid_by_trxid s prev k = overlay (ps_trx_to_contract_id s) (ps_trx_to_contract_id_remove s) prev k"

fun contract_lookup_contractid_by_trxid :: "chain \<Rightarrow> TransactionIdType \<Rightarrow> ContractinTrxEntry option" where
  "contract_lookup_contractid_by_trxid (ChainDatabase d) k = cd_contract_lookup_contractid_by_trxid d k"
| "contract_lookup_contractid_by_trxid (PendingChainState s prev) k = ps_contract_lookup_contractid_by_trxid s (map_option contract_lookup_contractid_by_trxid prev) k"

definition cd_contract_store_contractid_by_trxid :: "TransactionIdType \<Rightarrow> ContractinTrxEntry \<Rightarrow> chain_database \<Rightarrow> chain_database" where
  "cd_contract_store_contractid_by_trxid k v d = d\<lparr>db_trx_to_contract_id := AList.update k v (db_trx_to_contract_id d)\<rparr>"

definition ps_contract_store_contractid_by_trxid :: "TransactionIdType \<Rightarrow> ContractinTrxEntry \<Rightarrow> pending_state \<Rightarrow> pending_state" where
  "ps_contract_store_contractid_by_trxid k v s =
    s\<lparr>ps_trx_to_contract_id_remove := removeAll k (ps_trx_to_contract_id_remove s),
      ps_trx_to_contract_id := AList.update k v (ps_trx_to_contract_id s)\<rparr>"

definition contract_store_contractid_by_trxid :: "TransactionIdType \<Rightarrow> ContractinTrxEntry \<Rightarrow> chain \<Rightarrow> chain" where
  "contract_store_contractid_by_trxid k v = on_chain (cd_contract_store_contractid_by_trxid k v) (ps_contract_store_contractid_by_trxid k v)"

definition cd_contract_erase_contractid_by_trxid :: "TransactionIdType \<Rightarrow> chain_database \<Rightarrow> chain_database" where
  "cd_contract_erase_contractid_by_trxid k d = d\<lparr>db_trx_to_contract_id := AList.delete k (db_trx_to_contract_id d)\<rparr>"

definition ps_contract_erase_contractid_by_trxid :: "TransactionIdType \<Rightarrow> pending_state \<Rightarrow> pending_state" where
  "ps_contract_erase_contractid_by_trxid k s =
    s\<lparr>ps_trx_to_contract_id := AList.delete k (ps_trx_to_contract_id s),
      ps_trx_to_contract_id_remove := set_insert k (ps_trx_to_contract_id_remove s)\<rparr>"

definition contract_erase_contractid_by_trxid :: "TransactionIdType \<Rightarrow> chain \<Rightarrow> chain" where
  "contract_erase_contractid_by_trxid k = on_chain (cd_contract_erase_contractid_by_trxid k) (ps_contract_erase_contractid_by_trxid k)"


section \<open>Transactions of contracts\<close>

definition cd_contract_lookup_trxid_by_contract_id :: "chain_database \<Rightarrow> ContractIdType \<Rightarrow> ContractTrxEntry option" where
  "cd_contract_lookup_trxid_by_contract_id d k = map_of (db_contract_to_trx_id d) k"

definition ps_contract_lookup_trxid_by_contract_id ::
  "pending_state \<Rightarrow> (ContractIdType \<Rightarrow> ContractTrxEntry option) option \<Rightarrow> ContractIdType \<Rightarrow> ContractTrxEntry option" where
  "ps_contract_lookup_trxid_by_contract_id s prev k = overlay (ps_contract_to_trx_id s) (ps_contract_to_trx_id_remove s) prev k"

fun contract_lookup_trxid_by_contract_id :: "chain \<Rightarrow> ContractIdType \<Rightarrow> ContractTrxEntry option" where
  "contract_lookup_trxid_by_contract_id (ChainDatabase d) k = cd_contract_lookup_trxid_by_contract_id d k"
| "contract_lookup_trxid_by_contract_id (PendingChainState s prev) k = ps_contract_lookup_trxid_by_contract_id s (map_option contract_lookup_trxid_by_contract_id prev) k"

definition cd_contract_store_trxid_by_contractid :: "ContractIdType \<Rightarrow> ContractTrxEntry \<Rightarrow> chain_database \<Rightarrow> chain_database" where
  "cd_contract_store_trxid_by_contractid k v d = d\<lparr>db_contract_to_trx_id := AList.update k v (db_contract_to_trx_id d)\<rparr>"

definition ps_contract_store_trxid_by_contractid :: "ContractIdType \<Rightarrow> ContractTrxEntry \<Rightarrow> pending_state \<Rightarrow> pending_state" where
  "ps_contract_store_trxid_by_contractid k v s =
    s\<lparr>ps_contract_to_trx_id_remove := removeAll k (ps_contract_to_trx_id_remove s),
      ps_contract_to_trx_id := AList.update k v (ps_contract_to_trx_id s)\<rparr>"

definition contract_store_trxid_by_contractid :: "ContractIdType \<Rightarrow> ContractTrxEntry \<Rightarrow> chain \<Rightarrow> chain" where
  "contract_store_trxid_by_contractid k v = on_chain (cd_contract_store_trxid_by_contractid k v) (ps_contract_store_trxid_by_contractid k v)"

definition cd_contract_erase_trxid_by_contract_id :: "ContractIdType \<Rightarrow> chain_database \<Rightarrow> chain_database" where
  "cd_contract_erase_trxid_by_contract_id k d = d\<lparr>db_contract_to_trx_id := AList.delete k (db_contract_to_trx_id d)\<rparr>"

definition ps_contract_erase_trxid_by_contract_id :: "ContractIdType \<Rightarrow> pending_state \<Rightarrow> pending_state" where
  "ps_contract_erase_trxid_by_contract_id k s =
    s\<lparr>ps_contract_to_trx_id := AList.delete k (ps_contract_to_trx_id s),
      ps_contract_to_trx_id_remove := set_insert k (ps_contract_to_trx_id_remove s)\<rparr>"

definition contract_erase_trxid_by_contract_id :: "ContractIdType \<Rightarrow> chain \<Rightarrow> chain" where
  "contract_erase_trxid_by_contract_id k = on_chain (cd_contract_erase_trxid_by_contract_id k) (ps_contract_erase_trxid_by_contract_id k)"


section \<open>Storing and removing entries\<close>

definition property_store :: "PropertyIdType \<Rightarrow> PropertyEntry \<Rightarrow> chain \<Rightarrow> chain result" where
  "property_store k v ch = Inr (property_insert_into_id_map k v ch)"

definition property_remove :: "PropertyIdType \<Rightarrow> chain \<Rightarrow> chain result" where
  "property_remove k ch =
    (if property_lookup_by_id ch k \<noteq> None then Inr (property_erase_from_id_map k ch) else Inr ch)"

text \<open>The loops over a key history.\<close>

definition erase_key_addresses :: "env \<Rightarrow> ('a \<times> PublicKeyType) list \<Rightarrow> chain \<Rightarrow> chain" where
  "erase_key_addresses E history ch =
    fold (\<lambda>item. account_erase_from_address_map (env_addr_of E (snd item))) history ch"

definition insert_key_addresses :: "env \<Rightarrow> AccountIdType \<Rightarrow> ('a \<times> PublicKeyType) list \<Rightarrow> chain \<Rightarrow> chain" where
  "insert_key_addresses E k history ch =
    fold (\<lambda>item ch. if snd item \<noteq> 0
            then account_insert_into_address_map (env_addr_of E (snd item)) k ch else ch) history ch"

text \<open>The two conditions of \<open>AccountEntry::store\<close> on a delegate.\<close>

definition signer_changed :: "AccountEntry \<Rightarrow> AccountEntry \<Rightarrow> bool result" where
  "signer_changed prev entry =
    (if \<not> is_delegate entry then Inr True
     else bindE (signing_key prev) (\<lambda>pk. bindE (signing_key entry) (\<lambda>ek. Inr (pk \<noteq> ek))))"

definition votes_moved :: "AccountEntry \<Rightarrow> AccountEntry \<Rightarrow> bool result" where
  "votes_moved prev entry =
    bindE (is_retracted prev) (\<lambda>pr.
    if pr then Inr False
    else bindE (is_retracted entry) (\<lambda>er.
      if er \<or> \<not> is_delegate entry then Inr True
      else bindE (net_votes prev) (\<lambda>pv. bindE (net_votes entry) (\<lambda>ev. Inr (pv \<noteq> ev)))))"

text \<open>\<open>AccountEntry::store\<close>: the erasures for a previous entry, then the insertions.\<close>

definition account_store_erase :: "env \<Rightarrow> AccountEntry \<Rightarrow> AccountEntry \<Rightarrow> chain \<Rightarrow> chain result" where
  "account_store_erase E prev entry ch =
    (let ch = (if ac_name prev \<noteq> ac_name entry then account_erase_from_name_map (ac_name prev) ch else ch);
         ch = (if owner_address (env_addr_of E) prev \<noteq> owner_address (env_addr_of E) entry
               then account_erase_from_address_map (owner_address (env_addr_of E) prev) ch else ch)
     in bindE (active_key prev) (\<lambda>pk. bindE (active_key entry) (\<lambda>ek.
        let ch = (if pk \<noteq> ek then erase_key_addresses E (active_key_history prev) ch else ch)
        in case delegate_info prev of
             None \<Rightarrow> Inr ch
           | Some pd \<Rightarrow>
               bindE (signer_changed prev entry) (\<lambda>new_signer.
               let ch = (if new_signer then erase_key_addresses E (signing_key_history pd) ch else ch)
               in bindE (votes_moved prev entry) (\<lambda>moved.
                  if moved
                  then bindE (net_votes prev) (\<lambda>pv.
                       Inr (account_erase_from_vote_set (VoteDel pv (ac_id prev)) ch))
                  else Inr ch)))))"

definition account_store_insert :: "env \<Rightarrow> AccountIdType \<Rightarrow> AccountEntry \<Rightarrow> chain \<Rightarrow> chain result" where
  "account_store_insert E k entry ch =
    (let ch = account_insert_into_id_map k entry ch;
         ch = account_insert_into_name_map (ac_name entry) k ch;
         ch = account_insert_into_address_map (owner_address (env_addr_of E) entry) k ch;
         ch = insert_key_addresses E k (active_key_history entry) ch
     in case delegate_info entry of
          None \<Rightarrow> Inr ch
        | Some ed \<Rightarrow>
            let ch = insert_key_addresses E k (signing_key_history ed) ch
            in bindE (is_retracted entry) (\<lambda>r.
               if \<not> r
               then bindE (net_votes entry) (\<lambda>v. Inr (account_insert_into_vote_set (VoteDel v k) ch))
               else Inr ch))"

definition account_store :: "env \<Rightarrow> AccountIdType \<Rightarrow> AccountEntry \<Rightarrow> chain \<Rightarrow> chain result" where
  "account_store E k entry ch =
    bindE (case account_lookup_by_id ch k of
             Some prev \<Rightarrow> account_store_erase E prev entry ch
           | None \<Rightarrow> Inr ch)
      (account_store_insert E k entry)"

definition account_remove :: "env \<Rightarrow> AccountIdType \<Rightarrow> chain \<Rightarrow> chain result" where
  "account_remove E k ch =
    (case account_lookup_by_id ch k of
       None \<Rightarrow> Inr ch
     | Some prev \<Rightarrow>
         let ch = account_erase_from_id_map k ch;
             ch = account_erase_from_name_map (ac_name prev) ch;
             ch = account_erase_from_address_map (owner_address (env_addr_of E) prev) ch;
             ch = erase_key_addresses E (active_key_history prev) ch
         in case delegate_info prev of
              None \<Rightarrow> Inr ch
            | Some pd \<Rightarrow>
                let ch = erase_key_addresses E (signing_key_history pd) ch
                in bindE (is_retracted prev) (\<lambda>r.
                   if \<not> r
                   then bindE (net_votes prev) (\<lambda>v.
                        Inr (account_erase_from_vote_set (VoteDel v (ac_id prev)) ch))
                   else Inr ch))"

definition asset_store :: "AssetIdType \<Rightarrow> AssetEntry \<Rightarrow> chain \<Rightarrow> chain result" where
  "asset_store k entry ch =
    (let ch = (case asset_lookup_by_id ch k of
                 Some prev \<Rightarrow>
                   if as_symbol prev \<noteq> as_symbol entry
                   then asset_erase_from_symbol_map (as_symbol prev) ch else ch
               | None \<Rightarrow> ch)
     in Inr (asset_insert_into_symbol_map (as_symbol entry) k (asset_insert_into_id_map k entry ch)))"

definition asset_remove :: "AssetIdType \<Rightarrow> chain \<Rightarrow> chain result" where
  "asset_remove k ch =
    (case asset_lookup_by_id ch k of
       Some prev \<Rightarrow> Inr (asset_erase_from_symbol_map (as_symbol prev) (asset_erase_from_id_map k ch))
     | None \<Rightarrow> Inr ch)"

definition slate_store :: "SlateIdType \<Rightarrow> SlateEntry \<Rightarrow> chain \<Rightarrow> chain result" where
  "slate_store k v ch = Inr (slate_insert_into_id_map k v ch)"

definition slate_remove :: "SlateIdType \<Rightarrow> chain \<Rightarrow> chain result" where
  "slate_remove k ch =
    (if slate_lookup_by_id ch k \<noteq> None then Inr (slate_erase_from_id_map k ch) else Inr ch)"

definition balance_store :: "BalanceIdType \<Rightarrow> BalanceEntry \<Rightarrow> chain \<Rightarrow> chain result" where
  "balance_store k v ch = Inr (balance_insert_into_id_map k v ch)"

definition balance_remove :: "BalanceIdType \<Rightarrow> chain \<Rightarrow> chain result" where
  "balance_remove k ch =
    (if balance_lookup_by_id ch k \<noteq> None then Inr (balance_erase_from_id_map k ch) else Inr ch)"

definition transaction_store :: "env \<Rightarrow> TransactionIdType \<Rightarrow> TransactionEntry \<Rightarrow> chain \<Rightarrow> chain result" where
  "transaction_store E k v ch =
    Inr (transaction_insert_into_unique_set E (trx (te_state v)) (transaction_insert_into_id_map E k v ch))"

definition transaction_remove :: "env \<Rightarrow> TransactionIdType \<Rightarrow> chain \<Rightarrow> chain result" where
  "transaction_remove E k ch =
    (case transaction_lookup_by_id ch k of
       Some prev \<Rightarrow>
         Inr (transaction_erase_from_unique_set E (trx (te_state prev)) (transaction_erase_from_id_map E k ch))
     | None \<Rightarrow> Inr ch)"

definition slot_store :: "env \<Rightarrow> SlotIndex \<Rightarrow> SlotEntry \<Rightarrow> chain \<Rightarrow> chain result" where
  "slot_store E k entry ch =
    (if \<not> env_statistics_enabled E then Inr ch
     else
       let ch = (case slot_lookup_by_index ch k of
                   Some prev \<Rightarrow>
                     if si_timestamp (slot_index prev) \<noteq> si_timestamp k
                     then slot_erase_from_timestamp_map (si_timestamp (slot_index prev)) ch else ch
                 | None \<Rightarrow> ch)
       in Inr (slot_insert_into_timestamp_map (si_timestamp k) (si_delegate_id k)
                 (slot_insert_into_index_map k entry ch)))"

definition slot_remove :: "env \<Rightarrow> SlotIndex \<Rightarrow> chain \<Rightarrow> chain result" where
  "slot_remove E k ch =
    (if \<not> env_statistics_enabled E then Inr ch
     else case slot_lookup_by_index ch k of
       Some prev \<Rightarrow>
         Inr (slot_erase_from_timestamp_map (si_timestamp (slot_index prev)) (slot_erase_from_index_map k ch))
     | None \<Rightarrow> Inr ch)"

definition contract_store :: "ContractIdType \<Rightarrow> ContractEntry \<Rightarrow> chain \<Rightarrow> chain result" where
  "contract_store k v ch =
    (let ch = contract_insert_into_id_map k v ch in
     if is_valid_contract_name (contract_name v)
     then Inr (contract_insert_into_name_map (contract_name v) k ch)
     else Inr ch)"

definition contract_remove :: "ContractIdType \<Rightarrow> chain \<Rightarrow> chain result" where
  "contract_remove k ch =
    (if contract_lookup_by_id ch k \<noteq> None then Inr (contract_erase_from_id_map k ch) else Inr ch)"

definition contractstorage_store :: "ContractIdType \<Rightarrow> ContractStorageEntry \<Rightarrow> chain \<Rightarrow> chain result" where
  "contractstorage_store k v ch = Inr (contractstorage_insert_into_id_map k v ch)"

definition contractstorage_remove :: "ContractIdType \<Rightarrow> chain \<Rightarrow> chain result" where
  "contractstorage_remove k ch =
    (if contractstorage_lookup_by_id ch k \<noteq> None
     then Inr (contractstorage_erase_from_id_map k ch) else Inr ch)"

definition resultid_store :: "TransactionIdType \<Rightarrow> ResultTIdEntry \<Rightarrow> chain \<Rightarrow> chain result" where
  "resultid_store k v ch = Inr (contract_store_resultid_by_reqestid k v ch)"

definition resultid_remove :: "TransactionIdType \<Rightarrow> chain \<Rightarrow> chain result" where
  "resultid_remove k ch = Inr (contract_erase_resultid_by_reqestid k ch)"

definition requestid_store :: "TransactionIdType \<Rightarrow> RequestIdEntry \<Rightarrow> chain \<Rightarrow> chain result" where
  "requestid_store k v ch = Inr (contract_store_requestid_by_resultid k v ch)"

definition requestid_remove :: "TransactionIdType \<Rightarrow> chain \<Rightarrow> chain result" where
  "requestid_remove k ch = Inr (contract_erase_requestid_by_resultid k ch)"

definition contractin_trx_store :: "TransactionIdType \<Rightarrow> ContractinTrxEntry \<Rightarrow> chain \<Rightarrow> chain result" where
  "contractin_trx_store k v ch = Inr (contract_store_contractid_by_trxid k v ch)"

definition contractin_trx_remove :: "TransactionIdType \<Rightarrow> chain \<Rightarrow> chain result" where
  "contractin_trx_remove k ch = Inr (contract_erase_contractid_by_trxid k ch)"

definition contract_trx_store :: "ContractIdType \<Rightarrow> ContractTrxEntry \<Rightarrow> chain \<Rightarrow> chain result" where
  "contract_trx_store k v ch = Inr (contract_store_trxid_by_contractid k v ch)"

definition contract_trx_remove :: "ContractIdType \<Rightarrow> chain \<Rightarrow> chain result" where
  "contract_trx_remove k ch = Inr (contract_erase_trxid_by_contract_id k ch)"

end
