(* ===== verification/Overlay.thy ===== *)
theory Overlay
  imports Chain_State
begin

text \<open>
  The contract of \<open>ChainInterface\<close>: whatever object stands behind the pointer, its lookups are a record
  of partial maps (\<open>chain_view\<close>), and every \<open>store\<close> and \<open>remove\<close> changes one of the maps at one key.
  Against that contract the theory proves what the overlay promises: \<open>apply_changes\<close> makes the
  previous state look as the overlay did, and \<open>get_undo_state\<close> collects an overlay that, applied
  afterwards, brings back the view from before (\<open>PendingChainState.cpp\<close>, \<open>PendingChainState.hpp\<close>).
\<close>

section \<open>The view of a chain\<close>

record chain_view =
  v_property :: "PropertyIdType \<Rightarrow> PropertyEntry option"
  v_account :: "AccountIdType \<Rightarrow> AccountEntry option"
  v_asset :: "AssetIdType \<Rightarrow> AssetEntry option"
  v_slate :: "SlateIdType \<Rightarrow> SlateEntry option"
  v_balance :: "BalanceIdType \<Rightarrow> BalanceEntry option"
  v_transaction :: "TransactionIdType \<Rightarrow> TransactionEntry option"
  v_slot :: "SlotIndex \<Rightarrow> SlotEntry option"
  v_contract :: "ContractIdType \<Rightarrow> ContractEntry option"
  v_resultid :: "TransactionIdType \<Rightarrow> ResultTIdEntry option"
  v_requestid :: "TransactionIdType \<Rightarrow> RequestIdEntry option"
  v_contractin_trx :: "TransactionIdType \<Rightarrow> ContractinTrxEntry option"
  v_contract_trx :: "ContractIdType \<Rightarrow> ContractTrxEntry option"

definition view :: "chain \<Rightarrow> chain_view" where
  "view ch =
    \<lparr>v_property = property_lookup_by_id ch,
     v_account = account_lookup_by_id ch,
     v_asset = asset_lookup_by_id ch,
     v_slate = slate_lookup_by_id ch,
     v_balance = balance_lookup_by_id ch,
     v_transaction = transaction_lookup_by_id ch,
     v_slot = slot_lookup_by_index ch,
     v_contract = contract_lookup_by_id ch,
     v_resultid = contract_lookup_resultid_by_reqestid ch,
     v_requestid = contract_lookup_requestid_by_resultid ch,
     v_contractin_trx = contract_lookup_contractid_by_trxid ch,
     v_contract_trx = contract_lookup_trxid_by_contract_id ch\<rparr>"

named_theorems chain_defs \<open>definitions of the virtual methods\<close>

declare on_chain_def [chain_defs]

declare
  cd_property_insert_into_id_map_def [chain_defs]
  ps_property_insert_into_id_map_def [chain_defs]
  property_insert_into_id_map_def [chain_defs]
  cd_property_erase_from_id_map_def [chain_defs]
  ps_property_erase_from_id_map_def [chain_defs]
  property_erase_from_id_map_def [chain_defs]
  cd_account_insert_into_id_map_def [chain_defs]
  ps_account_insert_into_id_map_def [chain_defs]
  account_insert_into_id_map_def [chain_defs]
  cd_account_erase_from_id_map_def [chain_defs]
  ps_account_erase_from_id_map_def [chain_defs]
  account_erase_from_id_map_def [chain_defs]
  cd_asset_insert_into_id_map_def [chain_defs]
  ps_asset_insert_into_id_map_def [chain_defs]
  asset_insert_into_id_map_def [chain_defs]
  cd_asset_erase_from_id_map_def [chain_defs]
  ps_asset_erase_from_id_map_def [chain_defs]
  asset_erase_from_id_map_def [chain_defs]
  cd_slate_insert_into_id_map_def [chain_defs]
  ps_slate_insert_into_id_map_def [chain_defs]
  slate_insert_into_id_map_def [chain_defs]
  cd_slate_erase_from_id_map_def [chain_defs]
  ps_slate_erase_from_id_map_def [chain_defs]
  slate_erase_from_id_map_def [chain_defs]
  cd_balance_insert_into_id_map_def [chain_defs]
  ps_balance_insert_into_id_map_def [chain_defs]
  balance_insert_into_id_map_def [chain_defs]
  cd_balance_erase_from_id_map_def [chain_defs]
  ps_balance_erase_from_id_map_def [chain_defs]
  balance_erase_from_id_map_def [chain_defs]
  cd_slot_insert_into_index_map_def [chain_defs]
  ps_slot_insert_into_index_map_def [chain_defs]
  slot_insert_into_index_map_def [chain_defs]
  cd_slot_erase_from_index_map_def [chain_defs]
  ps_slot_erase_from_index_map_def [chain_defs]
  slot_erase_from_index_map_def [chain_defs]
  cd_contract_insert_into_id_map_def [chain_defs]
  ps_contract_insert_into_id_map_def [chain_defs]
  contract_insert_into_id_map_def [chain_defs]
  cd_contract_erase_from_id_map_def [chain_defs]
  ps_contract_erase_from_id_map_def [chain_defs]
  contract_erase_from_id_map_def [chain_defs]
  cd_contract_store_resultid_by_reqestid_def [chain_defs]
  ps_contract_store_resultid_by_reqestid_def [chain_defs]
  contract_store_resultid_by_reqestid_def [chain_defs]
  cd_contract_erase_resultid_by_reqestid_def [chain_defs]
  ps_contract_erase_resultid_by_reqestid_def [chain_defs]
  contract_erase_resultid_by_reqestid_def [chain_defs]
  cd_contract_store_requestid_by_resultid_def [chain_defs]
  ps_contract_store_requestid_by_resultid_def [chain_defs]
  contract_store_requestid_by_resultid_def [chain_defs]
  cd_contract_erase_requestid_by_resultid_def [chain_defs]
  ps_contract_erase_requestid_by_resultid_def [chain_defs]
  contract_erase_requestid_by_resultid_def [chain_defs]
  cd_contract_store_contractid_by_trxid_def [chain_defs]
  ps_contract_store_contractid_by_trxid_def [chain_defs]
  contract_store_contractid_by_trxid_def [chain_defs]
  cd_contract_erase_contractid_by_trxid_def [chain_defs]
  ps_contract_erase_contractid_by_trxid_def [chain_defs]
  contract_erase_contractid_by_trxid_def [chain_defs]
  cd_contract_store_trxid_by_contractid_def [chain_defs]
  ps_contract_store_trxid_by_contractid_def [chain_defs]
  contract_store_trxid_by_contractid_def [chain_defs]
  cd_contract_erase_trxid_by_contract_id_def [chain_defs]
  ps_contract_erase_trxid_by_contract_id_def [chain_defs]
  contract_erase_trxid_by_contract_id_def [chain_defs]
  cd_account_insert_into_name_map_def [chain_defs]
  ps_account_insert_into_name_map_def [chain_defs]
  account_insert_into_name_map_def [chain_defs]
  cd_account_erase_from_name_map_def [chain_defs]
  ps_account_erase_from_name_map_def [chain_defs]
  account_erase_from_name_map_def [chain_defs]
  cd_account_insert_into_address_map_def [chain_defs]
  ps_account_insert_into_address_map_def [chain_defs]
  account_insert_into_address_map_def [chain_defs]
  cd_account_erase_from_address_map_def [chain_defs]
  ps_account_erase_from_address_map_def [chain_defs]
  account_erase_from_address_map_def [chain_defs]
  cd_account_insert_into_vote_set_def [chain_defs]
  ps_account_insert_into_vote_set_def [chain_defs]
  account_insert_into_vote_set_def [chain_defs]
  cd_account_erase_from_vote_set_def [chain_defs]
  ps_account_erase_from_vote_set_def [chain_defs]
  account_erase_from_vote_set_def [chain_defs]
  cd_asset_insert_into_symbol_map_def [chain_defs]
  ps_asset_insert_into_symbol_map_def [chain_defs]
  asset_insert_into_symbol_map_def [chain_defs]
  cd_asset_erase_from_symbol_map_def [chain_defs]
  ps_asset_erase_from_symbol_map_def [chain_defs]
  asset_erase_from_symbol_map_def [chain_defs]
  cd_slot_insert_into_timestamp_map_def [chain_defs]
  ps_slot_insert_into_timestamp_map_def [chain_defs]
  slot_insert_into_timestamp_map_def [chain_defs]
  cd_slot_erase_from_timestamp_map_def [chain_defs]
  ps_slot_erase_from_timestamp_map_def [chain_defs]
  slot_erase_from_timestamp_map_def [chain_defs]
  cd_contract_insert_into_name_map_def [chain_defs]
  ps_contract_insert_into_name_map_def [chain_defs]
  contract_insert_into_name_map_def [chain_defs]
  cd_contract_erase_from_name_map_def [chain_defs]
  ps_contract_erase_from_name_map_def [chain_defs]
  contract_erase_from_name_map_def [chain_defs]
  cd_contractstorage_insert_into_id_map_def [chain_defs]
  ps_contractstorage_insert_into_id_map_def [chain_defs]
  contractstorage_insert_into_id_map_def [chain_defs]
  cd_contractstorage_erase_from_id_map_def [chain_defs]
  ps_contractstorage_erase_from_id_map_def [chain_defs]
  contractstorage_erase_from_id_map_def [chain_defs]
  cd_transaction_insert_into_unique_set_def [chain_defs]
  ps_transaction_insert_into_unique_set_def [chain_defs]
  transaction_insert_into_unique_set_def [chain_defs]
  cd_transaction_erase_from_unique_set_def [chain_defs]
  ps_transaction_erase_from_unique_set_def [chain_defs]
  transaction_erase_from_unique_set_def [chain_defs]
  ps_transaction_insert_into_id_map_def [chain_defs]
  ps_transaction_erase_from_id_map_def [chain_defs]

text \<open>A lookup as a function of the object.\<close>

lemma lookup_db:
  "property_lookup_by_id (ChainDatabase d) = map_of (db_property_id_to_entry d)"
  "account_lookup_by_id (ChainDatabase d) = map_of (db_account_id_to_entry d)"
  "asset_lookup_by_id (ChainDatabase d) = map_of (db_asset_id_to_entry d)"
  "slate_lookup_by_id (ChainDatabase d) = map_of (db_slate_id_to_entry d)"
  "balance_lookup_by_id (ChainDatabase d) = map_of (db_balance_id_to_entry d)"
  "transaction_lookup_by_id (ChainDatabase d) = map_of (db_transaction_id_to_entry d)"
  "slot_lookup_by_index (ChainDatabase d) = map_of (db_slot_index_to_entry d)"
  "contract_lookup_by_id (ChainDatabase d) = map_of (db_contract_id_to_entry d)"
  "contract_lookup_resultid_by_reqestid (ChainDatabase d) = map_of (db_request_to_result_id d)"
  "contract_lookup_requestid_by_resultid (ChainDatabase d) = map_of (db_result_to_request_id d)"
  "contract_lookup_contractid_by_trxid (ChainDatabase d) = map_of (db_trx_to_contract_id d)"
  "contract_lookup_trxid_by_contract_id (ChainDatabase d) = map_of (db_contract_to_trx_id d)"
  by (simp_all add: fun_eq_iff cd_property_lookup_by_id_def cd_account_lookup_by_id_def cd_asset_lookup_by_id_def cd_slate_lookup_by_id_def cd_balance_lookup_by_id_def cd_transaction_lookup_by_id_def cd_slot_lookup_by_index_def cd_contract_lookup_by_id_def cd_contract_lookup_resultid_by_reqestid_def cd_contract_lookup_requestid_by_resultid_def cd_contract_lookup_contractid_by_trxid_def cd_contract_lookup_trxid_by_contract_id_def)

lemma lookup_overlay:
  "property_lookup_by_id (PendingChainState s prev) =
     overlay (ps_property_id_to_entry s) (ps_property_id_remove s) (map_option property_lookup_by_id prev)"
  "account_lookup_by_id (PendingChainState s prev) =
     overlay (ps_account_id_to_entry s) (ps_account_id_remove s) (map_option account_lookup_by_id prev)"
  "asset_lookup_by_id (PendingChainState s prev) =
     overlay (ps_asset_id_to_entry s) (ps_asset_id_remove s) (map_option asset_lookup_by_id prev)"
  "slate_lookup_by_id (PendingChainState s prev) =
     overlay (ps_slate_id_to_entry s) (ps_slate_id_remove s) (map_option slate_lookup_by_id prev)"
  "balance_lookup_by_id (PendingChainState s prev) =
     overlay (ps_balance_id_to_entry s) (ps_balance_id_remove s) (map_option balance_lookup_by_id prev)"
  "transaction_lookup_by_id (PendingChainState s prev) =
     overlay (ps_transaction_id_to_entry s) (ps_transaction_id_remove s) (map_option transaction_lookup_by_id prev)"
  "slot_lookup_by_index (PendingChainState s prev) =
     overlay (ps_slot_index_to_entry s) (ps_slot_index_remove s) (map_option slot_lookup_by_index prev)"
  "contract_lookup_by_id (PendingChainState s prev) =
     overlay (ps_contract_id_to_entry s) (ps_contract_id_remove s) (map_option contract_lookup_by_id prev)"
  "contract_lookup_resultid_by_reqestid (PendingChainState s prev) =
     overlay (ps_request_id_to_result_id s) (ps_req_to_res_to_remove s) (map_option contract_lookup_resultid_by_reqestid prev)"
  "contract_lookup_requestid_by_resultid (PendingChainState s prev) =
     overlay (ps_result_id_to_request_id s) (ps_res_to_req_to_remove s) (map_option contract_lookup_requestid_by_resultid prev)"
  "contract_lookup_contractid_by_trxid (PendingChainState s prev) =
     overlay (ps_trx_to_contract_id s) (ps_trx_to_contract_id_remove s) (map_option contract_lookup_contractid_by_trxid prev)"
  "contract_lookup_trxid_by_contract_id (PendingChainState s prev) =
     overlay (ps_contract_to_trx_id s) (ps_contract_to_trx_id_remove s) (map_option contract_lookup_trxid_by_contract_id prev)"
  by (simp_all add: fun_eq_iff ps_property_lookup_by_id_def ps_account_lookup_by_id_def ps_asset_lookup_by_id_def ps_slate_lookup_by_id_def ps_balance_lookup_by_id_def ps_transaction_lookup_by_id_def ps_slot_lookup_by_index_def ps_contract_lookup_by_id_def ps_contract_lookup_resultid_by_reqestid_def ps_contract_lookup_requestid_by_resultid_def ps_contract_lookup_contractid_by_trxid_def ps_contract_lookup_trxid_by_contract_id_def)

lemma overlay_update [simp]:
  "overlay (AList.update k v st) (removeAll k rm) prev = (overlay st rm prev)(k \<mapsto> v)"
  by (auto simp: overlay_def fun_eq_iff split: option.splits)

lemma overlay_delete [simp]:
  "overlay (AList.delete k st) (set_insert k rm) prev = (overlay st rm prev)(k := None)"
  by (auto simp: overlay_def fun_eq_iff split: option.splits)

lemma map_of_update_fun [simp]: "map_of (AList.update k v st) = (map_of st)(k \<mapsto> v)"
  by (simp add: fun_eq_iff)

lemma map_of_delete_fun [simp]: "map_of (AList.delete k st) = (map_of st)(k := None)"
  by (simp add: fun_eq_iff)

lemmas view_defs = view_def lookup_db lookup_overlay

text \<open>The view through an overlay depends only on the view of the previous state.\<close>

lemma view_overlay:
  "view (PendingChainState s (Some p)) =
    \<lparr>v_property = overlay (ps_property_id_to_entry s) (ps_property_id_remove s) (Some (v_property (view p))),
     v_account = overlay (ps_account_id_to_entry s) (ps_account_id_remove s) (Some (v_account (view p))),
     v_asset = overlay (ps_asset_id_to_entry s) (ps_asset_id_remove s) (Some (v_asset (view p))),
     v_slate = overlay (ps_slate_id_to_entry s) (ps_slate_id_remove s) (Some (v_slate (view p))),
     v_balance = overlay (ps_balance_id_to_entry s) (ps_balance_id_remove s) (Some (v_balance (view p))),
     v_transaction = overlay (ps_transaction_id_to_entry s) (ps_transaction_id_remove s) (Some (v_transaction (view p))),
     v_slot = overlay (ps_slot_index_to_entry s) (ps_slot_index_remove s) (Some (v_slot (view p))),
     v_contract = overlay (ps_contract_id_to_entry s) (ps_contract_id_remove s) (Some (v_contract (view p))),
     v_resultid = overlay (ps_request_id_to_result_id s) (ps_req_to_res_to_remove s) (Some (v_resultid (view p))),
     v_requestid = overlay (ps_result_id_to_request_id s) (ps_res_to_req_to_remove s) (Some (v_requestid (view p))),
     v_contractin_trx = overlay (ps_trx_to_contract_id s) (ps_trx_to_contract_id_remove s) (Some (v_contractin_trx (view p))),
     v_contract_trx = overlay (ps_contract_to_trx_id s) (ps_contract_to_trx_id_remove s) (Some (v_contract_trx (view p)))\<rparr>"
  by (simp add: view_defs)

text \<open>Every map method changes one component at one key.\<close>

lemma view_insert:
  "view (property_insert_into_id_map kproperty xproperty ch) = (view ch)\<lparr>v_property := (v_property (view ch))(kproperty \<mapsto> xproperty)\<rparr>"
  "view (account_insert_into_id_map kaccount xaccount ch) = (view ch)\<lparr>v_account := (v_account (view ch))(kaccount \<mapsto> xaccount)\<rparr>"
  "view (asset_insert_into_id_map kasset xasset ch) = (view ch)\<lparr>v_asset := (v_asset (view ch))(kasset \<mapsto> xasset)\<rparr>"
  "view (slate_insert_into_id_map kslate xslate ch) = (view ch)\<lparr>v_slate := (v_slate (view ch))(kslate \<mapsto> xslate)\<rparr>"
  "view (balance_insert_into_id_map kbalance xbalance ch) = (view ch)\<lparr>v_balance := (v_balance (view ch))(kbalance \<mapsto> xbalance)\<rparr>"
  "view (slot_insert_into_index_map kslot xslot ch) = (view ch)\<lparr>v_slot := (v_slot (view ch))(kslot \<mapsto> xslot)\<rparr>"
  "view (contract_insert_into_id_map kcontract xcontract ch) = (view ch)\<lparr>v_contract := (v_contract (view ch))(kcontract \<mapsto> xcontract)\<rparr>"
  "view (contract_store_resultid_by_reqestid kresultid xresultid ch) = (view ch)\<lparr>v_resultid := (v_resultid (view ch))(kresultid \<mapsto> xresultid)\<rparr>"
  "view (contract_store_requestid_by_resultid krequestid xrequestid ch) = (view ch)\<lparr>v_requestid := (v_requestid (view ch))(krequestid \<mapsto> xrequestid)\<rparr>"
  "view (contract_store_contractid_by_trxid kcontractin_trx xcontractin_trx ch) = (view ch)\<lparr>v_contractin_trx := (v_contractin_trx (view ch))(kcontractin_trx \<mapsto> xcontractin_trx)\<rparr>"
  "view (contract_store_trxid_by_contractid kcontract_trx xcontract_trx ch) = (view ch)\<lparr>v_contract_trx := (v_contract_trx (view ch))(kcontract_trx \<mapsto> xcontract_trx)\<rparr>"
  by (cases ch; simp add: view_defs chain_defs)+

lemma view_erase:
  "view (property_erase_from_id_map kproperty ch) = (view ch)\<lparr>v_property := (v_property (view ch))(kproperty := None)\<rparr>"
  "view (account_erase_from_id_map kaccount ch) = (view ch)\<lparr>v_account := (v_account (view ch))(kaccount := None)\<rparr>"
  "view (asset_erase_from_id_map kasset ch) = (view ch)\<lparr>v_asset := (v_asset (view ch))(kasset := None)\<rparr>"
  "view (slate_erase_from_id_map kslate ch) = (view ch)\<lparr>v_slate := (v_slate (view ch))(kslate := None)\<rparr>"
  "view (balance_erase_from_id_map kbalance ch) = (view ch)\<lparr>v_balance := (v_balance (view ch))(kbalance := None)\<rparr>"
  "view (slot_erase_from_index_map kslot ch) = (view ch)\<lparr>v_slot := (v_slot (view ch))(kslot := None)\<rparr>"
  "view (contract_erase_from_id_map kcontract ch) = (view ch)\<lparr>v_contract := (v_contract (view ch))(kcontract := None)\<rparr>"
  "view (contract_erase_resultid_by_reqestid kresultid ch) = (view ch)\<lparr>v_resultid := (v_resultid (view ch))(kresultid := None)\<rparr>"
  "view (contract_erase_requestid_by_resultid krequestid ch) = (view ch)\<lparr>v_requestid := (v_requestid (view ch))(krequestid := None)\<rparr>"
  "view (contract_erase_contractid_by_trxid kcontractin_trx ch) = (view ch)\<lparr>v_contractin_trx := (v_contractin_trx (view ch))(kcontractin_trx := None)\<rparr>"
  "view (contract_erase_trxid_by_contract_id kcontract_trx ch) = (view ch)\<lparr>v_contract_trx := (v_contract_trx (view ch))(kcontract_trx := None)\<rparr>"
  by (cases ch; simp add: view_defs chain_defs)+

text \<open>The secondary indexes are not part of the view.\<close>

lemma view_index:
  "view (account_insert_into_name_map n i ch) = view ch"
  "view (account_erase_from_name_map n ch) = view ch"
  "view (account_insert_into_address_map a i ch) = view ch"
  "view (account_erase_from_address_map a ch) = view ch"
  "view (account_insert_into_vote_set v ch) = view ch"
  "view (account_erase_from_vote_set v ch) = view ch"
  "view (asset_insert_into_symbol_map n i ch) = view ch"
  "view (asset_erase_from_symbol_map n ch) = view ch"
  "view (slot_insert_into_timestamp_map t i ch) = view ch"
  "view (slot_erase_from_timestamp_map t ch) = view ch"
  "view (contract_insert_into_name_map n c ch) = view ch"
  "view (contract_erase_from_name_map n ch) = view ch"
  "view (contractstorage_insert_into_id_map c s ch) = view ch"
  "view (contractstorage_erase_from_id_map c ch) = view ch"
  "view (transaction_insert_into_unique_set E t' ch) = view ch"
  "view (transaction_erase_from_unique_set E t' ch) = view ch"
  by (cases ch; simp add: view_defs chain_defs)+

lemma view_fold_index:
  "(\<And>x c. x \<in> set xs \<Longrightarrow> view (f x c) = view c) \<Longrightarrow> view (fold f xs ch) = view ch"
  by (induction xs arbitrary: ch) auto

lemma view_transaction_insert:
  "view (transaction_insert_into_id_map E k x ch) = (view ch)\<lparr>v_transaction := (v_transaction (view ch))(k \<mapsto> x)\<rparr>"
proof (cases ch)
  case (ChainDatabase d)
  let ?d = "d\<lparr>db_transaction_id_to_entry := AList.update k x (db_transaction_id_to_entry d)\<rparr>"
  have "view (ChainDatabase (add_address_transaction k a d)) = view (ChainDatabase d)" for a d
    by (simp add: add_address_transaction_def view_defs Let_def)
  then have a: "view (ChainDatabase (fold (add_address_transaction k) as d)) = view (ChainDatabase d)" for as d
    by (induction "as" arbitrary: d) auto
  have "view (ChainDatabase (store_recent_operation op d)) = view (ChainDatabase d)" for op d
    by (simp add: store_recent_operation_def view_defs Let_def)
  then have o: "view (ChainDatabase (fold store_recent_operation ops d)) = view (ChainDatabase d)" for ops d
    by (induction ops arbitrary: d) auto
  have "view (ChainDatabase (cd_transaction_insert_into_id_map E k x d)) = view (ChainDatabase ?d)"
    by (simp add: cd_transaction_insert_into_id_map_def Let_def a o)
  then show ?thesis
    by (simp add: ChainDatabase transaction_insert_into_id_map_def on_chain_def) (simp add: view_defs)
next
  case (PendingChainState s p)
  then show ?thesis by (simp add: transaction_insert_into_id_map_def chain_defs view_defs)
qed

lemma view_transaction_erase:
  "view (transaction_erase_from_id_map E k ch) = (view ch)\<lparr>v_transaction := (v_transaction (view ch))(k := None)\<rparr>"
proof (cases ch)
  case (ChainDatabase d)
  have "view (ChainDatabase (remove_address_transaction k a d)) = view (ChainDatabase d)" for a d
    by (simp add: remove_address_transaction_def view_defs Let_def split: option.splits)
  then have a: "view (ChainDatabase (fold (remove_address_transaction k) as d)) = view (ChainDatabase d)" for as d
    by (induction "as" arbitrary: d) auto
  have e: "view (ChainDatabase (d\<lparr>db_transaction_id_to_entry := AList.delete k (db_transaction_id_to_entry d)\<rparr>)) =
      (view (ChainDatabase d))\<lparr>v_transaction := (v_transaction (view (ChainDatabase d)))(k := None)\<rparr>" for d
    by (simp add: view_defs)
  show ?thesis
    by (simp add: ChainDatabase transaction_erase_from_id_map_def on_chain_def
        cd_transaction_erase_from_id_map_def Let_def e a split: option.splits)
next
  case (PendingChainState s p)
  then show ?thesis by (simp add: transaction_erase_from_id_map_def chain_defs view_defs)
qed

lemmas view_simps = view_insert view_erase view_index view_transaction_insert view_transaction_erase


section \<open>The contract of an entry type\<close>

text \<open>The template members of \<open>PendingChainState\<close>, for one entry type with its \<open>store\<close> and \<open>remove\<close>.\<close>

definition apply_entrys ::
  "('k \<Rightarrow> 'v \<Rightarrow> 'c \<Rightarrow> 'c result) \<Rightarrow> ('k \<Rightarrow> 'c \<Rightarrow> 'c result) \<Rightarrow> ('k \<times> 'v) list \<Rightarrow> 'k list \<Rightarrow> 'c \<Rightarrow> 'c result" where
  "apply_entrys store remove store_map remove_set prev_state =
    bindE (foldE remove remove_set prev_state) (foldE (\<lambda>item. store (fst item) (snd item)) store_map)"

definition populate_undo_state ::
  "('k \<Rightarrow> 'v option) \<Rightarrow> ('k \<Rightarrow> 'v \<Rightarrow> 'c \<Rightarrow> 'c result) \<Rightarrow> ('k \<Rightarrow> 'c \<Rightarrow> 'c result) \<Rightarrow>
   ('k \<times> 'v) list \<Rightarrow> 'k list \<Rightarrow> 'c \<Rightarrow> 'c result" where
  "populate_undo_state lookup store remove store_map remove_set undo_state =
    bindE (foldE (\<lambda>key u. case lookup key of Some prev_entry \<Rightarrow> store key prev_entry u | None \<Rightarrow> Inr u)
             remove_set undo_state)
      (foldE (\<lambda>item u. case lookup (fst item) of
                Some prev_entry \<Rightarrow> store (fst item) prev_entry u
              | None \<Rightarrow> remove (fst item) u) store_map)"

text \<open>The interface: \<open>store\<close> and \<open>remove\<close> act on one component of the view, given by its reader
  \<open>get\<close> and its updater \<open>upd\<close>. Entries that satisfy \<open>ok\<close> can be stored and removed without an
  exception.\<close>

locale entry_type =
  fixes get :: "'w \<Rightarrow> 'k \<Rightarrow> 'v option"
    and upd :: "(('k \<Rightarrow> 'v option) \<Rightarrow> 'k \<Rightarrow> 'v option) \<Rightarrow> 'w \<Rightarrow> 'w"
    and view_of :: "'c \<Rightarrow> 'w"
    and store :: "'k \<Rightarrow> 'v \<Rightarrow> 'c \<Rightarrow> 'c result"
    and remove :: "'k \<Rightarrow> 'c \<Rightarrow> 'c result"
    and ok :: "'v \<Rightarrow> bool"
  assumes get_upd: "get (upd f x) = f (get x)"
    and upd_upd: "upd f (upd g x) = upd (\<lambda>m. f (g m)) x"
    and upd_cong: "f (get x) = g (get x) \<Longrightarrow> upd f x = upd g x"
    and view_store: "store k v c = Inr c' \<Longrightarrow> view_of c' = upd (\<lambda>m. m(k \<mapsto> v)) (view_of c)"
    and view_remove: "remove k c = Inr c' \<Longrightarrow> view_of c' = upd (\<lambda>m. m(k := None)) (view_of c)"
    and store_ok: "\<forall>v' \<in> ran (get (view_of c)). ok v' \<Longrightarrow> ok v \<Longrightarrow> \<exists>c'. store k v c = Inr c'"
    and remove_ok: "\<forall>v' \<in> ran (get (view_of c)). ok v' \<Longrightarrow> \<exists>c'. remove k c = Inr c'"
    and upd_id: "upd (\<lambda>m. m) x = x"
begin

definition all_ok :: "'c \<Rightarrow> bool" where
  "all_ok c \<longleftrightarrow> (\<forall>v \<in> ran (get (view_of c)). ok v)"

lemma all_ok_store: "all_ok c \<Longrightarrow> ok v \<Longrightarrow> store k v c = Inr c' \<Longrightarrow> all_ok c'"
  by (auto simp: all_ok_def view_store get_upd ran_def split: if_splits)

lemma all_ok_remove: "all_ok c \<Longrightarrow> remove k c = Inr c' \<Longrightarrow> all_ok c'"
  by (auto simp: all_ok_def view_remove get_upd ran_def split: if_splits)

lemma view_removes:
  "foldE remove ks c = Inr c' \<Longrightarrow> view_of c' = upd (\<lambda>m k. if k \<in> set ks then None else m k) (view_of c)"
proof (induction ks arbitrary: c)
  case Nil
  then show ?case using upd_id by simp
next
  case (Cons k ks)
  then obtain c1 where c1: "remove k c = Inr c1" "foldE remove ks c1 = Inr c'"
    by (auto simp: bindE_eq_Inr)
  show ?case unfolding Cons.IH [OF c1(2)] view_remove [OF c1(1)] upd_upd
    by (rule upd_cong) (auto simp: fun_eq_iff)
qed

lemma view_stores:
  "foldE (\<lambda>item. store (fst item) (snd item)) st c = Inr c' \<Longrightarrow> distinct (map fst st) \<Longrightarrow>
    view_of c' = upd (\<lambda>m k. case map_of st k of Some v \<Rightarrow> Some v | None \<Rightarrow> m k) (view_of c)"
proof (induction st arbitrary: c)
  case Nil
  then show ?case using upd_id by simp
next
  case (Cons kv st)
  then obtain c1 where c1: "store (fst kv) (snd kv) c = Inr c1"
      "foldE (\<lambda>item. store (fst item) (snd item)) st c1 = Inr c'"
    by (auto simp: bindE_eq_Inr)
  have notin: "map_of st (fst kv) = None"
    using Cons.prems(2) by (auto simp: map_of_eq_None_iff)
  have d: "distinct (map fst st)" using Cons.prems(2) by simp
  show ?case unfolding Cons.IH [OF c1(2) d] view_store [OF c1(1)] upd_upd
    by (rule upd_cong) (use notin in \<open>auto simp: fun_eq_iff split: option.splits\<close>)
qed

lemma removes_ok: "all_ok c \<Longrightarrow> \<exists>c'. foldE remove ks c = Inr c' \<and> all_ok c'"
proof (induction ks arbitrary: c)
  case (Cons k ks)
  then obtain c1 where "remove k c = Inr c1" using remove_ok [of c k] by (auto simp: all_ok_def)
  then show ?case using Cons.IH [of c1] all_ok_remove [OF Cons.prems] by auto
qed simp

lemma stores_ok:
  "all_ok c \<Longrightarrow> \<forall>kv \<in> set st. ok (snd kv) \<Longrightarrow>
    \<exists>c'. foldE (\<lambda>item. store (fst item) (snd item)) st c = Inr c' \<and> all_ok c'"
proof (induction st arbitrary: c)
  case (Cons kv st)
  then obtain c1 where c1: "store (fst kv) (snd kv) c = Inr c1"
    using store_ok [of c "snd kv" "fst kv"] by (auto simp: all_ok_def)
  then show ?case using Cons.IH [of c1] all_ok_store [OF Cons.prems(1) _ c1] Cons.prems by auto
qed simp

text \<open>Applying the overlay of one entry type.\<close>

lemma view_apply_entrys:
  assumes "apply_entrys store remove st rm c = Inr c'" and "distinct (map fst st)"
  shows "view_of c' = upd (\<lambda>m. overlay st rm (Some m)) (view_of c)"
proof -
  from assms(1) obtain c1 where c1: "foldE remove rm c = Inr c1"
      "foldE (\<lambda>item. store (fst item) (snd item)) st c1 = Inr c'"
    by (auto simp: apply_entrys_def bindE_eq_Inr)
  show ?thesis unfolding view_stores [OF c1(2) assms(2)] view_removes [OF c1(1)] upd_upd
    by (rule upd_cong) (auto simp: fun_eq_iff overlay_def split: option.splits)
qed

lemma apply_entrys_ok:
  assumes "all_ok c" and "\<forall>kv \<in> set st. ok (snd kv)"
  shows "\<exists>c'. apply_entrys store remove st rm c = Inr c' \<and> all_ok c'"
proof -
  obtain c1 where c1: "foldE remove rm c = Inr c1" "all_ok c1" using removes_ok [OF assms(1)] by blast
  from stores_ok [OF c1(2) assms(2)] show ?thesis by (auto simp: apply_entrys_def c1(1))
qed

text \<open>Collecting the undo information of one entry type.\<close>

lemma view_undo_removed:
  "foldE (\<lambda>key u. case lookup key of Some prev_entry \<Rightarrow> store key prev_entry u | None \<Rightarrow> Inr u) rm c = Inr c' \<Longrightarrow>
    view_of c' = upd (\<lambda>m k. if k \<in> set rm \<and> lookup k \<noteq> None then lookup k else m k) (view_of c)"
proof (induction rm arbitrary: c)
  case Nil
  then show ?case using upd_id by simp
next
  case (Cons k rm)
  then obtain c1 where c1: "(case lookup k of Some prev_entry \<Rightarrow> store k prev_entry c | None \<Rightarrow> Inr c) = Inr c1"
      "foldE (\<lambda>key u. case lookup key of Some prev_entry \<Rightarrow> store key prev_entry u | None \<Rightarrow> Inr u) rm c1 = Inr c'"
    by (auto simp: bindE_eq_Inr)
  have "view_of c1 = upd (\<lambda>m. if lookup k \<noteq> None then m(k := lookup k) else m) (view_of c)"
    using c1(1) view_store [of k _ c c1] upd_id by (auto split: option.splits)
  then show ?case unfolding Cons.IH [OF c1(2)]
    by (simp only: upd_upd) (rule upd_cong, auto simp: fun_eq_iff)
qed

lemma view_undo_stored:
  "foldE (\<lambda>item u. case lookup (fst item) of Some prev_entry \<Rightarrow> store (fst item) prev_entry u
      | None \<Rightarrow> remove (fst item) u) st c = Inr c' \<Longrightarrow>
    view_of c' = upd (\<lambda>m k. if k \<in> fst ` set st then lookup k else m k) (view_of c)"
proof (induction st arbitrary: c)
  case Nil
  then show ?case using upd_id by simp
next
  case (Cons kv st)
  then obtain c1 where c1: "(case lookup (fst kv) of Some prev_entry \<Rightarrow> store (fst kv) prev_entry c
        | None \<Rightarrow> remove (fst kv) c) = Inr c1"
      "foldE (\<lambda>item u. case lookup (fst item) of Some prev_entry \<Rightarrow> store (fst item) prev_entry u
        | None \<Rightarrow> remove (fst item) u) st c1 = Inr c'"
    by (auto simp: bindE_eq_Inr)
  have "view_of c1 = upd (\<lambda>m. m(fst kv := lookup (fst kv))) (view_of c)"
    using c1(1) view_store [of "fst kv" _ c c1] view_remove [of "fst kv" c c1]
    by (auto split: option.splits)
  then show ?case unfolding Cons.IH [OF c1(2)]
    by (simp only: upd_upd) (rule upd_cong, auto simp: fun_eq_iff)
qed

lemma populate_undo_ok:
  assumes "all_ok c" and lookup: "\<forall>v \<in> ran lookup. ok v"
  shows "\<exists>c'. populate_undo_state lookup store remove st rm c = Inr c' \<and> all_ok c'"
proof -
  have put: "\<exists>c'. store k v c = Inr c' \<and> all_ok c'" if "all_ok c" "lookup k = Some v" for k v c
  proof -
    have "ok v" using lookup ranI [of lookup k v] that(2) by blast
    then show ?thesis using store_ok [of c v k] all_ok_store [OF that(1)] that(1)
      unfolding all_ok_def by blast
  qed
  have drop: "\<exists>c'. remove k c = Inr c' \<and> all_ok c'" if "all_ok c" for k c
    using remove_ok [of c k] all_ok_remove [OF that] that by (auto simp: all_ok_def)
  have "\<exists>c'. foldE (\<lambda>key u. case lookup key of Some e \<Rightarrow> store key e u | None \<Rightarrow> Inr u) rm c = Inr c' \<and> all_ok c'"
    using assms(1)
  proof (induction rm arbitrary: c)
    case (Cons k rm)
    then show ?case using put [OF Cons.prems, of k] by (cases "lookup k") fastforce+
  qed simp
  then obtain c1 where c1:
    "foldE (\<lambda>key u. case lookup key of Some e \<Rightarrow> store key e u | None \<Rightarrow> Inr u) rm c = Inr c1" "all_ok c1"
    by blast
  have "\<exists>c'. foldE (\<lambda>item u. case lookup (fst item) of Some e \<Rightarrow> store (fst item) e u
      | None \<Rightarrow> remove (fst item) u) st c1 = Inr c' \<and> all_ok c'"
    using c1(2)
  proof (induction st arbitrary: c1)
    case (Cons kv st)
    then show ?case using put [OF Cons.prems, of "fst kv"] drop [OF Cons.prems, of "fst kv"]
      by (cases "lookup (fst kv)") fastforce+
  qed simp
  then show ?thesis unfolding populate_undo_state_def c1(1) bindE_Inr .
qed

lemma view_populate_undo:
  assumes "populate_undo_state lookup store remove st rm c = Inr c'"
    and "get (view_of c) = overlay st rm (Some lookup)"
  shows "view_of c' = upd (\<lambda>m. lookup) (view_of c)"
proof -
  from assms(1) obtain c1 where c1:
      "foldE (\<lambda>key u. case lookup key of Some prev_entry \<Rightarrow> store key prev_entry u | None \<Rightarrow> Inr u) rm c = Inr c1"
      "foldE (\<lambda>item u. case lookup (fst item) of Some prev_entry \<Rightarrow> store (fst item) prev_entry u
        | None \<Rightarrow> remove (fst item) u) st c1 = Inr c'"
    by (auto simp: populate_undo_state_def bindE_eq_Inr)
  have n: "k \<notin> fst ` set st \<Longrightarrow> map_of st k = None" for k by (simp add: map_of_eq_None_iff)
  show ?thesis unfolding view_undo_stored [OF c1(2)] view_undo_removed [OF c1(1)] upd_upd
    by (rule upd_cong) (use n in \<open>auto simp: fun_eq_iff assms(2) overlay_def\<close>)
qed

end

section \<open>The entry types meet the contract\<close>

text \<open>The accounts whose key accessors do not throw.\<close>

definition account_ok :: "AccountEntry \<Rightarrow> bool" where
  "account_ok a \<longleftrightarrow> active_key_history a \<noteq> [] \<and>
    (case delegate_info a of None \<Rightarrow> True | Some d \<Rightarrow> signing_key_history d \<noteq> [])"

lemma account_ok_keys:
  assumes "account_ok a"
  shows "\<exists>k. active_key a = Inr k" "\<exists>r. is_retracted a = Inr r"
    "delegate_info a = Some d \<Longrightarrow> \<exists>k. signing_key a = Inr k"
    "delegate_info a = Some d \<Longrightarrow> net_votes a = Inr (votes_for d)"
  using assms
  by (auto simp: account_ok_def active_key_def is_retracted_def signing_key_def net_votes_def)

lemma v_simps:
  "account_lookup_by_id ch = v_account (view ch)"
  "property_lookup_by_id ch = v_property (view ch)"
  "asset_lookup_by_id ch = v_asset (view ch)"
  "slate_lookup_by_id ch = v_slate (view ch)"
  "balance_lookup_by_id ch = v_balance (view ch)"
  "transaction_lookup_by_id ch = v_transaction (view ch)"
  "slot_lookup_by_index ch = v_slot (view ch)"
  "contract_lookup_by_id ch = v_contract (view ch)"
  by (simp_all add: view_def)

lemma view_key_addresses:
  "view (erase_key_addresses E hist ch) = view ch"
  "view (insert_key_addresses E k hist ch) = view ch"
  by (simp_all add: erase_key_addresses_def insert_key_addresses_def view_fold_index view_index)

lemma view_if: "view (if b then x else y) = (if b then view x else view y)"
  by simp

lemma view_account_store_erase:
  assumes "account_store_erase E prev x ch = Inr ch'"
  shows "view ch' = view ch"
proof (cases "delegate_info prev")
  case None
  then show ?thesis using assms
    by (auto simp: account_store_erase_def Let_def bindE_eq_Inr view_index view_key_addresses view_if
        simp del: if_split)
next
  case (Some pd)
  from assms obtain pk ek new_signer moved where *:
    "active_key prev = Inr pk" "active_key x = Inr ek" "signer_changed prev x = Inr new_signer"
    "votes_moved prev x = Inr moved"
    unfolding account_store_erase_def Let_def Some by (auto simp: bindE_eq_Inr)
  from assms show ?thesis
    by (cases moved) (auto simp: account_store_erase_def Some Let_def * bindE_eq_Inr view_index
        view_key_addresses view_if)
qed

lemma view_account_store_insert:
  "account_store_insert E k x ch = Inr ch' \<Longrightarrow>
    view ch' = (view ch)\<lparr>v_account := (v_account (view ch))(k \<mapsto> x)\<rparr>"
  unfolding account_store_insert_def Let_def
  by (cases "delegate_info x")
    (auto simp: bindE_eq_Inr view_index view_insert view_key_addresses split: if_splits)

lemma view_account_store:
  "account_store E k x ch = Inr ch' \<Longrightarrow> view ch' = (view ch)\<lparr>v_account := (v_account (view ch))(k \<mapsto> x)\<rparr>"
  unfolding account_store_def
  by (auto simp: bindE_eq_Inr dest!: view_account_store_erase view_account_store_insert split: option.splits)

lemma view_account_remove:
  "account_remove E k ch = Inr ch' \<Longrightarrow> view ch' = (view ch)\<lparr>v_account := (v_account (view ch))(k := None)\<rparr>"
  unfolding account_remove_def Let_def v_simps
  by (auto simp: bindE_eq_Inr view_index view_erase view_key_addresses fun_upd_idem
      split: if_splits option.splits)

lemma account_store_insert_ok: "account_ok x \<Longrightarrow> \<exists>ch'. account_store_insert E k x ch = Inr ch'"
  using account_ok_keys [of x]
  by (cases "delegate_info x") (auto simp: account_store_insert_def Let_def)

lemma account_store_erase_ok:
  assumes "account_ok p" "account_ok x"
  shows "\<exists>ch'. account_store_erase E p x ch = Inr ch'"
proof (cases "delegate_info p")
  case None
  then show ?thesis using account_ok_keys(1) [OF assms(1)] account_ok_keys(1) [OF assms(2)]
    by (auto simp: account_store_erase_def Let_def)
next
  case (Some pd)
  note p = account_ok_keys [OF assms(1)]
  note x = account_ok_keys [OF assms(2)]
  have "\<exists>b. signer_changed p x = Inr b"
    using p(3) [OF Some] x(3) by (cases "delegate_info x") (auto simp: signer_changed_def is_delegate_def)
  moreover have "\<exists>b. votes_moved p x = Inr b"
    using p(2) p(4) [OF Some] x(2) x(4)
    by (cases "delegate_info x") (auto simp: votes_moved_def is_delegate_def)
  moreover note p(1) x(1) p(4) [OF Some]
  ultimately show ?thesis by (auto simp: account_store_erase_def Let_def Some)
qed

lemma account_store_ok:
  assumes "\<forall>v \<in> ran (v_account (view ch)). account_ok v" "account_ok x"
  shows "\<exists>ch'. account_store E k x ch = Inr ch'"
proof (cases "v_account (view ch) k")
  case None
  then show ?thesis using account_store_insert_ok [OF assms(2)] by (simp add: account_store_def v_simps)
next
  case (Some p)
  then have "account_ok p" using assms(1) by (auto simp: ran_def)
  then obtain c1 where "account_store_erase E p x ch = Inr c1"
    using account_store_erase_ok assms(2) by blast
  then show ?thesis using account_store_insert_ok [OF assms(2)] by (simp add: account_store_def v_simps Some)
qed

lemma account_remove_ok:
  assumes "\<forall>v \<in> ran (v_account (view ch)). account_ok v"
  shows "\<exists>ch'. account_remove E k ch = Inr ch'"
proof (cases "v_account (view ch) k")
  case (Some p)
  then have "account_ok p" using assms by (auto simp: ran_def)
  from account_ok_keys [OF this] show ?thesis
    by (cases "delegate_info p") (auto simp: account_remove_def v_simps Some Let_def)
qed (simp add: account_remove_def v_simps)

interpretation account_db: entry_type v_account v_account_update view
  "account_store E" "account_remove E" account_ok for E
  by unfold_locales
    (simp_all add: view_account_store view_account_remove account_store_ok account_remove_ok
      cong: chain_view.unfold_congs)

interpretation property_db: entry_type v_property v_property_update view
  property_store property_remove "\<lambda>_. True"
  by unfold_locales
    (auto simp: property_store_def property_remove_def view_simps v_simps fun_upd_idem
      cong: chain_view.unfold_congs split: if_splits)

interpretation asset_db: entry_type v_asset v_asset_update view asset_store asset_remove "\<lambda>_. True"
  by unfold_locales
    (auto simp: asset_store_def asset_remove_def view_simps v_simps fun_upd_idem Let_def
      cong: chain_view.unfold_congs split: if_splits option.splits)

interpretation slate_db: entry_type v_slate v_slate_update view slate_store slate_remove "\<lambda>_. True"
  by unfold_locales
    (auto simp: slate_store_def slate_remove_def view_simps v_simps fun_upd_idem
      cong: chain_view.unfold_congs split: if_splits)

interpretation balance_db: entry_type v_balance v_balance_update view
  balance_store balance_remove "\<lambda>_. True"
  by unfold_locales
    (auto simp: balance_store_def balance_remove_def view_simps v_simps fun_upd_idem
      cong: chain_view.unfold_congs split: if_splits)

interpretation transaction_db: entry_type v_transaction v_transaction_update view
  "transaction_store E" "transaction_remove E" "\<lambda>_. True" for E
  by unfold_locales
    (auto simp: transaction_store_def transaction_remove_def view_simps v_simps fun_upd_idem
      cong: chain_view.unfold_congs split: option.splits)

text \<open>Slots are recorded only when statistics are enabled.\<close>

interpretation slot_db: entry_type v_slot v_slot_update view
  "slot_store (E\<lparr>env_statistics_enabled := True\<rparr>)" "slot_remove (E\<lparr>env_statistics_enabled := True\<rparr>)"
  "\<lambda>_. True" for E
  by unfold_locales
    (auto simp: slot_store_def slot_remove_def view_simps v_simps fun_upd_idem Let_def
      cong: chain_view.unfold_congs split: option.splits if_splits)

interpretation contract_db: entry_type v_contract v_contract_update view
  contract_store contract_remove "\<lambda>_. True"
  by unfold_locales
    (auto simp: contract_store_def contract_remove_def view_simps v_simps fun_upd_idem Let_def
      cong: chain_view.unfold_congs split: if_splits)

interpretation resultid_db: entry_type v_resultid v_resultid_update view
  resultid_store resultid_remove "\<lambda>_. True"
  by unfold_locales
    (auto simp: resultid_store_def resultid_remove_def view_simps cong: chain_view.unfold_congs)

interpretation requestid_db: entry_type v_requestid v_requestid_update view
  requestid_store requestid_remove "\<lambda>_. True"
  by unfold_locales
    (auto simp: requestid_store_def requestid_remove_def view_simps cong: chain_view.unfold_congs)

interpretation contractin_trx_db: entry_type v_contractin_trx v_contractin_trx_update view
  contractin_trx_store contractin_trx_remove "\<lambda>_. True"
  by unfold_locales
    (auto simp: contractin_trx_store_def contractin_trx_remove_def view_simps cong: chain_view.unfold_congs)

interpretation contract_trx_db: entry_type v_contract_trx v_contract_trx_update view
  contract_trx_store contract_trx_remove "\<lambda>_. True"
  by unfold_locales
    (auto simp: contract_trx_store_def contract_trx_remove_def view_simps cong: chain_view.unfold_congs)

section \<open>Applying and undoing an overlay\<close>

definition apply_changes :: "env \<Rightarrow> pending_state \<Rightarrow> chain option \<Rightarrow> chain option result" where
  "apply_changes E s prev_state =
    (case prev_state of
       None \<Rightarrow> Inr None
     | Some p \<Rightarrow>
         bindE (apply_entrys property_store property_remove (ps_property_id_to_entry s) (ps_property_id_remove s) p) (\<lambda>p.
         bindE (apply_entrys (account_store E) (account_remove E) (ps_account_id_to_entry s) (ps_account_id_remove s) p) (\<lambda>p.
         bindE (apply_entrys asset_store asset_remove (ps_asset_id_to_entry s) (ps_asset_id_remove s) p) (\<lambda>p.
         bindE (apply_entrys slate_store slate_remove (ps_slate_id_to_entry s) (ps_slate_id_remove s) p) (\<lambda>p.
         bindE (apply_entrys balance_store balance_remove (ps_balance_id_to_entry s) (ps_balance_id_remove s) p) (\<lambda>p.
         bindE (apply_entrys (transaction_store E) (transaction_remove E) (ps_transaction_id_to_entry s) (ps_transaction_id_remove s) p) (\<lambda>p.
         bindE (apply_entrys (slot_store E) (slot_remove E) (ps_slot_index_to_entry s) (ps_slot_index_remove s) p) (\<lambda>p.
         bindE (apply_entrys contract_store contract_remove (ps_contract_id_to_entry s) (ps_contract_id_remove s) p) (\<lambda>p.
         bindE (apply_entrys contractstorage_store contractstorage_remove (ps_contract_id_to_storage s) (ps_contract_id_remove s) p) (\<lambda>p.
         bindE (apply_entrys resultid_store resultid_remove (ps_request_id_to_result_id s) (ps_req_to_res_to_remove s) p) (\<lambda>p.
         bindE (apply_entrys requestid_store requestid_remove (ps_result_id_to_request_id s) (ps_res_to_req_to_remove s) p) (\<lambda>p.
         bindE (apply_entrys contractin_trx_store contractin_trx_remove (ps_trx_to_contract_id s) (ps_trx_to_contract_id_remove s) p) (\<lambda>p.
         bindE (apply_entrys contract_trx_store contract_trx_remove (ps_contract_to_trx_id s) (ps_contract_to_trx_id_remove s) p) (\<lambda>p.
         Inr (Some p)))))))))))))))"

text \<open>\<open>get_undo_state\<close> fills a fresh overlay that \<open>save_undo_state\<close> created on the pending state.\<close>

definition get_undo_state :: "env \<Rightarrow> pending_state \<Rightarrow> chain option \<Rightarrow> chain \<Rightarrow> chain result" where
  "get_undo_state E s prev_state undo =
    (case prev_state of
       None \<Rightarrow> Inl fc_assert
     | Some p \<Rightarrow>
         bindE (populate_undo_state (property_lookup_by_id p) property_store property_remove (ps_property_id_to_entry s) (ps_property_id_remove s) undo) (\<lambda>u.
         bindE (populate_undo_state (account_lookup_by_id p) (account_store E) (account_remove E) (ps_account_id_to_entry s) (ps_account_id_remove s) u) (\<lambda>u.
         bindE (populate_undo_state (asset_lookup_by_id p) asset_store asset_remove (ps_asset_id_to_entry s) (ps_asset_id_remove s) u) (\<lambda>u.
         bindE (populate_undo_state (slate_lookup_by_id p) slate_store slate_remove (ps_slate_id_to_entry s) (ps_slate_id_remove s) u) (\<lambda>u.
         bindE (populate_undo_state (balance_lookup_by_id p) balance_store balance_remove (ps_balance_id_to_entry s) (ps_balance_id_remove s) u) (\<lambda>u.
         bindE (populate_undo_state (transaction_lookup_by_id p) (transaction_store E) (transaction_remove E) (ps_transaction_id_to_entry s) (ps_transaction_id_remove s) u) (\<lambda>u.
         bindE (populate_undo_state (slot_lookup_by_index p) (slot_store E) (slot_remove E) (ps_slot_index_to_entry s) (ps_slot_index_remove s) u) (\<lambda>u.
         bindE (populate_undo_state (contract_lookup_by_id p) contract_store contract_remove (ps_contract_id_to_entry s) (ps_contract_id_remove s) u) (\<lambda>u.
         bindE (populate_undo_state (contractstorage_lookup_by_id p) contractstorage_store contractstorage_remove (ps_contract_id_to_storage s) (ps_contract_id_remove s) u) (\<lambda>u.
         bindE (populate_undo_state (contract_lookup_resultid_by_reqestid p) resultid_store resultid_remove (ps_request_id_to_result_id s) (ps_req_to_res_to_remove s) u) (\<lambda>u.
         bindE (populate_undo_state (contract_lookup_requestid_by_resultid p) requestid_store requestid_remove (ps_result_id_to_request_id s) (ps_res_to_req_to_remove s) u) (\<lambda>u.
         bindE (populate_undo_state (contract_lookup_contractid_by_trxid p) contractin_trx_store contractin_trx_remove (ps_trx_to_contract_id s) (ps_trx_to_contract_id_remove s) u) (\<lambda>u.
         populate_undo_state (contract_lookup_trxid_by_contract_id p) contract_trx_store contract_trx_remove (ps_contract_to_trx_id s) (ps_contract_to_trx_id_remove s) u)))))))))))))"

text \<open>What the overlay's own methods keep of it: no key occurs twice in a map, slots are recorded only
  with statistics enabled.\<close>

definition overlay_wf :: "env \<Rightarrow> pending_state \<Rightarrow> bool" where
  "overlay_wf E s \<longleftrightarrow>
    distinct (map fst (ps_property_id_to_entry s)) \<and> distinct (map fst (ps_account_id_to_entry s)) \<and>
    distinct (map fst (ps_asset_id_to_entry s)) \<and> distinct (map fst (ps_slate_id_to_entry s)) \<and>
    distinct (map fst (ps_balance_id_to_entry s)) \<and> distinct (map fst (ps_transaction_id_to_entry s)) \<and>
    distinct (map fst (ps_slot_index_to_entry s)) \<and> distinct (map fst (ps_contract_id_to_entry s)) \<and>
    distinct (map fst (ps_request_id_to_result_id s)) \<and> distinct (map fst (ps_result_id_to_request_id s)) \<and>
    distinct (map fst (ps_trx_to_contract_id s)) \<and> distinct (map fst (ps_contract_to_trx_id s)) \<and>
    (env_statistics_enabled E \<or> ps_slot_index_to_entry s = [] \<and> ps_slot_index_remove s = [])"

lemma apply_entrys_Nil [simp]: "apply_entrys st rm [] [] c = Inr c"
  by (simp add: apply_entrys_def)

lemma env_enabled: "env_statistics_enabled E \<Longrightarrow> E\<lparr>env_statistics_enabled := True\<rparr> = E"
  by simp

lemma view_apply_slots:
  assumes "apply_entrys (slot_store E) (slot_remove E) (ps_slot_index_to_entry s) (ps_slot_index_remove s) c = Inr c'"
    and "overlay_wf E s"
  shows "view c' = (view c)\<lparr>v_slot := overlay (ps_slot_index_to_entry s) (ps_slot_index_remove s) (Some (v_slot (view c)))\<rparr>"
proof (cases "env_statistics_enabled E")
  case True
  then show ?thesis
    using slot_db.view_apply_entrys [of E "ps_slot_index_to_entry s" "ps_slot_index_remove s" c c'] assms
    by (simp add: overlay_wf_def env_enabled cong: chain_view.unfold_congs)
next
  case False
  then have e: "ps_slot_index_to_entry s = []" "ps_slot_index_remove s = []"
    using assms(2) by (auto simp: overlay_wf_def)
  have "overlay [] [] (Some f) = f" for f :: "SlotIndex \<Rightarrow> SlotEntry option"
    by (simp add: overlay_def fun_eq_iff)
  then show ?thesis using assms(1) unfolding e by simp
qed

lemma view_apply_storage:
  "apply_entrys contractstorage_store contractstorage_remove st rm c = Inr c' \<Longrightarrow> view c' = view c"
proof -
  assume "apply_entrys contractstorage_store contractstorage_remove st rm c = Inr c'"
  then obtain c1 where c1: "foldE contractstorage_remove rm c = Inr c1"
      "foldE (\<lambda>item. contractstorage_store (fst item) (snd item)) st c1 = Inr c'"
    by (auto simp: apply_entrys_def bindE_eq_Inr)
  have "view c1 = view c"
    by (rule foldE_invariant [OF c1(1)])
      (auto simp: contractstorage_remove_def view_index split: if_splits)
  moreover have "view c' = view c1"
    by (rule foldE_invariant [OF c1(2)]) (auto simp: contractstorage_store_def view_index)
  ultimately show ?thesis by simp
qed

lemmas view_apply =
  property_db.view_apply_entrys account_db.view_apply_entrys asset_db.view_apply_entrys
  slate_db.view_apply_entrys balance_db.view_apply_entrys transaction_db.view_apply_entrys
  contract_db.view_apply_entrys resultid_db.view_apply_entrys requestid_db.view_apply_entrys
  contractin_trx_db.view_apply_entrys contract_trx_db.view_apply_entrys

lemma apply_changes_view:
  assumes "apply_changes E s (Some p) = Inr (Some p')" and "overlay_wf E s"
  shows "view p' = view (PendingChainState s (Some p))"
proof -
  note slots = view_apply_slots [OF _ assms(2)]
  note wf = assms(2) [unfolded overlay_wf_def]
  from assms(1) show ?thesis
    unfolding apply_changes_def
    by (clarsimp simp: bindE_eq_Inr wf view_apply view_apply_storage slots view_overlay)
qed

text \<open>Every method keeps an overlay well-formed.\<close>

lemma overlay_wf_empty [simp]: "overlay_wf E empty_pending_state"
  by (simp add: overlay_wf_def empty_pending_state_def)

lemma overlay_wf_methods:
  assumes "overlay_wf E s"
  shows
    "overlay_wf E (ps_property_insert_into_id_map kproperty xproperty s)"
    "overlay_wf E (ps_property_erase_from_id_map kproperty s)"
    "overlay_wf E (ps_account_insert_into_id_map kaccount xaccount s)"
    "overlay_wf E (ps_account_erase_from_id_map kaccount s)"
    "overlay_wf E (ps_asset_insert_into_id_map kasset xasset s)"
    "overlay_wf E (ps_asset_erase_from_id_map kasset s)"
    "overlay_wf E (ps_slate_insert_into_id_map kslate xslate s)"
    "overlay_wf E (ps_slate_erase_from_id_map kslate s)"
    "overlay_wf E (ps_balance_insert_into_id_map kbalance xbalance s)"
    "overlay_wf E (ps_balance_erase_from_id_map kbalance s)"
    "overlay_wf E (ps_contract_insert_into_id_map kcontract xcontract s)"
    "overlay_wf E (ps_contract_erase_from_id_map kcontract s)"
    "overlay_wf E (ps_contract_store_resultid_by_reqestid kresultid xresultid s)"
    "overlay_wf E (ps_contract_erase_resultid_by_reqestid kresultid s)"
    "overlay_wf E (ps_contract_store_requestid_by_resultid krequestid xrequestid s)"
    "overlay_wf E (ps_contract_erase_requestid_by_resultid krequestid s)"
    "overlay_wf E (ps_contract_store_contractid_by_trxid kcontractin_trx xcontractin_trx s)"
    "overlay_wf E (ps_contract_erase_contractid_by_trxid kcontractin_trx s)"
    "overlay_wf E (ps_contract_store_trxid_by_contractid kcontract_trx xcontract_trx s)"
    "overlay_wf E (ps_contract_erase_trxid_by_contract_id kcontract_trx s)"
    "overlay_wf E (ps_transaction_insert_into_id_map kt xt s)"
    "overlay_wf E (ps_transaction_erase_from_id_map kt s)"
    "overlay_wf E (ps_account_insert_into_name_map n i s)"
    "overlay_wf E (ps_account_erase_from_name_map n s)"
    "overlay_wf E (ps_account_insert_into_address_map a i s)"
    "overlay_wf E (ps_account_erase_from_address_map a s)"
    "overlay_wf E (ps_account_insert_into_vote_set v s)"
    "overlay_wf E (ps_account_erase_from_vote_set v s)"
    "overlay_wf E (ps_asset_insert_into_symbol_map n i s)"
    "overlay_wf E (ps_asset_erase_from_symbol_map n s)"
    "overlay_wf E (ps_slot_insert_into_timestamp_map t i s)"
    "overlay_wf E (ps_slot_erase_from_timestamp_map t s)"
    "overlay_wf E (ps_contract_insert_into_name_map n ci s)"
    "overlay_wf E (ps_contract_erase_from_name_map n s)"
    "overlay_wf E (ps_contractstorage_insert_into_id_map ci st s)"
    "overlay_wf E (ps_contractstorage_erase_from_id_map ci s)"
    "overlay_wf E (ps_transaction_insert_into_unique_set E t' s)"
    "overlay_wf E (ps_transaction_erase_from_unique_set E t' s)"
    "env_statistics_enabled E \<Longrightarrow> overlay_wf E (ps_slot_insert_into_index_map ks xs s)"
    "env_statistics_enabled E \<Longrightarrow> overlay_wf E (ps_slot_erase_from_index_map ks s)"
  using assms by (simp_all add: overlay_wf_def chain_defs distinct_update distinct_delete)

text \<open>The objects that are an overlay on \<open>p\<close>.\<close>

definition pending_on :: "env \<Rightarrow> chain option \<Rightarrow> chain \<Rightarrow> bool" where
  "pending_on E p c \<longleftrightarrow> (\<exists>s. c = PendingChainState s p \<and> overlay_wf E s)"

lemma pending_on_on_chain:
  "pending_on E p c \<Longrightarrow> (\<And>s. overlay_wf E s \<Longrightarrow> overlay_wf E (g s)) \<Longrightarrow> pending_on E p (on_chain f g c)"
  by (auto simp: pending_on_def on_chain_def)

lemma pending_on_methods:
  assumes "pending_on E p c"
  shows
    "pending_on E p (property_insert_into_id_map kproperty xproperty c)"
    "pending_on E p (property_erase_from_id_map kproperty c)"
    "pending_on E p (account_insert_into_id_map kaccount xaccount c)"
    "pending_on E p (account_erase_from_id_map kaccount c)"
    "pending_on E p (asset_insert_into_id_map kasset xasset c)"
    "pending_on E p (asset_erase_from_id_map kasset c)"
    "pending_on E p (slate_insert_into_id_map kslate xslate c)"
    "pending_on E p (slate_erase_from_id_map kslate c)"
    "pending_on E p (balance_insert_into_id_map kbalance xbalance c)"
    "pending_on E p (balance_erase_from_id_map kbalance c)"
    "pending_on E p (contract_insert_into_id_map kcontract xcontract c)"
    "pending_on E p (contract_erase_from_id_map kcontract c)"
    "pending_on E p (contract_store_resultid_by_reqestid kresultid xresultid c)"
    "pending_on E p (contract_erase_resultid_by_reqestid kresultid c)"
    "pending_on E p (contract_store_requestid_by_resultid krequestid xrequestid c)"
    "pending_on E p (contract_erase_requestid_by_resultid krequestid c)"
    "pending_on E p (contract_store_contractid_by_trxid kcontractin_trx xcontractin_trx c)"
    "pending_on E p (contract_erase_contractid_by_trxid kcontractin_trx c)"
    "pending_on E p (contract_store_trxid_by_contractid kcontract_trx xcontract_trx c)"
    "pending_on E p (contract_erase_trxid_by_contract_id kcontract_trx c)"
    "pending_on E p (transaction_insert_into_id_map E kt xt c)"
    "pending_on E p (transaction_erase_from_id_map E kt c)"
    "pending_on E p (account_insert_into_name_map n i c)"
    "pending_on E p (account_erase_from_name_map n c)"
    "pending_on E p (account_insert_into_address_map a i c)"
    "pending_on E p (account_erase_from_address_map a c)"
    "pending_on E p (account_insert_into_vote_set v c)"
    "pending_on E p (account_erase_from_vote_set v c)"
    "pending_on E p (asset_insert_into_symbol_map n i c)"
    "pending_on E p (asset_erase_from_symbol_map n c)"
    "pending_on E p (slot_insert_into_timestamp_map t i c)"
    "pending_on E p (slot_erase_from_timestamp_map t c)"
    "pending_on E p (contract_insert_into_name_map n ci c)"
    "pending_on E p (contract_erase_from_name_map n c)"
    "pending_on E p (contractstorage_insert_into_id_map ci st c)"
    "pending_on E p (contractstorage_erase_from_id_map ci c)"
    "pending_on E p (transaction_insert_into_unique_set E t' c)"
    "pending_on E p (transaction_erase_from_unique_set E t' c)"
    "env_statistics_enabled E \<Longrightarrow> pending_on E p (slot_insert_into_index_map ks xs c)"
    "env_statistics_enabled E \<Longrightarrow> pending_on E p (slot_erase_from_index_map ks c)"
  using assms
  by (simp_all add: property_insert_into_id_map_def property_erase_from_id_map_def account_insert_into_id_map_def account_erase_from_id_map_def asset_insert_into_id_map_def asset_erase_from_id_map_def slate_insert_into_id_map_def slate_erase_from_id_map_def balance_insert_into_id_map_def balance_erase_from_id_map_def contract_insert_into_id_map_def contract_erase_from_id_map_def contract_store_resultid_by_reqestid_def contract_erase_resultid_by_reqestid_def contract_store_requestid_by_resultid_def contract_erase_requestid_by_resultid_def contract_store_contractid_by_trxid_def contract_erase_contractid_by_trxid_def contract_store_trxid_by_contractid_def contract_erase_trxid_by_contract_id_def transaction_insert_into_id_map_def transaction_erase_from_id_map_def account_insert_into_name_map_def account_erase_from_name_map_def account_insert_into_address_map_def account_erase_from_address_map_def account_insert_into_vote_set_def account_erase_from_vote_set_def asset_insert_into_symbol_map_def asset_erase_from_symbol_map_def slot_insert_into_timestamp_map_def slot_erase_from_timestamp_map_def contract_insert_into_name_map_def contract_erase_from_name_map_def contractstorage_insert_into_id_map_def contractstorage_erase_from_id_map_def transaction_insert_into_unique_set_def transaction_erase_from_unique_set_def slot_insert_into_index_map_def slot_erase_from_index_map_def pending_on_on_chain overlay_wf_methods)

text \<open>An invariant that \<open>store\<close> and \<open>remove\<close> keep.\<close>

locale entry_invariant =
  fixes inv :: "'c \<Rightarrow> bool"
    and store :: "'k \<Rightarrow> 'v \<Rightarrow> 'c \<Rightarrow> 'c result"
    and remove :: "'k \<Rightarrow> 'c \<Rightarrow> 'c result"
  assumes inv_store: "inv c \<Longrightarrow> store k v c = Inr c' \<Longrightarrow> inv c'"
    and inv_remove: "inv c \<Longrightarrow> remove k c = Inr c' \<Longrightarrow> inv c'"
begin

lemma inv_apply_entrys:
  assumes "inv c" and "apply_entrys store remove st rm c = Inr c'"
  shows "inv c'"
proof -
  from assms(2) obtain c1 where c1: "foldE remove rm c = Inr c1"
      "foldE (\<lambda>item. store (fst item) (snd item)) st c1 = Inr c'"
    by (auto simp: apply_entrys_def bindE_eq_Inr)
  have "inv c1" by (rule foldE_invariant [OF c1(1), where P = inv]) (auto intro: inv_remove assms(1))
  then show ?thesis by - (rule foldE_invariant [OF c1(2), where P = inv], auto intro: inv_store)
qed

lemma inv_populate_undo:
  assumes "inv c" and "populate_undo_state lookup store remove st rm c = Inr c'"
  shows "inv c'"
proof -
  from assms(2) obtain c1 where c1:
      "foldE (\<lambda>key u. case lookup key of Some prev_entry \<Rightarrow> store key prev_entry u | None \<Rightarrow> Inr u) rm c = Inr c1"
      "foldE (\<lambda>item u. case lookup (fst item) of Some prev_entry \<Rightarrow> store (fst item) prev_entry u
        | None \<Rightarrow> remove (fst item) u) st c1 = Inr c'"
    by (auto simp: populate_undo_state_def bindE_eq_Inr)
  have "inv c1"
    by (rule foldE_invariant [OF c1(1), where P = inv]) (auto split: option.splits intro: inv_store assms(1))
  then show ?thesis
    by - (rule foldE_invariant [OF c1(2), where P = inv],
        auto split: option.splits intro: inv_store inv_remove)
qed

end

lemma pending_on_key_addresses:
  assumes "pending_on E p c"
  shows "pending_on E p (erase_key_addresses F hist c)" "pending_on E p (insert_key_addresses F k hist c)"
  unfolding erase_key_addresses_def insert_key_addresses_def
  using assms by (induction hist arbitrary: c) (simp_all add: pending_on_methods)

lemma pending_on_account_store:
  assumes "pending_on E p c" "account_store F k x c = Inr c'"
  shows "pending_on E p c'"
proof -
  have erase: "pending_on E p c1" if e: "account_store_erase F prev x c = Inr c1" for prev c1
  proof (cases "delegate_info prev")
    case None
    then show ?thesis using e assms(1)
      by (auto simp: account_store_erase_def Let_def bindE_eq_Inr pending_on_methods pending_on_key_addresses)
  next
    case (Some pd)
    then show ?thesis using e assms(1)
      apply (simp only: account_store_erase_def Let_def Some option.case bindE_eq_Inr)
      apply (elim exE conjE)
      subgoal for _ _ _ moved
        by (cases moved) (auto simp: bindE_eq_Inr pending_on_methods pending_on_key_addresses)
      done
  qed
  have ins: "pending_on E p c2" if "pending_on E p c1" "account_store_insert F k x c1 = Inr c2" for c1 c2
    using that unfolding account_store_insert_def Let_def
    by (cases "delegate_info x")
      (auto simp: bindE_eq_Inr pending_on_methods pending_on_key_addresses split: if_splits)
  show ?thesis using assms unfolding account_store_def bindE_eq_Inr
    by (auto dest: erase intro: ins split: option.splits)
qed

lemma pending_on_account_remove:
  assumes "pending_on E p c" "account_remove F k c = Inr c'"
  shows "pending_on E p c'"
  using assms unfolding account_remove_def Let_def
  by (auto simp: bindE_eq_Inr pending_on_methods pending_on_key_addresses split: if_splits option.splits)

interpretation property_inv: entry_invariant "pending_on E p" "property_store" "property_remove" for E p
  by unfold_locales
    (auto simp: property_store_def property_remove_def Let_def pending_on_methods split: if_splits option.splits)

interpretation account_inv: entry_invariant "pending_on E p" "account_store E" "account_remove E" for E p
  by unfold_locales (auto intro: pending_on_account_store pending_on_account_remove)

interpretation asset_inv: entry_invariant "pending_on E p" "asset_store" "asset_remove" for E p
  by unfold_locales
    (auto simp: asset_store_def asset_remove_def Let_def pending_on_methods split: if_splits option.splits)

interpretation slate_inv: entry_invariant "pending_on E p" "slate_store" "slate_remove" for E p
  by unfold_locales
    (auto simp: slate_store_def slate_remove_def Let_def pending_on_methods split: if_splits option.splits)

interpretation balance_inv: entry_invariant "pending_on E p" "balance_store" "balance_remove" for E p
  by unfold_locales
    (auto simp: balance_store_def balance_remove_def Let_def pending_on_methods split: if_splits option.splits)

interpretation transaction_inv: entry_invariant "pending_on E p" "transaction_store E" "transaction_remove E" for E p
  by unfold_locales
    (auto simp: transaction_store_def transaction_remove_def Let_def pending_on_methods split: if_splits option.splits)

interpretation slot_inv: entry_invariant "pending_on E p" "slot_store E" "slot_remove E" for E p
  by unfold_locales
    (auto simp: slot_store_def slot_remove_def Let_def pending_on_methods split: if_splits option.splits)

interpretation contract_inv: entry_invariant "pending_on E p" "contract_store" "contract_remove" for E p
  by unfold_locales
    (auto simp: contract_store_def contract_remove_def Let_def pending_on_methods split: if_splits option.splits)

interpretation resultid_inv: entry_invariant "pending_on E p" "resultid_store" "resultid_remove" for E p
  by unfold_locales
    (auto simp: resultid_store_def resultid_remove_def Let_def pending_on_methods split: if_splits option.splits)

interpretation requestid_inv: entry_invariant "pending_on E p" "requestid_store" "requestid_remove" for E p
  by unfold_locales
    (auto simp: requestid_store_def requestid_remove_def Let_def pending_on_methods split: if_splits option.splits)

interpretation contractin_trx_inv: entry_invariant "pending_on E p" "contractin_trx_store" "contractin_trx_remove" for E p
  by unfold_locales
    (auto simp: contractin_trx_store_def contractin_trx_remove_def Let_def pending_on_methods split: if_splits option.splits)

interpretation contract_trx_inv: entry_invariant "pending_on E p" "contract_trx_store" "contract_trx_remove" for E p
  by unfold_locales
    (auto simp: contract_trx_store_def contract_trx_remove_def Let_def pending_on_methods split: if_splits option.splits)

interpretation contractstorage_inv: entry_invariant "pending_on E p" contractstorage_store contractstorage_remove for E p
  by unfold_locales
    (auto simp: contractstorage_store_def contractstorage_remove_def pending_on_methods split: if_splits)

end
