(* ===== verification/Undo.thy ===== *)
theory Undo
  imports Overlay
begin

text \<open>
  The theorems on \<open>PendingChainState::apply_changes\<close> and \<open>PendingChainState::get_undo_state\<close>: flushing
  an overlay never fails on well-formed accounts and reproduces its view, and the saved undo state
  reverts it. Contract storages are not part of the view; the last section shows why.
\<close>

section \<open>Applying an overlay succeeds\<close>

lemmas apply_total =
  property_db.apply_entrys_ok [unfolded property_db.all_ok_def, simplified]
  asset_db.apply_entrys_ok [unfolded asset_db.all_ok_def, simplified]
  slate_db.apply_entrys_ok [unfolded slate_db.all_ok_def, simplified]
  balance_db.apply_entrys_ok [unfolded balance_db.all_ok_def, simplified]
  transaction_db.apply_entrys_ok [unfolded transaction_db.all_ok_def, simplified]
  contract_db.apply_entrys_ok [unfolded contract_db.all_ok_def, simplified]
  resultid_db.apply_entrys_ok [unfolded resultid_db.all_ok_def, simplified]
  requestid_db.apply_entrys_ok [unfolded requestid_db.all_ok_def, simplified]
  contractin_trx_db.apply_entrys_ok [unfolded contractin_trx_db.all_ok_def, simplified]
  contract_trx_db.apply_entrys_ok [unfolded contract_trx_db.all_ok_def, simplified]

lemma foldE_total: "(\<And>x s. \<exists>s'. f x s = Inr s') \<Longrightarrow> \<exists>s'. foldE f xs s = Inr s'"
proof (induction xs arbitrary: s)
  case (Cons x xs)
  then obtain s1 where "f x s = Inr s1" by blast
  then show ?case using Cons.IH [OF Cons.prems] by auto
qed simp

lemma apply_total_if:
  assumes "\<And>k v c. \<exists>c'. st k v c = Inr c'" "\<And>k c. \<exists>c'. rm k c = Inr c'"
  shows "\<exists>c'. apply_entrys st rm xs ks c = Inr c'"
proof -
  obtain c1 where "foldE rm ks c = Inr c1" using foldE_total [of rm] assms(2) by blast
  moreover obtain c2 where "foldE (\<lambda>item. st (fst item) (snd item)) xs c1 = Inr c2"
    using foldE_total [of "\<lambda>item. st (fst item) (snd item)"] assms(1) by blast
  ultimately show ?thesis by (simp add: apply_entrys_def)
qed

lemma apply_slots_total: "\<exists>c'. apply_entrys (slot_store E) (slot_remove E) xs ks c = Inr c'"
  by (rule apply_total_if) (auto simp: slot_store_def slot_remove_def Let_def split: option.splits)

lemma apply_storage_total: "\<exists>c'. apply_entrys contractstorage_store contractstorage_remove xs ks c = Inr c'"
  by (rule apply_total_if) (auto simp: contractstorage_store_def contractstorage_remove_def)

definition accounts_ok :: "chain \<Rightarrow> pending_state \<Rightarrow> bool" where
  "accounts_ok p s \<longleftrightarrow> (\<forall>a \<in> ran (v_account (view p)). account_ok a) \<and>
    (\<forall>kv \<in> set (ps_account_id_to_entry s). account_ok (snd kv))"

lemma apply_changes_total:
  assumes "accounts_ok p s" and "overlay_wf E s"
  shows "\<exists>p'. apply_changes E s (Some p) = Inr (Some p')"
proof -
  obtain p1 where p1: "apply_entrys property_store property_remove (ps_property_id_to_entry s)
      (ps_property_id_remove s) p = Inr p1"
    using apply_total(1) by blast
  have "v_account (view p1) = v_account (view p)"
    using property_db.view_apply_entrys [OF p1] assms(2) by (simp add: overlay_wf_def)
  then have "account_db.all_ok p1" using assms(1) by (simp add: account_db.all_ok_def accounts_ok_def)
  then obtain p2 where p2: "apply_entrys (account_store E) (account_remove E) (ps_account_id_to_entry s)
      (ps_account_id_remove s) p1 = Inr p2"
    using account_db.apply_entrys_ok [of p1 "ps_account_id_to_entry s" E] assms(1)
    unfolding accounts_ok_def by blast
  obtain p3 where p3: "apply_entrys asset_store asset_remove (ps_asset_id_to_entry s)
      (ps_asset_id_remove s) p2 = Inr p3" using apply_total(2) by blast
  obtain p4 where p4: "apply_entrys slate_store slate_remove (ps_slate_id_to_entry s)
      (ps_slate_id_remove s) p3 = Inr p4" using apply_total(3) by blast
  obtain p5 where p5: "apply_entrys balance_store balance_remove (ps_balance_id_to_entry s)
      (ps_balance_id_remove s) p4 = Inr p5" using apply_total(4) by blast
  obtain p6 where p6: "apply_entrys (transaction_store E) (transaction_remove E)
      (ps_transaction_id_to_entry s) (ps_transaction_id_remove s) p5 = Inr p6"
    using apply_total(5) by blast
  obtain p7 where p7: "apply_entrys (slot_store E) (slot_remove E) (ps_slot_index_to_entry s)
      (ps_slot_index_remove s) p6 = Inr p7" using apply_slots_total by blast
  obtain p8 where p8: "apply_entrys contract_store contract_remove (ps_contract_id_to_entry s)
      (ps_contract_id_remove s) p7 = Inr p8" using apply_total(6) by blast
  obtain p9 where p9: "apply_entrys contractstorage_store contractstorage_remove
      (ps_contract_id_to_storage s) (ps_contract_id_remove s) p8 = Inr p9"
    using apply_storage_total by blast
  obtain p10 where p10: "apply_entrys resultid_store resultid_remove (ps_request_id_to_result_id s)
      (ps_req_to_res_to_remove s) p9 = Inr p10" using apply_total(7) by blast
  obtain p11 where p11: "apply_entrys requestid_store requestid_remove (ps_result_id_to_request_id s)
      (ps_res_to_req_to_remove s) p10 = Inr p11" using apply_total(8) by blast
  obtain p12 where p12: "apply_entrys contractin_trx_store contractin_trx_remove
      (ps_trx_to_contract_id s) (ps_trx_to_contract_id_remove s) p11 = Inr p12"
    using apply_total(9) by blast
  obtain p13 where p13: "apply_entrys contract_trx_store contract_trx_remove
      (ps_contract_to_trx_id s) (ps_contract_to_trx_id_remove s) p12 = Inr p13"
    using apply_total(10) by blast
  show ?thesis
    by (simp add: apply_changes_def p1 p2 p3 p4 p5 p6 p7 p8 p9 p10 p11 p12 p13)
qed


section \<open>Collecting the undo state\<close>

lemma view_populate_slots:
  assumes "populate_undo_state lookup (slot_store E) (slot_remove E) (ps_slot_index_to_entry s)
      (ps_slot_index_remove s) c = Inr c'"
    and "overlay_wf E s"
    and "v_slot (view c) = overlay (ps_slot_index_to_entry s) (ps_slot_index_remove s) (Some lookup)"
  shows "view c' = (view c)\<lparr>v_slot := lookup\<rparr>"
proof (cases "env_statistics_enabled E")
  case True
  then show ?thesis
    using slot_db.view_populate_undo [of lookup E "ps_slot_index_to_entry s" "ps_slot_index_remove s" c c'] assms
    by (simp add: env_enabled)
next
  case False
  then have e: "ps_slot_index_to_entry s = []" "ps_slot_index_remove s = []"
    using assms(2) by (auto simp: overlay_wf_def)
  have "overlay [] [] (Some f) = f" for f :: "SlotIndex \<Rightarrow> SlotEntry option"
    by (simp add: overlay_def fun_eq_iff)
  then have "lookup = v_slot (view c)" using assms(3) unfolding e by simp
  then show ?thesis using assms(1) unfolding e by (simp add: populate_undo_state_def)
qed

lemma view_populate_storage:
  assumes "populate_undo_state lookup contractstorage_store contractstorage_remove st rm c = Inr c'"
  shows "view c' = view c"
proof -
  from assms obtain c1 where c1:
      "foldE (\<lambda>key u. case lookup key of Some e \<Rightarrow> contractstorage_store key e u | None \<Rightarrow> Inr u) rm c = Inr c1"
      "foldE (\<lambda>item u. case lookup (fst item) of Some e \<Rightarrow> contractstorage_store (fst item) e u
        | None \<Rightarrow> contractstorage_remove (fst item) u) st c1 = Inr c'"
    by (auto simp: populate_undo_state_def bindE_eq_Inr)
  have "view c1 = view c"
    by (rule foldE_invariant [OF c1(1), where P = "\<lambda>u. view u = view c"])
      (auto simp: contractstorage_store_def view_index split: option.splits)
  then show ?thesis
    by - (rule foldE_invariant [OF c1(2), where P = "\<lambda>u. view u = view c"],
      auto simp: contractstorage_store_def contractstorage_remove_def view_index
        split: option.splits if_splits)
qed

lemma view_get_undo_state:
  assumes "get_undo_state E s (Some p) u0 = Inr u" and "overlay_wf E s"
    and "view u0 = view (PendingChainState s (Some p))"
  shows "view u = view p"
proof -
  from assms(1) obtain u1 u2 u3 u4 u5 u6 u7 u8 u9 u10 u11 u12 where
    e1: "populate_undo_state (property_lookup_by_id p) property_store property_remove (ps_property_id_to_entry s) (ps_property_id_remove s) u0 = Inr u1"
    and e2: "populate_undo_state (account_lookup_by_id p) (account_store E) (account_remove E) (ps_account_id_to_entry s) (ps_account_id_remove s) u1 = Inr u2"
    and e3: "populate_undo_state (asset_lookup_by_id p) asset_store asset_remove (ps_asset_id_to_entry s) (ps_asset_id_remove s) u2 = Inr u3"
    and e4: "populate_undo_state (slate_lookup_by_id p) slate_store slate_remove (ps_slate_id_to_entry s) (ps_slate_id_remove s) u3 = Inr u4"
    and e5: "populate_undo_state (balance_lookup_by_id p) balance_store balance_remove (ps_balance_id_to_entry s) (ps_balance_id_remove s) u4 = Inr u5"
    and e6: "populate_undo_state (transaction_lookup_by_id p) (transaction_store E) (transaction_remove E) (ps_transaction_id_to_entry s) (ps_transaction_id_remove s) u5 = Inr u6"
    and e7: "populate_undo_state (slot_lookup_by_index p) (slot_store E) (slot_remove E) (ps_slot_index_to_entry s) (ps_slot_index_remove s) u6 = Inr u7"
    and e8: "populate_undo_state (contract_lookup_by_id p) contract_store contract_remove (ps_contract_id_to_entry s) (ps_contract_id_remove s) u7 = Inr u8"
    and e9: "populate_undo_state (contractstorage_lookup_by_id p) contractstorage_store contractstorage_remove (ps_contract_id_to_storage s) (ps_contract_id_remove s) u8 = Inr u9"
    and e10: "populate_undo_state (contract_lookup_resultid_by_reqestid p) resultid_store resultid_remove (ps_request_id_to_result_id s) (ps_req_to_res_to_remove s) u9 = Inr u10"
    and e11: "populate_undo_state (contract_lookup_requestid_by_resultid p) requestid_store requestid_remove (ps_result_id_to_request_id s) (ps_res_to_req_to_remove s) u10 = Inr u11"
    and e12: "populate_undo_state (contract_lookup_contractid_by_trxid p) contractin_trx_store contractin_trx_remove (ps_trx_to_contract_id s) (ps_trx_to_contract_id_remove s) u11 = Inr u12"
    and e13: "populate_undo_state (contract_lookup_trxid_by_contract_id p) contract_trx_store contract_trx_remove (ps_contract_to_trx_id s) (ps_contract_to_trx_id_remove s) u12 = Inr u"
    unfolding get_undo_state_def option.case bindE_eq_Inr by blast
  note v0 = assms(3) [unfolded view_overlay, unfolded view_def [of p], simplified]
  note v1 = property_db.view_populate_undo [OF e1, unfolded v0, simplified]
  note v2 = account_db.view_populate_undo [OF e2, unfolded v1, simplified]
  note v3 = asset_db.view_populate_undo [OF e3, unfolded v2, simplified]
  note v4 = slate_db.view_populate_undo [OF e4, unfolded v3, simplified]
  note v5 = balance_db.view_populate_undo [OF e5, unfolded v4, simplified]
  note v6 = transaction_db.view_populate_undo [OF e6, unfolded v5, simplified]
  note v7 = view_populate_slots [OF e7 assms(2), unfolded v6, simplified]
  note v8 = contract_db.view_populate_undo [OF e8, unfolded v7, simplified]
  note v9 = view_populate_storage [OF e9, unfolded v8]
  note v10 = resultid_db.view_populate_undo [OF e10, unfolded v9, simplified]
  note v11 = requestid_db.view_populate_undo [OF e11, unfolded v10, simplified]
  note v12 = contractin_trx_db.view_populate_undo [OF e12, unfolded v11, simplified]
  note v13 = contract_trx_db.view_populate_undo [OF e13, unfolded v12, simplified]
  show ?thesis unfolding v13 view_def [of p] by simp
qed

text \<open>The undo state of a pending state, as \<open>save_undo_state\<close> creates it.\<close>

definition undo_state_for :: "env \<Rightarrow> pending_state \<Rightarrow> chain \<Rightarrow> chain result" where
  "undo_state_for E s p =
    get_undo_state E s (Some p)
      (PendingChainState empty_pending_state (Some (PendingChainState s (Some p))))"

lemma overlay_Nil [simp]: "overlay [] [] (Some f) = f"
  by (simp add: overlay_def fun_eq_iff)

lemma view_empty_overlay: "view (PendingChainState empty_pending_state (Some c)) = view c"
  by (simp add: view_overlay empty_pending_state_def)

lemmas inv_populate =
  property_inv.inv_populate_undo account_inv.inv_populate_undo asset_inv.inv_populate_undo
  slate_inv.inv_populate_undo balance_inv.inv_populate_undo transaction_inv.inv_populate_undo
  slot_inv.inv_populate_undo contract_inv.inv_populate_undo contractstorage_inv.inv_populate_undo
  resultid_inv.inv_populate_undo requestid_inv.inv_populate_undo
  contractin_trx_inv.inv_populate_undo contract_trx_inv.inv_populate_undo

lemma pending_on_get_undo_state:
  "pending_on E q u0 \<Longrightarrow> get_undo_state E s (Some p) u0 = Inr u \<Longrightarrow> pending_on E q u"
  unfolding get_undo_state_def option.case bindE_eq_Inr
  by (elim exE conjE) (drule (1) inv_populate)+

lemma undo_state_for_overlay:
  assumes "undo_state_for E s p = Inr u" and "overlay_wf E s"
  shows "\<exists>us. u = PendingChainState us (Some (PendingChainState s (Some p))) \<and> overlay_wf E us \<and>
    view u = view p"
proof -
  let ?q = "Some (PendingChainState s (Some p))"
  have "pending_on E ?q (PendingChainState empty_pending_state ?q)" by (simp add: pending_on_def)
  from pending_on_get_undo_state [OF this assms(1) [unfolded undo_state_for_def]]
  obtain us where "u = PendingChainState us ?q" "overlay_wf E us" by (auto simp: pending_on_def)
  moreover have "view u = view p"
    using view_get_undo_state [OF assms(1) [unfolded undo_state_for_def] assms(2)] view_empty_overlay by blast
  ultimately show ?thesis by blast
qed

lemma populate_total_if:
  assumes "\<And>k v c. \<exists>c'. st k v c = Inr c'" "\<And>k c. \<exists>c'. rm k c = Inr c'"
  shows "\<exists>c'. populate_undo_state lookup st rm xs ks c = Inr c'"
proof -
  have "\<exists>c'. foldE (\<lambda>key u. case lookup key of Some e \<Rightarrow> st key e u | None \<Rightarrow> Inr u) ks c = Inr c'" for c
    by (rule foldE_total) (auto simp: assms split: option.splits)
  moreover have "\<exists>c'. foldE (\<lambda>item u. case lookup (fst item) of Some e \<Rightarrow> st (fst item) e u
      | None \<Rightarrow> rm (fst item) u) xs c = Inr c'" for c
    by (rule foldE_total) (auto simp: assms split: option.splits)
  ultimately show ?thesis unfolding populate_undo_state_def bindE_def
    by (auto split: sum.splits) (metis Inl_Inr_False)
qed

lemma populate_total:
  "\<exists>c'. populate_undo_state l1 property_store property_remove xs1 ks1 c = Inr c'"
  "\<exists>c'. populate_undo_state l2 asset_store asset_remove xs2 ks2 c = Inr c'"
  "\<exists>c'. populate_undo_state l3 slate_store slate_remove xs3 ks3 c = Inr c'"
  "\<exists>c'. populate_undo_state l4 balance_store balance_remove xs4 ks4 c = Inr c'"
  "\<exists>c'. populate_undo_state l5 (transaction_store E) (transaction_remove E) xs5 ks5 c = Inr c'"
  "\<exists>c'. populate_undo_state l6 (slot_store E) (slot_remove E) xs6 ks6 c = Inr c'"
  "\<exists>c'. populate_undo_state l7 contract_store contract_remove xs7 ks7 c = Inr c'"
  "\<exists>c'. populate_undo_state l8 contractstorage_store contractstorage_remove xs8 ks8 c = Inr c'"
  "\<exists>c'. populate_undo_state l9 resultid_store resultid_remove xs9 ks9 c = Inr c'"
  "\<exists>c'. populate_undo_state l10 requestid_store requestid_remove xs10 ks10 c = Inr c'"
  "\<exists>c'. populate_undo_state l11 contractin_trx_store contractin_trx_remove xs11 ks11 c = Inr c'"
  "\<exists>c'. populate_undo_state l12 contract_trx_store contract_trx_remove xs12 ks12 c = Inr c'"
  by (rule populate_total_if;
      auto simp: property_store_def property_remove_def asset_store_def asset_remove_def
        slate_store_def slate_remove_def balance_store_def balance_remove_def
        transaction_store_def transaction_remove_def slot_store_def slot_remove_def
        contract_store_def contract_remove_def contractstorage_store_def contractstorage_remove_def
        resultid_store_def resultid_remove_def requestid_store_def requestid_remove_def
        contractin_trx_store_def contractin_trx_remove_def contract_trx_store_def contract_trx_remove_def
        Let_def split: option.splits)+

lemma get_undo_state_total:
  assumes "\<forall>a \<in> ran (v_account (view p)). account_ok a" and "\<forall>a \<in> ran (v_account (view u0)). account_ok a"
    and "v_property (view u0) = overlay (ps_property_id_to_entry s) (ps_property_id_remove s) (Some (v_property (view p)))"
  shows "\<exists>u. get_undo_state E s (Some p) u0 = Inr u"
proof -
  obtain u1 where u1: "populate_undo_state (property_lookup_by_id p) property_store property_remove
      (ps_property_id_to_entry s) (ps_property_id_remove s) u0 = Inr u1"
    using populate_total(1) by blast
  have "v_account (view u1) = v_account (view u0)"
    using property_db.view_populate_undo [OF u1] assms(3) by (simp add: v_simps)
  then have "account_db.all_ok u1" using assms(2) by (simp add: account_db.all_ok_def)
  from account_db.populate_undo_ok [OF this, of "account_lookup_by_id p" E "ps_account_id_to_entry s" "ps_account_id_remove s"]
  obtain u2 where u2: "populate_undo_state (account_lookup_by_id p) (account_store E) (account_remove E)
      (ps_account_id_to_entry s) (ps_account_id_remove s) u1 = Inr u2"
    using assms(1) by (auto simp: v_simps)
  show ?thesis unfolding get_undo_state_def option.case u1 bindE_Inr u2
    using populate_total(2-) by (metis bindE_Inr)
qed

section \<open>Theorems\<close>

text \<open>A database without entries, and an environment whose hash functions are the simplest ones of
  their type; concrete instances for the examples.\<close>

definition empty_database :: chain_database where
  "empty_database =
    \<lparr>db_property_id_to_entry = [], db_account_id_to_entry = [], db_account_name_to_id = [],
     db_account_address_to_id = [], db_delegate_votes = [], db_asset_id_to_entry = [],
     db_asset_symbol_to_id = [], db_slate_id_to_entry = [], db_balance_id_to_entry = [],
     db_transaction_id_to_entry = [], db_unique_transactions = [], db_address_to_transaction_ids = [],
     db_slot_index_to_entry = [], db_slot_timestamp_to_delegate = [], db_recent_operations = [],
     db_contract_id_to_entry = [], db_contract_id_to_storage = [], db_contract_name_to_id = [],
     db_request_to_result_id = [], db_result_to_request_id = [], db_trx_to_contract_id = [],
     db_contract_to_trx_id = [],
     db_head_block_header = \<lparr>block_num = 0, rank = 0, timestamp = 0, transaction_digest = 0,
       parent_digest = 0, delegate_signature = 0\<rparr>\<rparr>"

definition sample_env :: env where
  "sample_env =
    \<lparr>env_addr_of = ucast, env_pts_addr = (\<lambda>k _ _. ucast k),
     env_cond_addr = (\<lambda>c. case wc_data c of withdraw_signature_type s \<Rightarrow> sig_owner s | _ \<Rightarrow> 0),
     env_slate_hash = (\<lambda>ids. of_nat (length ids)), env_trx_hash = (\<lambda>t. of_nat (length (operations t))),
     env_trx_digest = (\<lambda>t. of_nat (length (operations t))), env_recover = (\<lambda>sig _ _. Inr (ucast sig)),
     env_data_size = (\<lambda>t. length (operations t)), env_now = 1000, env_statistics_enabled = False\<rparr>"



lemma accounts_ok_overlay:
  assumes "accounts_ok p s"
  shows "\<forall>a \<in> ran (v_account (view (PendingChainState s (Some p)))). account_ok a"
  using assms unfolding accounts_ok_def view_overlay
  by (fastforce simp: ran_def overlay_def dest: map_of_SomeD split: option.splits if_splits)



text \<open>C32: The overlay does not record the removal of a contract storage: removing a storage that the
  state below holds succeeds and leaves the storage visible with its old contents.\<close>

theorem removed_storage_stays_visible:
  assumes "contractstorage_lookup_by_id p k = Some e" and "k \<notin> set (ps_contract_id_remove s)"
  shows "\<exists>ch'. contractstorage_remove k (PendingChainState s (Some p)) = Inr ch' \<and>
    contractstorage_lookup_by_id ch' k = Some e"
proof -
  have "contractstorage_lookup_by_id (PendingChainState s (Some p)) k \<noteq> None"
    using assms by (auto simp: ps_contractstorage_lookup_by_id_def split: option.splits)
  then show ?thesis using assms
    by (simp add: contractstorage_remove_def chain_defs ps_contractstorage_lookup_by_id_def)
qed

theorem removed_storage_stays_visible_witness:
  "\<exists>ch'. contractstorage_remove 5 (PendingChainState empty_pending_state
      (Some (ChainDatabase (empty_database\<lparr>db_contract_id_to_storage :=
        [(5, \<lparr>cs_id = 5, contract_storages = []\<rparr>)]\<rparr>)))) = Inr ch' \<and>
    contractstorage_lookup_by_id ch' 5 = Some \<lparr>cs_id = 5, contract_storages = []\<rparr>"
  by (rule removed_storage_stays_visible)
    (simp_all add: cd_contractstorage_lookup_by_id_def empty_pending_state_def)

end
