(* ===== verification/Chain_Interface.thy ===== *)
theory Chain_Interface
  imports Undo
begin

text \<open>
  \<open>ChainInterface.cpp\<close>: the accessors of entries and properties, the id counters, the active delegate
  list, the fee schedule, and the withdrawal of funds from a contract into a result transaction.
\<close>

section \<open>Entries\<close>

definition get_property_entry :: "chain \<Rightarrow> PropertyIdType \<Rightarrow> PropertyEntry option" where
  "get_property_entry ch k = property_lookup_by_id ch k"

definition store_property_entry :: "PropertyIdType \<Rightarrow> variant \<Rightarrow> chain \<Rightarrow> chain result" where
  "store_property_entry k v ch = property_store k \<lparr>pr_id = k, pr_value = v\<rparr> ch"

definition get_account_entry :: "chain \<Rightarrow> AccountIdType \<Rightarrow> AccountEntry option" where
  "get_account_entry ch k = account_lookup_by_id ch k"

definition get_account_entry_by_name :: "chain \<Rightarrow> string \<Rightarrow> AccountEntry option result" where
  "get_account_entry_by_name ch n = account_lookup_by_name ch n"

definition get_account_entry_by_address :: "chain \<Rightarrow> Address \<Rightarrow> AccountEntry option result" where
  "get_account_entry_by_address ch a = account_lookup_by_address ch a"

definition store_account_entry :: "env \<Rightarrow> AccountEntry \<Rightarrow> chain \<Rightarrow> chain result" where
  "store_account_entry E e ch = account_store E (ac_id e) e ch"

definition get_asset_entry :: "chain \<Rightarrow> AssetIdType \<Rightarrow> AssetEntry option" where
  "get_asset_entry ch k = asset_lookup_by_id ch k"

definition get_asset_entry_by_symbol :: "chain \<Rightarrow> string \<Rightarrow> AssetEntry option result" where
  "get_asset_entry_by_symbol ch s = asset_lookup_by_symbol ch s"

definition store_asset_entry :: "AssetEntry \<Rightarrow> chain \<Rightarrow> chain result" where
  "store_asset_entry e ch = asset_store (as_id e) e ch"

definition get_slate_entry :: "chain \<Rightarrow> SlateIdType \<Rightarrow> SlateEntry option" where
  "get_slate_entry ch k = slate_lookup_by_id ch k"

definition store_slate_entry :: "env \<Rightarrow> SlateEntry \<Rightarrow> chain \<Rightarrow> chain result" where
  "store_slate_entry E e ch = slate_store (slate_entry_id (env_slate_hash E) e) e ch"

definition get_balance_entry :: "chain \<Rightarrow> BalanceIdType \<Rightarrow> BalanceEntry option" where
  "get_balance_entry ch k = balance_lookup_by_id ch k"

definition store_balance_entry :: "env \<Rightarrow> BalanceEntry \<Rightarrow> chain \<Rightarrow> chain result" where
  "store_balance_entry E e ch = balance_store (balance_entry_id (env_cond_addr E) e) e ch"

definition get_slot_entry :: "chain \<Rightarrow> SlotIndex \<Rightarrow> SlotEntry option" where
  "get_slot_entry ch i = slot_lookup_by_index ch i"

text \<open>By timestamp: \<open>SlotEntry::lookup\<close> first asks for the statistics flag.\<close>

definition get_slot_entry_by_time :: "env \<Rightarrow> chain \<Rightarrow> time_point_sec \<Rightarrow> SlotEntry option result" where
  "get_slot_entry_by_time E ch t =
    (if \<not> env_statistics_enabled E then Inr None else slot_lookup_by_timestamp ch t)"

definition store_slot_entry :: "env \<Rightarrow> SlotEntry \<Rightarrow> chain \<Rightarrow> chain result" where
  "store_slot_entry E e ch = slot_store E (slot_index e) e ch"

definition get_contract_entry :: "chain \<Rightarrow> ContractIdType \<Rightarrow> ContractEntry option" where
  "get_contract_entry ch k = contract_lookup_by_id ch k"

definition get_contract_entry_by_name :: "chain \<Rightarrow> ContractName \<Rightarrow> ContractEntry option" where
  "get_contract_entry_by_name ch n = contract_lookup_by_name ch n"

definition remove_contract_entry :: "ContractIdType \<Rightarrow> chain \<Rightarrow> chain result" where
  "remove_contract_entry k ch = contract_remove k ch"

definition store_contract_entry :: "ContractEntry \<Rightarrow> chain \<Rightarrow> chain result" where
  "store_contract_entry e ch = contract_store (ct_id e) e ch"

definition get_contractstorage_entry :: "chain \<Rightarrow> ContractIdType \<Rightarrow> ContractStorageEntry option" where
  "get_contractstorage_entry ch k = contractstorage_lookup_by_id ch k"

definition remove_contractstorage_entry :: "ContractIdType \<Rightarrow> chain \<Rightarrow> chain result" where
  "remove_contractstorage_entry k ch = contractstorage_remove k ch"

definition store_contractstorage_entry :: "ContractStorageEntry \<Rightarrow> chain \<Rightarrow> chain result" where
  "store_contractstorage_entry e ch = contractstorage_store (cs_id e) e ch"

definition is_destroyed_contract :: "ContractState \<Rightarrow> bool" where
  "is_destroyed_contract st \<longleftrightarrow> st = contract_deleted"

definition is_temporary_contract :: "ContractLevel \<Rightarrow> bool" where
  "is_temporary_contract l \<longleftrightarrow> l = contract_temp"

definition is_valid_symbol :: "chain \<Rightarrow> string \<Rightarrow> bool result" where
  "is_valid_symbol ch s = bindE (get_asset_entry_by_symbol ch s) (\<lambda>e. Inr (e \<noteq> None))"


section \<open>Properties of the chain\<close>

definition property_value :: "chain \<Rightarrow> PropertyIdType \<Rightarrow> variant result" where
  "property_value ch k =
    (case get_property_entry ch k of None \<Rightarrow> Inl fc_assert | Some e \<Rightarrow> Inr (pr_value e))"

definition chain_last_asset_id :: "chain \<Rightarrow> AssetIdType result" where
  "chain_last_asset_id ch = bindE (property_value ch last_asset_id) as_int64"

definition new_asset_id :: "chain \<Rightarrow> (AssetIdType \<times> chain) result" where
  "new_asset_id ch =
    bindE (chain_last_asset_id ch) (\<lambda>i.
    let next_id = s32 (i + 1) in
    bindE (store_property_entry last_asset_id (int_variant next_id) ch) (\<lambda>ch. Inr (next_id, ch)))"

definition chain_last_account_id :: "chain \<Rightarrow> AccountIdType result" where
  "chain_last_account_id ch = bindE (property_value ch last_account_id) as_int64"

definition new_account_id :: "chain \<Rightarrow> (AccountIdType \<times> chain) result" where
  "new_account_id ch =
    bindE (chain_last_account_id ch) (\<lambda>i.
    let next_id = s32 (i + 1) in
    bindE (store_property_entry last_account_id (int_variant next_id) ch) (\<lambda>ch. Inr (next_id, ch)))"

definition get_active_delegates :: "chain \<Rightarrow> AccountIdType list result" where
  "get_active_delegates ch = bindE (property_value ch active_delegate_list_id) as_vector"

definition set_active_delegates :: "AccountIdType list \<Rightarrow> chain \<Rightarrow> chain result" where
  "set_active_delegates ds ch =
    store_property_entry active_delegate_list_id (array_variant (map int_variant ds)) ch"

definition is_active_delegate :: "chain \<Rightarrow> AccountIdType \<Rightarrow> bool result" where
  "is_active_delegate ch i = bindE (get_active_delegates ch) (\<lambda>ds. Inr (count_list ds i > 0))"

definition set_statistics_enabled :: "bool \<Rightarrow> chain \<Rightarrow> chain result" where
  "set_statistics_enabled b ch = store_property_entry statistics_enabled (bool_variant b) ch"

text \<open>The first call of \<open>get_statistics_enabled\<close>; later calls return the value it kept.\<close>

definition get_statistics_enabled :: "chain \<Rightarrow> bool result" where
  "get_statistics_enabled ch = bindE (property_value ch statistics_enabled) as_bool"

definition set_node_vm_enabled :: "bool \<Rightarrow> chain \<Rightarrow> chain result" where
  "set_node_vm_enabled b ch = store_property_entry node_vm_enabled (bool_variant b) ch"

definition get_node_vm_enabled :: "chain \<Rightarrow> bool result" where
  "get_node_vm_enabled ch = bindE (property_value ch node_vm_enabled) as_bool"

definition set_required_confirmations :: "64 word \<Rightarrow> chain \<Rightarrow> chain result" where
  "set_required_confirmations n ch =
    store_property_entry confirmation_requirement (int_variant (uint n)) ch"

definition get_required_confirmations :: "chain \<Rightarrow> int result" where
  "get_required_confirmations ch =
    (case get_property_entry ch confirmation_requirement of
       Some e \<Rightarrow> as_int64 (pr_value e)
     | None \<Rightarrow> Inr (int ALP_BLOCKCHAIN_NUM_DELEGATES * 3))"


section \<open>Fees\<close>

definition ALP_MAX_DELEGATE_PAY_PER_BLOCK :: int where "ALP_MAX_DELEGATE_PAY_PER_BLOCK = 200"
definition ALP_BLOCKCHAIN_BLOCKS_PER_DAY :: int where "ALP_BLOCKCHAIN_BLOCKS_PER_DAY = 3600 div 6 * 24"
definition ALP_BLOCKCHAIN_MAX_MESSAGE_SIZE :: nat where "ALP_BLOCKCHAIN_MAX_MESSAGE_SIZE = 2048"
definition ALP_BLOCKCHAIN_MAX_FREE_MESSAGE_SIZE :: nat where "ALP_BLOCKCHAIN_MAX_FREE_MESSAGE_SIZE = 1024"
definition ALP_BLOCKCHAIN_MIN_MESSAGE_FEE_COE :: int where "ALP_BLOCKCHAIN_MIN_MESSAGE_FEE_COE = 0"
definition ALP_DEFAULT_TRANSACTION_FEE :: int where "ALP_DEFAULT_TRANSACTION_FEE = 0"
definition ALP_DEFAULT_CONTRACT_MARGIN :: int where "ALP_DEFAULT_CONTRACT_MARGIN = 10 * 100000"
definition LIMIT_PRICE :: int where "LIMIT_PRICE = 1"

lemmas fee_defs = ALP_MAX_DELEGATE_PAY_PER_BLOCK_def ALP_BLOCKCHAIN_BLOCKS_PER_DAY_def
  ALP_BLOCKCHAIN_MAX_MESSAGE_SIZE_def ALP_BLOCKCHAIN_MAX_FREE_MESSAGE_SIZE_def
  ALP_BLOCKCHAIN_MIN_MESSAGE_FEE_COE_def ALP_DEFAULT_TRANSACTION_FEE_def
  ALP_DEFAULT_CONTRACT_MARGIN_def LIMIT_PRICE_def

definition get_max_delegate_pay_issued_per_block :: ShareType where
  "get_max_delegate_pay_issued_per_block = ALP_MAX_DELEGATE_PAY_PER_BLOCK"

definition get_delegate_registration_fee :: "8 word \<Rightarrow> ShareType result" where
  "get_delegate_registration_fee rate =
    (if rate = 0 then Inr 0
     else
       let blocks_per_two_weeks = 14 * ALP_BLOCKCHAIN_BLOCKS_PER_DAY;
           max_total_pay_per_two_weeks = s64 (blocks_per_two_weeks * get_max_delegate_pay_issued_per_block);
           max_pay_per_two_weeks = max_total_pay_per_two_weeks div int ALP_BLOCKCHAIN_NUM_DELEGATES;
           registration_fee = s64 (max_pay_per_two_weeks * uint rate) div 100
       in if registration_fee > 0 then Inr registration_fee else Inl fc_assert)"

definition get_imessage_need_fee :: "string \<Rightarrow> ShareType" where
  "get_imessage_need_fee imessage =
    (if length imessage < ALP_BLOCKCHAIN_MAX_FREE_MESSAGE_SIZE then 0
     else ALP_BLOCKCHAIN_MIN_MESSAGE_FEE_COE *
       (int (length imessage) - int ALP_BLOCKCHAIN_MAX_FREE_MESSAGE_SIZE))"

definition get_asset_registration_fee :: "nat \<Rightarrow> ShareType" where
  "get_asset_registration_fee symbol_length = 100000"

definition get_limit :: "AssetIdType \<Rightarrow> ShareType \<Rightarrow> int" where
  "get_limit i amnt = (if i \<noteq> 0 then 0 else s32 (amnt sdiv LIMIT_PRICE))"

definition get_amount :: "ShareType \<Rightarrow> AssetIdType \<Rightarrow> Asset" where
  "get_amount limit i = \<lparr>amount = s64 (LIMIT_PRICE * limit), asset_id = i\<rparr>"

definition get_transaction_fee :: "AssetIdType \<Rightarrow> Asset" where
  "get_transaction_fee i = \<lparr>amount = ALP_DEFAULT_TRANSACTION_FEE, asset_id = 0\<rparr>"

definition get_contract_register_fee :: "Code \<Rightarrow> Asset" where
  "get_contract_register_fee c = \<lparr>amount = int (length (byte_code c)), asset_id = 0\<rparr>"

definition get_default_margin :: "AssetIdType \<Rightarrow> Asset" where
  "get_default_margin i = \<lparr>amount = ALP_DEFAULT_CONTRACT_MARGIN, asset_id = 0\<rparr>"


section \<open>Withdrawing from a contract\<close>

definition get_balanceid :: "env \<Rightarrow> Address \<Rightarrow> WithdrawBalanceTypes \<Rightarrow> AssetIdType \<Rightarrow> BalanceIdType" where
  "get_balanceid E contract_address balance_type asset =
    env_cond_addr E (signature_condition contract_address asset 0 balance_type)"

text \<open>The loop over the operations of the result transaction: it stops at the first withdrawal from the
  balance and returns its index and amount. The overflow check after the test is never reached with a
  non-zero amount.\<close>

definition as_withdraw_contract :: "Operation \<Rightarrow> WithdrawContractOperation option" where
  "as_withdraw_contract op = (case op of withdraw_contract_op w \<Rightarrow> Some w | _ \<Rightarrow> None)"

fun find_contract_withdraw :: "BalanceIdType \<Rightarrow> nat \<Rightarrow> Operation list \<Rightarrow> (nat \<times> ShareType) option" where
  "find_contract_withdraw bid i [] = None"
| "find_contract_withdraw bid i (op # ops) =
    (case as_withdraw_contract op of
       Some w \<Rightarrow>
         if wcn_balance_id w = bid then Some (i, wcn_amount w) else find_contract_withdraw bid (Suc i) ops
     | None \<Rightarrow> find_contract_withdraw bid (Suc i) ops)"

definition withdraw_from_contract ::
  "env \<Rightarrow> chain \<Rightarrow> Asset \<Rightarrow> Address \<Rightarrow> SignedTransaction \<Rightarrow> SignedTransaction result" where
  "withdraw_from_contract E ch amount_to_withdraw from_contract t =
    (let bid = get_balanceid E from_contract withdraw_contract_type (asset_id amount_to_withdraw) in
     case get_balance_entry ch bid of
       None \<Rightarrow> Inl unknown_balance_entry
     | Some be \<Rightarrow>
         let hit = find_contract_withdraw bid 0 (operations t);
             used = (case hit of None \<Rightarrow> 0 | Some (i, a) \<Rightarrow> s64 (0 + a))
         in if amount (get_spendable_balance be (env_now E)) \<ge> s64 (amount amount_to_withdraw + used)
            then (case hit of
                    None \<Rightarrow> trx_withdraw_from_contract t bid (amount amount_to_withdraw) from_contract
                  | Some (i, a) \<Rightarrow>
                      (case as_withdraw_contract (operations t ! i) of
                         Some w \<Rightarrow>
                           Inr (with_operations t ((operations t)[i :=
                             withdraw_contract_op (w\<lparr>wcn_amount := s64 (amount amount_to_withdraw + used)\<rparr>)]))
                       | None \<Rightarrow> Inl bad_cast))
            else Inl insufficient_funds)"

definition transfer_asset_from_contract_to_address ::
  "env \<Rightarrow> chain \<Rightarrow> ShareType \<Rightarrow> string \<Rightarrow> Address \<Rightarrow> Address \<Rightarrow> SignedTransaction \<Rightarrow> SignedTransaction result" where
  "transfer_asset_from_contract_to_address E ch real_amount symbol from_contract to_address t =
    bindE (get_asset_entry_by_symbol ch symbol) (\<lambda>asset_rec.
    case asset_rec of
      None \<Rightarrow> Inl invalid_asset_symbol
    | Some a \<Rightarrow>
        let asset_to_transfer = \<lparr>amount = real_amount, asset_id = as_id a\<rparr> in
        bindE (withdraw_from_contract E ch asset_to_transfer from_contract t) (\<lambda>t.
        deposit t to_address asset_to_transfer))"

definition transfer_asset_from_contract ::
  "env \<Rightarrow> chain \<Rightarrow> ShareType \<Rightarrow> string \<Rightarrow> Address \<Rightarrow> string \<Rightarrow> SignedTransaction \<Rightarrow> SignedTransaction result" where
  "transfer_asset_from_contract E ch real_amount symbol from_contract to_account t =
    bindE (get_account_entry_by_name ch to_account) (\<lambda>account_entry.
    case account_entry of
      None \<Rightarrow> Inl unknown_account_name
    | Some a \<Rightarrow>
        transfer_asset_from_contract_to_address E ch real_amount symbol from_contract
          (owner_address (env_addr_of E) a) t)"

section \<open>Properties\<close>

lemma view_chain_accessors:
  "get_property_entry ch = v_property (view ch)" "get_account_entry ch = v_account (view ch)"
  "get_asset_entry ch = v_asset (view ch)" "get_slate_entry ch = v_slate (view ch)"
  "get_balance_entry ch = v_balance (view ch)" "get_contract_entry ch = v_contract (view ch)"
  by (simp_all add: fun_eq_iff get_property_entry_def get_account_entry_def get_asset_entry_def
      get_slate_entry_def get_balance_entry_def get_contract_entry_def v_simps)

lemma view_store_property_entry:
  "store_property_entry k v ch = Inr ch' \<Longrightarrow>
    view ch' = (view ch)\<lparr>v_property := (v_property (view ch))(k \<mapsto> \<lparr>pr_id = k, pr_value = v\<rparr>)\<rparr>"
  unfolding store_property_entry_def by (drule property_db.view_store) (simp add: fun_eq_iff)

lemma store_property_entry_total: "\<exists>ch'. store_property_entry k v ch = Inr ch'"
  by (simp add: store_property_entry_def property_store_def)

lemma view_store_account_entry:
  "store_account_entry E a ch = Inr ch' \<Longrightarrow>
    view ch' = (view ch)\<lparr>v_account := (v_account (view ch))(ac_id a \<mapsto> a)\<rparr>"
  unfolding store_account_entry_def by (rule view_account_store)

lemma view_store_asset_entry:
  "store_asset_entry a ch = Inr ch' \<Longrightarrow> view ch' = (view ch)\<lparr>v_asset := (v_asset (view ch))(as_id a \<mapsto> a)\<rparr>"
  unfolding store_asset_entry_def by (drule asset_db.view_store) (simp add: fun_eq_iff)

lemma view_store_balance_entry:
  "store_balance_entry E b ch = Inr ch' \<Longrightarrow>
    view ch' = (view ch)\<lparr>v_balance := (v_balance (view ch))(env_cond_addr E (be_condition b) \<mapsto> b)\<rparr>"
  unfolding store_balance_entry_def balance_entry_id_def
  by (drule balance_db.view_store) (simp add: fun_eq_iff)

lemma view_store_slate_entry:
  "store_slate_entry E s ch = Inr ch' \<Longrightarrow>
    view ch' = (view ch)\<lparr>v_slate := (v_slate (view ch))(slate_entry_id (env_slate_hash E) s \<mapsto> s)\<rparr>"
  unfolding store_slate_entry_def by (drule slate_db.view_store) (simp add: fun_eq_iff)

lemma view_store_contract_entry:
  "store_contract_entry c ch = Inr ch' \<Longrightarrow> view ch' = (view ch)\<lparr>v_contract := (v_contract (view ch))(ct_id c \<mapsto> c)\<rparr>"
  unfolding store_contract_entry_def by (drule contract_db.view_store) (simp add: fun_eq_iff)

lemmas view_stores = view_store_property_entry view_store_account_entry view_store_asset_entry
  view_store_balance_entry view_store_slate_entry view_store_contract_entry

lemma property_value_view:
  "property_value ch k = (case v_property (view ch) k of None \<Rightarrow> Inl fc_assert | Some e \<Rightarrow> Inr (pr_value e))"
  by (simp add: property_value_def view_chain_accessors)

text \<open>The id counters never hand out an id twice in a row: when the account (asset) counter holds
  \<open>i\<close> below the 32-bit maximum, the next id is \<open>i + 1\<close>, the counter then holds it, and nothing but
  that counter changes in the view of the chain.\<close>

theorem new_ids_are_successors:
  assumes "i < 2147483647" and "- 2147483648 \<le> i"
  shows "(chain_last_account_id ch = Inr i \<longrightarrow>
      (\<exists>ch'. new_account_id ch = Inr (i + 1, ch') \<and> chain_last_account_id ch' = Inr (i + 1) \<and>
        view ch' = (view ch)\<lparr>v_property := (v_property (view ch))
          (last_account_id \<mapsto> \<lparr>pr_id = last_account_id, pr_value = int_variant (i + 1)\<rparr>)\<rparr>)) \<and>
    (chain_last_asset_id ch = Inr i \<longrightarrow>
      (\<exists>ch'. new_asset_id ch = Inr (i + 1, ch') \<and> chain_last_asset_id ch' = Inr (i + 1) \<and>
        view ch' = (view ch)\<lparr>v_property := (v_property (view ch))
          (last_asset_id \<mapsto> \<lparr>pr_id = last_asset_id, pr_value = int_variant (i + 1)\<rparr>)\<rparr>))"
proof -
  have s: "s32 (i + 1) = i + 1" using assms by (simp add: s32_def)
  obtain c1 where c1: "store_property_entry last_account_id (int_variant (i + 1)) ch = Inr c1"
    using store_property_entry_total by blast
  obtain c2 where c2: "store_property_entry last_asset_id (int_variant (i + 1)) ch = Inr c2"
    using store_property_entry_total by blast
  show ?thesis
    by (simp add: new_account_id_def new_asset_id_def s c1 c2 chain_last_account_id_def
        chain_last_asset_id_def property_value_view view_store_property_entry [OF c1]
        view_store_property_entry [OF c2] as_int64_def)
qed

theorem new_ids_are_successors_witness:
  "\<exists>ch'. new_account_id (ChainDatabase (empty_database\<lparr>db_property_id_to_entry :=
      [(last_account_id, \<lparr>pr_id = last_account_id, pr_value = int_variant 41\<rparr>)]\<rparr>)) = Inr (42, ch') \<and>
    chain_last_account_id ch' = Inr 42"
  using new_ids_are_successors [of 41 "ChainDatabase (empty_database\<lparr>db_property_id_to_entry :=
      [(last_account_id, \<lparr>pr_id = last_account_id, pr_value = int_variant 41\<rparr>)]\<rparr>)"]
  by (auto simp: chain_last_account_id_def property_value_def get_property_entry_def
      cd_property_lookup_by_id_def as_int64_def)



lemma as_withdraw_contract_simps [simp]:
  "as_withdraw_contract (withdraw_contract_op w) = Some w"
  "as_withdraw_contract op = Some w \<longleftrightarrow> op = withdraw_contract_op w"
  by (simp add: as_withdraw_contract_def, cases op) (simp_all add: as_withdraw_contract_def)

lemma find_contract_withdraw_at:
  "find_contract_withdraw bid n ops = Some (i, a) \<Longrightarrow>
    n \<le> i \<and> i - n < length ops \<and>
    (\<exists>w. ops ! (i - n) = withdraw_contract_op w \<and> wcn_balance_id w = bid \<and> wcn_amount w = a)"
proof (induction bid n ops rule: find_contract_withdraw.induct)
  case (2 bid n op ops)
  then show ?case
    by (auto simp: nth_Cons' Suc_diff_le split: if_splits option.splits)
qed simp

text \<open>What the result transaction withdraws from a contract balance so far.\<close>

definition contract_withdrawn :: "BalanceIdType \<Rightarrow> Operation list \<Rightarrow> ShareType" where
  "contract_withdrawn bid ops =
    (case find_contract_withdraw bid 0 ops of None \<Rightarrow> 0 | Some (i, a) \<Rightarrow> a)"

lemma find_contract_withdraw_snoc:
  "find_contract_withdraw bid n (ops @ [withdraw_contract_op w]) =
    (case find_contract_withdraw bid n ops of
       Some r \<Rightarrow> Some r
     | None \<Rightarrow> if wcn_balance_id w = bid then Some (n + length ops, wcn_amount w) else None)"
proof (induction bid n ops rule: find_contract_withdraw.induct)
  case (2 bid n op ops)
  then show ?case by (cases "as_withdraw_contract op") (auto split: option.splits)
qed simp

lemma find_contract_withdraw_upd:
  "i < length ops \<Longrightarrow> ops ! i = withdraw_contract_op w \<Longrightarrow> wcn_balance_id w' = wcn_balance_id w \<Longrightarrow>
    find_contract_withdraw b n (ops[i := withdraw_contract_op w']) =
      (case find_contract_withdraw b n ops of
         None \<Rightarrow> None
       | Some (j, a) \<Rightarrow> if j = n + i then Some (j, wcn_amount w') else Some (j, a))"
proof (induction b n ops arbitrary: i rule: find_contract_withdraw.induct)
  case (2 b n op ops)
  have far: "j \<noteq> n" if "find_contract_withdraw b (Suc n) ops = Some (j, a)" for j a
    using find_contract_withdraw_at [OF that] by simp
  show ?case
  proof (cases i)
    case 0
    then show ?thesis using 2 far by (auto split: option.splits)
  next
    case (Suc i')
    then show ?thesis using 2 by (cases "as_withdraw_contract op") (auto split: option.splits)
  qed
qed simp



end
