(* ===== verification/Eval_State.thy ===== *)
theory Eval_State
  imports Chain_Interface
begin

text \<open>
  \<open>TransactionEvaluationState.cpp\<close> without the evaluation of operations: signature checks, the ledger
  of a transaction (\<open>sub_balance\<close>, \<open>add_balance\<close>, vote deltas), the final fee processing, and the
  separate signature check that block application runs in a thread. The members of the class take the
  evaluation state and, where they use \<open>_current_state\<close>, the chain it points to.
\<close>

section \<open>Construction and signatures\<close>

text \<open>\<open>skipexec\<close> is the one member without an initial value; every user of the class sets it before
  the evaluation.\<close>

definition TransactionEvaluationState_init :: "bool \<Rightarrow> TransactionEvaluationState" where
  "TransactionEvaluationState_init skip_exec =
    \<lparr>trx = empty_transaction, signed_keys = [], validation_error = None, deposits = [],
     withdraws = [], yield_map = [], deposit_behavior = (0, 0), deltas = [],
     required_fees = \<lparr>amount = 0, asset_id = 0\<rparr>, total_withdraw = \<lparr>amount = 0, asset_id = 0\<rparr>,
     alt_fees_paid = \<lparr>amount = 0, asset_id = 0\<rparr>, balance = [], delegate_vote_deltas = [],
     imessage_length = 0, skip_signature_check = False, enforce_canonical_signatures = False,
     skip_vote_adjustment = False, max_fee = [], evaluate_contract_testing = False,
     p_result_trx = empty_transaction, current_op_index = 0, skipexec = skip_exec,
     throw_exec_exception = False, exec_cost = \<lparr>amount = 0, asset_id = 0\<rparr>, contract_operator = 0,
     evaluate_contract_result = False, event_vector = [], contract_balance_remain = [],
     withdrawed_contract_balance = [], owner_balance_not_usedup = [], deposit_address = [],
     deposit_count = 0\<rparr>"

definition check_signature :: "TransactionEvaluationState \<Rightarrow> Address \<Rightarrow> bool" where
  "check_signature st a \<longleftrightarrow> skip_signature_check st \<or> a \<in> set (signed_keys st)"

text \<open>The loops that add up \<open>check_signature\<close> in a \<open>uint32_t\<close>.\<close>

definition count_signatures :: "TransactionEvaluationState \<Rightarrow> Address list \<Rightarrow> 32 word" where
  "count_signatures st addrs = fold (\<lambda>a n. if check_signature st a then n + 1 else n) addrs 0"

definition verify_authority :: "TransactionEvaluationState \<Rightarrow> MultisigMetaInfo \<Rightarrow> bool" where
  "verify_authority st siginfo \<longleftrightarrow> count_signatures st (mm_owners siginfo) \<ge> mm_required siginfo"

definition check_multisig :: "TransactionEvaluationState \<Rightarrow> 32 word \<Rightarrow> Address list \<Rightarrow> bool" where
  "check_multisig st required owners \<longleftrightarrow> count_signatures st owners \<ge> required"

definition account_has_signed :: "env \<Rightarrow> TransactionEvaluationState \<Rightarrow> AccountEntry \<Rightarrow> bool result" where
  "account_has_signed E st entry =
    bindE (is_retracted entry) (\<lambda>r.
    if \<not> r
    then bindE (active_key entry) (\<lambda>k.
         if check_signature st (env_addr_of E k) then Inr True
         else if check_signature st (env_addr_of E (owner_key entry)) then Inr True
         else Inr False)
    else Inr False)"

text \<open>The addresses a recovered key signs for.\<close>

definition key_addresses :: "env \<Rightarrow> PublicKeyType \<Rightarrow> Address list" where
  "key_addresses E k =
    [env_addr_of E k, env_pts_addr E k False 56, env_pts_addr E k True 56,
     env_pts_addr E k False 0, env_pts_addr E k True 0]"

definition add_signed_keys :: "env \<Rightarrow> SignatureType \<Rightarrow> SignedTransaction \<Rightarrow> TransactionEvaluationState \<Rightarrow>
    TransactionEvaluationState result" where
  "add_signed_keys E sig trx_arg st =
    bindE (env_recover E sig (env_trx_digest E trx_arg) (enforce_canonical_signatures st)) (\<lambda>k.
    Inr (st\<lparr>signed_keys := fold set_insert (key_addresses E k) (signed_keys st)\<rparr>))"


section \<open>The ledger of a transaction\<close>

definition delta_of :: "TransactionEvaluationState \<Rightarrow> nat \<Rightarrow> AssetIdType \<Rightarrow> ShareType" where
  "delta_of st i a = (case map_of (deltas st) i of None \<Rightarrow> 0 | Some m \<Rightarrow> map_amount m a)"

definition set_delta :: "nat \<Rightarrow> AssetIdType \<Rightarrow> ShareType \<Rightarrow> TransactionEvaluationState \<Rightarrow>
    (nat \<times> (AssetIdType \<times> ShareType) list) list" where
  "set_delta i a v st =
    omap_update i (omap_update a v (case map_of (deltas st) i of None \<Rightarrow> [] | Some m \<Rightarrow> m)) (deltas st)"

definition sub_balance :: "Asset \<Rightarrow> TransactionEvaluationState \<Rightarrow> TransactionEvaluationState result" where
  "sub_balance amnt st =
    (let a = asset_id amnt in
     bindE (safe_sub (map_amount (balance st) a) (amount amnt)) (\<lambda>balance_t.
     bindE (safe_add (map_amount (deposits st) a) (amount amnt)) (\<lambda>deposits_t.
     bindE (safe_add (delta_of st (current_op_index st) a) (amount amnt)) (\<lambda>deltas_t.
     Inr (st\<lparr>balance := omap_update a balance_t (balance st),
             deposits := AList.update a deposits_t (deposits st),
             deltas := set_delta (current_op_index st) a deltas_t st\<rparr>)))))"

definition add_balance :: "Asset \<Rightarrow> TransactionEvaluationState \<Rightarrow> TransactionEvaluationState result" where
  "add_balance amnt st =
    (let a = asset_id amnt in
     bindE (safe_add (map_amount (balance st) a) (amount amnt)) (\<lambda>balance_t.
     bindE (safe_add (map_amount (withdraws st) a) (amount amnt)) (\<lambda>withdraws_t.
     bindE (safe_sub (delta_of st (current_op_index st) a) (amount amnt)) (\<lambda>deltas_t.
     Inr (st\<lparr>balance := omap_update a balance_t (balance st),
             withdraws := AList.update a withdraws_t (withdraws st),
             deltas := set_delta (current_op_index st) a deltas_t st\<rparr>)))))"

definition get_fees :: "TransactionEvaluationState \<Rightarrow> AssetIdType \<Rightarrow> ShareType" where
  "get_fees st i = (case map_of (balance st) i of Some v \<Rightarrow> v | None \<Rightarrow> 0)"

definition add_vote_delta :: "ShareType \<Rightarrow> AccountIdType \<Rightarrow> TransactionEvaluationState \<Rightarrow>
    TransactionEvaluationState result" where
  "add_vote_delta amnt i st =
    bindE (safe_add (map_amount (delegate_vote_deltas st) i) amnt) (\<lambda>v.
    Inr (st\<lparr>delegate_vote_deltas := AList.update i v (delegate_vote_deltas st)\<rparr>))"

definition adjust_vote :: "SlateIdType \<Rightarrow> ShareType \<Rightarrow> chain \<Rightarrow> TransactionEvaluationState \<Rightarrow>
    TransactionEvaluationState result" where
  "adjust_vote slate_id amnt ch st =
    (if slate_id = 0 \<or> skip_vote_adjustment st then Inr st
     else case get_slate_entry ch slate_id of
       None \<Rightarrow> Inl unknown_delegate_slate
     | Some s \<Rightarrow>
         if duplicate_slate s = []
         then foldE (\<lambda>i st. if i \<ge> 0 then add_vote_delta amnt i st else Inr st) (slate s) st
         else foldE (add_vote_delta amnt) (duplicate_slate s) st)"

definition validate_asset :: "chain \<Rightarrow> Asset \<Rightarrow> unit result" where
  "validate_asset ch a = (if get_asset_entry ch (asset_id a) = None then Inl unknown_asset_id else Inr ())"

definition scan_deltas :: "TransactionEvaluationState \<Rightarrow> nat \<Rightarrow> (Asset \<Rightarrow> bool) \<Rightarrow> bool" where
  "scan_deltas st op_index callback =
    fold (\<lambda>item ret.
      if fst item \<noteq> op_index then ret
      else fold (\<lambda>d ret. ret \<or> callback \<lparr>amount = snd d, asset_id = fst d\<rparr>) (snd item) ret)
      (deltas st) False"


section \<open>The end of an evaluation\<close>

definition update_delegate_vote :: "env \<Rightarrow> AccountIdType \<times> ShareType \<Rightarrow> chain \<Rightarrow> chain result" where
  "update_delegate_vote E item ch =
    (case get_account_entry ch (fst item) of
       None \<Rightarrow> Inl fc_assert
     | Some d \<Rightarrow>
         if \<not> is_delegate d then Inl fc_assert
         else bindE (adjust_votes_for d (snd item)) (\<lambda>d. store_account_entry E d ch))"

definition update_delegate_votes :: "env \<Rightarrow> TransactionEvaluationState \<Rightarrow> chain \<Rightarrow> chain result" where
  "update_delegate_votes E st ch = foldE (update_delegate_vote E) (delegate_vote_deltas st) ch"

definition validate_required_fee :: "TransactionEvaluationState \<Rightarrow> unit result" where
  "validate_required_fee st =
    bindE (case map_of (balance st) 0 of
             Some v \<Rightarrow> asset_plus_assign \<lparr>amount = 0, asset_id = 0\<rparr> \<lparr>amount = v, asset_id = 0\<rparr>
           | None \<Rightarrow> Inr \<lparr>amount = 0, asset_id = 0\<rparr>) (\<lambda>xts_fees.
    bindE (case map_of (max_fee st) 0 of
             Some m \<Rightarrow> if amount xts_fees \<le> m then Inr () else Inl fc_assert
           | None \<Rightarrow> Inr ()) (\<lambda>_.
    bindE (asset_plus_assign xts_fees (alt_fees_paid st)) (\<lambda>xts_fees.
    bindE (asset_less xts_fees (required_fees st)) (\<lambda>low.
    if low then Inl insufficient_fee else Inr ()))))"

definition check_withdrawn_asset :: "chain \<Rightarrow> AssetIdType \<times> ShareType \<Rightarrow> unit \<Rightarrow> unit result" where
  "check_withdrawn_asset ch item u =
    (if get_asset_entry ch (fst item) = None then Inl unknown_asset_id else Inr ())"

definition check_fee :: "chain \<Rightarrow> AssetIdType \<times> ShareType \<Rightarrow> unit \<Rightarrow> unit result" where
  "check_fee ch fee u =
    (if snd fee < 0 then Inl negative_fee
     else if fst fee = 0 \<or> snd fee = 0 then Inr ()
     else if get_asset_entry ch (fst fee) = None then Inl unknown_asset_id
     else Inr ())"

definition collect_fee :: "AssetIdType \<times> ShareType \<Rightarrow> chain \<Rightarrow> chain result" where
  "collect_fee fee ch =
    (if snd fee < 0 then Inl negative_fee
     else if snd fee > 0
     then (case get_asset_entry ch (fst fee) of
             None \<Rightarrow> Inl unknown_asset_id
           | Some a \<Rightarrow>
               bindE (safe_add (collected_fees a) (snd fee)) (\<lambda>c.
               store_asset_entry (a\<lparr>collected_fees := c\<rparr>) ch))
     else Inr ch)"

definition check_contract_balance :: "chain \<Rightarrow> BalanceIdType \<Rightarrow> unit \<Rightarrow> unit result" where
  "check_contract_balance ch bid u =
    (case get_balance_entry ch bid of
       None \<Rightarrow> Inl insufficient_funds
     | Some b \<Rightarrow> if be_balance b \<ge> 0 then Inr () else Inl insufficient_funds)"

text \<open>\<open>balance[0]\<close> creates the entry of the base asset.\<close>

definition touch_base_balance :: "TransactionEvaluationState \<Rightarrow> TransactionEvaluationState" where
  "touch_base_balance st =
    (if map_of (balance st) 0 = None then st\<lparr>balance := omap_update 0 0 (balance st)\<rparr> else st)"

definition post_evaluate :: "TransactionEvaluationState \<Rightarrow> chain \<Rightarrow> (TransactionEvaluationState \<times> chain) result" where
  "post_evaluate st ch =
    bindE (foldE (check_withdrawn_asset ch) (withdraws st) ()) (\<lambda>_.
    let st = touch_base_balance st in
    bindE (foldE (check_fee ch) (balance st) ()) (\<lambda>_.
    bindE (foldE collect_fee (balance st) ch) (\<lambda>ch.
    bindE (foldE (check_contract_balance ch) (withdrawed_contract_balance st) ()) (\<lambda>_.
    Inr (st, ch)))))"


section \<open>The signature check of block application\<close>

definition contract_op_balances :: "Operation \<Rightarrow> balance_map option" where
  "contract_op_balances op =
    (case op of
       register_contract_op r \<Rightarrow> Some (rc_balances r)
     | call_contract_op c \<Rightarrow> Some (cc_balances c)
     | transfer_contract_op t \<Rightarrow> Some (tc_balances t)
     | upgrade_contract_op u \<Rightarrow> Some (ug_balances u)
     | destroy_contract_op d \<Rightarrow> Some (dc_balances d)
     | _ \<Rightarrow> None)"

text \<open>One operation; \<open>None\<close> is the early \<open>return false\<close>.\<close>

definition analy_op :: "chain \<Rightarrow> Operation \<Rightarrow> BalanceEntry list \<times> AccountEntry list \<Rightarrow>
    (BalanceEntry list \<times> AccountEntry list) option" where
  "analy_op ch op acc =
    (case op of
       withdraw_op w \<Rightarrow>
         (case get_balance_entry ch (wd_balance_id w) of
            None \<Rightarrow> None
          | Some b \<Rightarrow> Some (fst acc @ [b], snd acc))
     | withdraw_pay_op w \<Rightarrow>
         (case get_account_entry ch \<bar>wp_account_id w\<bar> of
            None \<Rightarrow> None
          | Some a \<Rightarrow> if \<not> is_delegate a then None else Some (fst acc, snd acc @ [a]))
     | _ \<Rightarrow>
         (case contract_op_balances op of
            None \<Rightarrow> Some acc
          | Some bs \<Rightarrow>
              fold (\<lambda>item acc. case acc of
                      None \<Rightarrow> None
                    | Some a \<Rightarrow> (case get_balance_entry ch (fst item) of
                        None \<Rightarrow> None
                      | Some b \<Rightarrow> Some (fst a @ [b], snd a))) bs (Some acc)))"

text \<open>The loop runs over the operations of the member \<open>trx\<close>; the argument is not used.\<close>

definition transaction_entry_analy :: "TransactionEvaluationState \<Rightarrow> chain \<Rightarrow> SignedTransaction \<Rightarrow>
    (BalanceEntry list \<times> AccountEntry list) option" where
  "transaction_entry_analy st ch trx_arg =
    fold (\<lambda>op acc. case acc of None \<Rightarrow> None | Some a \<Rightarrow> analy_op ch op a) (operations (trx st)) (Some ([], []))"

definition balance_signed :: "TransactionEvaluationState \<Rightarrow> BalanceEntry \<Rightarrow> bool" where
  "balance_signed st b =
    (case wc_data (be_condition b) of
       withdraw_signature_type s \<Rightarrow> check_signature st (sig_owner s)
     | withdraw_multisig_type m \<Rightarrow> \<not> count_signatures st (ms_owners m) < ms_required m
     | _ \<Rightarrow> False)"

fun accounts_signed :: "env \<Rightarrow> TransactionEvaluationState \<Rightarrow> AccountEntry list \<Rightarrow> bool result" where
  "accounts_signed E st [] = Inr True"
| "accounts_signed E st (a # as) =
    bindE (account_has_signed E st a) (\<lambda>ok. if \<not> ok then Inr False else accounts_signed E st as)"

definition transaction_signature_check :: "env \<Rightarrow> TransactionEvaluationState \<Rightarrow> SignedTransaction \<Rightarrow>
    BalanceEntry list \<Rightarrow> AccountEntry list \<Rightarrow> bool result" where
  "transaction_signature_check E st trx_arg all_balances all_account =
    bindE (foldE (\<lambda>sig. add_signed_keys E sig trx_arg) (signatures trx_arg) st) (\<lambda>st.
    if \<not> list_all (balance_signed st) all_balances then Inr False
    else accounts_signed E st all_account)"


section \<open>Classification of transactions\<close>

definition is_contract_op :: "Operation \<Rightarrow> bool" where
  "is_contract_op op \<longleftrightarrow> op_type op \<ge> 70 \<and> op_type op \<le> 74"

fun origin_trx_basic_verify_ops :: "Operation list \<Rightarrow> bool" where
  "origin_trx_basic_verify_ops [] = True"
| "origin_trx_basic_verify_ops (op # ops) =
    (if op_type op = 90 then False
     else if is_contract_op op then True
     else origin_trx_basic_verify_ops ops)"

definition origin_trx_basic_verify :: "SignedTransaction \<Rightarrow> bool" where
  "origin_trx_basic_verify t = origin_trx_basic_verify_ops (operations t)"

text \<open>\<open>op_hash\<close> is the hash of a packed operation.\<close>

definition without_expiration :: "SignedTransaction \<Rightarrow> SignedTransaction" where
  "without_expiration t =
    SignedTransaction 0 (reserved t) (alp_account t) (alp_inport_asset t) (operations t)
      (result_trx_type t) (result_trx_id t) (signatures t)"

definition is_contract_op_same :: "(Operation \<Rightarrow> 160 word) \<Rightarrow> Operation \<Rightarrow> Operation \<Rightarrow> bool" where
  "is_contract_op_same op_hash l r =
    (if op_type l \<noteq> op_type r then False
     else
       let strip = (\<lambda>op. case op of transaction_op t \<Rightarrow> transaction_op (without_expiration t) | _ \<Rightarrow> op)
       in op_hash (strip l) = op_hash (strip r))"

definition is_contract_trxs_same :: "(Operation \<Rightarrow> 160 word) \<Rightarrow> SignedTransaction \<Rightarrow> SignedTransaction \<Rightarrow> bool" where
  "is_contract_trxs_same op_hash l r =
    (if length (operations l) \<noteq> length (operations r) then False
     else list_all2 (is_contract_op_same op_hash) (operations l) (operations r))"

section \<open>A small chain for the examples\<close>

text \<open>The base asset and an issued asset, a delegate, and one balance of each asset.\<close>

definition sample_account :: AccountEntry where
  "sample_account = AccountEntry_init\<lparr>ac_id := 1, ac_name := ''alice'', owner_key := 78,
     active_key_history := [(1, 77)],
     delegate_info := Some (DelegateStats_init\<lparr>pay_rate := 50, signing_key_history := [(1, 77)],
       pay_balance := 60, votes_for := 40\<rparr>)\<rparr>"

definition sample_asset :: "AssetIdType \<Rightarrow> AssetEntry" where
  "sample_asset i = AssetEntry_init\<lparr>as_id := i, as_symbol := (if i = 0 then ''ALP'' else ''GOLD''),
     as_issuer_account_id := i, as_precision := 100, current_share_supply := 200,
     maximum_share_supply := 1000, collected_fees := 5,
     as_authority := \<lparr>mm_required = 1, mm_owners = [77]\<rparr>\<rparr>"

definition sample_balance :: "Address \<Rightarrow> AssetIdType \<Rightarrow> ShareType \<Rightarrow> BalanceEntry" where
  "sample_balance owner a n =
    (BalanceEntry_of_condition (signature_condition owner a 0 withdraw_common_type))\<lparr>be_balance := n\<rparr>"

definition sample_chain :: chain where
  "sample_chain = ChainDatabase (empty_database
    \<lparr>db_property_id_to_entry := [(last_account_id, \<lparr>pr_id = last_account_id, pr_value = int_variant 1\<rparr>),
       (last_asset_id, \<lparr>pr_id = last_asset_id, pr_value = int_variant 1\<rparr>)],
     db_account_id_to_entry := [(1, sample_account)],
     db_asset_id_to_entry := [(0, sample_asset 0), (1, sample_asset 1)],
     db_balance_id_to_entry := [(9, sample_balance 9 0 100), (8, sample_balance 8 1 50)]\<rparr>)"

definition sample_state :: TransactionEvaluationState where
  "sample_state = (TransactionEvaluationState_init True)\<lparr>signed_keys := [9, 8, 77]\<rparr>"

lemma sample_view:
  "get_property_entry sample_chain last_account_id = Some \<lparr>pr_id = last_account_id, pr_value = int_variant 1\<rparr>"
  "get_account_entry sample_chain = [1 \<mapsto> sample_account]"
  "get_asset_entry sample_chain = [0 \<mapsto> sample_asset 0, 1 \<mapsto> sample_asset 1]"
  "get_balance_entry sample_chain = [8 \<mapsto> sample_balance 8 1 50, 9 \<mapsto> sample_balance 9 0 100]"
  "get_slate_entry sample_chain = Map.empty"
  by (auto simp: fun_eq_iff sample_chain_def empty_database_def get_property_entry_def get_account_entry_def
      get_asset_entry_def get_balance_entry_def get_slate_entry_def cd_property_lookup_by_id_def
      cd_account_lookup_by_id_def cd_asset_lookup_by_id_def cd_balance_lookup_by_id_def
      cd_slate_lookup_by_id_def)

lemmas sample_defs = sample_state_def sample_env_def sample_balance_def sample_asset_def sample_account_def
  TransactionEvaluationState_init_def BalanceEntry_of_condition_def signature_condition_def
  AssetEntry_init_def AccountEntry_init_def DelegateStats_init_def

lemma sample_env_simps:
  "env_now sample_env = 1000" "env_data_size sample_env t = length (operations t)"
  "env_cond_addr sample_env c = (case wc_data c of withdraw_signature_type s \<Rightarrow> sig_owner s | _ \<Rightarrow> 0)"
  "env_addr_of sample_env = ucast" "env_statistics_enabled sample_env = False"
  by (simp_all add: sample_env_def)

lemmas sample_entry_defs = sample_state_def sample_balance_def sample_asset_def sample_account_def
  TransactionEvaluationState_init_def BalanceEntry_of_condition_def signature_condition_def
  AssetEntry_init_def AccountEntry_init_def DelegateStats_init_def

text \<open>Lookups in the small chain and in what is stored over it, through the view.\<close>

lemmas chain_run = sample_view [unfolded view_chain_accessors] view_chain_accessors view_simps

end
