(* ===== verification/Balance_Ops.thy ===== *)
theory Balance_Ops
  imports Eval_State
begin

text \<open>
  \<open>BalanceOperations.cpp\<close>: the evaluation of deposits, withdrawals and their contract variants. An
  evaluation takes the evaluation state and the chain and returns both, or the exception it throws.
\<close>

type_synonym eval_result = "(TransactionEvaluationState \<times> chain) result"

section \<open>Helpers\<close>

definition ALP_BLOCKCHAIN_TRANSACTION_MAX_DEPOSIT_NUM :: int where
  "ALP_BLOCKCHAIN_TRANSACTION_MAX_DEPOSIT_NUM = 100"

definition depositable :: "WithdrawCondition \<Rightarrow> bool" where
  "depositable c =
    (case wc_data c of
       withdraw_signature_type _ \<Rightarrow> True
     | withdraw_multisig_type _ \<Rightarrow> True
     | withdraw_escrow_type _ \<Rightarrow> True
     | _ \<Rightarrow> False)"

text \<open>The entry a deposit works on: the stored one or a new one; a new escrow balance is marked with the
  id of the creating transaction.\<close>

definition deposit_entry :: "env \<Rightarrow> TransactionEvaluationState \<Rightarrow> chain \<Rightarrow> WithdrawCondition \<Rightarrow> BalanceEntry" where
  "deposit_entry E st ch c =
    (case get_balance_entry ch (env_cond_addr E c) of
       Some b \<Rightarrow> b
     | None \<Rightarrow>
         let b = BalanceEntry_of_condition c in
         (case wc_data c of
            withdraw_escrow_type _ \<Rightarrow> b\<lparr>be_meta_data := object_variant
                [(''creating_transaction_id'', hash_variant (trx_id (env_trx_hash E) (trx st)))]\<rparr>
          | _ \<Rightarrow> b))"

text \<open>\<open>fc::uint128\<close>: arithmetic modulo \<open>2^128\<close>; the division by zero raises, \<open>to_integer\<close> refuses
  values of more than 64 bits.\<close>

definition u128 :: "int \<Rightarrow> int" where
  "u128 x = x mod 340282366920938463463374607431768211456"

definition average_date :: "time_point_sec \<Rightarrow> ShareType \<Rightarrow> time_point_sec \<Rightarrow> ShareType \<Rightarrow> int \<Rightarrow> time_point_sec result" where
  "average_date old_date old_balance new_date amnt divisor =
    (let avg = u128 (u128 (uint old_date * u128 old_balance) + u128 (uint new_date * u128 amnt)) in
     if divisor = 0 then Inl divide_by_zero_exception
     else
       let avg = avg div divisor in
       if avg \<ge> 18446744073709551616 then Inl fc_assert else Inr (word_of_int avg))"

definition adjust_vote_of :: "WithdrawCondition \<Rightarrow> ShareType \<Rightarrow> chain \<Rightarrow> TransactionEvaluationState \<Rightarrow>
    TransactionEvaluationState result" where
  "adjust_vote_of c amnt ch st =
    (if wc_asset_id c = 0 \<and> wc_slate_id c \<noteq> 0 then adjust_vote (wc_slate_id c) amnt ch st else Inr st)"

text \<open>The owner check of deposits: an address is deposited to at most once.\<close>

definition note_deposit_address :: "Address option \<Rightarrow> TransactionEvaluationState \<Rightarrow> TransactionEvaluationState result" where
  "note_deposit_address owner st =
    (case owner of
       None \<Rightarrow> Inr st
     | Some a \<Rightarrow>
         if a \<in> set (deposit_address st) then Inl deposit_to_one_address_twice
         else Inr (st\<lparr>deposit_address := set_insert a (deposit_address st)\<rparr>))"


section \<open>Deposits\<close>

definition deposit_evaluate :: "env \<Rightarrow> DepositOperation \<Rightarrow> TransactionEvaluationState \<Rightarrow> chain \<Rightarrow> eval_result" where
  "deposit_evaluate E op st ch =
    (if deposit_count st > ALP_BLOCKCHAIN_TRANSACTION_MAX_DEPOSIT_NUM then Inl too_much_deposit
     else
       let st = st\<lparr>deposit_count := deposit_count st + 1\<rparr> in
       if dp_amount op \<le> 0 then Inl negative_deposit
       else if \<not> depositable (dp_condition op) then Inl invalid_withdraw_condition
       else
         let cur = deposit_entry E st ch (dp_condition op) in
         bindE (note_deposit_address (balance_owner cur) st) (\<lambda>st.
         bindE (if be_balance cur = 0 then Inr (env_now E)
                else average_date (be_deposit_date cur) (be_balance cur) (env_now E) (dp_amount op)
                       (u128 (u128 (be_balance cur) + u128 (dp_amount op)))) (\<lambda>date.
         bindE (safe_add (be_balance cur) (dp_amount op)) (\<lambda>new_balance.
         let cur = cur\<lparr>be_deposit_date := date, be_balance := new_balance\<rparr> in
         bindE (sub_balance \<lparr>amount = dp_amount op, asset_id = wc_asset_id (be_condition cur)\<rparr> st) (\<lambda>st.
         bindE (adjust_vote_of (be_condition cur) (dp_amount op) ch st) (\<lambda>st.
         let cur = cur\<lparr>be_last_update := env_now E\<rparr> in
         if get_asset_entry ch (wc_asset_id (be_condition cur)) = None then Inl fc_assert
         else bindE (store_balance_entry E cur ch) (\<lambda>ch. Inr (st, ch))))))))"

definition deposit_contract_evaluate ::
  "env \<Rightarrow> DepositContractOperation \<Rightarrow> TransactionEvaluationState \<Rightarrow> chain \<Rightarrow> eval_result" where
  "deposit_contract_evaluate E op st ch =
    (if \<not> evaluate_contract_result st then Inl not_be_result_of_execute
     else if dcn_amount op \<le> 0 then Inl negative_deposit
     else if \<not> depositable (dcn_condition op) then Inl invalid_withdraw_condition
     else
       let cur = deposit_entry E st ch (dcn_condition op) in
       bindE (if be_balance cur = 0 then Inr (env_now E)
              else average_date (be_deposit_date cur) (be_balance cur) (env_now E) (dcn_amount op)
                     (u128 (s64 (be_balance cur + dcn_amount op)))) (\<lambda>date.
       let cur = cur\<lparr>be_deposit_date := date, be_balance := s64 (be_balance cur + dcn_amount op)\<rparr> in
       bindE (sub_balance \<lparr>amount = dcn_amount op, asset_id = wc_asset_id (be_condition cur)\<rparr> st) (\<lambda>st.
       bindE (adjust_vote_of (be_condition cur) (dcn_amount op) ch st) (\<lambda>st.
       let cur = cur\<lparr>be_last_update := env_now E\<rparr> in
       if get_asset_entry ch (wc_asset_id (be_condition cur)) = None then Inl fc_assert
       else bindE (store_balance_entry E cur ch) (\<lambda>ch. Inr (st, ch))))))"


section \<open>Withdrawals\<close>

text \<open>The two conditions a transaction can fulfil to spend a balance.\<close>

definition check_withdraw_condition :: "TransactionEvaluationState \<Rightarrow> WithdrawCondition \<Rightarrow> unit result" where
  "check_withdraw_condition st c =
    (case wc_data c of
       withdraw_signature_type s \<Rightarrow>
         if \<not> check_signature st (sig_owner s) then Inl missing_signature else Inr ()
     | withdraw_multisig_type m \<Rightarrow>
         if count_signatures st (ms_owners m) < ms_required m then Inl missing_signature else Inr ()
     | _ \<Rightarrow> Inl invalid_withdraw_condition)"

text \<open>The issuer of a retractable asset may withdraw without fulfilling the condition; otherwise the asset
  must not be frozen and the condition must hold.\<close>

definition authorise_withdraw ::
  "TransactionEvaluationState \<Rightarrow> AssetEntry \<Rightarrow> unit result \<Rightarrow> unit result" where
  "authorise_withdraw st asset_rec condition_check =
    (let issuer_override = is_retractable asset_rec \<and> verify_authority st (as_authority asset_rec) in
     if issuer_override then Inr ()
     else if is_balance_frozen asset_rec then Inl fc_assert
     else condition_check)"

definition note_owner_not_usedup ::
  "BalanceEntry \<Rightarrow> TransactionEvaluationState \<Rightarrow> TransactionEvaluationState" where
  "note_owner_not_usedup cur st =
    (case balance_owner cur of
       Some owner \<Rightarrow>
         if be_balance cur > 0
         then st\<lparr>owner_balance_not_usedup := set_insert owner (owner_balance_not_usedup st)\<rparr>
         else st
     | None \<Rightarrow> st)"

definition withdraw_evaluate :: "env \<Rightarrow> WithdrawOperation \<Rightarrow> TransactionEvaluationState \<Rightarrow> chain \<Rightarrow> eval_result" where
  "withdraw_evaluate E op st ch =
    (if wd_amount op \<le> 0 then Inl negative_withdraw
     else case get_balance_entry ch (wd_balance_id op) of
       None \<Rightarrow> Inl unknown_balance_entry
     | Some cur \<Rightarrow>
         if wd_amount op > amount (get_spendable_balance cur (env_now E)) then Inl insufficient_funds
         else case get_asset_entry ch (wc_asset_id (be_condition cur)) of
           None \<Rightarrow> Inl fc_assert
         | Some asset_rec \<Rightarrow>
             bindE (authorise_withdraw st asset_rec (check_withdraw_condition st (be_condition cur))) (\<lambda>_.
             bindE (adjust_vote_of (be_condition cur) (s64 (- wd_amount op)) ch st) (\<lambda>st.
             bindE (safe_sub (be_balance cur) (wd_amount op)) (\<lambda>temp.
             let cur = cur\<lparr>be_balance := temp\<rparr> in
             bindE (add_balance \<lparr>amount = wd_amount op, asset_id = wc_asset_id (be_condition cur)\<rparr> st) (\<lambda>st.
             let st = note_owner_not_usedup cur st; cur = cur\<lparr>be_last_update := env_now E\<rparr>
             in bindE (store_balance_entry E cur ch) (\<lambda>ch. Inr (st, ch)))))))"

definition withdraw_contract_evaluate ::
  "env \<Rightarrow> WithdrawContractOperation \<Rightarrow> TransactionEvaluationState \<Rightarrow> chain \<Rightarrow> eval_result" where
  "withdraw_contract_evaluate E op st ch =
    (if \<not> evaluate_contract_result st then Inl in_result_of_execute
     else
       let fresh = BalanceEntry_of_condition
             (signature_condition (wcn_contract op) 0 0 withdraw_contract_type) in
       if wcn_amount op \<le> 0 then Inl negative_withdraw
       else
         bindE (case get_balance_entry ch (wcn_balance_id op) of
                  Some b \<Rightarrow> Inr b
                | None \<Rightarrow>
                    if wcn_contract op = 0 then Inl unknown_balance_entry
                    else if wcn_balance_id op \<noteq> env_cond_addr E (be_condition fresh) then Inl fc_assert
                    else Inr (fresh\<lparr>be_balance := 0, be_deposit_date := env_now E,
                                    be_last_update := env_now E\<rparr>)) (\<lambda>cur.
         if get_asset_entry ch (wc_asset_id (be_condition cur)) = None then Inl fc_assert
         else
           let cur = cur\<lparr>be_balance := s64 (be_balance cur - wcn_amount op)\<rparr> in
           bindE (add_balance \<lparr>amount = wcn_amount op, asset_id = wc_asset_id (be_condition cur)\<rparr> st) (\<lambda>st.
           let cur = cur\<lparr>be_last_update := env_now E\<rparr> in
           bindE (store_balance_entry E cur ch) (\<lambda>ch.
           Inr (st\<lparr>withdrawed_contract_balance := withdrawed_contract_balance st @ [wcn_balance_id op]\<rparr>, ch)))))"

text \<open>One iteration of \<open>BalancesWithdrawOperation::evaluate\<close>.\<close>

definition check_operator_condition :: "env \<Rightarrow> TransactionEvaluationState \<Rightarrow> WithdrawCondition \<Rightarrow> unit result" where
  "check_operator_condition E st c =
    (case wc_data c of
       withdraw_signature_type s \<Rightarrow>
         if \<not> check_signature st (sig_owner s) then Inl missing_signature
         else if wc_asset_id c = 0 \<and> env_addr_of E (contract_operator st) \<noteq> sig_owner s
         then Inl operator_and_owner_not_the_same
         else Inr ()
     | _ \<Rightarrow> Inl invalid_withdraw_condition)"

definition balances_withdraw_step ::
  "env \<Rightarrow> BalanceIdType \<times> ShareType \<Rightarrow> TransactionEvaluationState \<times> chain \<Rightarrow> eval_result" where
  "balances_withdraw_step E item stch =
    (let st = fst stch; ch = snd stch; amnt = snd item in
     if amnt \<le> 0 then Inl negative_withdraw
     else case get_balance_entry ch (fst item) of
       None \<Rightarrow> Inl unknown_balance_entry
     | Some cur \<Rightarrow>
         if amnt > amount (get_spendable_balance cur (env_now E)) then Inl insufficient_funds
         else case get_asset_entry ch (wc_asset_id (be_condition cur)) of
           None \<Rightarrow> Inl fc_assert
         | Some asset_rec \<Rightarrow>
             bindE (authorise_withdraw st asset_rec (check_operator_condition E st (be_condition cur))) (\<lambda>_.
             bindE (adjust_vote_of (be_condition cur) (s64 (- amnt)) ch st) (\<lambda>st.
             let cur = cur\<lparr>be_balance := s64 (be_balance cur - amnt)\<rparr> in
             bindE (add_balance \<lparr>amount = amnt, asset_id = wc_asset_id (be_condition cur)\<rparr> st) (\<lambda>st.
             let cur = cur\<lparr>be_last_update := env_now E\<rparr> in
             bindE (store_balance_entry E cur ch) (\<lambda>ch. Inr (st, ch))))))"

definition balances_withdraw_evaluate ::
  "env \<Rightarrow> balance_map \<Rightarrow> TransactionEvaluationState \<Rightarrow> chain \<Rightarrow> eval_result" where
  "balances_withdraw_evaluate E balances st ch =
    (if \<not> evaluate_contract_result st then Inl not_be_result_of_execute
     else if \<not> check_signature st (env_addr_of E (contract_operator st)) then Inl missing_signature
     else foldE (balances_withdraw_step E) balances (st, ch))"


section \<open>Disabled operations\<close>

definition release_escrow_evaluate ::
  "ReleaseEscrowOperation \<Rightarrow> TransactionEvaluationState \<Rightarrow> chain \<Rightarrow> eval_result" where
  "release_escrow_evaluate op st ch = Inl fc_assert"

definition update_balance_vote_evaluate ::
  "UpdateBalanceVoteOperation \<Rightarrow> TransactionEvaluationState \<Rightarrow> chain \<Rightarrow> eval_result" where
  "update_balance_vote_evaluate op st ch = Inl fc_assert"

end
