(* ===== verification/Account_Ops.thy ===== *)
theory Account_Ops
  imports Balance_Ops
begin

text \<open>
  \<open>AccountOperations.cpp\<close>, \<open>SlateOperations.cpp\<close>, \<open>ImessageOperations.cpp\<close>, \<open>EventOperations.cpp\<close> and
  \<open>UpdateTransferConfig.cpp\<close>: accounts, delegates, voting slates, messages and events.
\<close>

section \<open>Accounts\<close>

definition register_is_delegate :: "RegisterAccountOperation \<Rightarrow> bool" where
  "register_is_delegate op \<longleftrightarrow> ra_delegate_pay_rate op \<le> 100"

text \<open>The delegate part shared by registration and update: fresh statistics, the signing key at the
  head block, and the registration fee.\<close>

definition make_delegate ::
  "8 word \<Rightarrow> PublicKeyType \<Rightarrow> AccountEntry \<Rightarrow> TransactionEvaluationState \<Rightarrow> chain \<Rightarrow>
   (AccountEntry \<times> TransactionEvaluationState) result" where
  "make_delegate rate key entry st ch =
    (let entry = entry\<lparr>delegate_info := Some (DelegateStats_init\<lparr>pay_rate := rate\<rparr>)\<rparr> in
     bindE (set_signing_key entry (get_head_block_num ch) key) (\<lambda>entry.
     bindE (get_delegate_registration_fee rate) (\<lambda>fee.
     bindE (asset_plus_assign (required_fees st) \<lparr>amount = fee, asset_id = 0\<rparr>) (\<lambda>fees.
     Inr (entry, st\<lparr>required_fees := fees\<rparr>)))))"

definition register_entry :: "env \<Rightarrow> RegisterAccountOperation \<Rightarrow> AccountIdType \<Rightarrow> AccountEntry result" where
  "register_entry E op new_id =
    (let entry = AccountEntry_init\<lparr>ac_id := new_id, ac_name := ra_name op,
           ac_public_data := ra_public_data op, owner_key := ra_owner_key op\<rparr>
     in bindE (set_active_key entry (env_now E) (ra_active_key op)) (\<lambda>entry.
        Inr (entry\<lparr>ac_registration_date := env_now E, ac_last_update := env_now E,
           ac_meta_data := (case ra_meta_data op of
              None \<Rightarrow> Some \<lparr>ami_type = titan_account, ami_data = []\<rparr>
            | Some m \<Rightarrow> Some m)\<rparr>)))"

definition register_delegate_part ::
  "RegisterAccountOperation \<Rightarrow> AccountEntry \<Rightarrow> TransactionEvaluationState \<Rightarrow> chain \<Rightarrow>
   (AccountEntry \<times> TransactionEvaluationState) result" where
  "register_delegate_part op entry st ch =
    (if register_is_delegate op
     then make_delegate (ra_delegate_pay_rate op) (ra_active_key op) entry st ch
     else Inr (entry, st))"

definition register_account_evaluate ::
  "env \<Rightarrow> RegisterAccountOperation \<Rightarrow> TransactionEvaluationState \<Rightarrow> chain \<Rightarrow> eval_result" where
  "register_account_evaluate E op st ch =
    (if \<not> is_valid_account_name (ra_name op) then Inl invalid_account_name
     else bindE (get_account_entry_by_name ch (ra_name op)) (\<lambda>a.
     if a \<noteq> None then Inl account_already_registered
     else bindE (get_account_entry_by_address ch (env_addr_of E (ra_owner_key op))) (\<lambda>a.
     if a \<noteq> None then Inl account_key_in_use
     else bindE (get_account_entry_by_address ch (env_addr_of E (ra_active_key op))) (\<lambda>a.
     if a \<noteq> None then Inl account_key_in_use
     else bindE (new_account_id ch) (\<lambda>(new_id, ch).
       bindE (register_entry E op new_id) (\<lambda>entry.
       bindE (register_delegate_part op entry st ch) (\<lambda>(entry, st).
       bindE (store_account_entry E entry ch) (\<lambda>ch. Inr (st, ch)))))))))"

definition update_is_retracted :: "UpdateAccountOperation \<Rightarrow> bool" where
  "update_is_retracted op \<longleftrightarrow> ua_active_key op = Some 0"

definition update_is_delegate :: "UpdateAccountOperation \<Rightarrow> bool" where
  "update_is_delegate op \<longleftrightarrow> ua_delegate_pay_rate op \<le> 100"

text \<open>A new key must be free; an account that is retracted must have no pay left.\<close>

definition check_new_key ::
  "env \<Rightarrow> UpdateAccountOperation \<Rightarrow> chain \<Rightarrow> AccountEntry \<Rightarrow> PublicKeyType \<Rightarrow> unit result" where
  "check_new_key E op ch cur k =
    (if \<not> update_is_retracted op
     then bindE (get_account_entry_by_address ch (env_addr_of E k)) (\<lambda>a.
          if a \<noteq> None then Inl account_key_in_use else Inr ())
     else if is_delegate cur
     then bindE (delegate_pay_balance cur) (\<lambda>p. if p > 0 then Inl pay_balance_remaining else Inr ())
     else Inr ())"

text \<open>The part of \<open>UpdateAccountOperation::evaluate\<close> on the active key: a key change needs the owner's
  signature, any other update a signature of the account.\<close>

definition update_active_key ::
  "env \<Rightarrow> UpdateAccountOperation \<Rightarrow> TransactionEvaluationState \<Rightarrow> chain \<Rightarrow> AccountEntry \<Rightarrow> AccountEntry result" where
  "update_active_key E op st ch cur =
    bindE (active_key cur) (\<lambda>cur_key.
    case ua_active_key op of
      Some k \<Rightarrow>
        if k \<noteq> cur_key
        then
          bindE (check_new_key E op ch cur k) (\<lambda>_.
          if \<not> check_signature st (env_addr_of E (owner_key cur)) then Inl missing_signature
          else set_active_key cur (env_now E) k)
        else bindE (account_has_signed E st cur) (\<lambda>s. if \<not> s then Inl missing_signature else Inr cur)
    | None \<Rightarrow> bindE (account_has_signed E st cur) (\<lambda>s. if \<not> s then Inl missing_signature else Inr cur))"

text \<open>The delegate part of an update: a delegate cannot raise its pay rate.\<close>

definition update_delegate_part ::
  "UpdateAccountOperation \<Rightarrow> TransactionEvaluationState \<Rightarrow> chain \<Rightarrow> AccountEntry \<Rightarrow>
   (AccountEntry \<times> TransactionEvaluationState) result" where
  "update_delegate_part op st ch cur =
    (if update_is_delegate op
     then (case delegate_info cur of
             Some d \<Rightarrow>
               if \<not> ua_delegate_pay_rate op \<le> pay_rate d then Inl fc_assert
               else Inr (cur\<lparr>delegate_info := Some (d\<lparr>pay_rate := ua_delegate_pay_rate op\<rparr>)\<rparr>, st)
           | None \<Rightarrow>
               bindE (active_key cur) (\<lambda>k. make_delegate (ua_delegate_pay_rate op) k cur st ch))
     else Inr (cur, st))"

definition update_account_evaluate ::
  "env \<Rightarrow> UpdateAccountOperation \<Rightarrow> TransactionEvaluationState \<Rightarrow> chain \<Rightarrow> eval_result" where
  "update_account_evaluate E op st ch =
    (case get_account_entry ch (ua_account_id op) of
       None \<Rightarrow> Inl unknown_account_id
     | Some cur \<Rightarrow>
         bindE (is_retracted cur) (\<lambda>r.
         if r then Inl account_retracted
         else bindE (update_active_key E op st ch cur) (\<lambda>cur.
           let cur = (case ua_public_data op of Some d \<Rightarrow> cur\<lparr>ac_public_data := d\<rparr> | None \<Rightarrow> cur) in
           if is_delegate cur \<and> \<not> update_is_delegate op then Inl fc_assert
           else bindE (update_delegate_part op st ch cur) (\<lambda>(cur, st).
           let cur = cur\<lparr>ac_last_update := env_now E\<rparr> in
           bindE (store_account_entry E cur ch) (\<lambda>ch. Inr (st, ch))))))"

definition withdraw_pay_evaluate ::
  "env \<Rightarrow> WithdrawPayOperation \<Rightarrow> TransactionEvaluationState \<Rightarrow> chain \<Rightarrow> eval_result" where
  "withdraw_pay_evaluate E op st ch =
    (if wp_amount op \<le> 0 then Inl negative_withdraw
     else
       let account_id = \<bar>wp_account_id op\<bar> in
       case get_account_entry ch account_id of
         None \<Rightarrow> Inl unknown_account_id
       | Some account \<Rightarrow>
           (case delegate_info account of
              None \<Rightarrow> Inl not_a_delegate
            | Some d \<Rightarrow>
                if pay_balance d < wp_amount op then Inl insufficient_funds
                else bindE (account_has_signed E st account) (\<lambda>s.
                if \<not> s then Inl missing_signature
                else bindE (safe_sub (pay_balance d) (wp_amount op)) (\<lambda>pb.
                let account = account\<lparr>delegate_info := Some (d\<lparr>pay_balance := pb\<rparr>)\<rparr> in
                bindE (safe_sub (map_amount (delegate_vote_deltas st) account_id) (wp_amount op)) (\<lambda>v.
                let st = st\<lparr>delegate_vote_deltas := AList.update account_id v (delegate_vote_deltas st)\<rparr> in
                bindE (add_balance \<lparr>amount = wp_amount op, asset_id = 0\<rparr> st) (\<lambda>st.
                bindE (store_account_entry E account ch) (\<lambda>ch. Inr (st, ch))))))))"

definition update_signing_key_evaluate ::
  "UpdateSigningKeyOperation \<Rightarrow> TransactionEvaluationState \<Rightarrow> chain \<Rightarrow> eval_result" where
  "update_signing_key_evaluate op st ch = Inl fc_assert"


section \<open>Slates\<close>

text \<open>\<open>entry.slate\<close> is a \<open>std::set\<close>: sorted, without duplicates.\<close>

definition define_slate_step :: "chain \<Rightarrow> AccountIdType \<Rightarrow> AccountIdType list \<Rightarrow> AccountIdType list result" where
  "define_slate_step ch i ids =
    (if i \<ge> 0
     then (case get_account_entry ch i of
             None \<Rightarrow> Inl fc_assert
           | Some d \<Rightarrow> if \<not> is_delegate d then Inl fc_assert else Inr (insort_insert i ids))
     else Inr (insort_insert i ids))"

definition define_slate_evaluate ::
  "env \<Rightarrow> AccountIdType list \<Rightarrow> TransactionEvaluationState \<Rightarrow> chain \<Rightarrow> eval_result" where
  "define_slate_evaluate E op_slate st ch =
    (if op_slate = [] then Inl fc_assert
     else if length op_slate > ALP_BLOCKCHAIN_MAX_SLATE_SIZE then Inl too_may_delegates_in_slate
     else bindE (foldE (define_slate_step ch) op_slate []) (\<lambda>ids.
       let entry = \<lparr>slate = ids, duplicate_slate = []\<rparr> in
       case get_slate_entry ch (slate_entry_id (env_slate_hash E) entry) of
         Some cur \<Rightarrow> if slate cur \<noteq> slate entry then Inl fc_assert else Inr (st, ch)
       | None \<Rightarrow> bindE (store_slate_entry E entry ch) (\<lambda>ch. Inr (st, ch))))"


section \<open>Messages, events, configuration\<close>

definition imessage_memo_evaluate :: "string \<Rightarrow> TransactionEvaluationState \<Rightarrow> chain \<Rightarrow> eval_result" where
  "imessage_memo_evaluate imessage st ch =
    (if imessage = '''' then Inl fc_assert
     else if length imessage > ALP_BLOCKCHAIN_MAX_MESSAGE_SIZE then Inl message_too_long
     else
       let fee = \<lparr>amount = get_imessage_need_fee imessage, asset_id = 0\<rparr>;
           st = st\<lparr>imessage_length := length imessage\<rparr>
       in bindE (asset_plus_assign (required_fees st) fee) (\<lambda>fees. Inr (st\<lparr>required_fees := fees\<rparr>, ch)))"

definition EVENT_PARAM_MAX_LEN :: nat where "EVENT_PARAM_MAX_LEN = 8192"

definition event_evaluate :: "EventOperation \<Rightarrow> TransactionEvaluationState \<Rightarrow> chain \<Rightarrow> eval_result" where
  "event_evaluate op st ch =
    (if \<not> evaluate_contract_result st then Inl not_be_result_of_execute
     else if get_contract_entry ch (ev_id op) = None then Inl contract_not_exist
     else if length (event_param op) > EVENT_PARAM_MAX_LEN then Inl event_parameter_length_over_limit
     else Inr (st\<lparr>event_vector := event_vector st @ [op]\<rparr>, ch))"

text \<open>The operation also writes the three values to a configuration file, whose errors it ignores. A
  \<open>double\<close> is kept as its 64 bits.\<close>

definition update_transfer_config_evaluate ::
  "UpdateTransferConfigOperation \<Rightarrow> TransactionEvaluationState \<Rightarrow> chain \<Rightarrow> eval_result" where
  "update_transfer_config_evaluate op st ch =
    bindE (get_account_entry_by_name ch (utc_delegate_account_name op)) (\<lambda>d.
    case d of
      None \<Rightarrow> Inl fc_assert
    | Some a \<Rightarrow>
        if \<not> is_delegate a then Inl fc_assert
        else
          bindE (store_property_entry transaction_min_fee (int_variant (utc_min_transaction_fee op)) ch) (\<lambda>ch.
          bindE (store_property_entry transaction_max_fee (int_variant (utc_max_transaction_fee op)) ch) (\<lambda>ch.
          bindE (store_property_entry transaction_fee_ratio (double_variant (utc_transaction_fee_ratio op)) ch) (\<lambda>ch. Inr (st, ch)))))"

end
