(* ===== verification/Asset_Ops.thy ===== *)
theory Asset_Ops
  imports Account_Ops
begin

text \<open>\<open>AssetOperations.cpp\<close>: creating, updating and issuing assets.\<close>

section \<open>Evaluation\<close>

definition is_power_of_ten :: "nat \<Rightarrow> bool" where
  "is_power_of_ten n \<longleftrightarrow> n \<in> set
    [1, 10, 100, 1000, 10000, 100000, 1000000, 10000000, 100000000, 1000000000, 10000000000,
     100000000000, 1000000000000, 10000000000000, 100000000000000, 1000000000000000]"

definition market_issuer_id :: AccountIdType where "market_issuer_id = - 2"

text \<open>The entry of a new asset; the active key of the issuer, if there is one, is its authority.\<close>

definition new_asset_entry ::
  "env \<Rightarrow> CreateAssetOperation \<Rightarrow> AssetIdType \<Rightarrow> AccountEntry option \<Rightarrow> AssetEntry result" where
  "new_asset_entry E op new_id issuer =
    (let entry = AssetEntry_init\<lparr>as_id := new_id, as_symbol := ca_symbol op, as_name := ca_name op,
            as_description := ca_description op, as_public_data := ca_public_data op,
            as_issuer_account_id := ca_issuer_account_id op, as_precision := ca_precision op,
            as_registration_date := env_now E, as_last_update := env_now E,
            current_share_supply := 0, maximum_share_supply := ca_maximum_share_supply op,
            collected_fees := 0, as_flags := 0,
            as_issuer_permissions := restricted OR retractable OR market_halt OR balance_halt OR supply_unlimit\<rparr>
     in case issuer of
          None \<Rightarrow> Inr entry
        | Some a \<Rightarrow> bindE (active_key a) (\<lambda>k.
            Inr (entry\<lparr>as_authority := \<lparr>mm_required = 1, mm_owners = [env_addr_of E k]\<rparr>\<rparr>)))"

definition create_asset_evaluate ::
  "CreateAssetOperation \<Rightarrow> env \<Rightarrow> TransactionEvaluationState \<Rightarrow> chain \<Rightarrow> eval_result" where
  "create_asset_evaluate op E st ch =
    bindE (is_valid_symbol_name (ca_symbol op)) (\<lambda>valid.
    if \<not> valid then Inl invalid_asset_symbol
    else bindE (get_asset_entry_by_symbol ch (ca_symbol op)) (\<lambda>a.
    if a \<noteq> None then Inl asset_symbol_in_use
    else if ca_name op = '''' then Inl invalid_asset_name
    else bindE (chain_last_asset_id ch) (\<lambda>last.
    if get_asset_entry ch (s32 (last + 1)) \<noteq> None then Inl asset_id_in_use
    else bindE (if ca_issuer_account_id op \<noteq> market_issuer_id
                then (case get_account_entry ch (ca_issuer_account_id op) of
                        None \<Rightarrow> Inl unknown_account_id
                      | Some a \<Rightarrow> Inr (Some a))
                else Inr None) (\<lambda>issuer.
    if ca_maximum_share_supply op \<le> 0 \<or> ca_maximum_share_supply op > ALP_BLOCKCHAIN_MAX_SHARES
    then Inl invalid_asset_amount
    else if \<not> is_power_of_ten (ca_precision op) then Inl invalid_precision
    else
      bindE (asset_plus_assign (required_fees st)
               \<lparr>amount = get_asset_registration_fee (length (ca_symbol op)), asset_id = 0\<rparr>) (\<lambda>fees.
      let st = st\<lparr>required_fees := fees\<rparr> in
      bindE (new_asset_id ch) (\<lambda>(new_id, ch).
      bindE (new_asset_entry E op new_id issuer) (\<lambda>entry.
      bindE (store_asset_entry entry ch) (\<lambda>ch. Inr (st, ch)))))))))"

text \<open>The optional parts of an update, shared by the two update operations.\<close>

definition update_asset_fields ::
  "'a UpdateAssetOperation_scheme \<Rightarrow> AssetEntry \<Rightarrow> AssetEntry result" where
  "update_asset_fields op cur =
    bindE (case up_name op of
             Some n \<Rightarrow> if n = '''' then Inl invalid_asset_name else Inr (cur\<lparr>as_name := n\<rparr>)
           | None \<Rightarrow> Inr cur) (\<lambda>cur.
    let cur = (case up_description op of Some d \<Rightarrow> cur\<lparr>as_description := d\<rparr> | None \<Rightarrow> cur);
        cur = (case up_public_data op of Some d \<Rightarrow> cur\<lparr>as_public_data := d\<rparr> | None \<Rightarrow> cur)
    in bindE (case up_maximum_share_supply op of
                Some m \<Rightarrow> if m \<le> 0 \<or> m > ALP_BLOCKCHAIN_MAX_SHARES then Inl invalid_asset_amount
                          else Inr (cur\<lparr>maximum_share_supply := m\<rparr>)
              | None \<Rightarrow> Inr cur) (\<lambda>cur.
       case up_precision op of
         Some p \<Rightarrow> if \<not> is_power_of_ten p then Inl invalid_precision else Inr (cur\<lparr>as_precision := p\<rparr>)
       | None \<Rightarrow> Inr cur))"

definition update_asset_is_noop :: "UpdateAssetOperation \<Rightarrow> bool" where
  "update_asset_is_noop op \<longleftrightarrow>
    up_name op = None \<and> up_description op = None \<and> up_public_data op = None \<and>
    up_maximum_share_supply op = None \<and> up_precision op = None"

definition update_asset_evaluate ::
  "UpdateAssetOperation \<Rightarrow> env \<Rightarrow> TransactionEvaluationState \<Rightarrow> chain \<Rightarrow> eval_result" where
  "update_asset_evaluate op E st ch =
    (case get_asset_entry ch (up_asset_id op) of
       None \<Rightarrow> Inl unknown_asset_id
     | Some cur \<Rightarrow>
         if update_asset_is_noop op then Inl fc_assert
         else if current_share_supply cur > 0 \<and> up_maximum_share_supply op \<noteq> None then Inl fc_assert
         else if current_share_supply cur > 0 \<and> up_precision op \<noteq> None then Inl fc_assert
         else if \<not> verify_authority st (as_authority cur) then Inl missing_signature
         else bindE (update_asset_fields op cur) (\<lambda>cur.
           let cur = cur\<lparr>as_last_update := env_now E\<rparr> in
           bindE (store_asset_entry cur ch) (\<lambda>ch. Inr (st, ch))))"

text \<open>A requested bit must be among the granted ones.\<close>

definition bit_allowed :: "32 word \<Rightarrow> 32 word \<Rightarrow> 32 word \<Rightarrow> bool" where
  "bit_allowed b requested granted \<longleftrightarrow> (requested AND b \<noteq> 0 \<longrightarrow> granted AND b \<noteq> 0)"

definition permission_bits :: "32 word list" where
  "permission_bits = [retractable, restricted, market_halt, balance_halt, supply_unlimit]"

text \<open>With shares in circulation permissions can only be dropped; a flag needs its permission.\<close>

definition update_permissions :: "UpdateAssetExtOperation \<Rightarrow> AssetEntry \<Rightarrow> AssetEntry result" where
  "update_permissions op cur =
    (if current_share_supply cur > 0 \<and>
        \<not> list_all (\<lambda>b. bit_allowed b (ux_issuer_permissions op) (as_issuer_permissions cur)) permission_bits
     then Inl fc_assert
     else
       let cur = cur\<lparr>as_issuer_permissions := ux_issuer_permissions op\<rparr> in
       if \<not> list_all (\<lambda>b. bit_allowed b (ux_flags op) (as_issuer_permissions cur)) permission_bits
       then Inl fc_assert
       else Inr (cur\<lparr>as_flags := ux_flags op, as_transaction_fee := ux_transaction_fee op,
                     as_authority := ux_authority op\<rparr>))"

definition update_asset_ext_evaluate ::
  "UpdateAssetExtOperation \<Rightarrow> env \<Rightarrow> TransactionEvaluationState \<Rightarrow> chain \<Rightarrow> eval_result" where
  "update_asset_ext_evaluate op E st ch =
    (case get_asset_entry ch (up_asset_id op) of
       None \<Rightarrow> Inl unknown_asset_id
     | Some cur \<Rightarrow>
         if current_share_supply cur > 0 \<and> as_flags cur AND supply_unlimit = 0 \<and>
            up_maximum_share_supply op \<noteq> None
         then Inl fc_assert
         else if current_share_supply cur > 0 \<and> up_precision op \<noteq> None then Inl fc_assert
         else if \<not> verify_authority st (as_authority cur) then Inl missing_signature
         else bindE (update_asset_fields op cur) (\<lambda>cur.
           bindE (update_permissions op cur) (\<lambda>cur.
           if ux_issuer_account_id op = market_issuer_id then Inl fc_assert
           else if ux_issuer_account_id op \<noteq> as_issuer_account_id cur \<and>
                   get_account_entry ch (ux_issuer_account_id op) = None
           then Inl unknown_account_id
           else
             let cur = cur\<lparr>as_issuer_account_id := ux_issuer_account_id op, as_last_update := env_now E\<rparr> in
             bindE (store_asset_entry cur ch) (\<lambda>ch. Inr (st, ch)))))"

definition issue_asset_evaluate :: "Asset \<Rightarrow> env \<Rightarrow> TransactionEvaluationState \<Rightarrow> chain \<Rightarrow> eval_result" where
  "issue_asset_evaluate amnt E st ch =
    (case get_asset_entry ch (asset_id amnt) of
       None \<Rightarrow> Inl unknown_asset_id
     | Some cur \<Rightarrow>
         if \<not> is_user_issued cur then Inl not_user_issued
         else if \<not> verify_authority st (as_authority cur) then Inl missing_signature
         else if amount amnt \<le> 0 then Inl negative_issue
         else if \<not> can_issue cur amnt then Inl over_issue
         else
           let cur = cur\<lparr>current_share_supply := s64 (current_share_supply cur + amount amnt)\<rparr> in
           bindE (add_balance amnt st) (\<lambda>st.
           let cur = cur\<lparr>as_last_update := env_now E\<rparr> in
           bindE (store_asset_entry cur ch) (\<lambda>ch. Inr (st, ch))))"

end
