(* ===== verification/Contract_Balances.thy ===== *)
theory Contract_Balances
  imports Asset_Ops
begin

text \<open>
  The balance bookkeeping of \<open>ContractOperations.cpp\<close>: the check of the balances a contract operation
  names, and the two loops that select from them what the operation costs. Both loops can stop
  advancing, so they are partial: the value \<^const>\<open>None\<close> means that the call does not return.
\<close>

abbreviation contract_error :: error where "contract_error \<equiv> exn 32000"
abbreviation transfer_amount_not_bigger_than_0 :: error where "transfer_amount_not_bigger_than_0 \<equiv> exn 32022"
abbreviation code_hash_error :: error where "code_hash_error \<equiv> exn 32025"
abbreviation contract_run_out_of_testing_money :: error where "contract_run_out_of_testing_money \<equiv> exn 32026"
abbreviation contract_execute_error_in_testing :: error where "contract_execute_error_in_testing \<equiv> exn 32027"
abbreviation lua_executor_internal_error :: error where "lua_executor_internal_error \<equiv> exn 34005"

text \<open>Where the C++ code has no defined behaviour (an index beyond a vector, an empty \<open>optional\<close> that is
  dereferenced) the model stops with a value no exception has.\<close>

abbreviation undefined_behaviour :: error where "undefined_behaviour \<equiv> exn 0"


section \<open>Calls that may not return\<close>

definition bindO :: "'a result option \<Rightarrow> ('a \<Rightarrow> 'b result option) \<Rightarrow> 'b result option" where
  "bindO m f = (case m of None \<Rightarrow> None | Some r \<Rightarrow> (case r of Inl e \<Rightarrow> Some (Inl e) | Inr x \<Rightarrow> f x))"

lemma bindO_simps [simp, result_simps]:
  "bindO None f = None" "bindO (Some (Inl e)) f = Some (Inl e)" "bindO (Some (Inr x)) f = f x"
  by (simp_all add: bindO_def)

lemma bindO_eq_Inr [result_simps]:
  "bindO m f = Some (Inr y) \<longleftrightarrow> (\<exists>x. m = Some (Inr x) \<and> f x = Some (Inr y))"
  by (auto simp: bindO_def split: option.splits sum.splits)

lemma bindO_cong [fundef_cong]:
  "m = m' \<Longrightarrow> (\<And>x. m' = Some (Inr x) \<Longrightarrow> f x = f' x) \<Longrightarrow> bindO m f = bindO m' f'"
  by (auto simp: bindO_def split: option.splits sum.splits)


section \<open>Checking the balances of an operation\<close>

definition is_contract_has_method :: "string \<Rightarrow> string list \<Rightarrow> bool" where
  "is_contract_has_method method_name abi_set \<longleftrightarrow> method_name \<in> set abi_set"

definition get_amount_sum :: "ShareType \<Rightarrow> ShareType \<Rightarrow> ShareType result" where
  "get_amount_sum amount_l amount_r =
    (let amount_sum = s64 (amount_l + amount_r) in
     if amount_sum < amount_l \<or> amount_sum < amount_r then Inl addition_overflow else Inr amount_sum)"

text \<open>The condition of a balance that pays for a contract operation.\<close>

definition check_payer_condition ::
  "TransactionEvaluationState \<Rightarrow> Address \<Rightarrow> WithdrawCondition \<Rightarrow> unit result" where
  "check_payer_condition st address_check c =
    (case wc_data c of
       withdraw_signature_type s \<Rightarrow>
         if \<not> check_signature st (sig_owner s) then Inl missing_signature
         else if wc_asset_id c = 0 \<and> sig_owner s \<noteq> address_check
         then Inl operator_and_owner_not_the_same
         else Inr ()
     | _ \<Rightarrow> Inl invalid_withdraw_condition)"

text \<open>The checks of one iteration, which \<open>check_balances\<close> and \<open>check_muti_balances\<close> share; the result is
  the asset of the balance.\<close>

definition check_balance_item ::
  "env \<Rightarrow> TransactionEvaluationState \<Rightarrow> chain \<Rightarrow> Address \<Rightarrow> BalanceIdType \<times> ShareType \<Rightarrow> AssetIdType result" where
  "check_balance_item E st ch address_check item =
    (if snd item \<le> 0 then Inl negative_withdraw
     else case get_balance_entry ch (fst item) of
       None \<Rightarrow> Inl unknown_balance_entry
     | Some cur \<Rightarrow>
         if snd item > amount (get_spendable_balance cur (env_now E)) then Inl insufficient_funds
         else case get_asset_entry ch (wc_asset_id (be_condition cur)) of
           None \<Rightarrow> Inl fc_assert
         | Some asset_rec \<Rightarrow>
             bindE (authorise_withdraw st asset_rec (check_payer_condition st address_check (be_condition cur)))
               (\<lambda>_. Inr (balance_asset_id cur)))"

definition check_balances ::
  "env \<Rightarrow> TransactionEvaluationState \<Rightarrow> chain \<Rightarrow> balance_map \<Rightarrow> Address \<Rightarrow> ShareType result" where
  "check_balances E st ch balances_check address_check =
    foldE (\<lambda>item tmp_amount.
        bindE (check_balance_item E st ch address_check item) (\<lambda>_. get_amount_sum tmp_amount (snd item)))
      balances_check 0"

text \<open>The sums per asset are kept in a vector of ten elements that is indexed with the asset id.\<close>

definition check_muti_balances ::
  "env \<Rightarrow> TransactionEvaluationState \<Rightarrow> chain \<Rightarrow> balance_map \<Rightarrow> Address \<Rightarrow> ShareType list result" where
  "check_muti_balances E st ch balances_check address_check =
    foldE (\<lambda>item all_amount.
        bindE (check_balance_item E st ch address_check item) (\<lambda>a.
        if a < 0 \<or> a \<ge> int (length all_amount) then Inl undefined_behaviour
        else bindE (get_amount_sum (all_amount ! nat a) (snd item)) (\<lambda>s.
          Inr (all_amount[nat a := s]))))
      balances_check (replicate 10 0)"


section \<open>Selecting what to withdraw\<close>

text \<open>\<open>std::map::insert\<close> keeps an existing entry.\<close>

definition map_insert :: "'k::linorder \<Rightarrow> 'v \<Rightarrow> ('k \<times> 'v) list \<Rightarrow> ('k \<times> 'v) list" where
  "map_insert k v m = (if map_of m k = None then omap_update k v m else m)"

text \<open>The \<open>continue\<close> for a balance of another asset does not advance the iterator.\<close>

partial_function (option) withdraw_enough_balances ::
  "chain \<Rightarrow> AssetIdType \<Rightarrow> balance_map \<Rightarrow> ShareType \<Rightarrow> balance_map \<Rightarrow> balance_map result option" where
  "withdraw_enough_balances ch assetid balances_from amount_required balances_to =
    (case balances_from of
       [] \<Rightarrow> Some (Inl insufficient_funds)
     | item # rest \<Rightarrow>
         (case get_balance_entry ch (fst item) of
            None \<Rightarrow> Some (Inl undefined_behaviour)
          | Some cur \<Rightarrow>
              if balance_asset_id cur \<noteq> assetid
              then withdraw_enough_balances ch assetid balances_from amount_required balances_to
              else if amount_required \<le> snd item
              then Some (Inr (map_insert (fst item) amount_required balances_to))
              else withdraw_enough_balances ch assetid rest (s64 (amount_required - snd item))
                     (map_insert (fst item) (snd item) balances_to)))"

text \<open>\<open>findfee\<close> and \<open>findamount\<close> are the two flags; a balance that neither branch takes is met again and
  again.\<close>

partial_function (option) withdraw_enough_muti_balances ::
  "chain \<Rightarrow> Asset \<Rightarrow> Asset \<Rightarrow> bool \<Rightarrow> bool \<Rightarrow> balance_map \<Rightarrow> balance_map \<Rightarrow> balance_map result option" where
  "withdraw_enough_muti_balances ch transaction_amount transaction_fee findfee findamount balances_from balances_to =
    (case balances_from of
       [] \<Rightarrow> Some (Inl insufficient_funds)
     | item # rest \<Rightarrow>
         (case get_balance_entry ch (fst item) of
            None \<Rightarrow> Some (Inl undefined_behaviour)
          | Some cur \<Rightarrow>
              if balance_asset_id cur = asset_id transaction_fee \<and> \<not> findfee
              then
                if amount transaction_fee \<le> snd item
                then
                  if findamount
                  then Some (Inr (map_insert (fst item) (amount transaction_fee) balances_to))
                  else withdraw_enough_muti_balances ch transaction_amount transaction_fee True findamount rest
                         (map_insert (fst item) (amount transaction_fee) balances_to)
                else withdraw_enough_muti_balances ch transaction_amount
                       (transaction_fee\<lparr>amount := s64 (amount transaction_fee - snd item)\<rparr>)
                       findfee findamount rest (map_insert (fst item) (snd item) balances_to)
              else if balance_asset_id cur = asset_id transaction_amount \<and> \<not> findamount
              then
                if amount transaction_amount \<le> snd item
                then
                  if findfee
                  then Some (Inr (map_insert (fst item) (amount transaction_amount) balances_to))
                  else withdraw_enough_muti_balances ch transaction_amount transaction_fee findfee True rest
                         (map_insert (fst item) (amount transaction_amount) balances_to)
                else withdraw_enough_muti_balances ch
                       (transaction_amount\<lparr>amount := s64 (amount transaction_amount - snd item)\<rparr>)
                       transaction_fee findfee findamount rest (map_insert (fst item) (snd item) balances_to)
              else withdraw_enough_muti_balances ch transaction_amount transaction_fee findfee findamount
                     balances_from balances_to))"

declare
  withdraw_enough_balances.simps [code]
  withdraw_enough_muti_balances.simps [code]

section \<open>Properties\<close>

lemma mset_omap_update_new:
  "k \<notin> fst ` set m \<Longrightarrow> mset (omap_update k v m) = add_mset (k, v) (mset m)"
  by (induction m) auto

lemma mset_map_insert_new:
  "k \<notin> fst ` set m \<Longrightarrow> mset (map_insert k v m) = add_mset (k, v) (mset m)"
  by (simp add: map_insert_def mset_omap_update_new map_of_eq_None_iff)

lemma map_insert_new:
  assumes "k \<notin> fst ` set m"
  shows "set (map_insert k v m) = insert (k, v) (set m)"
    and "sum_list (map snd (map_insert k v m)) = (v :: int) + sum_list (map snd m)"
    and "fst ` set (map_insert k v m) = insert k (fst ` set m)"
proof -
  note m = mset_map_insert_new [OF assms, of v]
  show s: "set (map_insert k v m) = insert (k, v) (set m)"
    using arg_cong [OF m, of set_mset] by simp
  show "sum_list (map snd (map_insert k v m)) = v + sum_list (map snd m)"
    using arg_cong [OF m, of "\<lambda>x. sum_mset (image_mset snd x)"]
    by (simp flip: sum_mset_sum_list add: mset_map)
  show "fst ` set (map_insert k v m) = insert k (fst ` set m)" by (simp add: s)
qed

text \<open>A balance of asset \<open>a\<close> as far as the selection looks at it.\<close>

definition has_asset :: "chain \<Rightarrow> AssetIdType \<Rightarrow> BalanceIdType \<times> ShareType \<Rightarrow> bool" where
  "has_asset ch a item \<longleftrightarrow>
    (case get_balance_entry ch (fst item) of None \<Rightarrow> False | Some cur \<Rightarrow> balance_asset_id cur = a)"

lemma withdraw_enough_Cons:
  assumes "has_asset ch a item"
  shows "withdraw_enough_balances ch a (item # rest) need to =
    (if need \<le> snd item then Some (Inr (map_insert (fst item) need to))
     else withdraw_enough_balances ch a rest (s64 (need - snd item)) (map_insert (fst item) (snd item) to))"
  using assms by (subst withdraw_enough_balances.simps) (auto simp: has_asset_def split: option.splits)

lemma withdraw_enough_Nil: "withdraw_enough_balances ch a [] need to = Some (Inl insufficient_funds)"
  by (subst withdraw_enough_balances.simps) simp

lemma withdraw_enough_returns:
  "withdraw_enough_balances ch a bs need to = Some r \<Longrightarrow>
    \<forall>item rest cur. bs = item # rest \<longrightarrow> get_balance_entry ch (fst item) = Some cur \<longrightarrow> balance_asset_id cur = a"
  by (erule withdraw_enough_balances.raw_induct [rotated, where P = "\<lambda>ch a bs need to r.
      \<forall>item rest cur. bs = item # rest \<longrightarrow> get_balance_entry ch (fst item) = Some cur \<longrightarrow> balance_asset_id cur = a"])
    (auto split: list.splits option.splits if_splits)

lemma withdraw_enough_stuck:
  assumes "get_balance_entry ch (fst item) = Some cur" and "balance_asset_id cur \<noteq> a"
  shows "withdraw_enough_balances ch a (item # rest) need to = None"
proof (rule ccontr)
  assume "\<not> ?thesis"
  then obtain r where "withdraw_enough_balances ch a (item # rest) need to = Some r" by auto
  then show False using withdraw_enough_returns assms by fastforce
qed

lemma withdraw_enough_spec:
  assumes "\<forall>item \<in> set bs. has_asset ch a item \<and> 0 < snd item"
    and "distinct (map fst bs)" and "fst ` set bs \<inter> fst ` set to = {}"
    and "0 \<le> need" "in_int64 need"
  shows "if need \<le> sum_list (map snd bs) \<and> bs \<noteq> []
    then \<exists>m. withdraw_enough_balances ch a bs need to = Some (Inr m) \<and>
      sum_list (map snd m) = sum_list (map snd to) + need \<and>
      (\<forall>kv \<in> set m. kv \<in> set to \<or> (\<exists>v. (fst kv, v) \<in> set bs \<and> 0 \<le> snd kv \<and> snd kv \<le> v))
    else withdraw_enough_balances ch a bs need to = Some (Inl insufficient_funds)"
  using assms
proof (induction bs arbitrary: need to)
  case Nil
  then show ?case by (simp add: withdraw_enough_Nil)
next
  case (Cons item bs)
  have new: "fst item \<notin> fst ` set to" using Cons.prems(3) by auto
  note step = withdraw_enough_Cons [of ch a item bs need to]
  show ?case
  proof (cases "need \<le> snd item")
    case True
    have "0 \<le> sum_list (map snd bs)"
      using Cons.prems(1) by (intro sum_list_nonneg) (auto intro: less_imp_le)
    then show ?thesis using True Cons.prems(1,4) step map_insert_new [OF new, of need]
      by (cases item) auto
  next
    case False
    have r: "s64 (need - snd item) = need - snd item"
      using False Cons.prems(1,5) by (intro s64_id) (auto simp: arith_defs)
    have int: "in_int64 (need - snd item)" using r in_int64_s64 by metis
    let ?to = "map_insert (fst item) (snd item) to"
    have dis: "fst ` set bs \<inter> fst ` set ?to = {}"
      using Cons.prems(2,3) map_insert_new [OF new, of "snd item"] by auto
    have empty: "bs = [] \<Longrightarrow> \<not> need \<le> sum_list (map snd (item # bs))" using False by simp
    have IH: "if need - snd item \<le> sum_list (map snd bs) \<and> bs \<noteq> []
      then \<exists>m. withdraw_enough_balances ch a bs (need - snd item) ?to = Some (Inr m) \<and>
        sum_list (map snd m) = sum_list (map snd ?to) + (need - snd item) \<and>
        (\<forall>kv \<in> set m. kv \<in> set ?to \<or> (\<exists>v. (fst kv, v) \<in> set bs \<and> 0 \<le> snd kv \<and> snd kv \<le> v))
      else withdraw_enough_balances ch a bs (need - snd item) ?to = Some (Inl insufficient_funds)"
      using Cons.prems False int dis by (intro Cons.IH) auto
    have s: "withdraw_enough_balances ch a (item # bs) need to =
        withdraw_enough_balances ch a bs (need - snd item) ?to"
      using step False Cons.prems(1) r by simp
    show ?thesis
    proof (cases "need - snd item \<le> sum_list (map snd bs) \<and> bs \<noteq> []")
      case True
      then obtain m where m: "withdraw_enough_balances ch a bs (need - snd item) ?to = Some (Inr m)"
        "sum_list (map snd m) = sum_list (map snd ?to) + (need - snd item)"
        "\<forall>kv \<in> set m. kv \<in> set ?to \<or> (\<exists>v. (fst kv, v) \<in> set bs \<and> 0 \<le> snd kv \<and> snd kv \<le> v)"
        using IH by auto
      have "kv \<in> set to \<or> (\<exists>v. (fst kv, v) \<in> set (item # bs) \<and> 0 \<le> snd kv \<and> snd kv \<le> v)"
        if "kv \<in> set m" for kv
        using bspec [OF m(3) that] map_insert_new(1) [OF new, of "snd item"] Cons.prems(1)
        by (cases item) (auto intro: less_imp_le)
      then show ?thesis using True m(1,2) s map_insert_new(2) [OF new, of "snd item"] by auto
    next
      case no: False
      then have "\<not> (need \<le> sum_list (map snd (item # bs)))" using empty by auto
      then show ?thesis using no IH s by auto
    qed
  qed
qed

lemma s64_over:
  assumes "9223372036854775807 < x" and "x < 27670116110564327424"
  shows "s64 x = x - 18446744073709551616"
proof -
  have "(x + 9223372036854775808) mod 18446744073709551616 =
      (x + 9223372036854775808 - 18446744073709551616) mod (18446744073709551616 :: int)"
    by (rule minus_mod_self2 [symmetric])
  also have "\<dots> = x + 9223372036854775808 - 18446744073709551616"
    using assms by (intro mod_pos_pos_trivial) simp_all
  finally show ?thesis by (simp add: s64_def)
qed

lemma get_amount_sum_exact:
  "get_amount_sum l r = Inr s \<Longrightarrow> in_int64 l \<Longrightarrow> in_int64 r \<Longrightarrow> 0 \<le> l \<Longrightarrow> 0 \<le> r \<Longrightarrow>
    s = l + r \<and> in_int64 s"
proof (cases "in_int64 (l + r)")
  case False
  assume r: "in_int64 l" "in_int64 r" "0 \<le> l" "0 \<le> r"
  then have "s64 (l + r) = l + r - 18446744073709551616"
    using False by (intro s64_over) (simp_all add: arith_defs)
  moreover assume "get_amount_sum l r = Inr s"
  ultimately show ?thesis using r by (simp add: get_amount_sum_def Let_def arith_defs)
qed (auto simp: get_amount_sum_def Let_def split: if_splits)

lemma check_balance_item_positive:
  "check_balance_item E st ch addr item = Inr a \<Longrightarrow> 0 < snd item \<and> has_asset ch a item"
  by (auto simp: check_balance_item_def has_asset_def bindE_eq_Inr split: if_splits option.splits)

lemma check_balances_sum:
  assumes "foldE (\<lambda>item tmp. bindE (check_balance_item E st ch addr item) (\<lambda>_. get_amount_sum tmp (snd item)))
      bs acc = Inr sum_all"
    and "\<forall>item \<in> set bs. in_int64 (snd item)" and "0 \<le> acc" "in_int64 acc"
  shows "sum_all = acc + sum_list (map snd bs) \<and> in_int64 sum_all \<and>
    (\<forall>item \<in> set bs. \<exists>a. check_balance_item E st ch addr item = Inr a)"
  using assms
proof (induction bs arbitrary: acc)
  case (Cons item bs)
  from Cons.prems(1) obtain a s where a: "check_balance_item E st ch addr item = Inr a"
    and s: "get_amount_sum acc (snd item) = Inr s"
    and rest: "foldE (\<lambda>item tmp. bindE (check_balance_item E st ch addr item)
      (\<lambda>_. get_amount_sum tmp (snd item))) bs s = Inr sum_all"
    by (auto simp: bindE_eq_Inr)
  have "s = acc + snd item \<and> in_int64 s"
    using get_amount_sum_exact [OF s] Cons.prems(2-) check_balance_item_positive [OF a] by auto
  then show ?case using Cons.IH [OF rest] Cons.prems check_balance_item_positive [OF a] a by auto
qed simp

text \<open>C16: Paying for a contract operation. If the balances an operation names (each once, as in a
  \<open>std::map\<close>, all of the base asset) pass \<open>check_balances\<close>, the reported sum is their exact sum, and
  for every required amount up to it \<open>withdraw_enough_balances\<close> returns a selection that adds
  up to exactly the required amount and takes from each balance no more than the operation offered;
  a larger required amount is refused with \<open>insufficient_funds\<close>.\<close>

theorem contract_payment_exact:
  assumes "check_balances E st ch bs addr = Inr sum_all"
    and "\<forall>item \<in> set bs. in_int64 (snd item) \<and> has_asset ch 0 item"
    and "distinct (map fst bs)" and "bs \<noteq> []" and "0 \<le> required" and "in_int64 required"
  shows "sum_all = sum_list (map snd bs) \<and>
    (if required \<le> sum_all
     then \<exists>m. withdraw_enough_balances ch 0 bs required [] = Some (Inr m) \<and>
       sum_list (map snd m) = required \<and>
       (\<forall>kv \<in> set m. \<exists>v. (fst kv, v) \<in> set bs \<and> 0 \<le> snd kv \<and> snd kv \<le> v)
     else withdraw_enough_balances ch 0 bs required [] = Some (Inl insufficient_funds))"
proof -
  have c: "sum_all = sum_list (map snd bs)" "\<forall>item \<in> set bs. \<exists>a. check_balance_item E st ch addr item = Inr a"
    using check_balances_sum [of E st ch addr bs 0 sum_all] assms(1,2) by (auto simp: check_balances_def)
  have "\<forall>item \<in> set bs. has_asset ch 0 item \<and> 0 < snd item"
    using c(2) assms(2) check_balance_item_positive by blast
  from withdraw_enough_spec [OF this assms(3) _ assms(5,6), of "[]"] c(1) assms(4) show ?thesis
    by (auto split: if_splits)
qed

text \<open>C28: A balance of another asset hangs the selection: if the operation names such a balance after
  balances of the wanted asset that do not yet cover the required amount, the loop meets it again and
  again and \<open>withdraw_enough_balances\<close> never returns.\<close>

theorem foreign_asset_hangs_selection:
  assumes "\<forall>item \<in> set covered. has_asset ch a item \<and> 0 < snd item"
    and "sum_list (map snd covered) < required" and "in_int64 required"
    and "get_balance_entry ch (fst foreign) = Some cur" and "balance_asset_id cur \<noteq> a"
  shows "withdraw_enough_balances ch a (covered @ foreign # rest) required to = None"
  using assms(1-3)
proof (induction covered arbitrary: required to)
  case Nil
  then show ?case using withdraw_enough_stuck [OF assms(4,5)] by simp
next
  case (Cons item covered)
  have "0 \<le> sum_list (map snd covered)"
    using Cons.prems(1) by (intro sum_list_nonneg) (auto intro: less_imp_le)
  then have no: "\<not> required \<le> snd item" using Cons.prems(2) by simp
  have r: "s64 (required - snd item) = required - snd item"
    using no Cons.prems(1,3) by (intro s64_id) (auto simp: arith_defs)
  have "in_int64 (required - snd item)" using r in_int64_s64 by metis
  then show ?case using Cons no r by (simp add: withdraw_enough_Cons)
qed

theorem contract_payment_exact_witness:
  "\<exists>m. withdraw_enough_balances sample_chain 0 [(9, 80)] 70 [] = Some (Inr m) \<and> sum_list (map snd m) = 70"
  using contract_payment_exact [of sample_env sample_state sample_chain "[(9, 80)]" 9 80 70]
  by (auto simp: check_balances_def check_balance_item_def sample_view sample_defs get_spendable_balance_def
      authorise_withdraw_def is_retractable_def is_balance_frozen_def is_user_issued_def check_payer_condition_def
      check_signature_def get_amount_sum_def Let_def has_asset_def balance_asset_id_def arith_defs)

theorem foreign_asset_hangs_selection_witness:
  "withdraw_enough_balances sample_chain 0 [(9, 80), (8, 10)] 90 [] = None"
  using foreign_asset_hangs_selection [of "[(9, 80)]" sample_chain 0 90 "(8, 10)" "sample_balance 8 1 50" "[]" "[]"]
  by (simp add: sample_view sample_defs has_asset_def balance_asset_id_def arith_defs)

end
