(* ===== verification/Contract_Ops.thy ===== *)
theory Contract_Ops
  imports Contract_Balances
begin

text \<open>
  \<open>ContractOperations.cpp\<close> and \<open>StorageOperations.cpp\<close>: registering, calling, upgrading and destroying
  contracts, transfers to contracts, and the operations that only occur in result transactions.

  The Lua virtual machine is a parameter: a run of a contract method takes the evaluation state and the
  chain, which the contract changes through the chain API, and reports its instruction count and its
  error code. The hash of a registration (the contract id), the hash of a byte code and the packing of
  storage tables are parameters too.
\<close>

section \<open>The virtual machine and the contract environment\<close>

record vm_run =
  vm_state :: TransactionEvaluationState
  vm_chain :: chain
  vm_internal_error :: bool
  vm_exception_code :: int
  vm_count :: int

text \<open>Caller, contract, method, argument, instruction limit, evaluation state, chain.\<close>

type_synonym vm =
  "PublicKeyType \<Rightarrow> ContractIdType \<Rightarrow> string \<Rightarrow> string \<Rightarrow> int \<Rightarrow> TransactionEvaluationState \<Rightarrow> chain \<Rightarrow> vm_run"

record contract_env =
  ce_vm :: vm
  ce_contract_id :: "RegisterContractOperation \<Rightarrow> ContractIdType"
  ce_code_hash :: "Code \<Rightarrow> string"
  ce_unpack_table :: "nat \<Rightarrow> 8 word list \<Rightarrow> (string \<times> 8 word list) list result"
  ce_pack_table :: "nat \<Rightarrow> (string \<times> 8 word list) list \<Rightarrow> 8 word list"

definition THINKYOUNG_API_LVM_LIMIT_OVER_ERROR :: int where "THINKYOUNG_API_LVM_LIMIT_OVER_ERROR = 6"
definition CONTRACT_PARAM_MAX_LEN :: nat where "CONTRACT_PARAM_MAX_LEN = 8192"
definition CON_INIT_INTERFACE :: string where "CON_INIT_INTERFACE = ''init''"
definition CON_ON_DEPOSIT_INTERFACE :: string where "CON_ON_DEPOSIT_INTERFACE = ''on_deposit''"
definition CON_ON_DESTROY_INTERFACE :: string where "CON_ON_DESTROY_INTERFACE = ''on_destroy''"
definition CON_ON_UPGRADE_INTERFACE :: string where "CON_ON_UPGRADE_INTERFACE = ''on_upgrade''"

type_synonym contract_result = "eval_result option"

definition ContractEntry_init :: ContractEntry where
  "ContractEntry_init =
    \<lparr>contract_name = '''', ct_id = 0, ct_level = contract_temp, ct_owner = 0, ct_state = contract_valid,
     ct_description = '''',
     ct_code = \<lparr>abi = [], offline_abi = [], code_events = [], storage_properties = [], byte_code = [],
       code_hash = ''''\<rparr>,
     ct_reserved = None, ct_trx_id = 0, register_time = 0\<rparr>"


section \<open>The result transaction\<close>

text \<open>\<open>operations.resize(n)\<close>, \<open>operations.push_back\<close>, and the assignments to the expiration.\<close>

definition resize_operations :: "nat \<Rightarrow> SignedTransaction \<Rightarrow> SignedTransaction" where
  "resize_operations n t =
    with_operations t (take n (operations t) @ replicate (n - length (operations t)) null_op)"

definition with_expiration :: "SignedTransaction \<Rightarrow> time_point_sec \<Rightarrow> SignedTransaction" where
  "with_expiration t e =
    SignedTransaction e (reserved t) (alp_account t) (alp_inport_asset t) (operations t)
      (result_trx_type t) (result_trx_id t) (signatures t)"

definition push_result :: "Operation \<Rightarrow> TransactionEvaluationState \<Rightarrow> TransactionEvaluationState" where
  "push_result op st = st\<lparr>p_result_trx := emplace_back (p_result_trx st) op\<rparr>"

definition resize_result :: "nat \<Rightarrow> TransactionEvaluationState \<Rightarrow> TransactionEvaluationState" where
  "resize_result n st = st\<lparr>p_result_trx := resize_operations n (p_result_trx st)\<rparr>"

definition expire_result :: "TransactionEvaluationState \<Rightarrow> TransactionEvaluationState" where
  "expire_result st = st\<lparr>p_result_trx := with_expiration (p_result_trx st) (expiration (trx st))\<rparr>"

text \<open>\<open>WithdrawContractOperation(id, amount, contract)\<close> and \<open>DepositContractOperation(id, amount, type)\<close>.\<close>

definition WithdrawContractOperation_of :: "BalanceIdType \<Rightarrow> ShareType \<Rightarrow> ContractIdType \<Rightarrow> Operation result" where
  "WithdrawContractOperation_of bid amnt c =
    (if \<not> amnt > 0 then Inl fc_assert
     else Inr (withdraw_contract_op \<lparr>wcn_balance_id = bid, wcn_amount = amnt, wcn_contract = c\<rparr>))"

definition DepositContractOperation_of ::
  "ContractIdType \<Rightarrow> Asset \<Rightarrow> WithdrawBalanceTypes \<Rightarrow> DepositContractOperation" where
  "DepositContractOperation_of c amnt bt =
    \<lparr>dcn_amount = amount amnt, dcn_condition = signature_condition c (asset_id amnt) 0 bt\<rparr>"


section \<open>Running a contract\<close>

text \<open>The \<open>try\<close> block that all contract operations share, from the instruction limit to the check of the
  error code, with its two \<open>catch\<close> clauses. The state keeps what the contract changed before the
  exception. \<open>check_internal\<close> is false only for the registration, which does not look at
  \<open>force_stopping\<close>.\<close>

definition run_contract ::
  "vm \<Rightarrow> PublicKeyType \<Rightarrow> ContractIdType \<Rightarrow> string \<Rightarrow> string \<Rightarrow> ShareType \<Rightarrow> bool \<Rightarrow>
   TransactionEvaluationState \<Rightarrow> chain \<Rightarrow>
   (vm_run \<Rightarrow> contract_result) \<Rightarrow> (TransactionEvaluationState \<Rightarrow> chain \<Rightarrow> contract_result) \<Rightarrow>
   (vm_run \<Rightarrow> contract_result) \<Rightarrow> contract_result" where
  "run_contract run caller contract method arg cost check_internal st ch finished out_of_money failed =
    (let limit = get_limit 0 cost in
     if limit \<le> 0 then out_of_money st ch
     else
       let r = run caller contract method arg limit st ch in
       if check_internal \<and> vm_internal_error r then Some (Inl lua_executor_internal_error)
       else if vm_exception_code r > 0
       then if vm_exception_code r = THINKYOUNG_API_LVM_LIMIT_OVER_ERROR
            then out_of_money (vm_state r) (vm_chain r)
            else failed r
       else finished r)"

text \<open>The handlers of \<open>contract_run_out_of_money\<close> and \<open>contract_error\<close> in an upgrade, a destruction and a
  transfer; the first charges the whole limit, the second what was executed. In testing mode both turn
  into another exception.\<close>

definition charge_out_of_money ::
  "balance_map \<Rightarrow> ShareType \<Rightarrow> Asset \<Rightarrow> bool \<Rightarrow> TransactionEvaluationState \<Rightarrow> chain \<Rightarrow> contract_result" where
  "charge_out_of_money balances limit fee set_fees st ch =
    (if evaluate_contract_testing st then Some (Inl contract_run_out_of_testing_money)
     else if throw_exec_exception st then Some (Inl contract_run_out_of_money)
     else bindO (Some (get_amount_sum limit (amount fee))) (\<lambda>required.
       bindO (withdraw_enough_balances ch 0 balances required []) (\<lambda>withdraw_map.
       let st = expire_result (push_result (transaction_op (trx st)) (resize_result 0 st));
           st = (if set_fees then st\<lparr>required_fees := fee\<rparr> else st)
       in Some (Inr (push_result (balances_withdraw_op withdraw_map) st, ch)))))"

definition charge_failed ::
  "balance_map \<Rightarrow> Asset \<Rightarrow> vm_run \<Rightarrow> contract_result" where
  "charge_failed balances fee r =
    (let st = vm_state r; ch = vm_chain r in
     if evaluate_contract_testing st then Some (Inl contract_execute_error_in_testing)
     else if throw_exec_exception st then Some (Inl contract_execute_error)
     else bindO (Some (asset_plus (get_amount (vm_count r) 0) fee)) (\<lambda>cost.
       bindO (withdraw_enough_balances ch 0 balances (amount cost) []) (\<lambda>withdraw_map.
       Some (Inr (push_result (balances_withdraw_op withdraw_map) (expire_result (resize_result 1 st)), ch)))))"

text \<open>The cost of a successful run, which must lie within the limit.\<close>

definition note_exec_cost :: "ShareType \<Rightarrow> vm_run \<Rightarrow> (TransactionEvaluationState \<times> ShareType) result" where
  "note_exec_cost limit r =
    (let cost = amount (get_amount (vm_count r) 0);
         st = (vm_state r)\<lparr>exec_cost := \<lparr>amount = cost, asset_id = 0\<rparr>\<rparr>
     in if \<not> (cost \<le> limit \<and> cost > 0) then Inl fc_assert else Inr (st, cost))"

text \<open>The balance that holds the margin of a contract.\<close>

definition margin_balance :: "env \<Rightarrow> chain \<Rightarrow> ContractIdType \<Rightarrow> BalanceEntry result" where
  "margin_balance E ch c =
    (case get_balance_entry ch (get_balanceid E c withdraw_margin_type 0) of
       None \<Rightarrow> Inl fc_assert
     | Some b \<Rightarrow>
         if balance_asset_id b \<noteq> 0 then Inl fc_assert
         else if be_balance b \<noteq> ALP_DEFAULT_CONTRACT_MARGIN then Inl invalid_margin_amount
         else Inr b)"

section \<open>Upgrading a contract\<close>

definition upgrade_without_hook ::
  "UpgradeContractOperation \<Rightarrow> env \<Rightarrow> BalanceEntry \<Rightarrow> ShareType \<Rightarrow> TransactionEvaluationState \<Rightarrow> chain \<Rightarrow> contract_result" where
  "upgrade_without_hook op E margin all_amount st ch =
    (if \<not> amount (ug_exec_limit op) \<ge> 0 then Some (Inl fc_assert)
     else if evaluate_contract_testing st then Some (Inr (st, ch))
     else
       let st = push_result (transaction_op (trx st)) (resize_result 0 st);
           required = amount (ug_transaction_fee op)
       in if all_amount < required then Some (Inl insufficient_funds)
          else bindO (withdraw_enough_balances ch 0 (ug_balances op) required []) (\<lambda>withdraw_map.
            let st = push_result (balances_withdraw_op withdraw_map) st in
            bindO (Some (WithdrawContractOperation_of (balance_entry_id (env_cond_addr E) margin)
                           (be_balance margin) 0)) (\<lambda>wop.
            let st = push_result (on_upgrade_op \<lparr>ou_id = ug_id op, ou_name = ug_name op, ou_desc = ug_desc op\<rparr>)
                       (push_result wop st)
            in bindO (Some (asset_plus (ug_transaction_fee op) \<lparr>amount = ALP_DEFAULT_CONTRACT_MARGIN, asset_id = 0\<rparr>))
                 (\<lambda>fees. Some (Inr (st\<lparr>required_fees := fees\<rparr>, ch))))))"

definition upgrade_finished ::
  "UpgradeContractOperation \<Rightarrow> env \<Rightarrow> BalanceEntry \<Rightarrow> vm_run \<Rightarrow> contract_result" where
  "upgrade_finished op E margin r =
    bindO (Some (note_exec_cost (amount (ug_exec_limit op)) r)) (\<lambda>(st, cost).
    bindO (Some (get_amount_sum cost (amount (ug_transaction_fee op)))) (\<lambda>required.
    let ch = vm_chain r in
    if evaluate_contract_testing st then Some (Inr (st, ch))
    else bindO (withdraw_enough_balances ch 0 (ug_balances op) required []) (\<lambda>withdraw_map.
      bindO (Some (WithdrawContractOperation_of (balance_entry_id (env_cond_addr E) margin)
                     (be_balance margin) 0)) (\<lambda>wop.
      let st = push_result (on_upgrade_op \<lparr>ou_id = ug_id op, ou_name = ug_name op, ou_desc = ug_desc op\<rparr>)
                 (push_result (balances_withdraw_op withdraw_map) (push_result wop st))
      in bindO (Some (asset_plus (ug_transaction_fee op) \<lparr>amount = ALP_DEFAULT_CONTRACT_MARGIN, asset_id = 0\<rparr>))
           (\<lambda>fees. Some (Inr (st\<lparr>required_fees := fees\<rparr>, ch)))))))"

definition upgrade_with_hook ::
  "contract_env \<Rightarrow> UpgradeContractOperation \<Rightarrow> env \<Rightarrow> ContractEntry \<Rightarrow> BalanceEntry \<Rightarrow>
   TransactionEvaluationState \<Rightarrow> chain \<Rightarrow> contract_result" where
  "upgrade_with_hook CE op E entry margin st ch =
    (if \<not> amount (ug_exec_limit op) > 0 then Some (Inl fc_assert)
     else if skipexec st then Some (Inr (st, ch))
     else if operations (p_result_trx st) \<noteq> [] then Some (Inl fc_assert)
     else
       let st = push_result (transaction_op (trx st)) st in
       run_contract (ce_vm CE) (ct_owner entry) (ug_id op) CON_ON_UPGRADE_INTERFACE ''''
         (amount (ug_exec_limit op)) True st ch
         (upgrade_finished op E margin)
         (charge_out_of_money (ug_balances op) (amount (ug_exec_limit op)) (ug_transaction_fee op) True)
         (charge_failed (ug_balances op) (ug_transaction_fee op)))"

text \<open>The guards of an upgrade.\<close>

definition upgrade_allowed ::
  "UpgradeContractOperation \<Rightarrow> env \<Rightarrow> TransactionEvaluationState \<Rightarrow> chain \<Rightarrow> ContractEntry result" where
  "upgrade_allowed op E st ch =
    (if \<not> amount (ug_transaction_fee op) \<ge> 0 then Inl fc_assert
     else if evaluate_contract_result st then Inl in_result_of_execute
     else case get_contract_entry ch (ug_id op) of
       None \<Rightarrow> Inl contract_not_exist
     | Some entry \<Rightarrow>
         if \<not> is_temporary_contract (ct_level entry) then Inl contract_upgraded
         else if is_destroyed_contract (ct_state entry) then Inl contract_destroyed
         else if \<not> is_valid_contract_name (ug_name op) then Inl contract_name_illegal
         else if \<not> is_valid_contract_description (ug_desc op) then Inl contract_desc_illegal
         else if get_contract_entry_by_name ch (ug_name op) \<noteq> None then Inl contract_name_in_use
         else if \<not> check_signature st (env_addr_of E (ct_owner entry)) then Inl missing_signature
         else Inr entry)"

definition upgrade_contract_evaluate ::
  "contract_env \<Rightarrow> UpgradeContractOperation \<Rightarrow> env \<Rightarrow> TransactionEvaluationState \<Rightarrow> chain \<Rightarrow> contract_result" where
  "upgrade_contract_evaluate CE op E st ch =
    bindO (Some (upgrade_allowed op E st ch)) (\<lambda>entry.
    let st = st\<lparr>contract_operator := ct_owner entry\<rparr> in
    bindO (Some (margin_balance E ch (ct_id entry))) (\<lambda>margin.
    bindO (Some (if evaluate_contract_testing st then Inr 0
                 else check_balances E st ch (ug_balances op) (env_addr_of E (ct_owner entry)))) (\<lambda>all_amount.
    bindO (if \<not> is_contract_has_method CON_ON_UPGRADE_INTERFACE (abi (ct_code entry))
           then upgrade_without_hook op E margin all_amount st ch
           else upgrade_with_hook CE op E entry margin st ch) (\<lambda>(st, ch).
    Some (Inr (expire_result st, ch))))))"

definition on_upgrade_evaluate :: "OnUpgradeOperation \<Rightarrow> TransactionEvaluationState \<Rightarrow> chain \<Rightarrow> eval_result" where
  "on_upgrade_evaluate op st ch =
    (if \<not> evaluate_contract_result st then Inl not_be_result_of_execute
     else case get_contract_entry ch (ou_id op) of
       None \<Rightarrow> Inl contract_not_exist
     | Some entry \<Rightarrow>
         bindE (store_contract_entry (entry\<lparr>ct_level := contract_forever, contract_name := ou_name op,
                  ct_description := ou_desc op\<rparr>) ch) (\<lambda>ch. Inr (st, ch)))"


section \<open>Destroying a contract\<close>

text \<open>The contract's balance of every asset, in a vector of twenty elements.\<close>

definition contract_balance_entries :: "env \<Rightarrow> chain \<Rightarrow> ContractIdType \<Rightarrow> BalanceEntry option list result" where
  "contract_balance_entries E ch c =
    bindE (chain_last_asset_id ch) (\<lambda>last.
    let nAsset = s32 (last + 1) in
    if nAsset > 20 then Inl undefined_behaviour
    else Inr (map (\<lambda>i. get_balance_entry ch (get_balanceid E c withdraw_contract_type (int i))) [0..<nat nAsset]))"

text \<open>\<open>OnDestroyOperation\<close>s for the balances of the contract.\<close>

definition on_destroy_ops :: "ContractIdType \<Rightarrow> BalanceEntry option list \<Rightarrow> Operation list" where
  "on_destroy_ops c entries =
    map (\<lambda>(i, e). on_destroy_op \<lparr>od_id = c, od_amount =
        (case e of Some b \<Rightarrow> \<lparr>amount = be_balance b, asset_id = int i\<rparr> | None \<Rightarrow> \<lparr>amount = 0, asset_id = 0\<rparr>)\<rparr>)
      (enumerate 0 entries)"

definition destroy_without_hook ::
  "DestroyContractOperation \<Rightarrow> env \<Rightarrow> ContractEntry \<Rightarrow> BalanceEntry \<Rightarrow> BalanceEntry option list \<Rightarrow> ShareType \<Rightarrow>
   TransactionEvaluationState \<Rightarrow> chain \<Rightarrow> contract_result" where
  "destroy_without_hook op E entry margin entries all_amount st ch =
    (if \<not> amount (dc_exec_limit op) \<ge> 0 then Some (Inl fc_assert)
     else if evaluate_contract_testing st then Some (Inr (st, ch))
     else
       let st = push_result (transaction_op (trx st)) (resize_result 0 st);
           required = amount (dc_transaction_fee op)
       in if all_amount < required then Some (Inl insufficient_funds)
          else bindO (withdraw_enough_balances ch 0 (dc_balances op) required []) (\<lambda>withdraw_map.
            let st = push_result (balances_withdraw_op withdraw_map) st in
            bindO (Some (WithdrawContractOperation_of (balance_entry_id (env_cond_addr E) margin)
                           (be_balance margin) 0)) (\<lambda>wop.
            let st = push_result wop st in
            bindO (Some (DepositOperation_of (env_addr_of E (ct_owner entry))
                           \<lparr>amount = be_balance margin, asset_id = 0\<rparr> 0)) (\<lambda>dop.
            let st = fold push_result (on_destroy_ops (dc_id op) entries) (push_result (deposit_op dop) st)
            in Some (Inr (st\<lparr>required_fees := dc_transaction_fee op\<rparr>, ch))))))"

text \<open>The hook's variant first writes the contract's balances into \<open>_contract_balance_remain\<close>, which has
  no elements: with any asset on the chain the write is out of bounds.\<close>

definition remain_from_entries ::
  "env \<Rightarrow> BalanceEntry option list \<Rightarrow> TransactionEvaluationState \<Rightarrow> TransactionEvaluationState result" where
  "remain_from_entries E entries st =
    foldE (\<lambda>(i, e) st.
        if i \<ge> length (contract_balance_remain st) then Inl undefined_behaviour
        else Inr (st\<lparr>contract_balance_remain := (contract_balance_remain st)
          [i := (case e of None \<Rightarrow> 0 | Some b \<Rightarrow> amount (get_spendable_balance b (env_now E)))]\<rparr>))
      (enumerate 0 entries) st"

definition destroy_finished ::
  "DestroyContractOperation \<Rightarrow> env \<Rightarrow> ContractEntry \<Rightarrow> BalanceEntry \<Rightarrow> nat \<Rightarrow> vm_run \<Rightarrow> contract_result" where
  "destroy_finished op E entry margin nAsset r =
    bindO (Some (note_exec_cost (amount (dc_exec_limit op)) r)) (\<lambda>(st, cost).
    bindO (Some (get_amount_sum cost (amount (dc_transaction_fee op)))) (\<lambda>required.
    let ch = vm_chain r in
    if evaluate_contract_testing st then Some (Inr (st, ch))
    else bindO (withdraw_enough_balances ch 0 (dc_balances op) required []) (\<lambda>withdraw_map.
      if nAsset > length (contract_balance_remain st) then Some (Inl undefined_behaviour)
      else
        let st = fold (\<lambda>i st. if contract_balance_remain st ! i > 0
                   then push_result (on_destroy_op \<lparr>od_id = dc_id op,
                          od_amount = \<lparr>amount = contract_balance_remain st ! i, asset_id = int i\<rparr>\<rparr>) st
                   else st) [0..<nAsset] st
        in bindO (Some (WithdrawContractOperation_of (balance_entry_id (env_cond_addr E) margin)
                          (be_balance margin) 0)) (\<lambda>wop.
           bindO (Some (DepositOperation_of (env_addr_of E (ct_owner entry))
                          \<lparr>amount = be_balance margin, asset_id = 0\<rparr> 0)) (\<lambda>dop.
           let st = push_result (balances_withdraw_op withdraw_map)
                      (push_result (deposit_op dop) (push_result wop st))
           in Some (Inr (st\<lparr>required_fees := dc_transaction_fee op\<rparr>, ch)))))))"

definition destroy_with_hook ::
  "contract_env \<Rightarrow> DestroyContractOperation \<Rightarrow> env \<Rightarrow> ContractEntry \<Rightarrow> BalanceEntry \<Rightarrow> BalanceEntry option list \<Rightarrow>
   TransactionEvaluationState \<Rightarrow> chain \<Rightarrow> contract_result" where
  "destroy_with_hook CE op E entry margin entries st ch =
    (if \<not> amount (dc_exec_limit op) > 0 then Some (Inl fc_assert)
     else if skipexec st then Some (Inr (st, ch))
     else if operations (p_result_trx st) \<noteq> [] then Some (Inl fc_assert)
     else
       let st = push_result (transaction_op (trx st)) st in
       bindO (Some (remain_from_entries E entries st)) (\<lambda>st.
       run_contract (ce_vm CE) (ct_owner entry) (dc_id op) CON_ON_DESTROY_INTERFACE ''''
         (amount (dc_exec_limit op)) True st ch
         (destroy_finished op E entry margin (length entries))
         (charge_out_of_money (dc_balances op) (amount (dc_exec_limit op)) (dc_transaction_fee op) True)
         (charge_failed (dc_balances op) (dc_transaction_fee op))))"

definition destroy_allowed ::
  "DestroyContractOperation \<Rightarrow> env \<Rightarrow> TransactionEvaluationState \<Rightarrow> chain \<Rightarrow> ContractEntry result" where
  "destroy_allowed op E st ch =
    (if \<not> amount (dc_transaction_fee op) \<ge> 0 then Inl fc_assert
     else if evaluate_contract_result st then Inl in_result_of_execute
     else case get_contract_entry ch (dc_id op) of
       None \<Rightarrow> Inl contract_not_exist
     | Some entry \<Rightarrow>
         if is_destroyed_contract (ct_state entry) then Inl contract_destroyed
         else if \<not> is_temporary_contract (ct_level entry) then Inl permanent_contract
         else if \<not> check_signature st (env_addr_of E (ct_owner entry)) then Inl missing_signature
         else Inr entry)"

definition destroy_contract_evaluate ::
  "contract_env \<Rightarrow> DestroyContractOperation \<Rightarrow> env \<Rightarrow> TransactionEvaluationState \<Rightarrow> chain \<Rightarrow> contract_result" where
  "destroy_contract_evaluate CE op E st ch =
    bindO (Some (destroy_allowed op E st ch)) (\<lambda>entry.
    let st = st\<lparr>contract_operator := ct_owner entry\<rparr> in
    bindO (Some (margin_balance E ch (ct_id entry))) (\<lambda>margin.
    bindO (Some (contract_balance_entries E ch (ct_id entry))) (\<lambda>entries.
    bindO (Some (if evaluate_contract_testing st then Inr 0
                 else check_balances E st ch (dc_balances op) (env_addr_of E (ct_owner entry)))) (\<lambda>all_amount.
    bindO (if \<not> is_contract_has_method CON_ON_DESTROY_INTERFACE (abi (ct_code entry))
           then destroy_without_hook op E entry margin entries all_amount st ch
           else destroy_with_hook CE op E entry margin entries st ch) (\<lambda>(st, ch).
    Some (Inr (expire_result st, ch)))))))"

text \<open>The balance of the contract moves to its owner.\<close>

definition on_destroy_refund ::
  "env \<Rightarrow> OnDestroyOperation \<Rightarrow> ContractEntry \<Rightarrow> BalanceEntry \<Rightarrow> TransactionEvaluationState \<Rightarrow> chain \<Rightarrow> eval_result" where
  "on_destroy_refund E op entry cb st ch =
    (let deposit_amount = amount (get_spendable_balance cb (env_now E)) in
     if deposit_amount \<noteq> amount (od_amount op) then Inl fc_assert
     else bindE (add_balance \<lparr>amount = deposit_amount, asset_id = asset_id (od_amount op)\<rparr> st) (\<lambda>st.
       bindE (store_balance_entry E (cb\<lparr>be_balance := 0\<rparr>) ch) (\<lambda>ch.
       let cond = signature_condition (env_addr_of E (ct_owner entry)) (asset_id (od_amount op)) 0 withdraw_common_type;
           cur = deposit_entry E st ch cond
       in bindE (if be_balance cur = 0 then Inr (env_now E)
                 else average_date (be_deposit_date cur) (be_balance cur) (env_now E) deposit_amount
                        (u128 (s64 (be_balance cur + deposit_amount)))) (\<lambda>date.
          let cur = cur\<lparr>be_deposit_date := date, be_balance := s64 (be_balance cur + deposit_amount)\<rparr> in
          bindE (sub_balance \<lparr>amount = deposit_amount, asset_id = wc_asset_id (be_condition cur)\<rparr> st) (\<lambda>st.
          let cur = cur\<lparr>be_last_update := env_now E\<rparr> in
          if get_asset_entry ch (wc_asset_id (be_condition cur)) = None then Inl fc_assert
          else bindE (store_balance_entry E cur ch) (\<lambda>ch. Inr (st, ch)))))))"

definition on_destroy_evaluate ::
  "env \<Rightarrow> OnDestroyOperation \<Rightarrow> TransactionEvaluationState \<Rightarrow> chain \<Rightarrow> eval_result" where
  "on_destroy_evaluate E op st ch =
    (if \<not> evaluate_contract_result st then Inl not_be_result_of_execute
     else case get_contract_entry ch (od_id op) of
       None \<Rightarrow> Inl contract_not_exist
     | Some entry \<Rightarrow>
         bindE (case get_balance_entry ch
                   (get_balanceid E (ct_id entry) withdraw_contract_type (asset_id (od_amount op))) of
                  None \<Rightarrow> Inr (st, ch)
                | Some cb \<Rightarrow> on_destroy_refund E op entry cb st ch) (\<lambda>(st, ch).
         bindE (store_contract_entry (entry\<lparr>ct_state := contract_deleted\<rparr>) ch) (\<lambda>ch. Inr (st, ch))))"

section \<open>Registering a contract\<close>

text \<open>What the registration can cost; nothing is computed in testing mode. The result is the sum the
  balances must cover and the registration fee.\<close>

definition register_costs ::
  "RegisterContractOperation \<Rightarrow> env \<Rightarrow> TransactionEvaluationState \<Rightarrow> chain \<Rightarrow> ShareType result" where
  "register_costs op E st ch =
    (if evaluate_contract_testing st then Inr 0
     else bindE (check_balances E st ch (rc_balances op) (env_addr_of E (rc_owner op))) (\<lambda>all_amount.
       let margin = amount (get_default_margin 0);
           register_fee = amount (get_contract_register_fee (rc_contract_code op))
       in if \<not> margin > 0 then Inl fc_assert
          else if \<not> register_fee > 0 then Inl fc_assert
          else if \<not> amount (rc_initcost op) > 0 then Inl fc_assert
          else bindE (get_amount_sum margin register_fee) (\<lambda>required.
            bindE (get_amount_sum required (amount (rc_initcost op))) (\<lambda>required.
            bindE (get_amount_sum required (amount (rc_transaction_fee op))) (\<lambda>required.
            if all_amount < required then Inl insufficient_funds else Inr register_fee)))))"

definition register_finished ::
  "contract_env \<Rightarrow> RegisterContractOperation \<Rightarrow> ShareType \<Rightarrow> vm_run \<Rightarrow> contract_result" where
  "register_finished CE op register_fee r =
    bindO (Some (note_exec_cost (amount (rc_initcost op)) r)) (\<lambda>(st, cost).
    let ch = vm_chain r in
    if evaluate_contract_testing st then Some (Inr (st, ch))
    else
      bindO (Some (get_amount_sum cost (amount (get_default_margin 0)))) (\<lambda>required.
      bindO (Some (get_amount_sum required register_fee)) (\<lambda>required.
      bindO (Some (get_amount_sum required (amount (rc_transaction_fee op)))) (\<lambda>required.
      bindO (withdraw_enough_balances ch 0 (rc_balances op) required []) (\<lambda>withdraw_map.
      let st = push_result (balances_withdraw_op withdraw_map) st;
          st = push_result (deposit_contract_op
                 (DepositContractOperation_of (ce_contract_id CE op) (get_default_margin 0) withdraw_margin_type)) st
      in Some (Inr (st, ch)))))))"

definition register_out_of_money ::
  "RegisterContractOperation \<Rightarrow> ShareType \<Rightarrow> TransactionEvaluationState \<Rightarrow> chain \<Rightarrow> contract_result" where
  "register_out_of_money op register_fee st ch =
    (if evaluate_contract_testing st then Some (Inl contract_run_out_of_testing_money)
     else if throw_exec_exception st then Some (Inl contract_run_out_of_money)
     else
       let st = expire_result (push_result (transaction_op (trx st)) (resize_result 0 st)) in
       bindO (Some (get_amount_sum register_fee (amount (rc_transaction_fee op)))) (\<lambda>required.
       bindO (Some (get_amount_sum required (amount (rc_initcost op)))) (\<lambda>required.
       bindO (withdraw_enough_balances ch 0 (rc_balances op) required []) (\<lambda>withdraw_map.
       Some (Inr (push_result (balances_withdraw_op withdraw_map) st, ch))))))"

text \<open>A failed initialisation is charged its instructions and the fees the registration requires.\<close>

definition register_failed :: "RegisterContractOperation \<Rightarrow> vm_run \<Rightarrow> contract_result" where
  "register_failed op r = charge_failed (rc_balances op) (required_fees (vm_state r)) r"

definition register_run ::
  "contract_env \<Rightarrow> RegisterContractOperation \<Rightarrow> ShareType \<Rightarrow> TransactionEvaluationState \<Rightarrow> chain \<Rightarrow> contract_result" where
  "register_run CE op register_fee st ch =
    (if skipexec st then Some (Inr (st, ch))
     else if operations (p_result_trx st) \<noteq> [] then Some (Inl fc_assert)
     else
       let prepared = push_result (contract_info_op \<lparr>ci_contract_id = ce_contract_id CE op, ci_owner = rc_owner op,
                        ci_code = rc_contract_code op, ci_register_time = rc_register_time op\<rparr>)
                      (expire_result (push_result (transaction_op (trx st)) (resize_result 0 st)))
       in run_contract (\<lambda>caller c m a limit _. ce_vm CE caller c m a limit prepared)
            (rc_owner op) (ce_contract_id CE op) CON_INIT_INTERFACE '''' (amount (rc_initcost op)) False st ch
            (register_finished CE op register_fee) (register_out_of_money op register_fee) (register_failed op))"

definition register_contract_evaluate ::
  "contract_env \<Rightarrow> RegisterContractOperation \<Rightarrow> env \<Rightarrow> TransactionEvaluationState \<Rightarrow> chain \<Rightarrow> contract_result" where
  "register_contract_evaluate CE op E st ch =
    (if \<not> amount (rc_initcost op) > 0 then Some (Inl fc_assert)
     else if \<not> amount (rc_transaction_fee op) \<ge> 0 then Some (Inl fc_assert)
     else if evaluate_contract_result st then Some (Inl in_result_of_execute)
     else if get_contract_entry ch (ce_contract_id CE op) \<noteq> None then Some (Inl contract_address_in_use)
     else if \<not> check_signature st (env_addr_of E (rc_owner op)) then Some (Inl missing_signature)
     else bindO (Some (register_costs op E st ch)) (\<lambda>register_fee.
       let entry = ContractEntry_init\<lparr>ct_owner := rc_owner op, ct_code := rc_contract_code op,
             ct_level := contract_temp, ct_state := contract_valid, ct_id := ce_contract_id CE op,
             ct_trx_id := trx_id (env_trx_hash E) (trx st)\<rparr>
       in if code_hash (rc_contract_code op) \<noteq> ce_code_hash CE (rc_contract_code op)
          then Some (Inl code_hash_error)
          else bindO (Some (store_contract_entry entry ch)) (\<lambda>ch.
            let st = st\<lparr>contract_operator := rc_owner op\<rparr> in
            bindO (Some (asset_plus (rc_transaction_fee op) (get_contract_register_fee (rc_contract_code op))))
              (\<lambda>fees.
            bindO (register_run CE op register_fee (st\<lparr>required_fees := fees\<rparr>) ch) (\<lambda>(st, ch).
            bindO (Some (remove_contract_entry (ce_contract_id CE op) ch)) (\<lambda>ch. Some (Inr (st, ch))))))))"

text \<open>In the result transaction the contract becomes an entry.\<close>

definition contract_info_evaluate ::
  "contract_env \<Rightarrow> env \<Rightarrow> ContractInfoOperation \<Rightarrow> TransactionEvaluationState \<Rightarrow> chain \<Rightarrow> eval_result" where
  "contract_info_evaluate CE E op st ch =
    (if \<not> evaluate_contract_result st then Inl not_be_result_of_execute
     else if get_contract_entry ch (ci_contract_id op) \<noteq> None then Inl contract_address_in_use
     else if code_hash (ci_code op) \<noteq> ce_code_hash CE (ci_code op) then Inl code_hash_error
     else
       let tid = trx_id (env_trx_hash E) (trx st);
           entry = ContractEntry_init\<lparr>ct_code := ci_code op, ct_id := ci_contract_id op,
             register_time := ci_register_time op, ct_trx_id := tid, ct_owner := ci_owner op\<rparr>
       in bindE (store_contract_entry entry ch) (\<lambda>ch.
          bindE (contractin_trx_store tid \<lparr>cie_contract_id = ci_contract_id op\<rparr> ch) (\<lambda>ch.
          bindE (contract_trx_store (ci_contract_id op) \<lparr>cte_trx_id = tid\<rparr> ch) (\<lambda>ch. Inr (st, ch)))))"

section \<open>Calling a contract\<close>

definition is_function_not_allow_call :: "string \<Rightarrow> bool" where
  "is_function_not_allow_call method \<longleftrightarrow>
    method = CON_INIT_INTERFACE \<or> method = CON_ON_DEPOSIT_INTERFACE \<or>
    method = CON_ON_UPGRADE_INTERFACE \<or> method = CON_ON_DESTROY_INTERFACE"

definition call_allowed ::
  "CallContractOperation \<Rightarrow> env \<Rightarrow> TransactionEvaluationState \<Rightarrow> chain \<Rightarrow> unit result" where
  "call_allowed op E st ch =
    (if \<not> amount (cc_costlimit op) > 0 then Inl fc_assert
     else if \<not> amount (cc_transaction_fee op) \<ge> 0 then Inl fc_assert
     else if evaluate_contract_result st then Inl in_result_of_execute
     else case get_contract_entry ch (cc_contract op) of
       None \<Rightarrow> Inl contract_not_exist
     | Some entry \<Rightarrow>
         if ct_state entry = contract_deleted then Inl contract_destroyed
         else if is_function_not_allow_call (cc_method op) then Inl method_can_not_be_called_explicitly
         else if length (cc_args op) > CONTRACT_PARAM_MAX_LEN then Inl contract_parameter_length_over_limit
         else if \<not> is_contract_has_method (cc_method op) (abi (ct_code entry)) then Inl method_not_exist
         else if \<not> check_signature st (env_addr_of E (cc_caller op)) then Inl missing_signature
         else Inr ())"

text \<open>All three ways a call ends charge the caller; they differ in the amount and in what stays in the
  result transaction.\<close>

definition call_charge ::
  "CallContractOperation \<Rightarrow> ShareType \<Rightarrow> TransactionEvaluationState \<Rightarrow> chain \<Rightarrow> contract_result" where
  "call_charge op required st ch =
    (if evaluate_contract_testing st then Some (Inr (st, ch))
     else bindO (withdraw_enough_balances ch 0 (cc_balances op) required []) (\<lambda>withdraw_map.
       Some (Inr (push_result (balances_withdraw_op withdraw_map) st, ch))))"

definition call_finished :: "CallContractOperation \<Rightarrow> ShareType \<Rightarrow> vm_run \<Rightarrow> contract_result" where
  "call_finished op required r =
    (let left = s32 (get_limit 0 (amount (cc_costlimit op)) - vm_count r);
         st = (vm_state r)\<lparr>exec_cost := get_amount (vm_count r) 0\<rparr>;
         required = (if left > 0 then s64 (required - amount (get_amount left 0)) else required)
     in call_charge op required st (vm_chain r))"

definition call_out_of_money ::
  "CallContractOperation \<Rightarrow> ShareType \<Rightarrow> TransactionEvaluationState \<Rightarrow> chain \<Rightarrow> contract_result" where
  "call_out_of_money op required st ch =
    (if evaluate_contract_testing st then Some (Inl contract_run_out_of_testing_money)
     else if throw_exec_exception st then Some (Inl contract_run_out_of_money)
     else call_charge op required (expire_result (push_result (transaction_op (trx st)) (resize_result 0 st))) ch)"

definition call_failed :: "CallContractOperation \<Rightarrow> vm_run \<Rightarrow> contract_result" where
  "call_failed op r =
    (let st = vm_state r in
     if evaluate_contract_testing st then Some (Inl contract_execute_error_in_testing)
     else if throw_exec_exception st then Some (Inl contract_execute_error)
     else bindO (Some (asset_plus (get_amount (vm_count r) 0) (cc_transaction_fee op))) (\<lambda>cost.
       call_charge op (amount cost) (expire_result (resize_result 1 st)) (vm_chain r)))"

definition call_contract_evaluate ::
  "contract_env \<Rightarrow> CallContractOperation \<Rightarrow> env \<Rightarrow> TransactionEvaluationState \<Rightarrow> chain \<Rightarrow> contract_result" where
  "call_contract_evaluate CE op E st ch =
    bindO (Some (call_allowed op E st ch)) (\<lambda>_.
    let st = st\<lparr>contract_operator := cc_caller op\<rparr> in
    bindO (Some (if evaluate_contract_testing st then Inr (0, 0)
                 else bindE (check_balances E st ch (cc_balances op) (env_addr_of E (cc_caller op))) (\<lambda>all_amount.
                      bindE (get_amount_sum (amount (cc_costlimit op)) (amount (cc_transaction_fee op))) (\<lambda>required.
                      if all_amount < required then Inl insufficient_funds else Inr (all_amount, required)))))
      (\<lambda>(all_amount, required).
    let st = st\<lparr>required_fees := cc_transaction_fee op\<rparr> in
    if skipexec st then Some (Inr (st, ch))
    else if operations (p_result_trx st) \<noteq> [] then Some (Inl fc_assert)
    else
      let st = expire_result (push_result on_call_success_op (push_result (transaction_op (trx st)) st)) in
      if \<not> evaluate_contract_testing st \<and> \<not> all_amount \<ge> amount (cc_transaction_fee op) then Some (Inl fc_assert)
      else run_contract (ce_vm CE) (cc_caller op) (cc_contract op) (cc_method op) (cc_args op)
             (amount (cc_costlimit op)) True st ch
             (call_finished op required) (call_out_of_money op required) (call_failed op)))"


section \<open>Transferring to a contract\<close>

definition transfer_allowed ::
  "TransferContractOperation \<Rightarrow> env \<Rightarrow> TransactionEvaluationState \<Rightarrow> chain \<Rightarrow> bool result" where
  "transfer_allowed op E st ch =
    (if \<not> amount (tc_transaction_fee op) \<ge> 0 then Inl fc_assert
     else if evaluate_contract_result st then Inl in_result_of_execute
     else case get_contract_entry ch (tc_contract_id op) of
       None \<Rightarrow> Inl contract_not_exist
     | Some entry \<Rightarrow>
         if ct_state entry = contract_deleted then Inl contract_destroyed
         else if \<not> check_signature st (env_addr_of E (tc_from op)) then Inl missing_signature
         else if amount (tc_transfer_amount op) < 0 then Inl transfer_amount_not_bigger_than_0
         else
           let has_on_deposit = is_contract_has_method CON_ON_DEPOSIT_INTERFACE (abi (ct_code entry)) in
           if has_on_deposit \<and> \<not> amount (tc_costlimit op) > 0 then Inl fc_assert
           else if \<not> has_on_deposit \<and> \<not> amount (tc_costlimit op) \<ge> 0 then Inl fc_assert
           else Inr has_on_deposit)"

text \<open>The funds of the transfer; for another asset than the base asset the test joins its two conditions
  with a conjunction.\<close>

definition transfer_funded ::
  "TransferContractOperation \<Rightarrow> env \<Rightarrow> TransactionEvaluationState \<Rightarrow> chain \<Rightarrow> unit result" where
  "transfer_funded op E st ch =
    (let from = env_addr_of E (tc_from op); t = tc_transfer_amount op in
     if asset_id t \<noteq> 0
     then bindE (check_muti_balances E st ch (tc_balances op) from) (\<lambda>all_amount.
          bindE (get_amount_sum (amount (tc_costlimit op)) (amount (tc_transaction_fee op))) (\<lambda>require.
          if all_amount ! 0 < require \<and> (asset_id t < 0 \<or> asset_id t \<ge> int (length all_amount))
          then Inl undefined_behaviour
          else if all_amount ! 0 < require \<and> all_amount ! nat (asset_id t) < amount t
          then Inl insufficient_funds
          else Inr ()))
     else bindE (check_balances E st ch (tc_balances op) from) (\<lambda>all_amount.
          bindE (get_amount_sum (amount (tc_costlimit op)) (amount t)) (\<lambda>require.
          bindE (get_amount_sum require (amount (tc_transaction_fee op))) (\<lambda>require.
          if all_amount < require then Inl insufficient_funds else Inr ()))))"

definition transfer_without_hook ::
  "TransferContractOperation \<Rightarrow> TransactionEvaluationState \<Rightarrow> chain \<Rightarrow> contract_result" where
  "transfer_without_hook op st ch =
    (if evaluate_contract_testing st then Some (Inr (st, ch))
     else
       bindO (if asset_id (tc_transfer_amount op) \<noteq> 0
              then withdraw_enough_muti_balances ch (tc_transfer_amount op) (tc_transaction_fee op) False False
                     (tc_balances op) []
              else bindO (Some (get_amount_sum (amount (tc_transaction_fee op)) (amount (tc_transfer_amount op))))
                     (\<lambda>required. withdraw_enough_balances ch 0 (tc_balances op) required [])) (\<lambda>withdraw_map.
       let st = push_result (transaction_op (trx st)) (resize_result 0 st);
           st = push_result (balances_withdraw_op withdraw_map) st;
           st = push_result (deposit_contract_op (DepositContractOperation_of (tc_contract_id op)
                  (tc_transfer_amount op) withdraw_contract_type)) st
       in Some (Inr (st, ch))))"

definition transfer_finished ::
  "TransferContractOperation \<Rightarrow> vm_run \<Rightarrow> contract_result" where
  "transfer_finished op r =
    bindO (Some (note_exec_cost (amount (tc_costlimit op)) r)) (\<lambda>(st, cost).
    let ch = vm_chain r; t = tc_transfer_amount op in
    bindO (Some (if asset_id t = 0
                 then bindE (get_amount_sum cost (amount t)) (\<lambda>required.
                      get_amount_sum required (amount (tc_transaction_fee op)))
                 else Inr 0)) (\<lambda>required.
    if evaluate_contract_testing st then Some (Inr (st, ch))
    else bindO (if asset_id t = 0
                then withdraw_enough_balances ch 0 (tc_balances op) required []
                else withdraw_enough_muti_balances ch t (tc_transaction_fee op) False False (tc_balances op) [])
           (\<lambda>withdraw_map.
         Some (Inr (push_result (deposit_contract_op
                      (DepositContractOperation_of (tc_contract_id op) t withdraw_contract_type))
                    (push_result (balances_withdraw_op withdraw_map) st), ch)))))"

text \<open>While \<open>on_deposit\<close> runs the contract's balance is raised by the transferred amount; afterwards it is
  set back, whatever the contract did to it. The argument is the amount in decimal; it is not negative
  here.\<close>

definition transfer_with_hook ::
  "contract_env \<Rightarrow> TransferContractOperation \<Rightarrow> env \<Rightarrow> TransactionEvaluationState \<Rightarrow> chain \<Rightarrow> contract_result" where
  "transfer_with_hook CE op E st ch =
    (if skipexec st then Some (Inr (st, ch))
     else if operations (p_result_trx st) \<noteq> [] then Some (Inl fc_assert)
     else
       let st = push_result (transaction_op (trx st)) st;
           t = tc_transfer_amount op;
           dop = DepositContractOperation_of (tc_contract_id op) t withdraw_contract_type;
           charge = charge_out_of_money (tc_balances op) (amount (tc_costlimit op)) (tc_transaction_fee op) False
       in if get_limit 0 (amount (tc_costlimit op)) \<le> 0 then charge st ch
          else
            let b = (case get_balance_entry ch (env_cond_addr E (dcn_condition dop)) of
                       Some b \<Rightarrow> b
                     | None \<Rightarrow> (BalanceEntry_of_condition (signature_condition (tc_contract_id op) (asset_id t) 0
                                  withdraw_contract_type))
                                 \<lparr>be_balance := 0, be_deposit_date := env_now E, be_last_update := env_now E\<rparr>);
                restored = (\<lambda>ch. store_balance_entry E b ch)
            in bindO (Some (store_balance_entry E (b\<lparr>be_balance := s64 (be_balance b + amount t)\<rparr>) ch)) (\<lambda>ch.
               run_contract (ce_vm CE) (tc_from op) (tc_contract_id op) CON_ON_DEPOSIT_INTERFACE
                 (nat_to_string (nat (amount t))) (amount (tc_costlimit op)) True st ch
                 (\<lambda>r. bindO (Some (restored (vm_chain r))) (\<lambda>ch. transfer_finished op (r\<lparr>vm_chain := ch\<rparr>)))
                 (\<lambda>st ch. bindO (Some (restored ch)) (\<lambda>ch. charge st ch))
                 (\<lambda>r. bindO (Some (restored (vm_chain r))) (\<lambda>ch.
                    charge_failed (tc_balances op) (tc_transaction_fee op) (r\<lparr>vm_chain := ch\<rparr>)))))"

definition transfer_contract_evaluate ::
  "contract_env \<Rightarrow> TransferContractOperation \<Rightarrow> env \<Rightarrow> TransactionEvaluationState \<Rightarrow> chain \<Rightarrow> contract_result" where
  "transfer_contract_evaluate CE op E st ch =
    bindO (Some (transfer_allowed op E st ch)) (\<lambda>has_on_deposit.
    let st = st\<lparr>contract_operator := tc_from op\<rparr> in
    bindO (Some (if evaluate_contract_testing st then Inr st
                 else bindE (transfer_funded op E st ch) (\<lambda>_. Inr (st\<lparr>required_fees := tc_transaction_fee op\<rparr>))))
      (\<lambda>st.
    bindO (if \<not> has_on_deposit then transfer_without_hook op st ch
           else transfer_with_hook CE op E st ch) (\<lambda>(st, ch).
    Some (Inr (expire_result st, ch)))))"

section \<open>Contract storage\<close>

definition is_any_base_storage_value_type :: "nat \<Rightarrow> bool" where
  "is_any_base_storage_value_type t \<longleftrightarrow> t \<ge> 1 \<and> t \<le> 5"

text \<open>The table and array types whose values are packed maps.\<close>

definition is_map_storage_type :: "nat \<Rightarrow> bool" where
  "is_map_storage_type t \<longleftrightarrow> t \<in> set [51, 52, 53, 54, 101, 102, 103, 104]"

text \<open>\<open>StorageDataType::as\<close> with the container of type code \<open>t\<close>.\<close>

definition storage_as :: "contract_env \<Rightarrow> nat \<Rightarrow> StorageDataType \<Rightarrow> (string \<times> 8 word list) list result" where
  "storage_as CE t d = (if storage_type d \<noteq> t then Inl fc_assert else ce_unpack_table CE t (storage_data d))"

definition update_contract_map_storage ::
  "contract_env \<Rightarrow> nat \<Rightarrow> StorageDataChangeType \<Rightarrow> StorageDataType \<Rightarrow> StorageDataType result" where
  "update_contract_map_storage CE t change storage =
    bindE (storage_as CE t storage) (\<lambda>storage_table.
    bindE (storage_as CE t (storage_before change)) (\<lambda>before_table.
    bindE (storage_as CE t (storage_after change)) (\<lambda>after_table.
    let erased = fold (\<lambda>kv. AList.delete (fst kv)) before_table storage_table;
        merged = fold (\<lambda>kv. omap_update (fst kv) (snd kv)) after_table erased
    in Inr \<lparr>storage_type = t, storage_data = ce_pack_table CE t merged\<rparr>)))"

definition update_contract_storages ::
  "contract_env \<Rightarrow> string \<times> StorageDataChangeType \<Rightarrow> (string \<times> StorageDataType) list \<Rightarrow>
   (string \<times> StorageDataType) list result" where
  "update_contract_storages CE item storages =
    (let name = fst item; change = snd item;
         null_before = storage_type (storage_before change) = 0;
         null_after = storage_type (storage_after change) = 0
     in if null_before \<and> \<not> null_after
        then Inr (omap_update name (storage_after change) (AList.delete name storages))
        else if \<not> null_before \<and> null_after then Inr (AList.delete name storages)
        else if \<not> null_before \<and> \<not> null_after
        then (case map_of storages name of
                None \<Rightarrow> Inl fc_assert
              | Some cur \<Rightarrow>
                  if is_any_base_storage_value_type (storage_type cur)
                  then Inr (omap_update name (cur\<lparr>storage_data := storage_data (storage_after change)\<rparr>) storages)
                  else if is_map_storage_type (storage_type cur)
                  then bindE (update_contract_map_storage CE (storage_type cur) change cur) (\<lambda>d.
                       Inr (omap_update name d storages))
                  else Inr storages)
        else Inr (AList.delete name storages))"

text \<open>The type checks of the first loop.\<close>

definition storage_change_ok :: "(string \<times> StorageDataType) list \<Rightarrow> string \<times> StorageDataChangeType \<Rightarrow> bool" where
  "storage_change_ok storages item =
    (let b = storage_type (storage_before (snd item)); a = storage_type (storage_after (snd item)) in
     (b \<noteq> 0 \<and> a \<noteq> 0 \<longrightarrow> b = a) \<and>
     (case map_of storages (fst item) of
        None \<Rightarrow> True
      | Some cur \<Rightarrow> storage_type cur \<noteq> 0 \<and> b \<noteq> 0 \<longrightarrow> storage_type cur = b))"

definition storage_evaluate ::
  "contract_env \<Rightarrow> StorageOperation \<Rightarrow> TransactionEvaluationState \<Rightarrow> chain \<Rightarrow> eval_result" where
  "storage_evaluate CE op st ch =
    (if \<not> evaluate_contract_result st then Inl not_be_result_of_execute
     else
       let storages = (case get_contractstorage_entry ch (so_contract_id op) of
                         None \<Rightarrow> [] | Some e \<Rightarrow> contract_storages e)
       in if \<not> list_all (storage_change_ok storages) (contract_change_storages op) then Inl fc_assert
          else bindE (foldE (update_contract_storages CE) (contract_change_storages op) storages) (\<lambda>storages.
            bindE (store_contractstorage_entry \<lparr>cs_id = so_contract_id op, contract_storages = storages\<rparr> ch)
              (\<lambda>ch. Inr (st, ch))))"

end
