(* ===== verification/Evaluate.thy ===== *)
theory Evaluate
  imports Contract_Ops
begin

text \<open>
  The evaluation of a transaction (\<open>TransactionEvaluationState::evaluate\<close> and \<open>sandbox_evaluate\<close>), the
  dispatch of \<open>OperationFactory\<close>, and the nested transaction of \<open>TransactionOperation\<close>. The result
  \<^const>\<open>None\<close> stands for a call that does not return (see \<open>withdraw_enough_balances\<close>). An exception
  leaves no state, since callers drop what they worked on; the one they keep it for,
  \<open>ignore_check_required_fee_state\<close>, comes after the last change, so that what it leaves is the
  result of the evaluation with \<open>ignore_state\<close> set.
\<close>

definition ALP_BLOCKCHAIN_MAX_TRX_SIZE :: nat where "ALP_BLOCKCHAIN_MAX_TRX_SIZE = 102400"
definition ALP_BLOCKCHAIN_MAX_SIGNAGTURE_NUM :: nat where "ALP_BLOCKCHAIN_MAX_SIGNAGTURE_NUM = 1000"
definition ALP_BLOCKCHAIN_FREESIGNATURE_LIMIT :: int where "ALP_BLOCKCHAIN_FREESIGNATURE_LIMIT = 10"
definition ALP_BLOCKCHAIN_EXTRA_SIGNATURE_FEE :: int where "ALP_BLOCKCHAIN_EXTRA_SIGNATURE_FEE = 1000"
definition ALP_BLOCKCHAIN_MAX_TRANSACTION_EXPIRATION_SEC :: int where
  "ALP_BLOCKCHAIN_MAX_TRANSACTION_EXPIRATION_SEC = 60 * 60 * 24 * 2"


section \<open>Operations without nested evaluation\<close>

text \<open>\<open>OperationFactory::evaluate\<close>: the evaluation registered for the type code; \<open>null_op\<close> has none.\<close>

definition evaluate_basic_operation ::
  "contract_env \<Rightarrow> env \<Rightarrow> Operation \<Rightarrow> TransactionEvaluationState \<Rightarrow> chain \<Rightarrow> contract_result" where
  "evaluate_basic_operation CE E op st ch =
    (case op of
       withdraw_op o' \<Rightarrow> Some (withdraw_evaluate E o' st ch)
     | deposit_op o' \<Rightarrow> Some (deposit_evaluate E o' st ch)
     | register_account_op o' \<Rightarrow> Some (register_account_evaluate E o' st ch)
     | update_account_op o' \<Rightarrow> Some (update_account_evaluate E o' st ch)
     | withdraw_pay_op o' \<Rightarrow> Some (withdraw_pay_evaluate E o' st ch)
     | create_asset_op o' \<Rightarrow> Some (create_asset_evaluate o' E st ch)
     | update_asset_op o' \<Rightarrow> Some (update_asset_evaluate o' E st ch)
     | issue_asset_op o' \<Rightarrow> Some (issue_asset_evaluate o' E st ch)
     | define_slate_op o' \<Rightarrow> Some (define_slate_evaluate E o' st ch)
     | release_escrow_op o' \<Rightarrow> Some (release_escrow_evaluate o' st ch)
     | update_signing_key_op o' \<Rightarrow> Some (update_signing_key_evaluate o' st ch)
     | update_balance_vote_op o' \<Rightarrow> Some (update_balance_vote_evaluate o' st ch)
     | update_asset_ext_op o' \<Rightarrow> Some (update_asset_ext_evaluate o' E st ch)
     | imessage_memo_op o' \<Rightarrow> Some (imessage_memo_evaluate o' st ch)
     | contract_info_op o' \<Rightarrow> Some (contract_info_evaluate CE E o' st ch)
     | register_contract_op o' \<Rightarrow> register_contract_evaluate CE o' E st ch
     | upgrade_contract_op o' \<Rightarrow> upgrade_contract_evaluate CE o' E st ch
     | destroy_contract_op o' \<Rightarrow> destroy_contract_evaluate CE o' E st ch
     | call_contract_op o' \<Rightarrow> call_contract_evaluate CE o' E st ch
     | transfer_contract_op o' \<Rightarrow> transfer_contract_evaluate CE o' E st ch
     | withdraw_contract_op o' \<Rightarrow> Some (withdraw_contract_evaluate E o' st ch)
     | deposit_contract_op o' \<Rightarrow> Some (deposit_contract_evaluate E o' st ch)
     | balances_withdraw_op o' \<Rightarrow> Some (balances_withdraw_evaluate E o' st ch)
     | storage_op o' \<Rightarrow> Some (storage_evaluate CE o' st ch)
     | event_op o' \<Rightarrow> Some (event_evaluate o' st ch)
     | on_destroy_op o' \<Rightarrow> Some (on_destroy_evaluate E o' st ch)
     | on_upgrade_op o' \<Rightarrow> Some (on_upgrade_evaluate o' st ch)
     | on_call_success_op \<Rightarrow> Some (Inr (st, ch))
     | update_transfer_config_op o' \<Rightarrow> Some (update_transfer_config_evaluate o' st ch)
     | _ \<Rightarrow> Some (Inl unsupported_chain_operation))"

section \<open>The parts of an evaluation\<close>

definition TransactionLocation_init :: TransactionLocation where
  "TransactionLocation_init = \<lparr>loc_block_num = 0, loc_trx_num = 0\<rparr>"

definition needs_no_fee_check :: "SignedTransaction \<Rightarrow> bool" where
  "needs_no_fee_check t =
    list_ex (\<lambda>op. op_type op \<ge> 70 \<and> op_type op \<le> 74 \<or>
        op_type op = 90 \<and> result_trx_type t = incomplete_result_transaction) (operations t)"

text \<open>The checks before the operations, and the signatures: each distinct one is recovered once.\<close>

definition evaluate_prepare ::
  "env \<Rightarrow> SignedTransaction \<Rightarrow> TransactionEvaluationState \<Rightarrow> TransactionEvaluationState result" where
  "evaluate_prepare E trx_arg st =
    (let st = st\<lparr>trx := trx_arg\<rparr> in
     if origin_trx_basic_verify trx_arg \<and> env_data_size E trx_arg > ALP_BLOCKCHAIN_MAX_TRX_SIZE
     then Inl out_of_max_trx_size
     else if \<not> check_operations_legality trx_arg then Inl illegal_transaction
     else if length (signatures trx_arg) > ALP_BLOCKCHAIN_MAX_SIGNAGTURE_NUM then Inl too_much_signature
     else bindE (if skip_signature_check st then Inr st
                 else foldE (\<lambda>sig. add_signed_keys E sig trx_arg) (sort (remdups (signatures trx_arg))) st)
       (\<lambda>st. Inr (st\<lparr>current_op_index := 0\<rparr>)))"

text \<open>After the operations of a result transaction: an incomplete one is recorded, and the transaction
  that is stored in its place is the one the execution produced.\<close>

definition finish_result_transaction ::
  "env \<Rightarrow> SignedTransaction \<Rightarrow> TransactionEvaluationState \<Rightarrow> chain \<Rightarrow>
   ((TransactionEvaluationState \<times> chain) \<times> SignedTransaction) result" where
  "finish_result_transaction E trx_arg st ch =
    bindE (if result_trx_type trx_arg = incomplete_result_transaction
           then
             let st = st\<lparr>trx := trx_arg\<rparr>;
                 complete = SignedTransaction (expiration (p_result_trx st)) (reserved (p_result_trx st))
                   (alp_account (p_result_trx st)) (alp_inport_asset (p_result_trx st))
                   (operations (p_result_trx st)) complete_result_transaction
                   (trx_id (env_trx_hash E) (p_result_trx st)) (signatures (p_result_trx st))
             in bindE (transaction_store E (trx_id (env_trx_hash E) trx_arg)
                         \<lparr>te_state = st, chain_location = TransactionLocation_init\<rparr> ch) (\<lambda>ch.
                Inr ((st, ch), complete))
           else Inr ((st, ch), trx_arg)) (\<lambda>((st, ch), result_trx).
    Inr ((resize_result 0 (st\<lparr>evaluate_contract_result := False\<rparr>), ch), result_trx))"

definition charge_signatures :: "SignedTransaction \<Rightarrow> TransactionEvaluationState \<Rightarrow> TransactionEvaluationState" where
  "charge_signatures trx_arg st =
    (let signum_to_charge = int (length (signatures trx_arg)) - ALP_BLOCKCHAIN_FREESIGNATURE_LIMIT in
     if signum_to_charge \<ge> 0
     then st\<lparr>required_fees := (required_fees st)
            \<lparr>amount := s64 (amount (required_fees st) + signum_to_charge * ALP_BLOCKCHAIN_EXTRA_SIGNATURE_FEE)\<rparr>\<rparr>
     else st)"

definition check_fees ::
  "env \<Rightarrow> TransactionEvaluationState \<Rightarrow> chain \<Rightarrow> (TransactionEvaluationState \<times> chain) result" where
  "check_fees E st ch =
    bindE (post_evaluate st ch) (\<lambda>(st, ch).
    bindE (validate_required_fee st) (\<lambda>_.
    bindE (update_delegate_votes E st ch) (\<lambda>ch. Inr (st, ch))))"

definition evaluate_finish ::
  "env \<Rightarrow> bool \<Rightarrow> SignedTransaction \<Rightarrow> SignedTransaction \<Rightarrow> TransactionEvaluationState \<Rightarrow> chain \<Rightarrow> eval_result" where
  "evaluate_finish E ignore_state trx_arg result_trx st ch =
    (let st = charge_signatures trx_arg st;
         ignore_check_required_fee = needs_no_fee_check trx_arg
     in bindE (if ignore_check_required_fee then Inr (st, ch) else check_fees E st ch) (\<lambda>(st, ch).
        let st = st\<lparr>trx := result_trx\<rparr> in
        bindE (transaction_store E (trx_id (env_trx_hash E) result_trx)
                 \<lparr>te_state = st, chain_location = TransactionLocation_init\<rparr> ch) (\<lambda>ch.
        if \<not> ignore_state \<and> ignore_check_required_fee then Inl ignore_check_required_fee_state
        else Inr (st, ch))))"


section \<open>Transactions\<close>

text \<open>A loop whose body may not return.\<close>

fun foldO :: "('a \<Rightarrow> 's \<Rightarrow> 's result option) \<Rightarrow> 'a list \<Rightarrow> 's \<Rightarrow> 's result option" where
  "foldO f [] s = Some (Inr s)"
| "foldO f (x # xs) s = bindO (f x s) (foldO f xs)"

lemma foldO_cong [fundef_cong]:
  "xs = ys \<Longrightarrow> s = t \<Longrightarrow> (\<And>x s. x \<in> set ys \<Longrightarrow> f x s = g x s) \<Longrightarrow> foldO f xs s = foldO g ys t"
proof (induction xs arbitrary: ys s t)
  case (Cons x xs)
  then show ?case by (auto intro!: bindO_cong)
qed simp

lemma foldO_invariant:
  assumes "foldO f xs s = Some (Inr s')" and "P s"
    and "\<And>x s s'. x \<in> set xs \<Longrightarrow> P s \<Longrightarrow> f x s = Some (Inr s') \<Longrightarrow> P s'"
  shows "P s'"
  using assms by (induction xs arbitrary: s) (auto simp: bindO_eq_Inr)

definition next_op :: "TransactionEvaluationState \<times> chain \<Rightarrow> contract_result" where
  "next_op stch = Some (Inr ((fst stch)\<lparr>current_op_index := current_op_index (fst stch) + 1\<rparr>, snd stch))"

definition as_transaction :: "Operation \<Rightarrow> SignedTransaction option" where
  "as_transaction op = (case op of transaction_op t \<Rightarrow> Some t | _ \<Rightarrow> None)"

lemma as_transaction_Some [simp]: "as_transaction op = Some t \<longleftrightarrow> op = transaction_op t"
  by (cases op) (simp_all add: as_transaction_def)

lemma as_transaction_None: "as_transaction op = None \<longleftrightarrow> op_type op \<noteq> 90"
  by (cases op) (simp_all add: as_transaction_def)

lemma size_operation_less: "op \<in> set (operations t) \<Longrightarrow> size op < size t"
  by (cases t) (auto simp: size_list_estimation' less_Suc_eq_le add.commute trans_le_add1)

text \<open>\<open>evaluate_operation\<close> dispatches; a \<open>TransactionOperation\<close> evaluates the transaction it holds in the
  same state and links the two transaction ids.\<close>

function evaluate ::
    "contract_env \<Rightarrow> env \<Rightarrow> bool \<Rightarrow> SignedTransaction \<Rightarrow> TransactionEvaluationState \<Rightarrow> chain \<Rightarrow> contract_result"
  and evaluate_operation ::
    "contract_env \<Rightarrow> env \<Rightarrow> Operation \<Rightarrow> TransactionEvaluationState \<times> chain \<Rightarrow> contract_result" where
  "evaluate CE E ignore_state trx_arg st ch =
    bindO (Some (evaluate_prepare E trx_arg st)) (\<lambda>st.
    bindO
      (if operations trx_arg \<noteq> [] \<and> op_type (hd (operations trx_arg)) = 90
       then
         bindO (evaluate_operation CE E (hd (operations trx_arg)) (st, ch)) (\<lambda>stch.
         bindO (next_op stch) (\<lambda>(st, ch).
         if \<not> skipexec st \<and> result_trx_id trx_arg \<noteq> trx_id (env_trx_hash E) (p_result_trx st)
         then Some (Inl fc_assert)
         else bindO (foldO (\<lambda>op stch. bindO (evaluate_operation CE E op stch) next_op) (tl (operations trx_arg))
                       (st\<lparr>evaluate_contract_result := True\<rparr>, ch)) (\<lambda>(st, ch).
           Some (finish_result_transaction E trx_arg st ch))))
       else
         bindO (foldO (\<lambda>op stch. bindO (evaluate_operation CE E op stch) next_op) (operations trx_arg) (st, ch))
           (\<lambda>stch. Some (Inr (stch, trx_arg)))) (\<lambda>((st, ch), result_trx).
    Some (evaluate_finish E ignore_state trx_arg result_trx st ch)))"
| "evaluate_operation CE E op stch =
    (case as_transaction op of
       Some t \<Rightarrow>
         (let rid = result_trx_id (trx (fst stch)); tid = trx_id (env_trx_hash E) t in
          bindO (evaluate CE E True t (fst stch) (snd stch)) (\<lambda>(st, ch).
          bindO (Some (resultid_store tid \<lparr>res = rid\<rparr> ch)) (\<lambda>ch.
          bindO (Some (requestid_store rid \<lparr>req = tid\<rparr> ch)) (\<lambda>ch. Some (Inr (st, ch))))))
     | None \<Rightarrow> evaluate_basic_operation CE E op (fst stch) (snd stch))"
  by pat_completeness auto

termination
  by (relation "measure (\<lambda>x. case x of Inl (CE, E, i, t, st, ch) \<Rightarrow> size t | Inr (CE, E, op, stch) \<Rightarrow> size op)")
    (auto intro!: size_operation_less dest: list.set_sel)

text \<open>\<open>sandbox_evaluate\<close>; \<open>op_hash\<close> is the hash of a packed operation, the boolean result the reference
  argument \<open>ignore_check_required_fee\<close>.\<close>

definition sandbox_prepare ::
  "env \<Rightarrow> SignedTransaction \<Rightarrow> TransactionEvaluationState \<Rightarrow> chain \<Rightarrow> TransactionEvaluationState result" where
  "sandbox_prepare E trx_arg st ch =
    (let st = st\<lparr>trx := trx_arg\<rparr> in
     if env_now E \<ge> expiration trx_arg then Inl expired_transaction
     else if env_now E + word_of_int ALP_BLOCKCHAIN_MAX_TRANSACTION_EXPIRATION_SEC < expiration trx_arg
     then Inl invalid_transaction_expiration
     else if is_known_transaction E ch trx_arg then Inl duplicate_transaction
     else if \<not> check_operations_legality trx_arg then Inl illegal_transaction
     else bindE (if skip_signature_check st then Inr st
                 else foldE (\<lambda>sig. add_signed_keys E sig trx_arg) (signatures trx_arg) st)
       (\<lambda>st. Inr (st\<lparr>current_op_index := 0\<rparr>)))"

definition sandbox_evaluate ::
  "contract_env \<Rightarrow> (Operation \<Rightarrow> 160 word) \<Rightarrow> env \<Rightarrow> SignedTransaction \<Rightarrow> bool \<Rightarrow> TransactionEvaluationState \<Rightarrow> chain \<Rightarrow>
   ((SignedTransaction \<times> bool) \<times> TransactionEvaluationState \<times> chain) result option" where
  "sandbox_evaluate CE op_hash E trx_arg ignore st ch =
    bindO (Some (sandbox_prepare E trx_arg st ch)) (\<lambda>st.
    let ops = operations trx_arg;
        ignore = (ignore \<or> length ops = 1 \<and> op_type (hd ops) \<ge> 70 \<and> op_type (hd ops) \<le> 74)
    in bindO
         (if ops \<noteq> [] \<and> op_type (hd ops) = 90
          then
            bindO (evaluate_operation CE E (hd ops) (st, ch)) (\<lambda>stch.
            bindO (next_op stch) (\<lambda>(st, ch).
            if \<not> skipexec st \<and> \<not> is_contract_trxs_same op_hash trx_arg (p_result_trx st)
            then Some (Inl fc_assert)
            else bindO (foldO (\<lambda>op stch. bindO (evaluate_operation CE E op stch) next_op) (tl ops)
                          (st\<lparr>evaluate_contract_result := True\<rparr>, ch)) (\<lambda>(st, ch).
              Some (Inr (resize_result 0 (st\<lparr>evaluate_contract_result := False\<rparr>), ch)))))
          else foldO (\<lambda>op stch. bindO (evaluate_operation CE E op stch) next_op) ops (st, ch)) (\<lambda>(st, ch).
       bindO (Some (if ignore then Inr (st, ch) else check_fees E st ch)) (\<lambda>(st, ch).
       let st = st\<lparr>trx := trx_arg\<rparr>; st = expire_result st in
       Some (Inr ((p_result_trx st, ignore), st, ch)))))"

end
