(* ===== verification/Ledger.thy ===== *)
theory Ledger
  imports Evaluate
begin

text \<open>
  Accounting. The shares of an asset are held in balances, in the fees the asset has collected and, for
  the base asset, in the pay balances of delegates; what a transaction has taken out of these and not
  yet put back is the ledger of its evaluation state. The theorems show that no operation creates or
  destroys shares: the difference between the issued supply and the holdings changes only through the
  ledger, and the final fee processing empties the ledger into the collected fees.
\<close>

section \<open>Sums over maps\<close>

definition map_sum :: "('e \<Rightarrow> int) \<Rightarrow> ('k \<Rightarrow> 'e option) \<Rightarrow> int" where
  "map_sum f m = (\<Sum>k \<in> dom m. f (the (m k)))"

definition entry_amount :: "('e \<Rightarrow> int) \<Rightarrow> 'e option \<Rightarrow> int" where
  "entry_amount f e = (case e of None \<Rightarrow> 0 | Some x \<Rightarrow> f x)"

lemma entry_amount_simps [simp]: "entry_amount f None = 0" "entry_amount f (Some x) = f x"
  by (simp_all add: entry_amount_def)

lemma map_sum_update:
  assumes "finite (dom m)"
  shows "map_sum f (m(k \<mapsto> e)) = map_sum f m - entry_amount f (m k) + f e"
proof -
  have "map_sum f (m(k \<mapsto> e)) = f e + (\<Sum>x \<in> dom m - {k}. f (the (m x)))"
    using assms by (simp add: map_sum_def sum.insert_remove)
  moreover have "map_sum f m = entry_amount f (m k) + (\<Sum>x \<in> dom m - {k}. f (the (m x)))"
    using assms by (cases "m k") (auto simp: map_sum_def domIff sum.remove [of "dom m" k])
  ultimately show ?thesis by simp
qed


section \<open>Holdings\<close>

definition balance_of_asset :: "AssetIdType \<Rightarrow> BalanceEntry \<Rightarrow> int" where
  "balance_of_asset a b = (if wc_asset_id (be_condition b) = a then be_balance b else 0)"

definition account_pay :: "AccountEntry \<Rightarrow> int" where
  "account_pay x = (case delegate_info x of None \<Rightarrow> 0 | Some d \<Rightarrow> pay_balance d)"

definition holdings :: "chain_view \<Rightarrow> AssetIdType \<Rightarrow> int" where
  "holdings v a =
    map_sum (balance_of_asset a) (v_balance v) + entry_amount collected_fees (v_asset v a) +
    (if a = 0 then map_sum account_pay (v_account v) else 0)"

definition issued :: "chain_view \<Rightarrow> AssetIdType \<Rightarrow> int" where
  "issued v a = entry_amount current_share_supply (v_asset v a)"

text \<open>Issued shares that nobody holds.\<close>

definition unheld :: "chain_view \<Rightarrow> AssetIdType \<Rightarrow> int" where
  "unheld v a = issued v a - holdings v a"

definition ledger :: "TransactionEvaluationState \<Rightarrow> AssetIdType \<Rightarrow> int" where
  "ledger st a = map_amount (balance st) a"

text \<open>Entries are stored under their own key and their amounts are 64-bit values; the counter of account
  ids is ahead of every account and has room for \<open>m\<close> more.\<close>

definition account_room :: "nat \<Rightarrow> chain_view \<Rightarrow> bool" where
  "account_room m v \<longleftrightarrow>
    (\<exists>n. v_property v last_account_id = Some \<lparr>pr_id = last_account_id, pr_value = int_variant n\<rparr> \<and>
      0 \<le> n \<and> n + int m < 2147483648 \<and> (\<forall>i x. v_account v i = Some x \<longrightarrow> i \<le> n))"

definition books :: "env \<Rightarrow> nat \<Rightarrow> chain_view \<Rightarrow> bool" where
  "books E m v \<longleftrightarrow>
    finite (dom (v_balance v)) \<and> finite (dom (v_account v)) \<and>
    (\<forall>k b. v_balance v k = Some b \<longrightarrow> env_cond_addr E (be_condition b) = k \<and> in_int64 (be_balance b)) \<and>
    (\<forall>i x. v_account v i = Some x \<longrightarrow> ac_id x = i \<and> in_int64 (account_pay x)) \<and>
    (\<forall>i x. v_asset v i = Some x \<longrightarrow>
      as_id x = i \<and> in_int64 (current_share_supply x) \<and> in_int64 (collected_fees x)) \<and>
    account_room m v"

lemma books_Suc: "books E (Suc m) v \<Longrightarrow> books E m v"
  by (auto simp: books_def account_room_def)

lemma books_balance:
  "books E m (view ch) \<Longrightarrow> get_balance_entry ch k = Some b \<Longrightarrow>
    env_cond_addr E (be_condition b) = k \<and> in_int64 (be_balance b)"
  by (simp add: books_def view_chain_accessors)

lemma books_account:
  "books E m (view ch) \<Longrightarrow> get_account_entry ch k = Some b \<Longrightarrow> ac_id b = k \<and> in_int64 (account_pay b)"
  by (simp add: books_def view_chain_accessors)

lemma books_asset:
  "books E m (view ch) \<Longrightarrow> get_asset_entry ch k = Some b \<Longrightarrow>
    as_id b = k \<and> in_int64 (current_share_supply b) \<and> in_int64 (collected_fees b)"
  by (simp add: books_def view_chain_accessors)


section \<open>Stores\<close>

lemma store_balance_books:
  assumes "store_balance_entry E b' ch = Inr ch'" and "books E m (view ch)"
    and "be_condition b' = be_condition b" and "in_int64 (be_balance b')"
    and "get_balance_entry ch (env_cond_addr E (be_condition b)) = Some b \<or>
      get_balance_entry ch (env_cond_addr E (be_condition b)) = None \<and> be_balance b = 0"
  shows "books E m (view ch')"
    and "unheld (view ch') a = unheld (view ch) a -
      (if a = wc_asset_id (be_condition b) then be_balance b' - be_balance b else 0)"
proof -
  note v = view_store_balance_entry [OF assms(1)]
  show "books E m (view ch')"
    using assms(2-4) by (auto simp: v books_def account_room_def split: if_splits)
  have "entry_amount (balance_of_asset a) (v_balance (view ch) (env_cond_addr E (be_condition b))) =
      balance_of_asset a b"
    using assms(5) by (auto simp: view_chain_accessors balance_of_asset_def)
  then show "unheld (view ch') a = unheld (view ch) a -
      (if a = wc_asset_id (be_condition b) then be_balance b' - be_balance b else 0)"
    using assms(2,3) by (simp add: v unheld_def issued_def holdings_def map_sum_update books_def balance_of_asset_def)
qed

lemma store_account_books:
  assumes "store_account_entry E x' ch = Inr ch'" and "books E m (view ch)"
    and "ac_id x' = i" and "in_int64 (account_pay x')" and "get_account_entry ch i = Some x"
  shows "books E m (view ch')"
    and "unheld (view ch') a = unheld (view ch) a - (if a = 0 then account_pay x' - account_pay x else 0)"
proof -
  note v = view_store_account_entry [OF assms(1)]
  show "books E m (view ch')"
    using assms(2-5)
    by (auto simp: v books_def account_room_def view_chain_accessors split: if_splits)
  show "unheld (view ch') a = unheld (view ch) a - (if a = 0 then account_pay x' - account_pay x else 0)"
    using assms(2,3,5)
    by (simp add: v unheld_def issued_def holdings_def map_sum_update books_def view_chain_accessors)
qed

lemma store_asset_books:
  assumes "store_asset_entry x' ch = Inr ch'" and "books E m (view ch)" and "as_id x' = i"
    and "in_int64 (current_share_supply x')" "in_int64 (collected_fees x')"
  shows "books E m (view ch')"
    and "unheld (view ch') a = unheld (view ch) a + (if a = i then
      current_share_supply x' - entry_amount current_share_supply (get_asset_entry ch i) -
      (collected_fees x' - entry_amount collected_fees (get_asset_entry ch i)) else 0)"
proof -
  note v = view_store_asset_entry [OF assms(1)]
  show "books E m (view ch')"
    using assms(2-5) by (auto simp: v books_def account_room_def split: if_splits)
  show "unheld (view ch') a = unheld (view ch) a + (if a = i then
      current_share_supply x' - entry_amount current_share_supply (get_asset_entry ch i) -
      (collected_fees x' - entry_amount collected_fees (get_asset_entry ch i)) else 0)"
    using assms(3) by (auto simp: v unheld_def issued_def holdings_def view_chain_accessors)
qed

lemma store_property_books:
  assumes "store_property_entry k x ch = Inr ch'" and "books E m (view ch)" and "k \<noteq> last_account_id"
  shows "books E m (view ch')" and "unheld (view ch') a = unheld (view ch) a"
  using assms(2,3)
  by (auto simp: view_store_property_entry [OF assms(1)] books_def account_room_def unheld_def issued_def holdings_def)

lemma store_slate_books:
  assumes "store_slate_entry E s ch = Inr ch'" and "books E m (view ch)"
  shows "books E m (view ch')" and "unheld (view ch') a = unheld (view ch) a"
  using assms(2)
  by (auto simp: view_store_slate_entry [OF assms(1)] books_def account_room_def unheld_def issued_def holdings_def)

lemma store_transaction_books:
  assumes "transaction_store E k t ch = Inr ch'" and "books E m (view ch)"
  shows "books E m (view ch')" and "unheld (view ch') a = unheld (view ch) a"
  using assms(2) transaction_db.view_store [OF assms(1)]
  by (auto simp: books_def account_room_def unheld_def issued_def holdings_def)

section \<open>The ledger of a transaction\<close>

lemma sorted_omap_update_strict:
  "sorted_wrt (<) (map fst m) \<Longrightarrow> sorted_wrt (<) (map fst (omap_update k v m))"
proof (induction m)
  case (Cons kv m)
  obtain k1 v1 where kv: "kv = (k1, v1)" by (cases kv)
  have "x \<in> fst ` set (omap_update k v m) \<Longrightarrow> k1 < x" if "k1 < k" for x
    using Cons.prems that kv by (auto simp: set_omap_update_keys)
  then show ?case using Cons kv by (auto simp: image_iff)
qed simp

text \<open>The three maps of the ledger agree: the balance of an asset is what was withdrawn minus what was
  deposited, and all values are in range.\<close>

definition ledger_ok :: "TransactionEvaluationState \<Rightarrow> bool" where
  "ledger_ok st \<longleftrightarrow>
    sorted_wrt (<) (map fst (balance st)) \<and>
    (\<forall>a. in_int64 (map_amount (balance st) a) \<and> in_int64 (map_amount (withdraws st) a) \<and>
      in_int64 (map_amount (deposits st) a) \<and>
      map_amount (balance st) a + map_amount (deposits st) a = map_amount (withdraws st) a)"

lemma safe_add_Inr: "safe_add a b = Inr c \<Longrightarrow> in_int64 a \<Longrightarrow> in_int64 b \<Longrightarrow> c = a + b \<and> in_int64 c"
  by (auto simp: safe_add_exact split: if_splits)

lemma safe_sub_Inr: "safe_sub a b = Inr c \<Longrightarrow> in_int64 a \<Longrightarrow> in_int64 b \<Longrightarrow> c = a - b \<and> in_int64 c"
  by (auto simp: safe_sub_exact split: if_splits)

lemma ledger_okD:
  assumes "ledger_ok st"
  shows "in_int64 (map_amount (balance st) a)" "in_int64 (map_amount (withdraws st) a)"
    "in_int64 (map_amount (deposits st) a)"
  using assms by (simp_all add: ledger_ok_def)

lemma sub_balance_ledger:
  assumes "sub_balance x st = Inr st'" and "ledger_ok st" and "in_int64 (amount x)"
  shows "ledger_ok st'" and "ledger st' a = ledger st a - (if a = asset_id x then amount x else 0)"
proof -
  from assms(1) obtain b d l where *: "safe_sub (map_amount (balance st) (asset_id x)) (amount x) = Inr b"
      "safe_add (map_amount (deposits st) (asset_id x)) (amount x) = Inr d"
      "st' = st\<lparr>balance := omap_update (asset_id x) b (balance st),
        deposits := AList.update (asset_id x) d (deposits st),
        deltas := set_delta (current_op_index st) (asset_id x) l st\<rparr>"
    by (auto simp: sub_balance_def Let_def bindE_eq_Inr)
  have "b = map_amount (balance st) (asset_id x) - amount x \<and> in_int64 b"
    by (rule safe_sub_Inr [OF *(1) ledger_okD(1) [OF assms(2)] assms(3)])
  moreover have "d = map_amount (deposits st) (asset_id x) + amount x \<and> in_int64 d"
    by (rule safe_add_Inr [OF *(2) ledger_okD(3) [OF assms(2)] assms(3)])
  ultimately show "ledger_ok st'" "ledger st' a = ledger st a - (if a = asset_id x then amount x else 0)"
    using assms(2) by (auto simp: *(3) ledger_ok_def ledger_def sorted_omap_update_strict)
qed

lemma add_balance_ledger:
  assumes "add_balance x st = Inr st'" and "ledger_ok st" and "in_int64 (amount x)"
  shows "ledger_ok st'" and "ledger st' a = ledger st a + (if a = asset_id x then amount x else 0)"
proof -
  from assms(1) obtain b d l where *: "safe_add (map_amount (balance st) (asset_id x)) (amount x) = Inr b"
      "safe_add (map_amount (withdraws st) (asset_id x)) (amount x) = Inr d"
      "st' = st\<lparr>balance := omap_update (asset_id x) b (balance st),
        withdraws := AList.update (asset_id x) d (withdraws st),
        deltas := set_delta (current_op_index st) (asset_id x) l st\<rparr>"
    by (auto simp: add_balance_def Let_def bindE_eq_Inr)
  have "b = map_amount (balance st) (asset_id x) + amount x \<and> in_int64 b"
    by (rule safe_add_Inr [OF *(1) ledger_okD(1) [OF assms(2)] assms(3)])
  moreover have "d = map_amount (withdraws st) (asset_id x) + amount x \<and> in_int64 d"
    by (rule safe_add_Inr [OF *(2) ledger_okD(2) [OF assms(2)] assms(3)])
  ultimately show "ledger_ok st'" "ledger st' a = ledger st a + (if a = asset_id x then amount x else 0)"
    using assms(2) by (auto simp: *(3) ledger_ok_def ledger_def sorted_omap_update_strict)
qed

text \<open>Parts of the state that do not touch the ledger.\<close>

definition same_ledger :: "TransactionEvaluationState \<Rightarrow> TransactionEvaluationState \<Rightarrow> bool" where
  "same_ledger st st' \<longleftrightarrow> balance st' = balance st \<and> withdraws st' = withdraws st \<and> deposits st' = deposits st"

lemma same_ledger_refl: "same_ledger s s"
  by (simp add: same_ledger_def)

lemma same_ledger_trans: "same_ledger s t \<Longrightarrow> same_ledger t u \<Longrightarrow> same_ledger s u"
  by (simp add: same_ledger_def)

lemma same_ledgerD:
  assumes "same_ledger st st'"
  shows "ledger st' = ledger st" and "ledger_ok st' \<longleftrightarrow> ledger_ok st"
  using assms by (simp_all add: same_ledger_def ledger_def fun_eq_iff ledger_ok_def)

lemma add_vote_delta_ledger: "add_vote_delta n i st = Inr st' \<Longrightarrow> same_ledger st st'"
  by (auto simp: add_vote_delta_def bindE_eq_Inr same_ledger_def)

lemma foldE_same_ledger:
  assumes "foldE f xs st = Inr st'" and "\<And>x s s'. f x s = Inr s' \<Longrightarrow> same_ledger s s'"
  shows "same_ledger st st'"
  by (rule foldE_invariant [OF assms(1), where P = "same_ledger st"])
    (auto intro: same_ledger_trans assms(2) simp: same_ledger_refl)

lemma add_vote_deltas_ledger:
  "foldE (\<lambda>i st. if i \<ge> 0 then add_vote_delta n i st else Inr st) xs st = Inr st' \<Longrightarrow> same_ledger st st'"
  "foldE (add_vote_delta n) xs st = Inr st' \<Longrightarrow> same_ledger st st'"
  by (erule foldE_same_ledger, auto simp: same_ledger_refl dest: add_vote_delta_ledger split: if_splits)+

lemma adjust_vote_ledger: "adjust_vote s n ch st = Inr st' \<Longrightarrow> same_ledger st st'"
  by (auto simp: adjust_vote_def same_ledger_refl dest: add_vote_deltas_ledger split: if_splits option.splits)

lemma adjust_vote_of_ledger: "adjust_vote_of c n ch st = Inr st' \<Longrightarrow> same_ledger st st'"
  by (auto simp: adjust_vote_of_def same_ledger_def dest: adjust_vote_ledger split: if_splits)

lemma note_deposit_address_ledger: "note_deposit_address w st = Inr st' \<Longrightarrow> same_ledger st st'"
  by (auto simp: note_deposit_address_def same_ledger_def split: if_splits option.splits)


section \<open>Conserving operations\<close>

definition conserved ::
  "TransactionEvaluationState \<Rightarrow> chain \<Rightarrow> TransactionEvaluationState \<Rightarrow> chain \<Rightarrow> bool" where
  "conserved st ch st' ch' \<longleftrightarrow>
    (\<forall>a. unheld (view ch') a - ledger st' a = unheld (view ch) a - ledger st a)"

lemma conserved_refl [simp]: "conserved st ch st ch"
  by (simp add: conserved_def)

lemma conserved_trans: "conserved st ch s c \<Longrightarrow> conserved s c st' ch' \<Longrightarrow> conserved st ch st' ch'"
  by (simp add: conserved_def)

lemma next_op_pair:
  "next_op (st, ch) = Some (Inr (st\<lparr>current_op_index := current_op_index st + 1\<rparr>, ch))"
  by (simp add: next_op_def)

text \<open>The contract of an operation: started on consistent books it keeps them and moves shares only
  between the chain and the ledger of the transaction.\<close>

locale conserving =
  fixes E :: env and ok :: "'op \<Rightarrow> bool"
    and eval :: "'op \<Rightarrow> TransactionEvaluationState \<times> chain \<Rightarrow> contract_result"
  assumes step: "ok op \<Longrightarrow> eval op (st, ch) = Some (Inr (st', ch')) \<Longrightarrow> books E (Suc m) (view ch) \<Longrightarrow>
    ledger_ok st \<Longrightarrow> books E m (view ch') \<and> ledger_ok st' \<and> conserved st ch st' ch'"
begin

text \<open>The loop over the operations of a transaction.\<close>

lemma loop:
  "foldO (\<lambda>op stch. bindO (eval op stch) next_op) ops (st, ch) = Some (Inr (st', ch')) \<Longrightarrow>
    \<forall>op \<in> set ops. ok op \<Longrightarrow> books E (length ops + m) (view ch) \<Longrightarrow> ledger_ok st \<Longrightarrow>
    books E m (view ch') \<and> ledger_ok st' \<and> conserved st ch st' ch'"
proof (induction ops arbitrary: st ch)
  case (Cons op ops)
  from Cons.prems(1) obtain st1 ch1 where 1: "eval op (st, ch) = Some (Inr (st1, ch1))"
    and rest: "foldO (\<lambda>op stch. bindO (eval op stch) next_op) ops
      (st1\<lparr>current_op_index := current_op_index st1 + 1\<rparr>, ch1) = Some (Inr (st', ch'))"
    by (auto simp: bindO_eq_Inr next_op_pair)
  have "books E (length ops + m) (view ch1) \<and> ledger_ok st1 \<and> conserved st ch st1 ch1"
    using step [OF _ 1, of "length ops + m"] Cons.prems(2-4) by simp
  moreover have "same_ledger st1 (st1\<lparr>current_op_index := current_op_index st1 + 1\<rparr>)"
    by (simp add: same_ledger_def)
  note same_ledgerD [OF this]
  ultimately show ?case using Cons.IH [OF rest] Cons.prems(2) by (simp add: conserved_def)
qed simp

end

lemma deposit_entry_old:
  "be_balance (deposit_entry E st ch c) = 0 \<and> get_balance_entry ch (env_cond_addr E c) = None \<and>
      be_condition (deposit_entry E st ch c) = c \<or>
    get_balance_entry ch (env_cond_addr E c) = Some (deposit_entry E st ch c)"
  by (auto simp: deposit_entry_def BalanceEntry_of_condition_def Let_def
      split: option.splits WithdrawData.splits)

lemma deposit_conserves:
  assumes e: "deposit_evaluate E op st ch = Inr (st', ch')" and bk: "books E m (view ch)"
    and lo: "ledger_ok st" and r: "in_int64 (dp_amount op)"
  shows "books E m (view ch') \<and> ledger_ok st' \<and> conserved st ch st' ch'"
proof -
  define st0 where "st0 = st\<lparr>deposit_count := deposit_count st + 1\<rparr>"
  define cur where "cur = deposit_entry E st0 ch (dp_condition op)"
  from e obtain st1 st2 date nb where
      1: "note_deposit_address (balance_owner cur) st0 = Inr st1"
    and nb: "safe_add (be_balance cur) (dp_amount op) = Inr nb"
    and 2: "sub_balance \<lparr>amount = dp_amount op, asset_id = wc_asset_id (be_condition cur)\<rparr> st1 = Inr st2"
    and 3: "adjust_vote_of (be_condition cur) (dp_amount op) ch st2 = Inr st'"
    and s: "store_balance_entry E (cur\<lparr>be_deposit_date := date, be_balance := nb,
        be_last_update := env_now E\<rparr>) ch = Inr ch'"
    unfolding deposit_evaluate_def Let_def cur_def st0_def by (auto simp: bindE_eq_Inr split: if_splits)
  have cur: "get_balance_entry ch (env_cond_addr E (be_condition cur)) = Some cur \<or>
      get_balance_entry ch (env_cond_addr E (be_condition cur)) = None \<and> be_balance cur = 0"
    and cr: "in_int64 (be_balance cur)"
    using deposit_entry_old [of E st0 ch "dp_condition op"] books_balance [OF bk] by (auto simp: cur_def)
  note n = safe_add_Inr [OF nb cr r]
  have "same_ledger st st1"
    using note_deposit_address_ledger [OF 1] by (simp add: same_ledger_def st0_def)
  note st1 = same_ledgerD [OF this]
  note st2 = sub_balance_ledger [OF 2 st1(2) [THEN iffD2, OF lo], simplified, OF r]
  note st3 = same_ledgerD [OF adjust_vote_of_ledger [OF 3]]
  note b = store_balance_books [OF s bk _ _ cur, simplified, OF n [THEN conjunct2]]
  show ?thesis using n st1 st2 st3 b by (simp add: conserved_def)
qed

lemma note_owner_ledger: "same_ledger st (note_owner_not_usedup cur st)"
  by (simp add: note_owner_not_usedup_def same_ledger_def split: option.splits)

lemma withdraw_conserves:
  assumes e: "withdraw_evaluate E op st ch = Inr (st', ch')" and bk: "books E m (view ch)"
    and lo: "ledger_ok st" and r: "in_int64 (wd_amount op)"
  shows "books E m (view ch') \<and> ledger_ok st' \<and> conserved st ch st' ch'"
proof -
  from e obtain cur st1 st2 t where
      cur: "get_balance_entry ch (wd_balance_id op) = Some cur"
    and 1: "adjust_vote_of (be_condition cur) (s64 (- wd_amount op)) ch st = Inr st1"
    and t: "safe_sub (be_balance cur) (wd_amount op) = Inr t"
    and 2: "add_balance \<lparr>amount = wd_amount op, asset_id = wc_asset_id (be_condition cur)\<rparr> st1 = Inr st2"
    and s: "store_balance_entry E (cur\<lparr>be_balance := t, be_last_update := env_now E\<rparr>) ch = Inr ch'"
    and st': "st' = note_owner_not_usedup (cur\<lparr>be_balance := t\<rparr>) st2"
    unfolding withdraw_evaluate_def Let_def
    by (auto simp: bindE_eq_Inr split: if_splits option.splits)
  have 3: "same_ledger st2 st'" unfolding st' by (rule note_owner_ledger)
  note c = books_balance [OF bk cur]
  note n = safe_sub_Inr [OF t c [THEN conjunct2] r]
  note st1 = same_ledgerD [OF adjust_vote_of_ledger [OF 1]]
  note st2 = add_balance_ledger [OF 2 st1(2) [THEN iffD2, OF lo], simplified, OF r]
  have old: "get_balance_entry ch (env_cond_addr E (be_condition cur)) = Some cur \<or>
      get_balance_entry ch (env_cond_addr E (be_condition cur)) = None \<and> be_balance cur = 0"
    using cur c by simp
  note b = store_balance_books [OF s bk _ _ old, simplified, OF n [THEN conjunct2]]
  show ?thesis using n st1 st2 same_ledgerD [OF 3] b by (simp add: conserved_def)
qed

lemma account_has_delegate_pay: "delegate_info x = Some d \<Longrightarrow> account_pay x = pay_balance d"
  by (simp add: account_pay_def)

lemma withdraw_pay_conserves:
  assumes e: "withdraw_pay_evaluate E op st ch = Inr (st', ch')" and bk: "books E m (view ch)"
    and lo: "ledger_ok st" and r: "in_int64 (wp_amount op)"
  shows "books E m (view ch') \<and> ledger_ok st' \<and> conserved st ch st' ch'"
proof -
  from e obtain x d pb v where
      x: "get_account_entry ch \<bar>wp_account_id op\<bar> = Some x" "delegate_info x = Some d"
    and pb: "safe_sub (pay_balance d) (wp_amount op) = Inr pb"
    and 1: "add_balance \<lparr>amount = wp_amount op, asset_id = 0\<rparr>
        (st\<lparr>delegate_vote_deltas := AList.update \<bar>wp_account_id op\<bar> v (delegate_vote_deltas st)\<rparr>) = Inr st'"
    and s: "store_account_entry E (x\<lparr>delegate_info := Some (d\<lparr>pay_balance := pb\<rparr>)\<rparr>) ch = Inr ch'"
    unfolding withdraw_pay_evaluate_def Let_def
    by (auto simp: bindE_eq_Inr split: if_splits option.splits)
  note c = books_account [OF bk x(1)]
  note n = safe_sub_Inr [OF pb c [THEN conjunct2, unfolded account_has_delegate_pay [OF x(2)]] r]
  have "same_ledger st (st\<lparr>delegate_vote_deltas := AList.update \<bar>wp_account_id op\<bar> v (delegate_vote_deltas st)\<rparr>)"
    by (simp add: same_ledger_def)
  note st0 = same_ledgerD [OF this]
  note st1 = add_balance_ledger [OF 1 st0(2) [THEN iffD2, OF lo], simplified, OF r]
  note b = store_account_books [OF s bk _ _ x(1)]
  show ?thesis using n c x(2) st1 st0 b by (auto simp: conserved_def account_pay_def)
qed

lemma can_issue_exact:
  assumes "can_issue x y" "in_int64 (current_share_supply x)" "in_int64 (amount y)"
  shows "s64 (current_share_supply x + amount y) = current_share_supply x + amount y"
    and "current_share_supply x + amount y \<le> maximum_share_supply x"
proof -
  have pos: "0 < amount y" and grow: "s64 (current_share_supply x + amount y) > current_share_supply x"
    and top: "s64 (current_share_supply x + amount y) \<le> maximum_share_supply x"
    using assms(1) by (auto simp: can_issue_def can_issue_amount_def Let_def split: if_splits)
  show e: "s64 (current_share_supply x + amount y) = current_share_supply x + amount y"
  proof (rule ccontr)
    assume "\<not> ?thesis"
    then have "\<not> in_int64 (current_share_supply x + amount y)" using s64_id by blast
    then have "s64 (current_share_supply x + amount y) =
        current_share_supply x + amount y - 18446744073709551616"
      using assms(2,3) pos by (intro s64_over) (simp_all add: arith_defs)
    then show False using grow assms(3) by (simp add: arith_defs)
  qed
  show "current_share_supply x + amount y \<le> maximum_share_supply x" using top e by simp
qed

lemma issue_asset_conserves:
  assumes e: "issue_asset_evaluate y E st ch = Inr (st', ch')" and bk: "books E m (view ch)"
    and lo: "ledger_ok st" and r: "in_int64 (amount y)"
  shows "books E m (view ch') \<and> ledger_ok st' \<and> conserved st ch st' ch'"
proof -
  from e obtain x where x: "get_asset_entry ch (asset_id y) = Some x" "can_issue x y"
    and 1: "add_balance y st = Inr st'"
    and s: "store_asset_entry (x\<lparr>current_share_supply := s64 (current_share_supply x + amount y),
        as_last_update := env_now E\<rparr>) ch = Inr ch'"
    unfolding issue_asset_evaluate_def Let_def
    by (auto simp: bindE_eq_Inr split: if_splits option.splits)
  note c = books_asset [OF bk x(1)]
  have n: "s64 (current_share_supply x + amount y) = current_share_supply x + amount y"
    using can_issue_exact(1) [OF x(2)] c r by simp
  have i: "in_int64 (current_share_supply x + amount y)" using n in_int64_s64 by metis
  note st1 = add_balance_ledger [OF 1 lo r]
  note b = store_asset_books [OF s bk]
  show ?thesis using n i c x(1) st1 b by (auto simp: conserved_def)
qed

text \<open>Asset updates keep supply and fees.\<close>

lemma store_asset_same:
  assumes "store_asset_entry x' ch = Inr ch'" and "books E m (view ch)"
    and "get_asset_entry ch i = Some x" and "as_id x' = as_id x"
    and "current_share_supply x' = current_share_supply x" "collected_fees x' = collected_fees x"
  shows "books E m (view ch') \<and> (\<forall>a. unheld (view ch') a = unheld (view ch) a)"
  using store_asset_books [OF assms(1,2)] books_asset [OF assms(2,3)] assms(3-) by simp

definition asset_core :: "AssetEntry \<Rightarrow> AssetIdType \<times> int \<times> int \<times> 32 word \<times> 32 word \<times> AccountIdType" where
  "asset_core x = (as_id x, current_share_supply x, collected_fees x, as_issuer_permissions x, as_flags x,
    as_issuer_account_id x)"

lemma update_asset_fields_same:
  "update_asset_fields op x = Inr x' \<Longrightarrow> as_id x' = as_id x \<and>
    current_share_supply x' = current_share_supply x \<and> collected_fees x' = collected_fees x \<and>
    as_issuer_permissions x' = as_issuer_permissions x \<and> as_flags x' = as_flags x \<and>
    as_issuer_account_id x' = as_issuer_account_id x"
proof -
  assume "update_asset_fields op x = Inr x'"
  then obtain c1 c2 where
      1: "(case up_name op of
             Some n \<Rightarrow> if n = '''' then Inl invalid_asset_name else Inr (x\<lparr>as_name := n\<rparr>)
           | None \<Rightarrow> Inr x) = Inr c1"
    and 2: "(case up_maximum_share_supply op of
                Some m \<Rightarrow> if m \<le> 0 \<or> m > ALP_BLOCKCHAIN_MAX_SHARES then Inl invalid_asset_amount
                  else Inr ((case up_public_data op of
                    Some d \<Rightarrow> (case up_description op of Some d \<Rightarrow> c1\<lparr>as_description := d\<rparr> | None \<Rightarrow> c1)\<lparr>as_public_data := d\<rparr>
                  | None \<Rightarrow> (case up_description op of Some d \<Rightarrow> c1\<lparr>as_description := d\<rparr> | None \<Rightarrow> c1))\<lparr>maximum_share_supply := m\<rparr>)
              | None \<Rightarrow> Inr (case up_public_data op of
                    Some d \<Rightarrow> (case up_description op of Some d \<Rightarrow> c1\<lparr>as_description := d\<rparr> | None \<Rightarrow> c1)\<lparr>as_public_data := d\<rparr>
                  | None \<Rightarrow> (case up_description op of Some d \<Rightarrow> c1\<lparr>as_description := d\<rparr> | None \<Rightarrow> c1))) = Inr c2"
    and 3: "(case up_precision op of
         Some p \<Rightarrow> if \<not> is_power_of_ten p then Inl invalid_precision else Inr (c2\<lparr>as_precision := p\<rparr>)
       | None \<Rightarrow> Inr c2) = Inr x'"
    unfolding update_asset_fields_def Let_def bindE_eq_Inr by blast
  have c1: "asset_core c1 = asset_core x" using 1 by (auto simp: asset_core_def split: option.splits if_splits)
  have c2: "asset_core c2 = asset_core c1"
    using 2 by (auto simp: asset_core_def split: option.splits if_splits)
  have "asset_core x' = asset_core c2" using 3 by (auto simp: asset_core_def split: option.splits if_splits)
  then show ?thesis using c1 c2 by (simp add: asset_core_def)
qed

lemma update_asset_conserves:
  assumes e: "update_asset_evaluate op E st ch = Inr (st', ch')" and bk: "books E m (view ch)"
    and lo: "ledger_ok st"
  shows "books E m (view ch') \<and> ledger_ok st' \<and> conserved st ch st' ch'"
proof -
  from e obtain x x' where x: "get_asset_entry ch (up_asset_id op) = Some x"
    and x': "update_asset_fields op x = Inr x'"
    and s: "store_asset_entry (x'\<lparr>as_last_update := env_now E\<rparr>) ch = Inr ch'" and st: "st' = st"
    unfolding update_asset_evaluate_def Let_def
    by (auto simp: bindE_eq_Inr split: if_splits option.splits)
  show ?thesis
    using store_asset_same [OF s bk x] update_asset_fields_same [OF x'] lo st by (simp add: conserved_def)
qed

lemma update_permissions_same:
  "update_permissions op x = Inr x' \<Longrightarrow> as_id x' = as_id x \<and>
    current_share_supply x' = current_share_supply x \<and> collected_fees x' = collected_fees x \<and>
    maximum_share_supply x' = maximum_share_supply x"
  by (auto simp: update_permissions_def Let_def split: if_splits)

lemma update_asset_ext_conserves:
  assumes e: "update_asset_ext_evaluate op E st ch = Inr (st', ch')" and bk: "books E m (view ch)"
    and lo: "ledger_ok st"
  shows "books E m (view ch') \<and> ledger_ok st' \<and> conserved st ch st' ch'"
proof -
  from e obtain x x1 x' where x: "get_asset_entry ch (up_asset_id op) = Some x"
    and x1: "update_asset_fields op x = Inr x1" and x': "update_permissions op x1 = Inr x'"
    and s: "store_asset_entry (x'\<lparr>as_issuer_account_id := ux_issuer_account_id op,
      as_last_update := env_now E\<rparr>) ch = Inr ch'"
    and st: "st' = st"
    unfolding update_asset_ext_evaluate_def Let_def
    by (auto simp: bindE_eq_Inr split: if_splits option.splits)
  show ?thesis
    using store_asset_same [OF s bk x] update_asset_fields_same [OF x1] update_permissions_same [OF x'] lo st
    by (simp add: conserved_def)
qed

lemma new_asset_id_books:
  assumes "new_asset_id ch = Inr (i, ch')" and "chain_last_asset_id ch = Inr n" and "books E m (view ch)"
  shows "i = s32 (n + 1)" and "books E m (view ch')" and "unheld (view ch') a = unheld (view ch) a"
    and "get_asset_entry ch' = get_asset_entry ch"
proof -
  from assms(1,2) have s: "store_property_entry last_asset_id (int_variant i) ch = Inr ch'" and i: "i = s32 (n + 1)"
    by (auto simp: new_asset_id_def bindE_eq_Inr Let_def)
  show "i = s32 (n + 1)" by (rule i)
  show "books E m (view ch')" "unheld (view ch') a = unheld (view ch) a"
    using store_property_books [OF s assms(3)] by simp_all
  show "get_asset_entry ch' = get_asset_entry ch"
    using view_store_property_entry [OF s] by (simp add: view_chain_accessors)
qed

lemma create_asset_conserves:
  assumes e: "create_asset_evaluate op E st ch = Inr (st', ch')" and bk: "books E m (view ch)"
    and lo: "ledger_ok st"
  shows "books E m (view ch') \<and> ledger_ok st' \<and> conserved st ch st' ch'"
proof -
  from e obtain n i c1 issuer x fees where n: "chain_last_asset_id ch = Inr n" "get_asset_entry ch (s32 (n + 1)) = None"
    and i: "new_asset_id ch = Inr (i, c1)"
    and x0: "new_asset_entry E op i issuer = Inr x"
    and s: "store_asset_entry x c1 = Inr ch'" and st: "st' = st\<lparr>required_fees := fees\<rparr>"
    unfolding create_asset_evaluate_def Let_def
    by (auto simp: bindE_eq_Inr split: if_splits option.splits)
  have x: "as_id x = i" "current_share_supply x = 0" "collected_fees x = 0"
    using x0 by (auto simp: new_asset_entry_def Let_def bindE_eq_Inr split: option.splits)
  note c1 = new_asset_id_books [OF i n(1) bk]
  have "same_ledger st st'" by (simp add: st same_ledger_def)
  note l = same_ledgerD [OF this]
  show ?thesis
    using store_asset_books [OF s c1(2) x(1)] x(2,3) c1 n(2) l lo by (simp add: conserved_def)
qed

text \<open>Account operations.\<close>

lemma update_active_key_cases:
  "update_active_key E op st ch x = Inr x' \<Longrightarrow> x' = x \<or> (\<exists>k. set_active_key x (env_now E) k = Inr x')"
  by (auto simp: update_active_key_def bindE_eq_Inr split: option.splits if_splits)

lemma update_active_key_same:
  assumes "update_active_key E op st ch x = Inr x'"
  shows "ac_id x' = ac_id x \<and> delegate_info x' = delegate_info x"
  using update_active_key_cases [OF assms] by (auto simp: set_active_key_def split: if_splits)

lemma make_delegate_same:
  assumes "make_delegate rate key x st ch = Inr (x', st')"
  shows "ac_id x' = ac_id x \<and> account_pay x' = 0 \<and> same_ledger st st'"
  using assms
  by (auto simp: make_delegate_def set_signing_key_def Let_def bindE_eq_Inr account_pay_def
      DelegateStats_init_def same_ledger_def)

lemma update_delegate_part_same:
  assumes "update_delegate_part op st ch x = Inr (x', st')"
  shows "ac_id x' = ac_id x \<and> account_pay x' = account_pay x \<and> same_ledger st st'"
proof (cases "delegate_info x")
  case None
  then show ?thesis using assms
    by (cases "update_is_delegate op")
      (auto simp: update_delegate_part_def bindE_eq_Inr same_ledger_refl account_pay_def [of x]
        dest: make_delegate_same)
qed (use assms in \<open>auto simp: update_delegate_part_def account_pay_def same_ledger_refl split: if_splits\<close>)

lemma update_account_conserves:
  assumes e: "update_account_evaluate E op st ch = Inr (st', ch')" and bk: "books E m (view ch)"
    and lo: "ledger_ok st"
  shows "books E m (view ch') \<and> ledger_ok st' \<and> conserved st ch st' ch'"
proof -
  from e obtain x x1 x2 where x: "get_account_entry ch (ua_account_id op) = Some x"
    and x1: "update_active_key E op st ch x = Inr x1"
    and x2: "update_delegate_part op st ch
      (case ua_public_data op of Some d \<Rightarrow> x1\<lparr>ac_public_data := d\<rparr> | None \<Rightarrow> x1) = Inr (x2, st')"
    and s: "store_account_entry E (x2\<lparr>ac_last_update := env_now E\<rparr>) ch = Inr ch'"
    unfolding update_account_evaluate_def Let_def
    by (cases "get_account_entry ch (ua_account_id op)") (auto simp: bindE_eq_Inr split: if_splits)
  have same: "ac_id x2 = ac_id x \<and> account_pay x2 = account_pay x" "same_ledger st st'"
    using update_delegate_part_same [OF x2] update_active_key_same [OF x1]
    by (auto simp: account_pay_def split: option.splits)
  note b = store_account_books [OF s bk _ _ x]
  have "account_pay (x2\<lparr>ac_last_update := env_now E\<rparr>) = account_pay x" using same by (simp add: account_pay_def)
  then show ?thesis
    using b books_account [OF bk x] same(1) same_ledgerD [OF same(2)] lo by (simp add: conserved_def)
qed

lemma new_account_id_books:
  assumes "new_account_id ch = Inr (i, ch1)" and "books E (Suc m) (view ch)"
    and "store_account_entry E x ch1 = Inr ch'" and "ac_id x = i" and "account_pay x = 0"
  shows "books E m (view ch')" and "unheld (view ch') a = unheld (view ch) a"
proof -
  from assms(2) obtain n where
      n: "v_property (view ch) last_account_id = Some \<lparr>pr_id = last_account_id, pr_value = int_variant n\<rparr>"
      "0 \<le> n" "n + int (Suc m) < 2147483648" "\<forall>i x. v_account (view ch) i = Some x \<longrightarrow> i \<le> n"
    by (auto simp: books_def account_room_def)
  have "chain_last_account_id ch = Inr n"
    by (simp add: chain_last_account_id_def property_value_view n(1) as_int64_def)
  moreover have s32: "s32 (n + 1) = n + 1" using n(2,3) by (simp add: s32_def)
  ultimately have i: "i = n + 1" and s: "store_property_entry last_account_id (int_variant (n + 1)) ch = Inr ch1"
    using assms(1) by (auto simp: new_account_id_def bindE_eq_Inr Let_def)
  have fresh: "v_account (view ch) i = None"
    using n(4) i by (cases "v_account (view ch) i") fastforce+
  have v: "view ch' = (view ch)\<lparr>v_property := (v_property (view ch))
      (last_account_id \<mapsto> \<lparr>pr_id = last_account_id, pr_value = int_variant (n + 1)\<rparr>),
      v_account := (v_account (view ch))(i \<mapsto> x)\<rparr>"
    using view_store_account_entry [OF assms(3)] view_store_property_entry [OF s] assms(4) by simp
  show "books E m (view ch')"
    using assms(2,4,5) n i by (auto simp: v books_def account_room_def dest: n(4) [rule_format])
  show "unheld (view ch') a = unheld (view ch) a"
    using assms(2,5) fresh by (simp add: v unheld_def issued_def holdings_def map_sum_update books_def)
qed

lemma register_account_conserves:
  assumes e: "register_account_evaluate E op st ch = Inr (st', ch')" and bk: "books E (Suc m) (view ch)"
    and lo: "ledger_ok st"
  shows "books E m (view ch') \<and> ledger_ok st' \<and> conserved st ch st' ch'"
proof -
  from e obtain i c1 x1 x where i: "new_account_id ch = Inr (i, c1)"
    and x1: "register_entry E op i = Inr x1"
    and x: "register_delegate_part op x1 st c1 = Inr (x, st')"
    and s: "store_account_entry E x c1 = Inr ch'"
    unfolding register_account_evaluate_def Let_def
    by (auto simp: bindE_eq_Inr split: if_splits)
  have "ac_id x1 = i" "account_pay x1 = 0"
    using x1 by (auto simp: register_entry_def Let_def bindE_eq_Inr set_active_key_def account_pay_def
        AccountEntry_init_def split: if_splits)
  then have "ac_id x = i \<and> account_pay x = 0 \<and> same_ledger st st'"
    using x by (auto simp: register_delegate_part_def same_ledger_refl dest: make_delegate_same split: if_splits)
  then show ?thesis
    using new_account_id_books [OF i bk s] same_ledgerD [of st st'] lo by (simp add: conserved_def)
qed

text \<open>Operations that only store slates, properties or messages.\<close>

lemma define_slate_conserves:
  assumes e: "define_slate_evaluate E ids st ch = Inr (st', ch')" and bk: "books E m (view ch)"
    and lo: "ledger_ok st"
  shows "books E m (view ch') \<and> ledger_ok st' \<and> conserved st ch st' ch'"
proof -
  from e have "st' = st \<and> (ch' = ch \<or> (\<exists>s. store_slate_entry E s ch = Inr ch'))"
    unfolding define_slate_evaluate_def Let_def by (auto simp: bindE_eq_Inr split: if_splits option.splits)
  then show ?thesis using store_slate_books [OF _ bk] bk lo by (auto simp: conserved_def)
qed

lemma imessage_memo_conserves:
  assumes e: "imessage_memo_evaluate s st ch = Inr (st', ch')" and bk: "books E m (view ch)"
    and lo: "ledger_ok st"
  shows "books E m (view ch') \<and> ledger_ok st' \<and> conserved st ch st' ch'"
proof -
  from e have "ch' = ch" "same_ledger st st'"
    by (auto simp: imessage_memo_evaluate_def Let_def bindE_eq_Inr same_ledger_def split: if_splits)
  then show ?thesis using bk lo same_ledgerD [of st st'] by (simp add: conserved_def)
qed

lemma update_transfer_config_conserves:
  assumes e: "update_transfer_config_evaluate op st ch = Inr (st', ch')" and bk: "books E m (view ch)"
    and lo: "ledger_ok st"
  shows "books E m (view ch') \<and> ledger_ok st' \<and> conserved st ch st' ch'"
proof -
  from e obtain c1 c2 v1 v2 v3 where s: "store_property_entry transaction_min_fee v1 ch = Inr c1"
      "store_property_entry transaction_max_fee v2 c1 = Inr c2"
      "store_property_entry transaction_fee_ratio v3 c2 = Inr ch'" and st: "st' = st"
    unfolding update_transfer_config_evaluate_def by (auto simp: bindE_eq_Inr split: if_splits option.splits)
  note b1 = store_property_books [OF s(1) bk, simplified]
  note b2 = store_property_books [OF s(2) b1(1), simplified]
  note b3 = store_property_books [OF s(3) b2(1), simplified]
  show ?thesis using b1 b2 b3 lo st by (simp add: conserved_def)
qed

interpretation deposit: conserving E "\<lambda>op. in_int64 (dp_amount op)"
    "\<lambda>op stch. Some (deposit_evaluate E op (fst stch) (snd stch))" for E
  by unfold_locales (metis deposit_conserves books_Suc fst_conv snd_conv option.inject)

interpretation withdraw: conserving E "\<lambda>op. in_int64 (wd_amount op)"
    "\<lambda>op stch. Some (withdraw_evaluate E op (fst stch) (snd stch))" for E
  by unfold_locales (metis withdraw_conserves books_Suc fst_conv snd_conv option.inject)

interpretation withdraw_pay: conserving E "\<lambda>op. in_int64 (wp_amount op)"
    "\<lambda>op stch. Some (withdraw_pay_evaluate E op (fst stch) (snd stch))" for E
  by unfold_locales (metis withdraw_pay_conserves books_Suc fst_conv snd_conv option.inject)

interpretation issue_asset: conserving E "\<lambda>op. in_int64 (amount op)"
    "\<lambda>op stch. Some (issue_asset_evaluate op E (fst stch) (snd stch))" for E
  by unfold_locales (metis issue_asset_conserves books_Suc fst_conv snd_conv option.inject)

interpretation create_asset: conserving E "\<lambda>_. True"
    "\<lambda>op stch. Some (create_asset_evaluate op E (fst stch) (snd stch))" for E
  by unfold_locales (metis create_asset_conserves books_Suc fst_conv snd_conv option.inject)

interpretation update_asset: conserving E "\<lambda>_. True"
    "\<lambda>op stch. Some (update_asset_evaluate op E (fst stch) (snd stch))" for E
  by unfold_locales (metis update_asset_conserves books_Suc fst_conv snd_conv option.inject)

interpretation update_asset_ext: conserving E "\<lambda>_. True"
    "\<lambda>op stch. Some (update_asset_ext_evaluate op E (fst stch) (snd stch))" for E
  by unfold_locales (metis update_asset_ext_conserves books_Suc fst_conv snd_conv option.inject)

interpretation register_account: conserving E "\<lambda>_. True"
    "\<lambda>op stch. Some (register_account_evaluate E op (fst stch) (snd stch))" for E
  by unfold_locales (metis register_account_conserves fst_conv snd_conv option.inject)

interpretation update_account: conserving E "\<lambda>_. True"
    "\<lambda>op stch. Some (update_account_evaluate E op (fst stch) (snd stch))" for E
  by unfold_locales (metis update_account_conserves books_Suc fst_conv snd_conv option.inject)

interpretation define_slate: conserving E "\<lambda>_. True"
    "\<lambda>op stch. Some (define_slate_evaluate E op (fst stch) (snd stch))" for E
  by unfold_locales (metis define_slate_conserves books_Suc fst_conv snd_conv option.inject)

interpretation imessage_memo: conserving E "\<lambda>_. True"
    "\<lambda>op stch. Some (imessage_memo_evaluate op (fst stch) (snd stch))" for E
  by unfold_locales (metis imessage_memo_conserves books_Suc fst_conv snd_conv option.inject)

interpretation update_transfer_config: conserving E "\<lambda>_. True"
    "\<lambda>op stch. Some (update_transfer_config_evaluate op (fst stch) (snd stch))" for E
  by unfold_locales (metis update_transfer_config_conserves books_Suc fst_conv snd_conv option.inject)

text \<open>The operations that act on the chain without a contract; the amounts of a packed operation are
  64-bit values.\<close>

definition plain_op :: "Operation \<Rightarrow> bool" where
  "plain_op op =
    (case op of
       withdraw_op o' \<Rightarrow> in_int64 (wd_amount o')
     | deposit_op o' \<Rightarrow> in_int64 (dp_amount o')
     | withdraw_pay_op o' \<Rightarrow> in_int64 (wp_amount o')
     | issue_asset_op o' \<Rightarrow> in_int64 (amount o')
     | register_account_op _ \<Rightarrow> True | update_account_op _ \<Rightarrow> True | create_asset_op _ \<Rightarrow> True
     | update_asset_op _ \<Rightarrow> True | update_asset_ext_op _ \<Rightarrow> True | define_slate_op _ \<Rightarrow> True
     | release_escrow_op _ \<Rightarrow> True | update_signing_key_op _ \<Rightarrow> True | update_balance_vote_op _ \<Rightarrow> True
     | imessage_memo_op _ \<Rightarrow> True | update_transfer_config_op _ \<Rightarrow> True | null_op \<Rightarrow> True
     | _ \<Rightarrow> False)"

lemmas plain_steps =
  deposit.step [simplified]
  withdraw.step [simplified]
  withdraw_pay.step [simplified]
  issue_asset.step [simplified]
  create_asset.step [simplified]
  update_asset.step [simplified]
  update_asset_ext.step [simplified]
  register_account.step [simplified]
  update_account.step [simplified]
  define_slate.step [simplified]
  imessage_memo.step [simplified]
  update_transfer_config.step [simplified]

lemma plain_op_conserves:
  assumes "plain_op op" and "evaluate_operation CE E op (st, ch) = Some (Inr (st', ch'))"
    and "books E (Suc m) (view ch)" and "ledger_ok st"
  shows "books E m (view ch') \<and> ledger_ok st' \<and> conserved st ch st' ch'"
proof -
  have e: "evaluate_basic_operation CE E op st ch = Some (Inr (st', ch'))"
    using assms(1,2) by (cases op) (simp_all add: plain_op_def as_transaction_def)
  show ?thesis
    by (insert assms(1) e; cases op; simp add: plain_op_def evaluate_basic_operation_def release_escrow_evaluate_def
        update_signing_key_evaluate_def update_balance_vote_evaluate_def;
      (rule plain_steps; (assumption | rule assms(3,4)))?)
qed

interpretation plain: conserving E plain_op "evaluate_operation CE E" for CE E
  by unfold_locales (rule plain_op_conserves)

section \<open>The end of a transaction\<close>

lemma collect_fee_books:
  assumes "collect_fee (i, n) ch = Inr ch'" and "books E m (view ch)" and "in_int64 n"
  shows "0 \<le> n \<and> books E m (view ch') \<and>
    (\<forall>a. unheld (view ch') a = unheld (view ch) a - (if a = i then n else 0))"
proof (cases "n = 0")
  case False
  with assms(1) obtain x c where n: "n > 0" and x: "get_asset_entry ch i = Some x"
    and c: "safe_add (collected_fees x) n = Inr c"
    and s: "store_asset_entry (x\<lparr>collected_fees := c\<rparr>) ch = Inr ch'"
    by (auto simp: collect_fee_def bindE_eq_Inr split: if_splits option.splits)
  note k = books_asset [OF assms(2) x]
  have "c = collected_fees x + n \<and> in_int64 c" using safe_add_Inr [OF c _ assms(3)] k by blast
  then show ?thesis using store_asset_books [OF s assms(2)] k x n by auto
qed (use assms in \<open>simp add: collect_fee_def\<close>)

lemma collect_fees_books:
  assumes "foldE collect_fee fees ch = Inr ch'" and "books E m (view ch)"
    and "distinct (map fst fees)" and "\<forall>fee \<in> set fees. in_int64 (snd fee)"
  shows "books E m (view ch') \<and> (\<forall>a. unheld (view ch') a = unheld (view ch) a - map_amount fees a)"
  using assms
proof (induction fees arbitrary: ch)
  case (Cons fee fees)
  obtain i n where fee: "fee = (i, n)" by (cases fee)
  from Cons.prems(1) fee obtain c1 where 1: "collect_fee (i, n) ch = Inr c1"
    and rest: "foldE collect_fee fees c1 = Inr ch'"
    by (auto simp: bindE_eq_Inr)
  note c1 = collect_fee_books [OF 1 Cons.prems(2)]
  have "map_of fees i = None" using Cons.prems(3) fee by (simp add: map_of_eq_None_iff)
  then have "map_amount (fee # fees) a = (if a = i then n else 0) + map_amount fees a" for a
    by (simp add: map_amount_def fee)
  then show ?case using Cons.IH [OF rest] c1 Cons.prems(3,4) fee by simp
qed simp

lemma touch_base_balance_ledger:
  assumes "ledger_ok st"
  shows "ledger_ok (touch_base_balance st)" and "ledger (touch_base_balance st) = ledger st"
proof -
  have a: "map_amount (balance (touch_base_balance st)) a = map_amount (balance st) a" for a
    by (auto simp: touch_base_balance_def map_amount_def split: option.splits)
  show "ledger (touch_base_balance st) = ledger st" by (simp add: ledger_def fun_eq_iff a)
  have "withdraws (touch_base_balance st) = withdraws st" "deposits (touch_base_balance st) = deposits st"
    by (simp_all add: touch_base_balance_def)
  then show "ledger_ok (touch_base_balance st)"
    using assms a by (simp add: ledger_ok_def touch_base_balance_def sorted_omap_update_strict)
qed

lemma sorted_map_amounts:
  fixes m :: "('k :: linorder \<times> int) list"
  assumes "sorted_wrt (<) (map fst m)" and "\<And>a. in_int64 (map_amount m a)"
  shows "distinct (map fst m)" and "\<forall>kv \<in> set m. in_int64 (snd kv)"
proof -
  show d: "distinct (map fst m)" using assms(1) by (simp add: strict_sorted_iff)
  have "map_amount m (fst kv) = snd kv" if "kv \<in> set m" for kv
    using map_of_is_SomeI [OF d, of "fst kv" "snd kv"] that by (simp add: map_amount_def)
  then show "\<forall>kv \<in> set m. in_int64 (snd kv)" using assms(2) by metis
qed

lemma post_evaluate_books:
  assumes "post_evaluate st ch = Inr (st', ch')" and "books E m (view ch)" and "ledger_ok st"
  shows "books E m (view ch') \<and> ledger_ok st' \<and> ledger st' = ledger st \<and>
    (\<forall>a. unheld (view ch') a = unheld (view ch) a - ledger st a)"
proof -
  from assms(1) have st': "st' = touch_base_balance st"
    and c: "foldE collect_fee (balance (touch_base_balance st)) ch = Inr ch'"
    by (auto simp: post_evaluate_def Let_def bindE_eq_Inr)
  note l = touch_base_balance_ledger [OF assms(3)]
  have s: "sorted_wrt (<) (map fst (balance (touch_base_balance st)))"
    using l(1) by (simp add: ledger_ok_def)
  note m = sorted_map_amounts [OF s ledger_okD(1) [OF l(1)]]
  have "map_amount (balance (touch_base_balance st)) a = ledger st a" for a
    using fun_cong [OF l(2)] by (simp add: ledger_def)
  then show ?thesis using collect_fees_books [OF c assms(2) m] l st' by simp
qed

lemma update_delegate_votes_books:
  assumes "update_delegate_votes E st ch = Inr ch'" and "books E m (view ch)"
  shows "books E m (view ch') \<and> (\<forall>a. unheld (view ch') a = unheld (view ch) a)"
proof -
  have step: "books E m (view c') \<and> (\<forall>a. unheld (view c') a = unheld (view ch) a)"
    if "update_delegate_vote E item c = Inr c'"
      "books E m (view c) \<and> (\<forall>a. unheld (view c) a = unheld (view ch) a)" for item c c'
  proof -
    from that(1) obtain x x' where x: "get_account_entry c (fst item) = Some x"
      and x': "adjust_votes_for x (snd item) = Inr x'" and s: "store_account_entry E x' c = Inr c'"
      by (auto simp: update_delegate_vote_def bindE_eq_Inr split: option.splits if_splits)
    have b: "books E m (view c)" using that(2) by simp
    have "ac_id x' = ac_id x" "account_pay x' = account_pay x"
      using x' by (auto simp: adjust_votes_for_def account_pay_def split: option.splits)
    then show ?thesis using store_account_books [OF s b _ _ x] books_account [OF b x] that(2) by simp
  qed
  show ?thesis
    using assms unfolding update_delegate_votes_def
    by (elim foldE_invariant) (use step in \<open>auto\<close>)
qed

lemma check_fees_books:
  assumes "check_fees E st ch = Inr (st', ch')" and "books E m (view ch)" and "ledger_ok st"
  shows "books E m (view ch') \<and> (\<forall>a. unheld (view ch') a = unheld (view ch) a - ledger st a)"
proof -
  from assms(1) obtain c where 1: "post_evaluate st ch = Inr (st', c)"
    and 2: "update_delegate_votes E st' c = Inr ch'"
    by (auto simp: check_fees_def bindE_eq_Inr)
  note p = post_evaluate_books [OF 1 assms(2,3)]
  show ?thesis using p update_delegate_votes_books [OF 2 p [THEN conjunct1]] by simp
qed

lemma plain_op_types:
  assumes "plain_op op"
  shows "op_type op \<noteq> 90" and "\<not> (70 \<le> op_type op \<and> op_type op \<le> 74)"
  using assms by (cases op; simp add: plain_op_def)+

lemma evaluate_prepare_ledger:
  assumes "evaluate_prepare E t st = Inr st'"
  shows "same_ledger st st'"
proof -
  have add: "same_ledger s s'" if "add_signed_keys E sig t s = Inr s'" for sig s s'
    using that by (auto simp: add_signed_keys_def bindE_eq_Inr same_ledger_def)
  from assms obtain s where "st' = s\<lparr>current_op_index := 0\<rparr>"
    and "s = st\<lparr>trx := t\<rparr> \<or> (\<exists>sigs. foldE (\<lambda>sig. add_signed_keys E sig t) sigs (st\<lparr>trx := t\<rparr>) = Inr s)"
    by (auto simp: evaluate_prepare_def Let_def bindE_eq_Inr split: if_splits)
  moreover have "same_ledger (st\<lparr>trx := t\<rparr>) s" if "foldE (\<lambda>sig. add_signed_keys E sig t) sigs (st\<lparr>trx := t\<rparr>) = Inr s"
    for sigs using foldE_same_ledger [OF that] add by blast
  ultimately show ?thesis by (auto simp: same_ledger_def)
qed

section \<open>Conservation\<close>

lemma plain_transaction:
  assumes e: "evaluate CE E ign t st ch = Some (Inr (st', ch'))" and p: "\<forall>op \<in> set (operations t). plain_op op"
  obtains st0 st1 st2 c1 c2 where "evaluate_prepare E t st = Inr st0"
    and "foldO (\<lambda>op stch. bindO (evaluate_operation CE E op stch) next_op) (operations t) (st0, ch) =
      Some (Inr (st1, c1))"
    and "check_fees E (charge_signatures t st1) c1 = Inr (st2, c2)"
    and "transaction_store E (trx_id (env_trx_hash E) t)
      \<lparr>te_state = st2\<lparr>trx := t\<rparr>, chain_location = TransactionLocation_init\<rparr> c2 = Inr ch'"
    and "st' = st2\<lparr>trx := t\<rparr>"
proof -
  have nf: "\<not> needs_no_fee_check t"
    using p plain_op_types by (auto simp: needs_no_fee_check_def list_ex_iff)
  have nt: "\<not> (operations t \<noteq> [] \<and> op_type (hd (operations t)) = 90)"
    using p plain_op_types(1) list.set_sel(1) by blast
  show thesis
    using e nf nt that
    by (subst (asm) evaluate.simps) (auto simp: bindO_eq_Inr evaluate_finish_def Let_def bindE_eq_Inr)
qed

text \<open>The books keep their room for the operations that follow.\<close>

lemma plain_transaction_conserves:
  assumes "evaluate CE E ignore_state t st ch = Some (Inr (st', ch'))"
    and "\<forall>op \<in> set (operations t). plain_op op"
    and "books E (length (operations t) + m) (view ch)" and "ledger_ok st" and "balance st = []"
  shows "books E m (view ch') \<and> (\<forall>a. unheld (view ch') a = unheld (view ch) a)"
proof -
  obtain st0 st1 st2 c1 c2 where 0: "evaluate_prepare E t st = Inr st0"
    and 1: "foldO (\<lambda>op stch. bindO (evaluate_operation CE E op stch) next_op) (operations t) (st0, ch) =
      Some (Inr (st1, c1))"
    and 2: "check_fees E (charge_signatures t st1) c1 = Inr (st2, c2)"
    and 3: "transaction_store E (trx_id (env_trx_hash E) t)
      \<lparr>te_state = st2\<lparr>trx := t\<rparr>, chain_location = TransactionLocation_init\<rparr> c2 = Inr ch'"
    by (rule plain_transaction [OF assms(1,2)])
  note s0 = same_ledgerD [OF evaluate_prepare_ledger [OF 0]]
  have zero: "ledger st0 a = 0" for a using s0(1) assms(5) by (simp add: ledger_def)
  have l: "books E m (view c1) \<and> ledger_ok st1 \<and> conserved st0 ch st1 c1"
    using plain.loop [OF 1 assms(2), of m] assms(3,4) s0 by simp
  have "same_ledger st1 (charge_signatures t st1)" by (simp add: same_ledger_def charge_signatures_def Let_def)
  note s1 = same_ledgerD [OF this]
  have f: "books E m (view c2) \<and> (\<forall>a. unheld (view c2) a = unheld (view c1) a - ledger st1 a)"
    using check_fees_books [OF 2, of m] l s1 by simp
  show ?thesis
    using store_transaction_books [OF 3, of m] f l zero by (simp add: conserved_def)
qed

text \<open>C1: Conservation. A transaction of non-contract operations that is accepted neither creates nor
  destroys shares of any asset: started with an empty ledger on consistent books (entries stored under
  their own keys, 64-bit amounts, account ids not exhausted) it leaves the books consistent and, for
  every asset, the difference between the issued supply and the shares held in balances, collected
  fees and delegate pay exactly as it was. Whatever the operations take and do not put back ends up in
  the collected fees.\<close>

theorem transaction_conserves_shares:
  assumes "evaluate CE E ignore_state t st ch = Some (Inr (st', ch'))"
    and "\<forall>op \<in> set (operations t). plain_op op"
    and "books E (length (operations t)) (view ch)" and "ledger_ok st" and "balance st = []"
  shows "books E 0 (view ch') \<and> (\<forall>a. unheld (view ch') a = unheld (view ch) a)"
  using plain_transaction_conserves [OF assms(1,2) _ assms(4,5), of 0] assms(3) by simp

text \<open>An environment for the examples in which contracts do nothing.\<close>

definition sample_contract_env :: contract_env where
  "sample_contract_env =
    \<lparr>ce_vm = (\<lambda>_ _ _ _ _ st ch. \<lparr>vm_state = st, vm_chain = ch, vm_internal_error = False,
       vm_exception_code = 0, vm_count = 1\<rparr>),
     ce_contract_id = (\<lambda>_. 1), ce_code_hash = code_hash,
     ce_unpack_table = (\<lambda>_ _. Inr []), ce_pack_table = (\<lambda>_ _. [])\<rparr>"

definition accepted :: "contract_result \<Rightarrow> bool" where
  "accepted r = (case r of Some (Inr _) \<Rightarrow> True | _ \<Rightarrow> False)"

lemma acceptedE: "accepted r \<Longrightarrow> \<exists>st ch. r = Some (Inr (st, ch))"
  by (auto simp: accepted_def split: option.splits sum.splits)

text \<open>Alice's 100 shares: 70 withdrawn, 60 deposited to owner 5, 10 left as fee.\<close>

definition sample_transfer :: SignedTransaction where
  "sample_transfer = with_operations empty_transaction
    [withdraw_op \<lparr>wd_balance_id = 9, wd_amount = 70, claim_input_data = []\<rparr>,
     deposit_op \<lparr>dp_amount = 60, dp_condition = signature_condition 5 0 0 withdraw_common_type\<rparr>]"

lemmas ledger_run = withdraw_evaluate_def deposit_evaluate_def get_spendable_balance_def authorise_withdraw_def
  is_retractable_def is_user_issued_def is_balance_frozen_def check_withdraw_condition_def check_signature_def
  adjust_vote_of_def safe_sub_def safe_add_def arith_defs add_balance_def sub_balance_def Let_def delta_of_def
  set_delta_def balance_owner_def condition_owner_def condition_owners_def note_owner_not_usedup_def
  note_deposit_address_def store_balance_entry_def balance_store_def balance_entry_id_def deposit_entry_def
  depositable_def set_insert_def map_amount_def ALP_BLOCKCHAIN_TRANSACTION_MAX_DEPOSIT_NUM_def

lemmas prepare_run = evaluate_prepare_def origin_trx_basic_verify_def is_contract_op_def
  check_operations_legality_def Let_def empty_transaction_def with_operations_def
  ALP_BLOCKCHAIN_MAX_TRX_SIZE_def ALP_BLOCKCHAIN_MAX_SIGNAGTURE_NUM_def

lemmas transaction_run = as_transaction_def evaluate_basic_operation_def evaluate_finish_def
  needs_no_fee_check_def charge_signatures_def check_fees_def post_evaluate_def touch_base_balance_def
  check_withdrawn_asset_def check_fee_def collect_fee_def store_asset_entry_def asset_store_def
  validate_required_fee_def asset_plus_assign_def asset_less_def update_delegate_votes_def transaction_store_def
  ALP_BLOCKCHAIN_FREESIGNATURE_LIMIT_def next_op_pair empty_transaction_def with_operations_def

lemma sample_transfer_prepared:
  "evaluate_prepare sample_env sample_transfer sample_state =
    Inr (sample_state\<lparr>trx := sample_transfer, current_op_index := 0\<rparr>)"
  by (simp add: prepare_run sample_transfer_def sample_env_simps sample_entry_defs)

lemma sample_transfer_accepted:
  "accepted (evaluate sample_contract_env sample_env True sample_transfer sample_state sample_chain)"
  by (subst evaluate.simps, simp add: sample_transfer_prepared)
    (simp add: sample_transfer_def transaction_run ledger_run chain_run sample_entry_defs sample_env_simps
      accepted_def)

lemma books_sample: "books sample_env 2 (view sample_chain)"
  by (auto simp: books_def account_room_def chain_run sample_entry_defs sample_env_simps account_pay_def arith_defs
      split: if_splits)

lemma ledger_sample: "ledger_ok sample_state"
  by (simp add: ledger_ok_def sample_entry_defs)

lemma plain_sample: "\<forall>op \<in> set (operations sample_transfer). plain_op op"
  by (simp add: sample_transfer_def plain_op_def arith_defs)

theorem transaction_conserves_shares_witness:
  "\<exists>st' ch'. evaluate sample_contract_env sample_env True sample_transfer sample_state sample_chain =
      Some (Inr (st', ch')) \<and> unheld (view ch') 0 = unheld (view sample_chain) 0"
proof -
  obtain st' ch' where e: "evaluate sample_contract_env sample_env True sample_transfer sample_state sample_chain =
      Some (Inr (st', ch'))"
    using acceptedE [OF sample_transfer_accepted] by blast
  have "length (operations sample_transfer) = 2" "balance sample_state = []"
    by (simp_all add: sample_transfer_def sample_entry_defs)
  then show ?thesis
    using transaction_conserves_shares [OF e plain_sample _ ledger_sample] books_sample e by auto
qed

lemma foldE_check: "foldE f xs () = Inr () \<Longrightarrow> \<forall>x \<in> set xs. f x () = Inr ()"
  by (induction xs) (auto simp: bindE_eq_Inr)

lemma validate_required_fee_covers:
  assumes "validate_required_fee st = Inr ()" and "in_int64 (ledger st 0)" and "in_int64 (amount (alt_fees_paid st))"
  shows "amount (required_fees st) \<le> ledger st 0 + amount (alt_fees_paid st)"
proof -
  from assms(1) obtain x y where
      x: "(case map_of (balance st) 0 of
             Some v \<Rightarrow> asset_plus_assign \<lparr>amount = 0, asset_id = 0\<rparr> \<lparr>amount = v, asset_id = 0\<rparr>
           | None \<Rightarrow> Inr \<lparr>amount = 0, asset_id = 0\<rparr>) = Inr x"
    and y: "asset_plus_assign x (alt_fees_paid st) = Inr y" and r: "asset_less y (required_fees st) = Inr False"
    unfolding validate_required_fee_def by (auto simp: bindE_eq_Inr split: if_splits)
  have "amount x = ledger st 0"
    using x assms(2) by (auto simp: ledger_def map_amount_def asset_plus_assign_def split: option.splits if_splits)
  moreover have "asset_id x = asset_id (alt_fees_paid st)"
    using y by (auto simp: asset_plus_assign_def split: if_splits)
  then have "amount y = amount x + amount (alt_fees_paid st)"
    using y assms(2,3) calculation by (auto simp: asset_plus_assign_exact split: if_splits)
  ultimately show ?thesis using r by (simp add: asset_less_def split: if_splits)
qed



end
