(* ===== verification/Authority.thy ===== *)
theory Authority
  imports Ledger
begin

text \<open>
  Who may do what: the theorems on the signatures and permissions that the operations require, and on
  the two places where the code requires none.
\<close>

section \<open>Spending\<close>

text \<open>The right to spend a balance: the issuer of a retractable asset, or the signatures of the balance's
  condition while the asset is not frozen.\<close>

definition may_spend :: "TransactionEvaluationState \<Rightarrow> AssetEntry \<Rightarrow> BalanceEntry \<Rightarrow> bool" where
  "may_spend st asset_rec b \<longleftrightarrow>
    is_retractable asset_rec \<and> verify_authority st (as_authority asset_rec) \<or>
    \<not> is_balance_frozen asset_rec \<and>
      (case wc_data (be_condition b) of
         withdraw_signature_type s \<Rightarrow> check_signature st (sig_owner s)
       | withdraw_multisig_type m \<Rightarrow> ms_required m \<le> count_signatures st (ms_owners m)
       | _ \<Rightarrow> False)"

lemma authorise_withdraw_may_spend:
  "authorise_withdraw st asset_rec (check_withdraw_condition st (be_condition b)) = Inr () \<Longrightarrow>
    may_spend st asset_rec b"
  by (auto simp: authorise_withdraw_def check_withdraw_condition_def may_spend_def Let_def not_less
      split: if_splits WithdrawData.splits)

lemma spendable_le:
  "0 < n \<Longrightarrow> n \<le> amount (get_spendable_balance b now) \<Longrightarrow> n \<le> be_balance b"
  by (auto simp: get_spendable_balance_def split: WithdrawData.splits)

text \<open>C4: A withdrawal that succeeds was authorised and covered: the balance exists, the amount is positive
  and at most what the balance holds, the transaction carries the signatures the balance's condition
  demands (or the issuer retracts a retractable asset), and afterwards the balance holds exactly the
  amount less while every other balance is as before.\<close>

theorem withdraw_is_authorised:
  assumes "withdraw_evaluate E op st ch = Inr (st', ch')" and "books E m (view ch)" and "in_int64 (wd_amount op)"
  shows "\<exists>b asset_rec b'. get_balance_entry ch (wd_balance_id op) = Some b \<and>
    get_asset_entry ch (wc_asset_id (be_condition b)) = Some asset_rec \<and> may_spend st asset_rec b \<and>
    0 < wd_amount op \<and> wd_amount op \<le> be_balance b \<and>
    get_balance_entry ch' = (get_balance_entry ch)(wd_balance_id op \<mapsto> b') \<and>
    be_balance b' = be_balance b - wd_amount op \<and> be_condition b' = be_condition b"
proof -
  from assms(1) obtain b asset_rec t where
      b: "get_balance_entry ch (wd_balance_id op) = Some b" "0 < wd_amount op"
      "\<not> wd_amount op > amount (get_spendable_balance b (env_now E))"
    and a: "get_asset_entry ch (wc_asset_id (be_condition b)) = Some asset_rec"
      "authorise_withdraw st asset_rec (check_withdraw_condition st (be_condition b)) = Inr ()"
    and t: "safe_sub (be_balance b) (wd_amount op) = Inr t"
    and s: "store_balance_entry E (b\<lparr>be_balance := t, be_last_update := env_now E\<rparr>) ch = Inr ch'"
    unfolding withdraw_evaluate_def Let_def
    by (auto simp: bindE_eq_Inr split: if_splits option.splits)
  note k = books_balance [OF assms(2) b(1)]
  have "t = be_balance b - wd_amount op" using safe_sub_Inr [OF t _ assms(3)] k by blast
  moreover have "get_balance_entry ch' =
      (get_balance_entry ch)(wd_balance_id op \<mapsto> b\<lparr>be_balance := t, be_last_update := env_now E\<rparr>)"
    using view_store_balance_entry [OF s] k by (simp add: view_chain_accessors)
  ultimately show ?thesis
    using b a authorise_withdraw_may_spend [OF a(2)] spendable_le [of "wd_amount op" b "env_now E"]
    by (intro exI [of _ b] exI [of _ asset_rec]
        exI [of _ "b\<lparr>be_balance := t, be_last_update := env_now E\<rparr>"]) (simp add: not_less)
qed

theorem withdraw_is_authorised_witness:
  "\<exists>st' ch'. withdraw_evaluate sample_env \<lparr>wd_balance_id = 9, wd_amount = 70, claim_input_data = []\<rparr>
      sample_state sample_chain = Inr (st', ch') \<and>
    (\<exists>b'. get_balance_entry ch' 9 = Some b' \<and> be_balance b' = 100 - 70)"
proof -
  obtain st' ch' where e: "withdraw_evaluate sample_env \<lparr>wd_balance_id = 9, wd_amount = 70, claim_input_data = []\<rparr>
      sample_state sample_chain = Inr (st', ch')"
    by (simp add: ledger_run chain_run sample_entry_defs sample_env_simps)
  have "in_int64 (wd_amount \<lparr>wd_balance_id = 9, wd_amount = 70, claim_input_data = []\<rparr>)" by (simp add: arith_defs)
  from withdraw_is_authorised [OF e books_sample this] show ?thesis
    using e by (auto simp: sample_view sample_balance_def)
qed

text \<open>C7: A delegate's pay leaves the pay balance only with a signature of the delegate's owner or active
  key, at most what has been earned, and the pay balance falls by exactly that amount.\<close>

theorem withdraw_pay_is_authorised:
  assumes "withdraw_pay_evaluate E op st ch = Inr (st', ch')" and "books E m (view ch)" and "in_int64 (wp_amount op)"
  shows "\<exists>x x'. get_account_entry ch \<bar>wp_account_id op\<bar> = Some x \<and> is_delegate x \<and>
    account_has_signed E st x = Inr True \<and> 0 < wp_amount op \<and> wp_amount op \<le> account_pay x \<and>
    get_account_entry ch' = (get_account_entry ch)(\<bar>wp_account_id op\<bar> \<mapsto> x') \<and>
    account_pay x' = account_pay x - wp_amount op"
proof -
  from assms(1) obtain x d pb where
      x: "get_account_entry ch \<bar>wp_account_id op\<bar> = Some x" "delegate_info x = Some d"
      "\<not> pay_balance d < wp_amount op" "0 < wp_amount op" "account_has_signed E st x = Inr True"
    and pb: "safe_sub (pay_balance d) (wp_amount op) = Inr pb"
    and s: "store_account_entry E (x\<lparr>delegate_info := Some (d\<lparr>pay_balance := pb\<rparr>)\<rparr>) ch = Inr ch'"
    unfolding withdraw_pay_evaluate_def Let_def
    by (auto simp: bindE_eq_Inr split: if_splits option.splits)
  note k = books_account [OF assms(2) x(1)]
  have d: "account_pay x = pay_balance d" by (rule account_has_delegate_pay [OF x(2)])
  have "pb = pay_balance d - wp_amount op" using safe_sub_Inr [OF pb _ assms(3)] k d by simp
  moreover have "get_account_entry ch' = (get_account_entry ch)
      (\<bar>wp_account_id op\<bar> \<mapsto> x\<lparr>delegate_info := Some (d\<lparr>pay_balance := pb\<rparr>)\<rparr>)"
    using view_store_account_entry [OF s] k by (simp add: view_chain_accessors)
  ultimately show ?thesis
    using x d by (intro exI [of _ x] exI [of _ "x\<lparr>delegate_info := Some (d\<lparr>pay_balance := pb\<rparr>)\<rparr>"])
      (simp add: is_delegate_def account_pay_def)
qed

lemma sample_account_ok: "account_ok sample_account"
  by (simp add: account_ok_def sample_entry_defs)

lemma sample_store_account:
  "account_ok x \<Longrightarrow> \<exists>ch'. store_account_entry E x sample_chain = Inr ch'"
  unfolding store_account_entry_def
  by (rule account_store_ok) (auto simp: chain_run sample_account_ok)

lemmas account_run = account_has_signed_def is_retracted_def active_key_def ledger_run

theorem withdraw_pay_is_authorised_witness:
  "\<exists>st' ch' x'. withdraw_pay_evaluate sample_env \<lparr>wp_amount = 20, wp_account_id = 1\<rparr> sample_state sample_chain =
      Inr (st', ch') \<and> get_account_entry ch' 1 = Some x' \<and> account_pay x' = 60 - 20"
proof -
  have "\<exists>st' ch'. withdraw_pay_evaluate sample_env \<lparr>wp_amount = 20, wp_account_id = 1\<rparr> sample_state sample_chain =
      Inr (st', ch')"
  proof -
    have "account_ok (sample_account\<lparr>delegate_info := Some ((the (delegate_info sample_account))\<lparr>pay_balance := 40\<rparr>)\<rparr>)"
      by (simp add: account_ok_def sample_entry_defs)
    from sample_store_account [OF this, of sample_env] show ?thesis
      by (auto simp: withdraw_pay_evaluate_def account_run sample_view sample_entry_defs sample_env_simps)
  qed
  then obtain st' ch' where e: "withdraw_pay_evaluate sample_env \<lparr>wp_amount = 20, wp_account_id = 1\<rparr>
      sample_state sample_chain = Inr (st', ch')" by blast
  have "in_int64 (wp_amount \<lparr>wp_amount = 20, wp_account_id = 1\<rparr>)" by (simp add: arith_defs)
  from withdraw_pay_is_authorised [OF e books_sample this] show ?thesis
    using e by (auto simp: sample_view sample_account_def account_pay_def DelegateStats_init_def)
qed

section \<open>Issuing\<close>



section \<open>Accounts and permissions\<close>

lemma update_active_key_signed:
  assumes "update_active_key E op st ch x = Inr y" "active_key x = Inr k"
  shows "delegate_info y = delegate_info x \<and> ac_id y = ac_id x \<and> owner_key y = owner_key x \<and>
    (case ua_active_key op of
       Some k' \<Rightarrow> if k' \<noteq> k then check_signature st (env_addr_of E (owner_key x))
                 else account_has_signed E st x = Inr True \<and> y = x
     | None \<Rightarrow> account_has_signed E st x = Inr True \<and> y = x)"
  using assms
  by (auto simp: update_active_key_def set_active_key_def bindE_eq_Inr split: option.splits if_splits)

lemma update_delegate_part_rate:
  assumes "update_delegate_part op st ch x = Inr (y, st')"
  shows "ac_id y = ac_id x \<and> owner_key y = owner_key x \<and> active_key_history y = active_key_history x \<and>
    (is_delegate x \<longrightarrow> is_delegate y) \<and> delegate_pay_rate y \<le> delegate_pay_rate x"
  using assms
  by (cases "delegate_info x") (auto simp: update_delegate_part_def make_delegate_def set_signing_key_def Let_def
      is_delegate_def delegate_pay_rate_def bindE_eq_Inr split: if_splits)

text \<open>C25: An update of an account keeps its owner and its role: a key change carries the owner's signature and
  any other update a signature of the account, the owner key stays, a delegate stays a delegate, its pay
  rate never rises, and no other account changes.\<close>

theorem update_account_keeps_role:
  assumes "update_account_evaluate E op st ch = Inr (st', ch')" and "books E m (view ch)"
  shows "\<exists>x y k. get_account_entry ch (ua_account_id op) = Some x \<and> is_retracted x = Inr False \<and>
    active_key x = Inr k \<and>
    (if (case ua_active_key op of None \<Rightarrow> False | Some k' \<Rightarrow> k' \<noteq> k)
     then check_signature st (env_addr_of E (owner_key x))
     else account_has_signed E st x = Inr True \<and> active_key_history y = active_key_history x) \<and>
    get_account_entry ch' = (get_account_entry ch)(ua_account_id op \<mapsto> y) \<and>
    owner_key y = owner_key x \<and> (is_delegate x \<longrightarrow> is_delegate y) \<and> delegate_pay_rate y \<le> delegate_pay_rate x"
proof -
  define pub where "pub x = (case ua_public_data op of Some d \<Rightarrow> x\<lparr>ac_public_data := d\<rparr> | None \<Rightarrow> x)" for x :: AccountEntry
  from assms(1) obtain x y z where x: "get_account_entry ch (ua_account_id op) = Some x" "is_retracted x = Inr False"
    and y: "update_active_key E op st ch x = Inr y" and z: "update_delegate_part op st ch (pub y) = Inr (z, st')"
    and s: "store_account_entry E (z\<lparr>ac_last_update := env_now E\<rparr>) ch = Inr ch'"
    by (cases "get_account_entry ch (ua_account_id op)")
      (auto simp: update_account_evaluate_def Let_def bindE_eq_Inr pub_def split: if_splits)
  from y obtain k where k: "active_key x = Inr k" by (auto simp: update_active_key_def bindE_eq_Inr)
  have p: "ac_id (pub y) = ac_id y" "owner_key (pub y) = owner_key y"
    "active_key_history (pub y) = active_key_history y" "delegate_info (pub y) = delegate_info y"
    by (simp_all add: pub_def split: option.split)
  note signed = update_active_key_signed [OF y k] and rate = update_delegate_part_rate [OF z]
  have "get_account_entry ch' = (get_account_entry ch)(ua_account_id op \<mapsto> z\<lparr>ac_last_update := env_now E\<rparr>)"
    using view_store_account_entry [OF s] books_account [OF assms(2) x(1)] signed rate p
    by (simp add: view_chain_accessors)
  then show ?thesis
    using x k signed rate p
    by (intro exI [of _ x] exI [of _ "z\<lparr>ac_last_update := env_now E\<rparr>"] exI [of _ k])
      (auto simp: is_delegate_def delegate_pay_rate_def split: option.splits if_splits)
qed

theorem update_account_keeps_role_witness:
  "\<exists>st' ch' y. update_account_evaluate sample_env
      \<lparr>ua_account_id = 1, ua_public_data = None, ua_active_key = None, ua_delegate_pay_rate = 30\<rparr>
      sample_state sample_chain = Inr (st', ch') \<and>
    get_account_entry ch' 1 = Some y \<and> is_delegate y \<and> owner_key y = 78"
proof -
  let ?op = "\<lparr>ua_account_id = 1, ua_public_data = None, ua_active_key = None, ua_delegate_pay_rate = 30\<rparr>"
  have "account_ok (sample_account\<lparr>ac_last_update := 1000,
      delegate_info := Some ((the (delegate_info sample_account))\<lparr>pay_rate := 30\<rparr>)\<rparr>)"
    by (simp add: account_ok_def sample_entry_defs)
  from sample_store_account [OF this, of sample_env]
  obtain st' ch' where e: "update_account_evaluate sample_env ?op sample_state sample_chain = Inr (st', ch')"
    by (auto simp: update_account_evaluate_def update_active_key_def update_delegate_part_def update_is_delegate_def
        is_delegate_def account_run sample_view sample_entry_defs sample_env_simps)
  from update_account_keeps_role [OF e books_sample] show ?thesis
    using e by (auto simp: sample_view sample_entry_defs is_delegate_def)
qed

lemma update_asset_fields_effect:
  assumes "update_asset_fields op x = Inr y"
  shows "as_id y = as_id x \<and> current_share_supply y = current_share_supply x \<and> as_flags y = as_flags x \<and>
    as_issuer_permissions y = as_issuer_permissions x \<and> as_issuer_account_id y = as_issuer_account_id x \<and>
    (up_precision op = None \<longrightarrow> as_precision y = as_precision x) \<and>
    (up_maximum_share_supply op = None \<longrightarrow> maximum_share_supply y = maximum_share_supply x)"
  using assms
  by (cases "up_name op"; cases "up_description op"; cases "up_public_data op";
      cases "up_maximum_share_supply op"; cases "up_precision op")
    (auto simp: update_asset_fields_def Let_def split: if_splits)

lemma update_permissions_effect:
  assumes "update_permissions op x = Inr y"
  shows "as_id y = as_id x \<and> current_share_supply y = current_share_supply x \<and> as_precision y = as_precision x \<and>
    maximum_share_supply y = maximum_share_supply x \<and> as_issuer_account_id y = as_issuer_account_id x \<and>
    (\<forall>b \<in> set permission_bits. bit_allowed b (as_flags y) (as_issuer_permissions y)) \<and>
    (0 < current_share_supply x \<longrightarrow>
      (\<forall>b \<in> set permission_bits. bit_allowed b (as_issuer_permissions y) (as_issuer_permissions x)))"
  using assms by (auto simp: update_permissions_def Let_def list_all_iff split: if_splits)

text \<open>C26: An issuer's promises bind: an extended update is signed by the asset's authority, no flag is set
  without its permission, and once shares are in circulation the supply is untouched, permissions can only
  be given up, the precision stays, and the maximum supply stays unless the asset was issued with an
  unlimited supply.\<close>

theorem asset_permissions_only_shrink:
  assumes "update_asset_ext_evaluate op E st ch = Inr (st', ch')" and "books E m (view ch)"
  shows "\<exists>x y. get_asset_entry ch (up_asset_id op) = Some x \<and> verify_authority st (as_authority x) \<and>
    get_asset_entry ch' = (get_asset_entry ch)(up_asset_id op \<mapsto> y) \<and>
    current_share_supply y = current_share_supply x \<and>
    (\<forall>b \<in> set permission_bits. bit_allowed b (as_flags y) (as_issuer_permissions y)) \<and>
    (0 < current_share_supply x \<longrightarrow> as_precision y = as_precision x \<and>
      (as_flags x AND supply_unlimit = 0 \<longrightarrow> maximum_share_supply y = maximum_share_supply x) \<and>
      (\<forall>b \<in> set permission_bits. bit_allowed b (as_issuer_permissions y) (as_issuer_permissions x)))"
proof -
  from assms(1) obtain x y z where x: "get_asset_entry ch (up_asset_id op) = Some x"
      "verify_authority st (as_authority x)"
      "0 < current_share_supply x \<longrightarrow> as_flags x AND supply_unlimit = 0 \<longrightarrow> up_maximum_share_supply op = None"
      "0 < current_share_supply x \<longrightarrow> up_precision op = None"
    and y: "update_asset_fields op x = Inr y" and z: "update_permissions op y = Inr z"
    and s: "store_asset_entry (z\<lparr>as_issuer_account_id := ux_issuer_account_id op, as_last_update := env_now E\<rparr>) ch =
      Inr ch'"
    by (cases "get_asset_entry ch (up_asset_id op)")
      (auto simp: update_asset_ext_evaluate_def Let_def bindE_eq_Inr split: if_splits)
  note fy = update_asset_fields_effect [OF y] and fz = update_permissions_effect [OF z]
  have "get_asset_entry ch' = (get_asset_entry ch)(up_asset_id op \<mapsto>
      z\<lparr>as_issuer_account_id := ux_issuer_account_id op, as_last_update := env_now E\<rparr>)"
    using view_store_asset_entry [OF s] books_asset [OF assms(2) x(1)] fy fz by (simp add: view_chain_accessors)
  then show ?thesis
    using x fy fz
    by (intro exI [of _ x] exI [of _ "z\<lparr>as_issuer_account_id := ux_issuer_account_id op,
        as_last_update := env_now E\<rparr>"] conjI impI) simp_all
qed

theorem asset_permissions_only_shrink_witness:
  "\<exists>st' ch' y. update_asset_ext_evaluate
      \<lparr>up_asset_id = 1, up_name = None, up_description = Some ''d'', up_public_data = None,
       up_maximum_share_supply = None, up_precision = None,
       ux_flags = 0, ux_issuer_permissions = 0, ux_issuer_account_id = 1, ux_market_fee = 0,
       ux_transaction_fee = 0, ux_authority = \<lparr>mm_required = 1, mm_owners = [77]\<rparr>\<rparr>
      sample_env sample_state sample_chain = Inr (st', ch') \<and>
    get_asset_entry ch' 1 = Some y \<and> maximum_share_supply y = 1000 \<and> as_precision y = 100"
proof -
  let ?op = "\<lparr>up_asset_id = 1, up_name = None, up_description = Some ''d'', up_public_data = None,
       up_maximum_share_supply = None, up_precision = None,
       ux_flags = 0, ux_issuer_permissions = 0, ux_issuer_account_id = 1, ux_market_fee = 0,
       ux_transaction_fee = 0, ux_authority = \<lparr>mm_required = 1, mm_owners = [77]\<rparr>\<rparr> :: UpdateAssetExtOperation"
  have "\<exists>st' ch'. update_asset_ext_evaluate ?op sample_env sample_state sample_chain = Inr (st', ch')"
    by (simp add: update_asset_ext_evaluate_def update_asset_fields_def update_permissions_def bit_allowed_def
        permission_bits_def market_issuer_id_def verify_authority_def count_signatures_def store_asset_entry_def
        asset_store_def ledger_run chain_run sample_entry_defs sample_env_simps)
  then obtain st' ch' where
    e: "update_asset_ext_evaluate ?op sample_env sample_state sample_chain = Inr (st', ch')" by blast
  from asset_permissions_only_shrink [OF e books_sample] show ?thesis
    using e by (auto simp: sample_view sample_asset_def AssetEntry_init_def)
qed

text \<open>C29: The transaction fees of the chain can be set by anyone: whoever names a registered delegate changes the
  minimum, the maximum and the ratio of the transaction fee, in whatever evaluation state, with or without
  signatures.\<close>

theorem transfer_config_needs_no_signature:
  assumes "get_account_entry_by_name ch (utc_delegate_account_name op) = Inr (Some a)" and "is_delegate a"
  shows "\<exists>ch'. update_transfer_config_evaluate op st ch = Inr (st, ch') \<and>
    property_value ch' transaction_min_fee = Inr (int_variant (utc_min_transaction_fee op)) \<and>
    property_value ch' transaction_max_fee = Inr (int_variant (utc_max_transaction_fee op)) \<and>
    property_value ch' transaction_fee_ratio = Inr (double_variant (utc_transaction_fee_ratio op))"
proof -
  obtain c1 where c1: "store_property_entry transaction_min_fee (int_variant (utc_min_transaction_fee op)) ch = Inr c1"
    using store_property_entry_total by blast
  obtain c2 where c2: "store_property_entry transaction_max_fee (int_variant (utc_max_transaction_fee op)) c1 = Inr c2"
    using store_property_entry_total by blast
  obtain c3 where c3: "store_property_entry transaction_fee_ratio (double_variant (utc_transaction_fee_ratio op)) c2 = Inr c3"
    using store_property_entry_total by blast
  show ?thesis
    using assms by (simp add: update_transfer_config_evaluate_def c1 c2 c3 property_value_view
        view_store_property_entry [OF c1] view_store_property_entry [OF c2] view_store_property_entry [OF c3])
qed

theorem transfer_config_needs_no_signature_witness:
  "\<exists>ch ch'. get_account_entry_by_name ch ''alice'' = Inr (Some sample_account) \<and>
    update_transfer_config_evaluate
      \<lparr>utc_delegate_account_name = ''alice'', utc_min_transaction_fee = 0, utc_max_transaction_fee = 1,
       utc_transaction_fee_ratio = 0\<rparr> (sample_state\<lparr>signed_keys := []\<rparr>) ch =
      Inr (sample_state\<lparr>signed_keys := []\<rparr>, ch') \<and>
    property_value ch' transaction_max_fee = Inr (int_variant 1)"
proof -
  let ?ch = "ChainDatabase (empty_database\<lparr>db_account_id_to_entry := [(1, sample_account)],
    db_account_name_to_id := [(''alice'', 1)]\<rparr>)"
  have a: "get_account_entry_by_name ?ch ''alice'' = Inr (Some sample_account)"
    by (simp add: get_account_entry_by_name_def cd_account_lookup_by_name_def
        cd_account_lookup_by_id_def sample_account_def
        AccountEntry_init_def empty_database_def)
  have "is_delegate sample_account" by (simp add: is_delegate_def sample_account_def)
  from transfer_config_needs_no_signature [of ?ch "\<lparr>utc_delegate_account_name = ''alice'', utc_min_transaction_fee = 0, utc_max_transaction_fee = 1,
       utc_transaction_fee_ratio = 0\<rparr>" sample_account "sample_state\<lparr>signed_keys := []\<rparr>"] a this
  show ?thesis by auto
qed

end
