(* ===== verification/Contract_Laws.thy ===== *)
theory Contract_Laws
  imports Authority
begin

text \<open>
  The theorems on contract operations: where each operation may occur and whose signature it needs, what a
  call costs, how storage changes are merged, and why a contract with an \<open>on_destroy\<close> hook cannot be
  destroyed.
\<close>

section \<open>Origin and result transactions\<close>

text \<open>The key that a contract operation must be signed with.\<close>

definition contract_signer :: "chain \<Rightarrow> Operation \<Rightarrow> PublicKeyType option" where
  "contract_signer ch op =
    (case op of
       register_contract_op r \<Rightarrow> Some (rc_owner r)
     | call_contract_op c \<Rightarrow> Some (cc_caller c)
     | transfer_contract_op t \<Rightarrow> Some (tc_from t)
     | upgrade_contract_op u \<Rightarrow> map_option ct_owner (get_contract_entry ch (ug_id u))
     | destroy_contract_op d \<Rightarrow> map_option ct_owner (get_contract_entry ch (dc_id d))
     | _ \<Rightarrow> None)"

lemma register_allowed:
  assumes "register_contract_evaluate CE op E st ch = Some (Inr r)"
  shows "\<not> evaluate_contract_result st \<and> check_signature st (env_addr_of E (rc_owner op))"
  using assms by (auto simp: register_contract_evaluate_def split: if_splits)

lemma call_allowed_signed:
  assumes "call_contract_evaluate CE op E st ch = Some (Inr r)"
  shows "\<not> evaluate_contract_result st \<and> check_signature st (env_addr_of E (cc_caller op))"
proof -
  from assms have "call_allowed op E st ch = Inr ()"
    by (cases "call_allowed op E st ch") (simp_all add: call_contract_evaluate_def)
  then show ?thesis by (auto simp: call_allowed_def split: if_splits option.splits)
qed

lemma transfer_allowed_signed:
  assumes "transfer_contract_evaluate CE op E st ch = Some (Inr r)"
  shows "\<not> evaluate_contract_result st \<and> check_signature st (env_addr_of E (tc_from op))"
proof -
  from assms obtain h where "transfer_allowed op E st ch = Inr h"
    by (cases "transfer_allowed op E st ch") (simp_all add: transfer_contract_evaluate_def)
  then show ?thesis by (auto simp: transfer_allowed_def Let_def split: if_splits option.splits)
qed

lemma upgrade_allowed_signed:
  assumes "upgrade_contract_evaluate CE op E st ch = Some (Inr r)"
  shows "\<not> evaluate_contract_result st \<and> (\<exists>entry. get_contract_entry ch (ug_id op) = Some entry \<and>
    check_signature st (env_addr_of E (ct_owner entry)))"
proof -
  from assms obtain e where "upgrade_allowed op E st ch = Inr e"
    by (cases "upgrade_allowed op E st ch") (simp_all add: upgrade_contract_evaluate_def)
  then show ?thesis by (auto simp: upgrade_allowed_def split: if_splits option.splits)
qed

lemma destroy_allowed_signed:
  assumes "destroy_contract_evaluate CE op E st ch = Some (Inr r)"
  shows "\<not> evaluate_contract_result st \<and> (\<exists>entry. get_contract_entry ch (dc_id op) = Some entry \<and>
    check_signature st (env_addr_of E (ct_owner entry)))"
proof -
  from assms obtain e where "destroy_allowed op E st ch = Inr e"
    by (cases "destroy_allowed op E st ch") (simp_all add: destroy_contract_evaluate_def)
  then show ?thesis by (auto simp: destroy_allowed_def split: if_splits option.splits)
qed

lemmas contract_signed = register_allowed call_allowed_signed transfer_allowed_signed upgrade_allowed_signed
  destroy_allowed_signed

text \<open>C19: A contract operation that succeeds stands in an origin transaction and carries the signature of its
  operator: the owner who registers, upgrades or destroys the contract, the caller, or the payer.\<close>

theorem contract_operation_is_signed:
  assumes "evaluate_basic_operation CE E op st ch = Some (Inr r)" and "is_contract_op op"
  shows "\<not> evaluate_contract_result st \<and>
    (\<exists>k. contract_signer ch op = Some k \<and> check_signature st (env_addr_of E k))"
  using assms
  by (cases op) (simp_all add: is_contract_op_def evaluate_basic_operation_def contract_signer_def,
      auto dest: contract_signed)

text \<open>The operations that only the execution of a contract produces.\<close>

definition is_result_op :: "Operation \<Rightarrow> bool" where
  "is_result_op op =
    (case op of
       contract_info_op _ \<Rightarrow> True | withdraw_contract_op _ \<Rightarrow> True | deposit_contract_op _ \<Rightarrow> True
     | balances_withdraw_op _ \<Rightarrow> True | storage_op _ \<Rightarrow> True | event_op _ \<Rightarrow> True
     | on_destroy_op _ \<Rightarrow> True | on_upgrade_op _ \<Rightarrow> True
     | _ \<Rightarrow> False)"




section \<open>The price of a call\<close>

text \<open>What the code relies on of the virtual machine: it counts its instructions and stops at the limit, it does not
  switch the testing mode, and it does not make a balance vanish or change its asset.\<close>

definition metered :: "vm \<Rightarrow> bool" where
  "metered run \<longleftrightarrow> (\<forall>caller c m a limit st ch. 0 < limit \<longrightarrow> (let r = run caller c m a limit st ch in
    0 \<le> vm_count r \<and> vm_count r \<le> limit \<and>
    evaluate_contract_testing (vm_state r) = evaluate_contract_testing st \<and>
    (\<forall>i item. has_asset ch i item \<longrightarrow> has_asset (vm_chain r) i item)))"

lemma meteredD:
  assumes "metered run" and "r = run caller c m a limit st ch" and "0 < limit"
  shows "0 \<le> vm_count r" "vm_count r \<le> limit"
    "evaluate_contract_testing (vm_state r) = evaluate_contract_testing st"
    "has_asset ch i item \<Longrightarrow> has_asset (vm_chain r) i item"
  using assms by (cases item; auto simp: metered_def Let_def)+

lemma run_contract_cases:
  assumes "run_contract run caller c m a cost internal st ch finished out_of_money failed = Some (Inr x)"
    and "0 < get_limit 0 cost"
  obtains r where "r = run caller c m a (get_limit 0 cost) st ch"
    "finished r = Some (Inr x) \<or> out_of_money (vm_state r) (vm_chain r) = Some (Inr x) \<or> failed r = Some (Inr x)"
  using assms by (auto simp: run_contract_def Let_def split: if_splits)

lemma get_limit_id: "0 < cost \<Longrightarrow> cost < 2147483648 \<Longrightarrow> get_limit 0 cost = cost"
  by (simp add: get_limit_def LIMIT_PRICE_def sdiv_pos s32_def)

text \<open>The charge at the end of a result transaction: it is taken from the offered balances only.\<close>

definition charged :: "balance_map \<Rightarrow> int \<Rightarrow> SignedTransaction \<Rightarrow> bool" where
  "charged bs n t \<longleftrightarrow> (\<exists>ops m. operations t = ops @ [balances_withdraw_op m] \<and> sum_list (map snd m) = n \<and>
    (\<forall>kv \<in> set m. \<exists>v. (fst kv, v) \<in> set bs \<and> 0 \<le> snd kv \<and> snd kv \<le> v))"

lemma operations_push_result [simp]:
  "operations (p_result_trx (push_result op st)) = operations (p_result_trx st) @ [op]"
  by (simp add: push_result_def emplace_back_def)

lemma call_charge_pays:
  assumes "call_charge op required st ch = Some (Inr (st', ch'))" and "\<not> evaluate_contract_testing st"
    and "\<forall>item \<in> set (cc_balances op). has_asset ch 0 item \<and> 0 < snd item" and "distinct (map fst (cc_balances op))"
    and "0 \<le> required" and "in_int64 required"
  shows "charged (cc_balances op) required (p_result_trx st')"
proof -
  from assms(1,2) obtain m where m: "withdraw_enough_balances ch 0 (cc_balances op) required [] = Some (Inr m)"
    and st': "st' = push_result (balances_withdraw_op m) st"
    by (auto simp: call_charge_def bindO_eq_Inr)
  from withdraw_enough_spec [OF assms(3,4) _ assms(5,6), of "[]"] m
  show ?thesis by (auto simp: charged_def st' split: if_splits)
qed

text \<open>What the three ways a call ends charge.\<close>

lemma call_finished_pays:
  assumes "call_finished op required r = Some (Inr (st', ch'))" and "\<not> evaluate_contract_testing (vm_state r)"
    and "\<forall>item \<in> set (cc_balances op). has_asset (vm_chain r) 0 item \<and> 0 < snd item"
    and "distinct (map fst (cc_balances op))"
    and "0 < limit" "limit < 2147483648" "amount (cc_costlimit op) = limit" "0 \<le> vm_count r" "vm_count r \<le> limit"
    and "required = limit + fee" "0 \<le> fee" "in_int64 required"
  shows "charged (cc_balances op) (vm_count r + fee) (p_result_trx st')"
proof -
  have l: "s32 (get_limit 0 (amount (cc_costlimit op)) - vm_count r) = limit - vm_count r"
    using assms(5-9) by (simp add: get_limit_id s32_def)
  have "s64 (limit - vm_count r) = limit - vm_count r" "s64 (vm_count r + fee) = vm_count r + fee"
    using assms(5-12) by (intro s64_id; simp add: arith_defs)+
  then have "call_charge op (vm_count r + fee) ((vm_state r)\<lparr>exec_cost := get_amount (vm_count r) 0\<rparr>) (vm_chain r) =
      Some (Inr (st', ch'))"
    using assms(1,7,9,10) l by (auto simp: call_finished_def Let_def get_amount_def LIMIT_PRICE_def add.commute
        split: if_splits)
  then show ?thesis
    using assms(2-4,8-12) by (elim call_charge_pays) (auto simp: arith_defs)
qed

lemma call_out_of_money_pays:
  assumes "call_out_of_money op required st ch = Some (Inr (st', ch'))"
    and "\<forall>item \<in> set (cc_balances op). has_asset ch 0 item \<and> 0 < snd item"
    and "distinct (map fst (cc_balances op))" and "0 \<le> required" and "in_int64 required"
  shows "charged (cc_balances op) required (p_result_trx st')"
proof -
  let ?st = "expire_result (push_result (transaction_op (trx st)) (resize_result 0 st))"
  from assms(1) have "call_charge op required ?st ch = Some (Inr (st', ch'))" "\<not> evaluate_contract_testing st"
    by (auto simp: call_out_of_money_def split: if_splits)
  then show ?thesis
    using assms(2-) by (elim call_charge_pays) (simp_all add: expire_result_def push_result_def resize_result_def)
qed

lemma call_failed_pays:
  assumes "call_failed op r = Some (Inr (st', ch'))"
    and "\<forall>item \<in> set (cc_balances op). has_asset (vm_chain r) 0 item \<and> 0 < snd item"
    and "distinct (map fst (cc_balances op))" and "0 \<le> vm_count r" "vm_count r < 2147483648"
    and "0 \<le> amount (cc_transaction_fee op)" "in_int64 (amount (cc_transaction_fee op))"
  shows "charged (cc_balances op) (vm_count r + amount (cc_transaction_fee op)) (p_result_trx st')"
proof -
  let ?st = "expire_result (resize_result 1 (vm_state r))"
  have n: "s64 (vm_count r) = vm_count r" using assms(4,5) by (intro s64_id) (simp add: arith_defs)
  from assms(1) obtain cost where c: "asset_plus (get_amount (vm_count r) 0) (cc_transaction_fee op) = Inr cost"
    and ch: "call_charge op (amount cost) ?st (vm_chain r) = Some (Inr (st', ch'))"
    and t: "\<not> evaluate_contract_testing (vm_state r)"
    by (auto simp: call_failed_def Let_def bindO_eq_Inr split: if_splits)
  have a: "amount cost = vm_count r + amount (cc_transaction_fee op)" "in_int64 (amount cost)"
    using c n assms(4-7) by (auto simp: asset_plus_def asset_plus_assign_def get_amount_def LIMIT_PRICE_def Let_def
        arith_defs split: if_splits)
  then show ?thesis
    using ch t assms(2-6) by (auto simp: expire_result_def resize_result_def dest!: call_charge_pays)
qed

text \<open>The state a contract starts in.\<close>

definition call_start :: "CallContractOperation \<Rightarrow> TransactionEvaluationState \<Rightarrow> TransactionEvaluationState" where
  "call_start op st = expire_result (push_result on_call_success_op (push_result (transaction_op (trx st))
    (st\<lparr>contract_operator := cc_caller op, required_fees := cc_transaction_fee op\<rparr>)))"

lemma testing_result [simp]:
  "evaluate_contract_testing (push_result op st) = evaluate_contract_testing st"
  "evaluate_contract_testing (expire_result st) = evaluate_contract_testing st"
  by (simp_all add: push_result_def expire_result_def)

lemma call_checked:
  assumes "call_contract_evaluate CE op E st ch = Some (Inr x)" and "\<not> skipexec st" "\<not> evaluate_contract_testing st"
  obtains sum_all required where "call_allowed op E st ch = Inr ()"
    "check_balances E (st\<lparr>contract_operator := cc_caller op\<rparr>) ch (cc_balances op) (env_addr_of E (cc_caller op)) = Inr sum_all"
    "get_amount_sum (amount (cc_costlimit op)) (amount (cc_transaction_fee op)) = Inr required"
    "run_contract (ce_vm CE) (cc_caller op) (cc_contract op) (cc_method op) (cc_args op)
       (amount (cc_costlimit op)) True (call_start op st) ch (call_finished op required) (call_out_of_money op required)
       (call_failed op) = Some (Inr x)"
  using assms
  by (auto simp: call_contract_evaluate_def call_start_def Let_def bindO_eq_Inr bindE_eq_Inr split: if_splits)


text \<open>A contract of owner 9 with a method and an \<open>on_destroy\<close> hook.\<close>

definition sample_contract :: ContractEntry where
  "sample_contract = ContractEntry_init\<lparr>ct_id := 50, ct_owner := 9,
     ct_code := (ct_code ContractEntry_init)\<lparr>abi := [''foo'', ''on_destroy'']\<rparr>\<rparr>"

definition sample_contract_chain :: chain where
  "sample_contract_chain = PendingChainState (empty_pending_state\<lparr>ps_contract_id_to_entry := [(50, sample_contract)]\<rparr>)
     (Some sample_chain)"

definition sample_call :: CallContractOperation where
  "sample_call = \<lparr>cc_caller = 9, cc_balances = [(9, 80)], cc_contract = 50,
     cc_costlimit = \<lparr>amount = 10, asset_id = 0\<rparr>, cc_transaction_fee = \<lparr>amount = 2, asset_id = 0\<rparr>,
     cc_method = ''foo'', cc_args = ''''\<rparr>"

lemma sample_contract_view:
  "get_contract_entry sample_contract_chain 50 = Some sample_contract"
  "get_balance_entry sample_contract_chain = get_balance_entry sample_chain"
  "get_asset_entry sample_contract_chain = get_asset_entry sample_chain"
  "chain_last_asset_id sample_contract_chain = Inr 1"
  by (simp_all add: sample_contract_chain_def view_chain_accessors view_defs chain_last_asset_id_def
      property_value_view as_int64_def sample_chain_def empty_pending_state_def overlay_def)


lemma sample_metered: "metered (ce_vm sample_contract_env)"
  by (simp add: metered_def sample_contract_env_def)

definition running_state :: TransactionEvaluationState where
  "running_state = sample_state\<lparr>skipexec := False\<rparr>"

lemmas call_run = call_contract_evaluate_def call_allowed_def sample_call_def sample_contract_view sample_contract_def
  ContractEntry_init_def is_function_not_allow_call_def CON_INIT_INTERFACE_def CON_ON_DEPOSIT_INTERFACE_def
  CON_ON_UPGRADE_INTERFACE_def CON_ON_DESTROY_INTERFACE_def CONTRACT_PARAM_MAX_LEN_def is_contract_has_method_def
  check_balances_def check_balance_item_def check_payer_condition_def get_amount_sum_def has_asset_def
  balance_asset_id_def run_contract_def get_limit_def LIMIT_PRICE_def sample_contract_env_def call_finished_def
  call_charge_def get_amount_def running_state_def expire_result_def push_result_def with_expiration_def
  emplace_back_def with_operations_def empty_transaction_def sdiv_pos

lemma sample_call_runs:
  "accepted (call_contract_evaluate sample_contract_env sample_call sample_env running_state sample_contract_chain)"
  by (simp add: call_run ledger_run sample_view sample_entry_defs sample_env_simps accepted_def
      withdraw_enough_balances.simps)

theorem contract_operation_is_signed_witness:
  "check_signature running_state (env_addr_of sample_env (cc_caller sample_call))"
proof -
  obtain r where "evaluate_basic_operation sample_contract_env sample_env (call_contract_op sample_call) running_state
      sample_contract_chain = Some (Inr r)"
    using acceptedE [OF sample_call_runs] by (auto simp: evaluate_basic_operation_def)
  from contract_operation_is_signed [OF this] show ?thesis
    by (simp add: is_contract_op_def contract_signer_def)
qed


section \<open>Destroying a contract with a hook\<close>

lemma remain_out_of_bounds:
  "contract_balance_remain st = [] \<Longrightarrow> entries \<noteq> [] \<Longrightarrow> remain_from_entries E entries st = Inl undefined_behaviour"
  by (cases entries) (simp_all add: remain_from_entries_def)

lemma contract_balance_entries_not_Nil:
  assumes "contract_balance_entries E ch c = Inr entries" and "chain_last_asset_id ch = Inr n"
    and "0 \<le> n" "n < 2147483647"
  shows "entries \<noteq> []"
proof -
  have "s32 (n + 1) = n + 1" using assms(3,4) by (simp add: s32_def)
  then show ?thesis using assms by (auto simp: contract_balance_entries_def Let_def split: if_splits)
qed

lemma destroy_with_hook_stops:
  assumes "contract_balance_remain st = []" "entries \<noteq> []" "\<not> skipexec st"
  shows "\<not> accepted (destroy_with_hook CE op E entry margin entries st ch)"
  using assms remain_out_of_bounds [of "push_result (transaction_op (trx st)) st" entries E]
  by (simp add: destroy_with_hook_def Let_def accepted_def push_result_def)

text \<open>C27: A contract that has an \<open>on_destroy\<close> method cannot be destroyed: in an evaluation state whose vector of
  remaining balances is empty, as every new evaluation state is, and on a chain with an asset, the operation
  either raises an exception or writes beyond the vector; it never returns.\<close>

theorem hook_blocks_destruction:
  assumes "get_contract_entry ch (dc_id op) = Some entry"
    and "is_contract_has_method CON_ON_DESTROY_INTERFACE (abi (ct_code entry))"
    and "contract_balance_remain st = []" and "\<not> skipexec st"
    and "chain_last_asset_id ch = Inr n" and "0 \<le> n" and "n < 2147483647"
  shows "\<not> accepted (destroy_contract_evaluate CE op E st ch)"
proof
  let ?st = "st\<lparr>contract_operator := ct_owner entry\<rparr>"
  assume "accepted (destroy_contract_evaluate CE op E st ch)"
  then obtain st' ch' where d: "destroy_contract_evaluate CE op E st ch = Some (Inr (st', ch'))"
    using acceptedE by blast
  then obtain e where "destroy_allowed op E st ch = Inr e"
    by (cases "destroy_allowed op E st ch") (simp_all add: destroy_contract_evaluate_def)
  moreover from this have "e = entry" using assms(1) by (auto simp: destroy_allowed_def split: if_splits)
  ultimately have a: "destroy_allowed op E st ch = Inr entry" by simp
  from d obtain margin entries x where entries: "contract_balance_entries E ch (ct_id entry) = Inr entries"
    and h: "destroy_with_hook CE op E entry margin entries ?st ch = Some (Inr x)"
    by (auto simp: destroy_contract_evaluate_def bindO_eq_Inr Let_def a assms(2))
  then show False
    using destroy_with_hook_stops [of ?st entries CE op E entry margin ch]
      contract_balance_entries_not_Nil [OF entries assms(5-7)] assms(3,4) h
    by (simp add: accepted_def)
qed

theorem hook_blocks_destruction_witness:
  "\<not> accepted (destroy_contract_evaluate sample_contract_env
      \<lparr>dc_id = 50, dc_exec_limit = \<lparr>amount = 10, asset_id = 0\<rparr>, dc_transaction_fee = \<lparr>amount = 2, asset_id = 0\<rparr>,
       dc_balances = [(9, 80)]\<rparr> sample_env running_state sample_contract_chain)"
  by (rule hook_blocks_destruction [where entry = sample_contract and n = 1])
    (simp_all add: sample_contract_view sample_contract_def is_contract_has_method_def CON_ON_DESTROY_INTERFACE_def
      running_state_def sample_entry_defs)

section \<open>Contract storage\<close>

lemma map_of_fold_delete:
  "map_of (fold (\<lambda>kv. AList.delete (fst kv)) bs m) k = (if k \<in> fst ` set bs then None else map_of m k)"
  by (induction bs arbitrary: m) (auto simp: delete_conv')

lemma map_of_fold_update:
  "distinct (map fst us) \<Longrightarrow>
    map_of (fold (\<lambda>kv. omap_update (fst kv) (snd kv)) us m) k =
      (case map_of us k of Some v \<Rightarrow> Some v | None \<Rightarrow> map_of m k)"
proof (induction us arbitrary: m)
  case (Cons u us)
  then have "fst u \<notin> fst ` set us" by simp
  then have "map_of us (fst u) = None" by (simp add: map_of_eq_None_iff)
  then show ?case using Cons by (cases u) (auto split: option.splits)
qed simp

text \<open>C30: A change of a stored table is merged entry by entry: the new table holds the entries of the change's
  after-table, drops the entries that only its before-table has, and keeps every other entry of the stored
  table; the type of the storage stays.\<close>

theorem storage_table_merge:
  assumes "update_contract_map_storage CE t change cur = Inr d"
    and "storage_as CE t cur = Inr s" and "storage_as CE t (storage_before change) = Inr b"
    and "storage_as CE t (storage_after change) = Inr a" and "distinct (map fst a)"
  shows "storage_type d = t \<and> (\<exists>m. storage_data d = ce_pack_table CE t m \<and>
    (\<forall>k. map_of m k = (case map_of a k of Some v \<Rightarrow> Some v
      | None \<Rightarrow> if k \<in> fst ` set b then None else map_of s k)))"
proof -
  let ?m = "fold (\<lambda>kv. omap_update (fst kv) (snd kv)) a (fold (\<lambda>kv. AList.delete (fst kv)) b s)"
  have "d = \<lparr>storage_type = t, storage_data = ce_pack_table CE t ?m\<rparr>"
    using assms(1-4) by (simp add: update_contract_map_storage_def Let_def)
  then show ?thesis
    by (intro conjI exI [of _ ?m]) (simp_all only: map_of_fold_update [OF assms(5)] map_of_fold_delete
        StorageDataType.select_convs simp_thms)
qed

definition letter_tables :: contract_env where
  "letter_tables = sample_contract_env
    \<lparr>ce_unpack_table := (\<lambda>_ x. Inr (map (\<lambda>w. (if w = 1 then ''a'' else if w = 2 then ''b'' else ''c'', [w])) x)),
     ce_pack_table := (\<lambda>_ m. concat (map snd m))\<rparr>"

theorem storage_table_merge_witness:
  "\<exists>d m. update_contract_map_storage letter_tables 51
      \<lparr>storage_before = \<lparr>storage_type = 51, storage_data = [1]\<rparr>, storage_after = \<lparr>storage_type = 51, storage_data = [2]\<rparr>\<rparr>
      \<lparr>storage_type = 51, storage_data = [1, 3]\<rparr> = Inr d \<and> storage_type d = 51 \<and>
    storage_data d = concat (map snd m) \<and> map_of m ''a'' = None \<and> map_of m ''b'' = Some [2] \<and> map_of m ''c'' = Some [3]"
proof -
  let ?change = "\<lparr>storage_before = \<lparr>storage_type = 51, storage_data = [1]\<rparr>,
    storage_after = \<lparr>storage_type = 51, storage_data = [2]\<rparr>\<rparr>" and ?cur = "\<lparr>storage_type = 51, storage_data = [1, 3]\<rparr>"
  have t: "storage_as letter_tables 51 ?cur = Inr [(''a'', [1]), (''c'', [3])]"
    "storage_as letter_tables 51 (storage_before ?change) = Inr [(''a'', [1])]"
    "storage_as letter_tables 51 (storage_after ?change) = Inr [(''b'', [2])]"
    by (simp_all add: storage_as_def letter_tables_def)
  then obtain d where d: "update_contract_map_storage letter_tables 51 ?change ?cur = Inr d"
    by (auto simp: update_contract_map_storage_def Let_def)
  have "distinct (map fst [(''b'', [2 :: 8 word])])" by simp
  from storage_table_merge [OF d t this] obtain m where "storage_type d = 51" "storage_data d = concat (map snd m)"
    "\<forall>k. map_of m k = (case map_of [(''b'', [2])] k of Some v \<Rightarrow> Some v
      | None \<Rightarrow> if k \<in> fst ` set [(''a'', [1 :: 8 word])] then None else map_of [(''a'', [1]), (''c'', [3])] k)"
    by (auto simp: letter_tables_def)
  then show ?thesis using d by (intro exI [of _ d] exI [of _ m]) simp
qed

end
