(* ===== verification/Delegates.thy ===== *)
theory Delegates
  imports Contract_Laws
begin

text \<open>
  Delegates in \<open>ChainDatabase.cpp\<close>: the ranking by votes, the shuffled list of active delegates, the slots
  in which they produce blocks, their statistics and their pay, and the supply the chain reports. Hash
  functions and the recovery of the signing key of a block are parameters.
\<close>

section \<open>Parameters of a node\<close>

text \<open>\<open>nv_seed_hash\<close> hashes a secret and the current seed, \<open>nv_sha_seed\<close> and \<open>nv_sha\<close> are the hashes of the shuffle;
  \<open>nv_wall\<close> is the clock. The checkpoints are a constant table of the code; the last four fields stand for the
  size of a packed block and for what a block asks of the wallet (open, with enabled delegates, their minimal fee).\<close>

record node_env =
  nv_signee :: "SignedBlockHeader \<Rightarrow> PublicKeyType result"
  nv_header_hash :: "SignedBlockHeader \<Rightarrow> BlockIdType"
  nv_ids_hash :: "160 word list \<Rightarrow> DigestType"
  nv_seed_hash :: "DigestType \<Rightarrow> 160 word \<Rightarrow> 160 word"
  nv_sha_seed :: "160 word \<Rightarrow> 256 word"
  nv_sha :: "256 word \<Rightarrow> 256 word"
  nv_wall :: time_point_sec
  nv_last_checkpoint :: "64 word"
  nv_checkpoints :: "(64 word \<times> BlockIdType) list"
  nv_verify_signatures :: bool
  nv_generating_block :: bool
  nv_nodeindex :: "16 word"
  nv_block_size :: "FullBlock \<Rightarrow> nat"
  nv_wallet_open :: bool
  nv_wallet_delegates :: bool
  nv_transaction_min_fee :: ShareType


section \<open>Votes\<close>

text \<open>The loop of \<open>get_delegates_by_vote\<close> over the vote set.\<close>

fun collect_delegates :: "nat \<Rightarrow> nat \<Rightarrow> nat \<Rightarrow> VoteDel list \<Rightarrow> AccountIdType list \<Rightarrow> AccountIdType list" where
  "collect_delegates first cnt pos [] sorted_delegates = sorted_delegates"
| "collect_delegates first cnt pos (v # vs) sorted_delegates =
    (if length sorted_delegates < cnt
     then collect_delegates first cnt (pos + 1) vs
            (if pos \<ge> first then sorted_delegates @ [vote_delegate_id v] else sorted_delegates)
     else sorted_delegates)"

definition get_delegates_by_vote :: "chain_database \<Rightarrow> nat \<Rightarrow> nat \<Rightarrow> AccountIdType list" where
  "get_delegates_by_vote d first cnt =
    (let cnt = (if cnt > length (db_delegate_votes d) then length (db_delegate_votes d) else cnt)
     in collect_delegates first cnt 0 (db_delegate_votes d) [])"

definition next_round_active_delegates :: "chain_database \<Rightarrow> AccountIdType list" where
  "next_round_active_delegates d = get_delegates_by_vote d 0 ALP_BLOCKCHAIN_NUM_DELEGATES"

definition get_all_delegates_by_vote :: "chain_database \<Rightarrow> AccountIdType list" where
  "get_all_delegates_by_vote d = map vote_delegate_id (db_delegate_votes d)"


section \<open>The active delegates\<close>

definition get_current_random_seed :: "chain \<Rightarrow> 160 word result" where
  "get_current_random_seed ch =
    (case get_property_entry ch last_random_seed_id of
       Some e \<Rightarrow> (case pr_value e of hash_variant h \<Rightarrow> Inr h | _ \<Rightarrow> Inl bad_cast)
     | None \<Rightarrow> Inr 0)"

definition update_random_seed :: "node_env \<Rightarrow> DigestType \<Rightarrow> chain \<Rightarrow> chain result" where
  "update_random_seed N new_secret ch =
    bindE (get_current_random_seed ch) (\<lambda>current_seed.
    store_property_entry last_random_seed_id (hash_variant (nv_seed_hash N new_secret current_seed)) ch)"

text \<open>\<open>_hash[x]\<close> of a 256-bit hash.\<close>

definition hash_part :: "256 word \<Rightarrow> nat \<Rightarrow> 64 word" where
  "hash_part h x = ucast (drop_bit (64 * x) h)"

definition swap_elements :: "nat \<Rightarrow> nat \<Rightarrow> 'a list \<Rightarrow> 'a list" where
  "swap_elements i j xs = xs[i := xs ! j, j := xs ! i]"

text \<open>The loop of the shuffle; the first argument counts the iterations left, \<open>choices\<close> in the code.\<close>

fun shuffle_delegates :: "(256 word \<Rightarrow> 256 word) \<Rightarrow> nat \<Rightarrow> nat \<Rightarrow> nat \<Rightarrow> 256 word \<Rightarrow> 'a list \<Rightarrow> 'a list" where
  "shuffle_delegates sha 0 i x rand_seed active_del = active_del"
| "shuffle_delegates sha (Suc n) i x rand_seed active_del =
    (let choices = Suc n;
         j = unat (hash_part rand_seed x) mod choices + i;
         active_del = swap_elements i j active_del;
         x = (x + 1) mod 4;
         rand_seed = (if x = 0 then sha rand_seed else rand_seed)
     in shuffle_delegates sha n (Suc i) x rand_seed active_del)"

definition update_active_delegate_list ::
  "node_env \<Rightarrow> chain_database \<Rightarrow> 64 word \<Rightarrow> chain \<Rightarrow> chain result" where
  "update_active_delegate_list N d num ch =
    (if unat num mod ALP_BLOCKCHAIN_NUM_DELEGATES \<noteq> 0 then Inr ch
     else
       let active_del = next_round_active_delegates d in
       bindE (get_current_random_seed ch) (\<lambda>seed.
       set_active_delegates
         (shuffle_delegates (nv_sha N) (length active_del) 0 0 (nv_sha_seed N seed) active_del) ch))"


section \<open>Slots\<close>

definition get_delegate_entry_for_signee :: "env \<Rightarrow> chain \<Rightarrow> PublicKeyType \<Rightarrow> AccountEntry result" where
  "get_delegate_entry_for_signee E ch block_signee =
    bindE (get_account_entry_by_address ch (env_addr_of E block_signee)) (\<lambda>a.
    case a of
      None \<Rightarrow> Inl fc_assert
    | Some a \<Rightarrow> if \<not> is_delegate a then Inl fc_assert else Inr a)"

definition slot_delegate :: "chain \<Rightarrow> nat \<Rightarrow> AccountIdType list \<Rightarrow> AccountEntry result" where
  "slot_delegate ch slot_number ordered_delegates =
    (let delegate_pos = slot_number mod ALP_BLOCKCHAIN_NUM_DELEGATES in
     if \<not> delegate_pos < length ordered_delegates then Inl fc_assert
     else case get_account_entry ch (ordered_delegates ! delegate_pos) of
       None \<Rightarrow> Inl fc_assert
     | Some a \<Rightarrow> if \<not> is_delegate a then Inl fc_assert else Inr a)"

definition get_slot_signee1 :: "chain \<Rightarrow> time_point_sec \<Rightarrow> AccountIdType list \<Rightarrow> AccountEntry result" where
  "get_slot_signee1 ch ts ordered_delegates = slot_delegate ch (unat (get_slot_number ts)) ordered_delegates"

definition get_slot_signee :: "chain \<Rightarrow> 64 word \<Rightarrow> AccountIdType list \<Rightarrow> AccountEntry result" where
  "get_slot_signee ch num ordered_delegates =
    slot_delegate ch (unat (ucast (node_index num) + produced num :: 64 word)) ordered_delegates"

text \<open>The loop of \<open>get_next_producible_block_timestamp\<close>; the first argument is fuel.\<close>

fun producible_loop ::
  "nat \<Rightarrow> AccountIdType list \<Rightarrow> AccountIdType list \<Rightarrow> time_point_sec \<Rightarrow> time_point_sec \<Rightarrow>
   time_point_sec option result option" where
  "producible_loop 0 delegate_ids active_delegates next_block_time last_block_time = None"
| "producible_loop (Suc n) delegate_ids active_delegates next_block_time last_block_time =
    (if \<not> next_block_time < last_block_time then Some (Inr None)
     else
       let delegate_pos = unat (get_slot_number next_block_time) mod ALP_BLOCKCHAIN_NUM_DELEGATES in
       if \<not> delegate_pos < length active_delegates then Some (Inl fc_assert)
       else if active_delegates ! delegate_pos \<in> set delegate_ids then Some (Inr (Some next_block_time))
       else producible_loop n delegate_ids active_delegates
              (next_block_time + word_of_int ALP_BLOCKCHAIN_BLOCK_INTERVAL_SEC) last_block_time)"

definition first_producible_time :: "node_env \<Rightarrow> env \<Rightarrow> time_point_sec" where
  "first_producible_time N E =
    (let next_block_time = get_slot_start_time_of (nv_wall N) in
     if next_block_time \<le> env_now E
     then next_block_time + word_of_int ALP_BLOCKCHAIN_BLOCK_INTERVAL_SEC else next_block_time)"

definition get_next_producible_block_timestamp ::
  "node_env \<Rightarrow> env \<Rightarrow> chain \<Rightarrow> AccountIdType list \<Rightarrow> time_point_sec option result option" where
  "get_next_producible_block_timestamp N E ch delegate_ids =
    (let next_block_time = first_producible_time N E;
         last_block_time = next_block_time +
           word_of_int (int ALP_BLOCKCHAIN_NUM_DELEGATES * ALP_BLOCKCHAIN_BLOCK_INTERVAL_SEC)
     in case get_active_delegates ch of
          Inl e \<Rightarrow> Some (Inl e)
        | Inr active_delegates \<Rightarrow>
            producible_loop 100 delegate_ids active_delegates next_block_time last_block_time)"


section \<open>Statistics and pay\<close>

definition update_delegate_production_info ::
  "env \<Rightarrow> chain \<Rightarrow> SignedBlockHeader \<Rightarrow> BlockIdType \<Rightarrow> PublicKeyType \<Rightarrow> chain \<Rightarrow> chain result" where
  "update_delegate_production_info E db block_header bid block_signee ch =
    bindE (get_delegate_entry_for_signee E db block_signee) (\<lambda>signee.
    case get_account_entry ch (ac_id signee) of
      None \<Rightarrow> Inl fc_assert
    | Some entry \<Rightarrow>
        (case delegate_info entry of
           None \<Rightarrow> Inl fc_assert
         | Some info \<Rightarrow>
             let info = info\<lparr>blocks_produced := blocks_produced info + 1,
                   last_block_num_produced := block_num block_header\<rparr>
             in bindE (store_account_entry E (entry\<lparr>delegate_info := Some info\<rparr>) ch) (\<lambda>ch.
                if env_statistics_enabled E
                then store_slot_entry E
                       \<lparr>slot_index = \<lparr>si_delegate_id = ac_id signee, si_timestamp = timestamp block_header\<rparr>,
                        slot_block_id = Some bid\<rparr> ch
                else Inr ch)))"

text \<open>The three amounts a block entry records.\<close>

record block_pay =
  signee_shares_issued :: ShareType
  signee_fees_collected :: ShareType
  signee_fees_destroyed :: ShareType

definition blocks_per_two_weeks :: int where
  "blocks_per_two_weeks = 14 * ALP_BLOCKCHAIN_BLOCKS_PER_DAY"

definition delegate_paycheck :: "8 word \<Rightarrow> ShareType \<Rightarrow> block_pay result" where
  "delegate_paycheck rate fees =
    (let accepted_new_shares = s64 (get_max_delegate_pay_issued_per_block * uint rate) sdiv 100;
         max_collected_fees = fees sdiv blocks_per_two_weeks;
         accepted_collected_fees = s64 (max_collected_fees * uint rate) sdiv 100;
         destroyed_collected_fees = s64 (max_collected_fees - accepted_collected_fees)
     in if \<not> (max_collected_fees \<ge> 0 \<and> accepted_collected_fees \<ge> 0 \<and> destroyed_collected_fees \<ge> 0)
        then Inl fc_assert
        else Inr \<lparr>signee_shares_issued = accepted_new_shares, signee_fees_collected = accepted_collected_fees,
                  signee_fees_destroyed = destroyed_collected_fees\<rparr>)"

text \<open>The assertion on the paycheck comes after the supply was changed, in the entry that is not yet stored.\<close>

definition pay_asset :: "block_pay \<Rightarrow> AssetEntry \<Rightarrow> AssetEntry" where
  "pay_asset p a = a\<lparr>
     current_share_supply := s64 (s64 (current_share_supply a + signee_shares_issued p) - signee_fees_destroyed p),
     collected_fees := s64 (collected_fees a - collected_fees a sdiv blocks_per_two_weeks)\<rparr>"

definition pay_stats :: "ShareType \<Rightarrow> DelegateStats \<Rightarrow> DelegateStats" where
  "pay_stats n info = info\<lparr>votes_for := s64 (votes_for info + n), pay_balance := s64 (pay_balance info + n),
     total_paid := s64 (total_paid info + n)\<rparr>"

definition pay_delegate ::
  "env \<Rightarrow> chain \<Rightarrow> PublicKeyType \<Rightarrow> chain \<Rightarrow> (block_pay \<times> chain) result" where
  "pay_delegate E db block_signee ch =
    (case get_asset_entry ch 0 of
       None \<Rightarrow> Inl fc_assert
     | Some base \<Rightarrow>
         bindE (get_account_entry_by_address db (env_addr_of E block_signee)) (\<lambda>a.
         case a of
           None \<Rightarrow> Inl fc_assert
         | Some signee \<Rightarrow>
             (case get_account_entry ch (ac_id signee) of
                None \<Rightarrow> Inl fc_assert
              | Some entry \<Rightarrow>
                  (case delegate_info entry of
                     None \<Rightarrow> Inl fc_assert
                   | Some info \<Rightarrow>
                       if \<not> pay_rate info \<le> 100 then Inl fc_assert
                       else bindE (delegate_paycheck (pay_rate info) (collected_fees base)) (\<lambda>p.
                         let accepted_paycheck = s64 (signee_shares_issued p + signee_fees_collected p) in
                         if \<not> accepted_paycheck \<ge> 0 then Inl fc_assert
                         else bindE (store_account_entry E
                                  (entry\<lparr>delegate_info := Some (pay_stats accepted_paycheck info)\<rparr>) ch) (\<lambda>ch.
                           bindE (store_asset_entry (pay_asset p base) ch) (\<lambda>ch. Inr (p, ch))))))))"


section \<open>The supply of an asset\<close>

definition calculate_supply :: "chain_database \<Rightarrow> AssetIdType \<Rightarrow> Asset result" where
  "calculate_supply d a =
    (case cd_asset_lookup_by_id d a of
       None \<Rightarrow> Inl fc_assert
     | Some entry \<Rightarrow>
         let sum_all = collected_fees entry;
             sum_all = fold (\<lambda>kb s. if balance_asset_id (snd kb) = a then s64 (s + be_balance (snd kb)) else s)
               (db_balance_id_to_entry d) sum_all;
             sum_all = (if a = 0
               then fold (\<lambda>ka s. case delegate_info (snd ka) of Some i \<Rightarrow> s64 (s + pay_balance i) | None \<Rightarrow> s)
                      (db_account_id_to_entry d) sum_all
               else sum_all)
         in Inr \<lparr>amount = sum_all, asset_id = a\<rparr>)"

section \<open>Properties\<close>

lemma collect_delegates_take:
  "first \<le> pos \<Longrightarrow> length acc \<le> cnt \<Longrightarrow>
    collect_delegates first cnt pos vs acc = acc @ map vote_delegate_id (take (cnt - length acc) vs)"
  by (induction vs arbitrary: pos acc) (auto simp: Suc_diff_le not_less take_Cons' split: if_splits)

lemma next_round_take:
  "next_round_active_delegates d = map vote_delegate_id (take 99 (db_delegate_votes d))"
  by (simp add: next_round_active_delegates_def get_delegates_by_vote_def collect_delegates_take config_defs)

lemma mset_swap_elements:
  "i < length xs \<Longrightarrow> j < length xs \<Longrightarrow> mset (swap_elements i j xs) = mset xs"
  by (simp add: swap_elements_def mset_swap)

lemma mset_shuffle_delegates:
  "i + n = length xs \<Longrightarrow> mset (shuffle_delegates sha n i x seed xs) = mset xs"
proof (induction n arbitrary: i x seed xs)
  case (Suc n)
  let ?j = "unat (hash_part seed x) mod Suc n + i"
  have "?j < length xs" using Suc.prems mod_less_divisor [of "Suc n" "unat (hash_part seed x)"] by linarith
  then have m: "mset (swap_elements i ?j xs) = mset xs" using Suc.prems by (intro mset_swap_elements) auto
  have "Suc i + n = length (swap_elements i ?j xs)" using Suc.prems by (simp add: swap_elements_def)
  then show ?case using Suc.IH m by (simp add: Let_def)
qed simp

text \<open>C10: Every 99 blocks the active delegates become exactly the 99 delegates with the most votes, whatever the
  random seed is: the shuffle permutes them, and no delegate that is left out has more votes than one that
  is in.\<close>

theorem active_delegates_are_top_voted:
  assumes "update_active_delegate_list N d num ch = Inr ch'" and "99 dvd unat num" and "sorted (db_delegate_votes d)"
  shows "\<exists>ids. get_active_delegates ch' = Inr ids \<and>
    mset ids = mset (map vote_delegate_id (take 99 (db_delegate_votes d))) \<and>
    (\<forall>v \<in> set (db_delegate_votes d). vote_delegate_id v \<notin> set ids \<longrightarrow>
      (\<forall>w \<in> set (take 99 (db_delegate_votes d)). votes v \<le> votes w))"
proof -
  let ?votes = "db_delegate_votes d"
  obtain seed where s: "set_active_delegates (shuffle_delegates (nv_sha N) (length (next_round_active_delegates d)) 0 0
      (nv_sha_seed N seed) (next_round_active_delegates d)) ch = Inr ch'"
    using assms(1,2) by (auto simp: update_active_delegate_list_def config_defs bindE_eq_Inr Let_def)
  let ?ids = "shuffle_delegates (nv_sha N) (length (next_round_active_delegates d)) 0 0
      (nv_sha_seed N seed) (next_round_active_delegates d)"
  have active: "get_active_delegates ch' = Inr ?ids"
    using view_store_property_entry [OF s [unfolded set_active_delegates_def]]
    by (simp add: get_active_delegates_def property_value_view as_vector_def)
  have m: "mset ?ids = mset (map vote_delegate_id (take 99 ?votes))"
    by (simp add: mset_shuffle_delegates next_round_take flip: mset_map)
  have "votes v \<le> votes w" if v: "v \<in> set ?votes" "vote_delegate_id v \<notin> set ?ids" and w: "w \<in> set (take 99 ?votes)" for v w
  proof -
    have "vote_delegate_id v \<notin> set (map vote_delegate_id (take 99 ?votes))"
      using v(2) mset_eq_setD [OF m] by blast
    then have "v \<in> set (drop 99 ?votes)" using v(1) by (metis Un_iff append_take_drop_id image_eqI set_append set_map)
    moreover have "sorted (take 99 ?votes @ drop 99 ?votes)" using assms(3) by simp
    ultimately have "w \<le> v" using w unfolding sorted_append by blast
    then show ?thesis by (auto simp: less_eq_VoteDel_def less_VoteDel_def split: if_splits)
  qed
  then show ?thesis using active m by blast
qed

text \<open>A node for the examples.\<close>

definition sample_node :: node_env where
  "sample_node = \<lparr>nv_signee = (\<lambda>_. Inr 77), nv_header_hash = (\<lambda>h. ucast (block_num h)), nv_ids_hash = (\<lambda>_. 0),
     nv_seed_hash = (\<lambda>_ s. s + 1), nv_sha_seed = ucast, nv_sha = (\<lambda>h. h), nv_wall = 1006,
     nv_last_checkpoint = 0, nv_checkpoints = [], nv_verify_signatures = True, nv_generating_block = False,
     nv_nodeindex = 0, nv_block_size = (\<lambda>_. 100), nv_wallet_open = False, nv_wallet_delegates = False,
     nv_transaction_min_fee = 0\<rparr>"

theorem active_delegates_are_top_voted_witness:
  "\<exists>ch' ids. update_active_delegate_list sample_node
      (empty_database\<lparr>db_delegate_votes := [VoteDel 50 4, VoteDel 30 7]\<rparr>) 198 sample_chain = Inr ch' \<and>
    get_active_delegates ch' = Inr ids \<and> mset ids = {#4, 7#}"
proof -
  let ?d = "empty_database\<lparr>db_delegate_votes := [VoteDel 50 4, VoteDel 30 7]\<rparr>"
  have "get_property_entry sample_chain last_random_seed_id = None"
    by (simp add: sample_chain_def get_property_entry_def cd_property_lookup_by_id_def)
  then obtain ch' where e: "update_active_delegate_list sample_node ?d 198 sample_chain = Inr ch'"
    by (simp add: update_active_delegate_list_def get_current_random_seed_def set_active_delegates_def config_defs
        Let_def) (metis store_property_entry_total)
  have "sorted (db_delegate_votes ?d)" by (simp add: less_eq_VoteDel_def less_VoteDel_def)
  moreover have "(99 :: nat) dvd unat (198 :: 64 word)" by simp
  ultimately show ?thesis using active_delegates_are_top_voted [OF e] e by fastforce
qed

section \<open>Production slots\<close>

text \<open>The start of the \<open>k\<close>-th slot from the one that starts at \<open>t\<close>; slots are numbered consecutively.\<close>

definition slot_time :: "time_point_sec \<Rightarrow> nat \<Rightarrow> time_point_sec" where
  "slot_time t k = t + word_of_int (6 * int k)"

lemma slot_time_Suc: "slot_time t k + word_of_int 6 = slot_time t (Suc k)"
proof -
  have "6 * int (Suc k) = 6 * int k + 6" by simp
  then show ?thesis by (simp only: slot_time_def add.assoc wi_hom_add)
qed

lemma uint_slot_time:
  assumes "uint t + 6 * int k < 4294967296"
  shows "uint (slot_time t k) = uint t + 6 * int k"
proof -
  have "uint (slot_time t k) = (uint t + 6 * int k) mod 4294967296"
    unfolding slot_time_def uint_word_ariths uint_word_of_int by (simp add: mod_add_right_eq)
  then show ?thesis using assms uint_ge_0 [of t] by (simp only: mod_pos_pos_trivial)
qed

lemma slot_number_slot_time:
  assumes "6 dvd uint t" and "uint t + 6 * int k < 4294967296"
  shows "unat (get_slot_number (slot_time t k)) = unat (get_slot_number t) + k"
proof -
  obtain n where n: "uint t = 6 * n" using assms(1) by (elim dvdE)
  have b: "0 \<le> n" "n < 4294967296" "n + int k < 4294967296" using assms(2) n uint_ge_0 [of t] by linarith+
  have "(6 * n + 6 * int k) div 6 = n + int k" by simp
  then have "get_slot_number (slot_time t k) = word_of_int (n + int k)"
    by (simp only: get_slot_number_def config_defs uint_slot_time [OF assms(2)] n)
  moreover have "uint (word_of_int (n + int k) :: 32 word) = n + int k"
    using b by (simp only: uint_word_of_int) (simp add: mod_pos_pos_trivial)
  ultimately have "uint (get_slot_number (slot_time t k)) = n + int k" by (simp only:)
  moreover have "uint (get_slot_number t) = n"
    using b by (simp add: get_slot_number_def config_defs n uint_word_of_int mod_pos_pos_trivial)
  ultimately show ?thesis using b by (simp add: unat_eq_nat_uint nat_add_distrib)
qed

text \<open>The active delegate of that slot.\<close>

definition slot_owner :: "AccountIdType list \<Rightarrow> time_point_sec \<Rightarrow> nat \<Rightarrow> AccountIdType" where
  "slot_owner active t k = active ! ((unat (get_slot_number t) + k) mod 99)"

lemma slot_owner_surj:
  assumes "length active = 99" and "a \<in> set active"
  shows "\<exists>j < 99. slot_owner active t j = a"
proof -
  obtain i where i: "i < 99" "active ! i = a" using assms by (auto simp: in_set_conv_nth)
  let ?n = "unat (get_slot_number t) mod 99"
  have "(unat (get_slot_number t) + (i + 99 - ?n) mod 99) mod 99 = (?n + (i + 99 - ?n)) mod 99"
    by (metis mod_add_eq mod_mod_trivial)
  also have "\<dots> = i" using i(1) mod_less_divisor [of 99 "unat (get_slot_number t)"] by simp
  finally show ?thesis using i by (intro exI [of _ "(i + 99 - ?n) mod 99"]) (simp add: slot_owner_def)
qed

lemma producible_loop_finds:
  assumes "6 dvd uint t" and "uint t + 594 < 4294967296" and "length active = 99"
    and "slot_owner active t m \<in> set ids" and "m < 99" and "\<forall>j < m. slot_owner active t j \<notin> set ids"
    and "k \<le> m" and "m - k < fuel"
  shows "producible_loop fuel ids active (slot_time t k) (slot_time t 99) = Some (Inr (Some (slot_time t m)))"
  using assms(7,8)
proof (induction fuel arbitrary: k)
  case (Suc fuel)
  have k: "uint t + 6 * int k < 4294967296" using assms(2,5) Suc.prems by linarith
  have less: "slot_time t k < slot_time t 99"
    using uint_slot_time [OF k] uint_slot_time [of t 99] assms(2,5) Suc.prems by (simp add: word_less_def)
  have pos: "active ! (unat (get_slot_number (slot_time t k)) mod 99) = slot_owner active t k"
    by (simp add: slot_owner_def slot_number_slot_time [OF assms(1) k])
  show ?case
  proof (cases "k = m")
    case True
    then show ?thesis using less pos assms(3,4) by (simp add: config_defs Let_def)
  next
    case False
    then have "slot_owner active t k \<notin> set ids" using assms(6) Suc.prems by auto
    moreover have "producible_loop fuel ids active (slot_time t (Suc k)) (slot_time t 99) = Some (Inr (Some (slot_time t m)))"
      using Suc.IH [of "Suc k"] Suc.prems False by simp
    ultimately show ?thesis using less pos assms(3) by (simp add: config_defs Let_def flip: slot_time_Suc)
  qed
qed simp

lemma producible_loop_exhausts:
  assumes "6 dvd uint t" and "uint t + 594 < 4294967296" and "length active = 99"
    and "\<forall>j < 99. slot_owner active t j \<notin> set ids" and "k \<le> 99" and "99 - k < fuel"
  shows "producible_loop fuel ids active (slot_time t k) (slot_time t 99) = Some (Inr None)"
  using assms(5,6)
proof (induction fuel arbitrary: k)
  case (Suc fuel)
  have k: "uint t + 6 * int k < 4294967296" using assms(2) Suc.prems by linarith
  have less: "slot_time t k < slot_time t 99 \<longleftrightarrow> k < 99"
    using uint_slot_time [OF k] uint_slot_time [of t 99] assms(2) by (simp add: word_less_def)
  have pos: "active ! (unat (get_slot_number (slot_time t k)) mod 99) = slot_owner active t k"
    by (simp add: slot_owner_def slot_number_slot_time [OF assms(1) k])
  show ?case
  proof (cases "k < 99")
    case True
    then have "producible_loop fuel ids active (slot_time t (Suc k)) (slot_time t 99) = Some (Inr None)"
      using Suc.IH [of "Suc k"] Suc.prems by simp
    then show ?thesis using less pos assms(3,4) True by (simp add: config_defs Let_def flip: slot_time_Suc)
  next
    case False
    then show ?thesis using less by simp
  qed
qed simp

lemma first_producible_time_slot:
  assumes "uint (nv_wall N) + 600 < 4294967296"
  shows "6 dvd uint (first_producible_time N E)" and "uint (first_producible_time N E) + 594 < 4294967296"
proof -
  let ?s = "get_slot_start_time_of (nv_wall N)"
  have d: "0 \<le> uint (nv_wall N) div 6" "uint (nv_wall N) div 6 * 6 \<le> uint (nv_wall N)"
    using uint_ge_0 [of "nv_wall N"] by linarith+
  have n: "uint (get_slot_number (nv_wall N)) = uint (nv_wall N) div 6"
    using d assms unfolding get_slot_number_def config_defs by (simp only: uint_word_of_int) (simp add: mod_pos_pos_trivial)
  have s: "uint ?s = uint (nv_wall N) div 6 * 6"
    using d assms unfolding get_slot_start_time_of_def get_slot_start_time_def n config_defs
    by (simp only: uint_word_of_int) (simp add: mod_pos_pos_trivial)
  have s6: "uint (?s + word_of_int 6) = uint ?s + 6"
    using uint_slot_time [of ?s 1] d s assms by (simp add: slot_time_def)
  show "6 dvd uint (first_producible_time N E)"
    using s s6 by (simp add: first_producible_time_def Let_def config_defs)
  show "uint (first_producible_time N E) + 594 < 4294967296"
    using s s6 d assms by (simp add: first_producible_time_def Let_def config_defs)
qed

text \<open>C11: Every active delegate gets to produce: with 99 active delegates, the search for the next slot of a set of
  delegates returns, within one round of 99 slots from now, the first slot that belongs to one of them, and
  reports that there is none only when none of them is active. The clock must be ten minutes short of the
  end of 32-bit time.\<close>

theorem active_delegate_gets_a_slot:
  assumes "uint (nv_wall N) + 600 < 4294967296"
    and "get_active_delegates ch = Inr active" and "length active = 99"
  shows "if set ids \<inter> set active = {} then get_next_producible_block_timestamp N E ch ids = Some (Inr None)
    else \<exists>m < 99. get_next_producible_block_timestamp N E ch ids =
        Some (Inr (Some (slot_time (first_producible_time N E) m))) \<and>
      slot_owner active (first_producible_time N E) m \<in> set ids \<and>
      (\<forall>j < m. slot_owner active (first_producible_time N E) j \<notin> set ids)"
proof -
  let ?t = "first_producible_time N E"
  let ?P = "\<lambda>j. slot_owner active ?t j \<in> set ids"
  note t = first_producible_time_slot [OF assms(1), of E]
  have g: "get_next_producible_block_timestamp N E ch ids =
      producible_loop 100 ids active (slot_time ?t 0) (slot_time ?t 99)"
    by (simp add: get_next_producible_block_timestamp_def assms(2) Let_def slot_time_def config_defs)
  show ?thesis
  proof (cases "set ids \<inter> set active = {}")
    case True
    then have "\<forall>j < 99. \<not> ?P j" using assms(3) by (auto simp: slot_owner_def dest!: nth_mem)
    then show ?thesis using True g producible_loop_exhausts [OF t assms(3), of ids 0 100] by simp
  next
    case False
    then obtain a j where "a \<in> set ids" "j < 99" "slot_owner active ?t j = a"
      using slot_owner_surj [OF assms(3)] by blast
    then have j: "?P j" "j < 99" by auto
    have "\<exists>m. ?P m \<and> m < 99 \<and> (\<forall>i < m. \<not> ?P i)"
      using j by (intro exI [of _ "LEAST j. ?P j"]) (meson LeastI Least_le le_less_trans not_less_Least)
    then obtain m where m: "?P m" "m < 99" "\<forall>i < m. \<not> ?P i" by blast
    have "producible_loop 100 ids active (slot_time ?t 0) (slot_time ?t 99) = Some (Inr (Some (slot_time ?t m)))"
      using producible_loop_finds [OF t assms(3) m, of 0 100] m(2) by simp
    then show ?thesis using False g m by auto
  qed
qed

theorem active_delegate_gets_a_slot_witness:
  "\<exists>ch. get_active_delegates ch = Inr [1..99] \<and>
    (\<exists>m < 99. get_next_producible_block_timestamp sample_node sample_env ch [42] =
      Some (Inr (Some (slot_time (first_producible_time sample_node sample_env) m))))"
proof -
  obtain ch where s: "set_active_delegates [1..99] sample_chain = Inr ch"
    by (metis store_property_entry_total set_active_delegates_def)
  have a: "get_active_delegates ch = Inr [1..99]"
    using view_store_property_entry [OF s [unfolded set_active_delegates_def]]
    by (simp add: get_active_delegates_def property_value_view as_vector_def)
  have "uint (nv_wall sample_node) + 600 < 4294967296" by (simp add: sample_node_def)
  moreover have "length [1..99] = 99" by simp
  ultimately have "if set [42] \<inter> set [1..99] = {} then get_next_producible_block_timestamp sample_node sample_env ch [42] = Some (Inr None)
    else \<exists>m < 99. get_next_producible_block_timestamp sample_node sample_env ch [42] =
        Some (Inr (Some (slot_time (first_producible_time sample_node sample_env) m))) \<and>
      slot_owner [1..99] (first_producible_time sample_node sample_env) m \<in> set [42] \<and>
      (\<forall>j < m. slot_owner [1..99] (first_producible_time sample_node sample_env) j \<notin> set [42])"
    using active_delegate_gets_a_slot [OF _ a] by blast
  moreover have "set [42] \<inter> set [1..99::int] \<noteq> {}" by simp
  ultimately show ?thesis using a by auto
qed

section \<open>Pay and supply\<close>

text \<open>Every amount the chain keeps is between zero and the largest supply an asset may have.\<close>

definition amounts_bounded :: "chain_view \<Rightarrow> bool" where
  "amounts_bounded v \<longleftrightarrow>
    (\<forall>i x. v_asset v i = Some x \<longrightarrow> current_share_supply x \<in> {0..ALP_BLOCKCHAIN_MAX_SHARES} \<and>
      collected_fees x \<in> {0..ALP_BLOCKCHAIN_MAX_SHARES}) \<and>
    (\<forall>i x. v_account v i = Some x \<longrightarrow> account_pay x \<in> {0..ALP_BLOCKCHAIN_MAX_SHARES})"

lemma sdiv_nonneg: "0 \<le> a \<Longrightarrow> 0 < b \<Longrightarrow> a sdiv b = a div (b::int)"
  by (cases "a = 0") (simp_all add: signed_divide_int_def)

lemma s64_small: "0 \<le> x \<Longrightarrow> x \<le> 9223372036854775807 \<Longrightarrow> s64 x = x" "0 \<le> x \<Longrightarrow> x \<le> 9223372036854775807 \<Longrightarrow> in_int64 x"
  by (simp_all add: arith_defs)

lemma delegate_paycheck_exact:
  assumes "delegate_paycheck rate fees = Inr p" and "rate \<le> 100" and "0 \<le> fees" "fees \<le> ALP_BLOCKCHAIN_MAX_SHARES"
  shows "signee_fees_collected p + signee_fees_destroyed p = fees div blocks_per_two_weeks"
    and "0 \<le> signee_shares_issued p" "signee_shares_issued p \<le> 200"
    and "0 \<le> signee_fees_collected p" "0 \<le> signee_fees_destroyed p"
    and "signee_shares_issued p = 2 * uint rate"
    and "signee_fees_collected p = fees div blocks_per_two_weeks * uint rate div 100"
proof -
  have r: "0 \<le> uint rate" "uint rate \<le> 100" using assms(2) by (simp_all add: word_le_def)
  define q where "q = fees div blocks_per_two_weeks"
  have q: "0 \<le> q" "q \<le> ALP_BLOCKCHAIN_MAX_SHARES" "fees sdiv blocks_per_two_weeks = q"
    using assms(3,4) by (simp_all add: q_def blocks_per_two_weeks_def fee_defs sdiv_nonneg config_defs)
  have qr: "0 \<le> q * uint rate" "q * uint rate \<le> q * 100" using q r by (simp_all add: mult_left_mono)
  then have m: "s64 (q * uint rate) = q * uint rate" "s64 (200 * uint rate) = 200 * uint rate"
    using q r by (intro s64_small; simp add: config_defs)+
  have d: "0 \<le> q * uint rate div 100" "q * uint rate div 100 \<le> q" using qr by simp_all
  then have e: "s64 (q - q * uint rate div 100) = q - q * uint rate div 100"
    using q by (intro s64_small) (simp_all add: config_defs)
  have p: "p = \<lparr>signee_shares_issued = 200 * uint rate div 100, signee_fees_collected = q * uint rate div 100,
      signee_fees_destroyed = q - q * uint rate div 100\<rparr>"
    using assms(1) m e q qr r
    by (simp add: delegate_paycheck_def get_max_delegate_pay_issued_per_block_def fee_defs(1) Let_def sdiv_nonneg
        split: if_splits)
  show "signee_fees_collected p + signee_fees_destroyed p = fees div blocks_per_two_weeks"
    "0 \<le> signee_shares_issued p" "signee_shares_issued p \<le> 200"
    "0 \<le> signee_fees_collected p" "0 \<le> signee_fees_destroyed p"
    "signee_shares_issued p = 2 * uint rate"
    "signee_fees_collected p = fees div blocks_per_two_weeks * uint rate div 100"
    using d r unfolding p by (simp_all flip: q_def)
qed

lemma pay_delegateE:
  assumes "pay_delegate E db k ch = Inr (p, ch')"
  obtains base i entry info ch1 where "get_asset_entry ch 0 = Some base" and "get_account_entry ch i = Some entry"
    and "delegate_info entry = Some info" and "pay_rate info \<le> 100"
    and "delegate_paycheck (pay_rate info) (collected_fees base) = Inr p"
    and "store_account_entry E
      (entry\<lparr>delegate_info := Some (pay_stats (s64 (signee_shares_issued p + signee_fees_collected p)) info)\<rparr>) ch = Inr ch1"
    and "store_asset_entry (pay_asset p base) ch1 = Inr ch'"
proof (cases "get_asset_entry ch 0")
  case (Some base)
  obtain a where a: "get_account_entry_by_address db (env_addr_of E k) = Inr (Some a)"
    using assms Some by (auto simp: pay_delegate_def bindE_eq_Inr split: option.splits)
  obtain entry where entry: "get_account_entry ch (ac_id a) = Some entry"
    using assms Some a by (cases "get_account_entry ch (ac_id a)") (simp_all add: pay_delegate_def)
  obtain info where info: "delegate_info entry = Some info"
    using assms Some a entry by (cases "delegate_info entry") (simp_all add: pay_delegate_def)
  show thesis
    using assms Some a entry info that
    by (auto simp: pay_delegate_def bindE_eq_Inr Let_def split: if_splits)
qed (use assms in \<open>simp add: pay_delegate_def\<close>)

lemma pay_delegate_books:
  assumes "pay_delegate E db k ch = Inr (p, ch')" and "books E m (view ch)" and "amounts_bounded (view ch)"
  shows "books E m (view ch')" and "unheld (view ch') a = unheld (view ch) a"
    and "issued (view ch') 0 = issued (view ch) 0 + signee_shares_issued p - signee_fees_destroyed p"
proof -
  obtain base i entry info ch1 where *: "get_asset_entry ch 0 = Some base" "get_account_entry ch i = Some entry"
    "delegate_info entry = Some info" "pay_rate info \<le> 100"
    and pc: "delegate_paycheck (pay_rate info) (collected_fees base) = Inr p"
    and s1: "store_account_entry E
      (entry\<lparr>delegate_info := Some (pay_stats (s64 (signee_shares_issued p + signee_fees_collected p)) info)\<rparr>) ch = Inr ch1"
    and s2: "store_asset_entry (pay_asset p base) ch1 = Inr ch'"
    using pay_delegateE [OF assms(1)] by metis
  let ?M = "ALP_BLOCKCHAIN_MAX_SHARES"
  let ?n = "signee_shares_issued p + signee_fees_collected p"
  let ?q = "collected_fees base div blocks_per_two_weeks"
  have b: "current_share_supply base \<in> {0..?M}" "collected_fees base \<in> {0..?M}" "account_pay entry \<in> {0..?M}"
    using assms(3) * by (simp_all add: amounts_bounded_def view_chain_accessors)
  note pay = delegate_paycheck_exact [OF pc *(4)]
  have w: "blocks_per_two_weeks = 201600" by (simp add: blocks_per_two_weeks_def fee_defs)
  have q: "0 \<le> ?q" "?q \<le> collected_fees base" using b(2) unfolding w atLeastAtMost_iff by linarith+
  have qs: "collected_fees base sdiv blocks_per_two_weeks = ?q"
    using b(2) by (intro sdiv_nonneg) (simp_all add: blocks_per_two_weeks_def fee_defs)
  have p: "signee_fees_collected p + signee_fees_destroyed p = ?q" "0 \<le> signee_shares_issued p"
    "signee_shares_issued p \<le> 200" "0 \<le> signee_fees_collected p" "0 \<le> signee_fees_destroyed p"
    using pay b(2) by simp_all
  have n: "s64 ?n = ?n" using p q b(2) by (intro s64_small) (simp_all add: config_defs)
  let ?x = "entry\<lparr>delegate_info := Some (pay_stats (s64 ?n) info)\<rparr>"
  have pb: "account_pay entry = pay_balance info" using *(3) by (simp add: account_pay_def)
  have x: "account_pay ?x = account_pay entry + ?n" "in_int64 (account_pay ?x)"
    using b p q pb unfolding n by (simp_all add: account_pay_def pay_stats_def s64_small config_defs)
  have i: "ac_id ?x = i" using books_account [OF assms(2) *(2)] by simp
  note st1 = store_account_books [OF s1 assms(2) i x(2) *(2)]
  have g: "get_asset_entry ch1 0 = Some base"
    using *(1) view_store_account_entry [OF s1] by (simp add: view_chain_accessors)
  have as: "current_share_supply (pay_asset p base) = current_share_supply base + signee_shares_issued p - signee_fees_destroyed p"
    "collected_fees (pay_asset p base) = collected_fees base - ?q" "as_id (pay_asset p base) = 0"
    "in_int64 (current_share_supply (pay_asset p base))" "in_int64 (collected_fees (pay_asset p base))"
    using b p q books_asset [OF assms(2) *(1)]
    by (simp_all add: pay_asset_def qs arith_defs config_defs)
  note st2 = store_asset_books [OF s2 st1(1) as(3-5)]
  show "books E m (view ch')" by (rule st2(1))
  show "unheld (view ch') a = unheld (view ch) a"
    using st1(2) st2(2) x(1) p(1) by (simp add: g as(1,2))
  show "issued (view ch') 0 = issued (view ch) 0 + signee_shares_issued p - signee_fees_destroyed p"
    using *(1) view_store_asset_entry [OF s2] by (simp add: issued_def as view_chain_accessors)
qed

lemma s64_add_left [simp]: "s64 (s64 x + y) = s64 (x + y)"
  by (simp add: s64_def mod_simps algebra_simps)

lemma fold_s64_total:
  assumes "in_int64 s"
  shows "fold (\<lambda>x s. if P x then s64 (s + f x) else s) xs s = s64 (s + sum_list (map (\<lambda>x. if P x then f x else 0) xs))"
  using assms by (induction xs arbitrary: s) (auto simp: add.assoc)

lemma map_sum_map_of:
  assumes "distinct (map fst xs)"
  shows "map_sum f (map_of xs) = sum_list (map (\<lambda>kx. f (snd kx)) xs)"
  using assms
proof (induction xs)
  case (Cons kx xs)
  obtain k x where kx: "kx = (k, x)" by force
  have "map_of xs k = None" using Cons.prems by (simp add: kx map_of_eq_None_iff)
  moreover have "map_of (kx # xs) = (map_of xs)(k \<mapsto> x)" by (simp add: kx)
  ultimately show ?case
    using Cons.IH Cons.prems map_sum_update [OF finite_dom_map_of, of f xs k x] by (simp only:) (simp add: kx)
qed (simp add: map_sum_def)

text \<open>C22: The supply that \<open>calculate_supply\<close> adds up from the database, balance by balance and delegate by delegate,
  is the sum of all holdings of the asset in the accounting model, as a 64-bit value.\<close>

theorem calculate_supply_is_holdings:
  assumes "calculate_supply d a = Inr x" and "books E m (view (ChainDatabase d))"
    and "distinct (map fst (db_balance_id_to_entry d))" and "distinct (map fst (db_account_id_to_entry d))"
  shows "amount x = s64 (holdings (view (ChainDatabase d)) a)"
proof -
  obtain e where e: "cd_asset_lookup_by_id d a = Some e"
    using assms(1) by (cases "cd_asset_lookup_by_id d a") (simp_all add: calculate_supply_def)
  have f: "in_int64 (collected_fees e)"
    using assms(2) e by (simp add: books_def view_def chain_defs)
  have b: "fold (\<lambda>kb s. if balance_asset_id (snd kb) = a then s64 (s + be_balance (snd kb)) else s) xs s =
      s64 (s + sum_list (map (\<lambda>kb. balance_of_asset a (snd kb)) xs))" if "in_int64 s" for xs :: "('k \<times> BalanceEntry) list" and s
    by (subst fold_s64_total [OF that, of "\<lambda>kb. balance_asset_id (snd kb) = a"])
      (simp add: balance_of_asset_def balance_asset_id_def)
  have p: "fold (\<lambda>ka s. case delegate_info (snd ka) of Some i \<Rightarrow> s64 (s + pay_balance i) | None \<Rightarrow> s) xs s =
      s64 (s + sum_list (map (\<lambda>ka. account_pay (snd ka)) xs))" if "in_int64 s" for xs :: "('k \<times> AccountEntry) list" and s
    using that by (induction xs arbitrary: s) (auto simp: account_pay_def add.assoc split: option.split)
  have h: "holdings (view (ChainDatabase d)) a = collected_fees e +
      sum_list (map (\<lambda>kb. balance_of_asset a (snd kb)) (db_balance_id_to_entry d)) +
      (if a = 0 then sum_list (map (\<lambda>ka. account_pay (snd ka)) (db_account_id_to_entry d)) else 0)"
  proof -
    have "balance_lookup_by_id (ChainDatabase d) = map_of (db_balance_id_to_entry d)"
      "account_lookup_by_id (ChainDatabase d) = map_of (db_account_id_to_entry d)"
      by (rule ext, simp add: cd_balance_lookup_by_id_def cd_account_lookup_by_id_def)+
    then show ?thesis
      using e by (simp add: holdings_def view_def map_sum_map_of [OF assms(3)] map_sum_map_of [OF assms(4)])
  qed
  have "amount x = (let s = fold (\<lambda>kb s. if balance_asset_id (snd kb) = a then s64 (s + be_balance (snd kb)) else s)
        (db_balance_id_to_entry d) (collected_fees e) in
      if a = 0 then fold (\<lambda>ka s. case delegate_info (snd ka) of Some i \<Rightarrow> s64 (s + pay_balance i) | None \<Rightarrow> s)
        (db_account_id_to_entry d) s else s)"
    using assms(1) e by (auto simp: calculate_supply_def Let_def)
  then show ?thesis unfolding b [OF f] Let_def p [OF in_int64_s64] h by simp
qed

theorem calculate_supply_is_holdings_witness:
  "\<exists>d. sample_chain = ChainDatabase d \<and> calculate_supply d 0 = Inr \<lparr>amount = 165, asset_id = 0\<rparr> \<and>
    s64 (holdings (view sample_chain) 0) = 165"
proof -
  obtain d where d: "sample_chain = ChainDatabase d" "db_balance_id_to_entry d = [(9, sample_balance 9 0 100), (8, sample_balance 8 1 50)]"
    "db_account_id_to_entry d = [(1, sample_account)]" "db_asset_id_to_entry d = [(0, sample_asset 0), (1, sample_asset 1)]"
    by (simp add: sample_chain_def)
  have c: "calculate_supply d 0 = Inr \<lparr>amount = 165, asset_id = 0\<rparr>"
    by (simp add: calculate_supply_def d cd_asset_lookup_by_id_def sample_entry_defs balance_asset_id_def arith_defs)
  then have "amount (\<lparr>amount = 165, asset_id = 0\<rparr>) = s64 (holdings (view (ChainDatabase d)) 0)"
    using books_sample d by (intro calculate_supply_is_holdings) simp_all
  then show ?thesis using c d(1) by auto
qed

end
