(* ===== verification/Block_Application.thy ===== *)
theory Block_Application
  imports Delegates
begin

text \<open>
  Blocks in \<open>ChainDatabase.cpp\<close>: applying the transactions of a block, extending the chain, the databases of
  blocks, the head block and the numbers produced by each node, and \<open>push_block\<close>, which links a block to
  its parents and applies it. The theorems follow the shares, the signatures and the block databases
  through these functions.
\<close>

abbreviation invalid_block_digest :: error where "invalid_block_digest \<equiv> exn 30021"
abbreviation failed_checkpoint_verification :: error where "failed_checkpoint_verification \<equiv> exn 30023"
abbreviation key_not_found :: error where "key_not_found \<equiv> exn 6"
abbreviation insufficient_relay_fee :: error where "insufficient_relay_fee \<equiv> exn 31405"

definition MIN_CHILDREN_FOR_COMPLETE_BLOCK :: nat where "MIN_CHILDREN_FOR_COMPLETE_BLOCK = 2"
definition ALP_BLOCKCHAIN_DEFAULT_RELAY_FEE :: int where "ALP_BLOCKCHAIN_DEFAULT_RELAY_FEE = 0"


section \<open>The transactions of a block\<close>

text \<open>The task submitted to the thread pool. It works on a snapshot of the evaluation state; the lists come from
  \<open>transaction_entry_analy\<close>, whose result is ignored and which never fails on a fresh state.\<close>

definition thread_check :: "env \<Rightarrow> chain \<Rightarrow> TransactionEvaluationState \<Rightarrow> SignedTransaction \<Rightarrow> bool result" where
  "thread_check E ch st t =
    (case transaction_entry_analy st ch t of
       Some (all_balances, all_accounts) \<Rightarrow> transaction_signature_check E st t all_balances all_accounts
     | None \<Rightarrow> transaction_signature_check E st t [] [])"

definition block_skipexec :: "node_env \<Rightarrow> chain \<Rightarrow> SignedTransaction \<Rightarrow> bool result" where
  "block_skipexec N db t =
    bindE (if nv_generating_block N then Inr False
           else bindE (get_node_vm_enabled db) (\<lambda>enabled. Inr (\<not> enabled))) (\<lambda>skip.
    Inr (if result_trx_type t = incomplete_result_transaction then False else skip))"

definition set_chain_location :: "env \<Rightarrow> TransactionIdType \<Rightarrow> TransactionLocation \<Rightarrow> chain \<Rightarrow> chain result" where
  "set_chain_location E tid loc ch =
    (case transaction_lookup_by_id ch tid of
       None \<Rightarrow> Inl fc_assert
     | Some entry \<Rightarrow> transaction_store E tid (entry\<lparr>chain_location := loc\<rparr>) ch)"

text \<open>\<open>trx.operations[0].as<TransactionOperation>().trx\<close>.\<close>

definition origin_of :: "SignedTransaction \<Rightarrow> SignedTransaction result" where
  "origin_of t =
    (case operations t of
       [] \<Rightarrow> Inl undefined_behaviour
     | op # _ \<Rightarrow> (case as_transaction op of Some t0 \<Rightarrow> Inr t0 | None \<Rightarrow> Inl fc_assert))"

definition record_locations :: "env \<Rightarrow> TransactionLocation \<Rightarrow> SignedTransaction \<Rightarrow> chain \<Rightarrow> chain result" where
  "record_locations E loc t ch =
    bindE (set_chain_location E (trx_id (env_trx_hash E) t) loc ch) (\<lambda>ch.
    case result_trx_type t of
      origin_transaction \<Rightarrow> Inr ch
    | incomplete_result_transaction \<Rightarrow>
        bindE (origin_of t) (\<lambda>t0.
        bindE (set_chain_location E (trx_id (env_trx_hash E) t0) loc ch) (\<lambda>ch.
        set_chain_location E (result_trx_id t) loc ch))
    | complete_result_transaction \<Rightarrow>
        bindE (origin_of t) (\<lambda>t0. set_chain_location E (trx_id (env_trx_hash E) t0) loc ch))"

text \<open>What the loop carries: the transaction number, the pending state, its events and the futures.\<close>

record apply_state =
  ap_num :: nat
  ap_chain :: chain
  ap_events :: "EventOperation list"
  ap_checks :: "bool result list"

definition apply_transaction ::
  "contract_env \<Rightarrow> env \<Rightarrow> node_env \<Rightarrow> chain \<Rightarrow> FullBlock \<Rightarrow> SignedTransaction \<Rightarrow> apply_state \<Rightarrow>
   apply_state result option" where
  "apply_transaction CE E N db b t s =
    (let st = (TransactionEvaluationState_init False)\<lparr>skip_signature_check := \<not> nv_verify_signatures N\<rparr>;
         checks = (if skip_signature_check st then [] else [thread_check E (ap_chain s) st t]);
         st = st\<lparr>skip_signature_check := True\<rparr>
     in if env_data_size E t > ALP_BLOCKCHAIN_MAX_TRX_SIZE then Some (Inl fc_assert)
        else bindO (Some (block_skipexec N db t)) (\<lambda>skip.
          bindO (evaluate CE E True t (st\<lparr>skipexec := skip\<rparr>) (ap_chain s)) (\<lambda>(st, ch).
          bindO (Some (record_locations E
                   \<lparr>loc_block_num = block_num b, loc_trx_num = of_nat (ap_num s)\<rparr> t ch)) (\<lambda>ch.
          Some (Inr \<lparr>ap_num = ap_num s + 1, ap_chain = ch, ap_events = ap_events s @ event_vector st,
                     ap_checks = ap_checks s @ checks\<rparr>)))))"

text \<open>The results are collected after the loop; an exception of a task is caught and ignored.\<close>

definition apply_transactions ::
  "contract_env \<Rightarrow> env \<Rightarrow> node_env \<Rightarrow> chain \<Rightarrow> FullBlock \<Rightarrow> chain \<Rightarrow> (EventOperation list \<times> chain) result option" where
  "apply_transactions CE E N db b ch =
    bindO (foldO (apply_transaction CE E N db b) (user_transactions b)
             \<lparr>ap_num = 0, ap_chain = ch, ap_events = [], ap_checks = []\<rparr>) (\<lambda>s.
    if list_ex (\<lambda>c. c = Inr False) (ap_checks s) then Some (Inl missing_signature)
    else Some (Inr (ap_events s, ap_chain s)))"


section \<open>The changes a block makes\<close>

text \<open>The slot's delegate signs blocks below the last checkpoint, without a check of the signature.\<close>

definition block_signee :: "env \<Rightarrow> node_env \<Rightarrow> chain \<Rightarrow> FullBlock \<Rightarrow> PublicKeyType result" where
  "block_signee E N db b =
    (if block_num b > nv_last_checkpoint N then nv_signee N (header_of b)
     else
       let slot_key = bindE (get_active_delegates db) (\<lambda>active.
             bindE (get_slot_signee1 db (timestamp b) active) signing_key)
       in case map_of (nv_checkpoints N) (block_num b) of
            Some i \<Rightarrow> if i \<noteq> block_id (nv_header_hash N) b then Inl failed_checkpoint_verification else slot_key
          | None \<Rightarrow> slot_key)"

definition verify_header :: "env \<Rightarrow> node_env \<Rightarrow> FullBlock \<Rightarrow> unit result" where
  "verify_header E N b =
    (if \<not> validate_digest (nv_ids_hash N) (DigestBlock_of (env_trx_hash E) b) then Inl invalid_block_digest
     else Inr ())"

text \<open>\<open>extend_chain\<close> up to the point where the pending state is complete.\<close>

definition block_changes ::
  "contract_env \<Rightarrow> env \<Rightarrow> node_env \<Rightarrow> chain_database \<Rightarrow> FullBlock \<Rightarrow> (block_pay \<times> EventOperation list \<times> chain) result option" where
  "block_changes CE E N d b =
    (let db = ChainDatabase d; bid = block_id (nv_header_hash N) b in
     bindO (Some (block_signee E N db b)) (\<lambda>signee.
     bindO (Some (verify_header E N b)) (\<lambda>_.
     bindO (Some (update_delegate_production_info E db (header_of b) bid signee
                    (PendingChainState empty_pending_state (Some db)))) (\<lambda>ch.
     bindO (apply_transactions CE E N db b ch) (\<lambda>(events, ch).
     bindO (Some (pay_delegate E db signee ch)) (\<lambda>(pay, ch).
     bindO (Some (if node_index (block_num b) = nv_nodeindex N
                  then update_active_delegate_list N d (produced (block_num b)) ch else Inr ch)) (\<lambda>ch.
     bindO (Some (update_random_seed N (parent_digest b) ch)) (\<lambda>ch.
     Some (Inr (pay, events, ch))))))))))"


section \<open>The node\<close>

text \<open>\<open>fee_index\<close>, ordered so that the highest fee comes first.\<close>

datatype fee_index = fee_index (fi_fees: ShareType) (fi_trx: TransactionIdType)

instantiation fee_index :: linorder
begin

definition less_eq_fee_index :: "fee_index \<Rightarrow> fee_index \<Rightarrow> bool" where
  "less_eq_fee_index a b \<longleftrightarrow> fi_fees b < fi_fees a \<or> fi_fees b = fi_fees a \<and> fi_trx b \<le> fi_trx a"

definition less_fee_index :: "fee_index \<Rightarrow> fee_index \<Rightarrow> bool" where
  "less_fee_index a b \<longleftrightarrow> fi_fees b < fi_fees a \<or> fi_fees b = fi_fees a \<and> fi_trx b < fi_trx a"

instance
  by standard (auto simp: less_eq_fee_index_def less_fee_index_def fee_index.expand)

end

text \<open>The members of \<open>ChainDatabaseImpl\<close> besides the entry maps. \<open>pending_trx_state\<close> is the overlay on the
  database that the pending transactions have built (a null pointer there is an empty overlay).\<close>

record node_state =
  nd_database :: chain_database
  nd_full_block :: "(BlockIdType \<times> FullBlock) list"
  nd_block_num_to_id :: "(64 word \<times> BlockIdType) list"
  nd_nodeindex_to_produced :: "(32 word \<times> 64 word) list"
  nd_my_last_block :: "(nat \<times> SignedBlockHeader) list"
  nd_pending_transaction_db :: "(TransactionIdType \<times> SignedTransaction) list"
  nd_pending_fee_index :: "(fee_index \<times> TransactionEvaluationState) list"
  nd_sending_trx_state :: "(TransactionIdType \<times> string \<times> time_point_sec) list"
  nd_pending_trx_state :: pending_state
  nd_extend_status :: "(BlockIdType \<times> int) option"
  nd_relay_fee :: ShareType

text \<open>What a call leaves: it returns, it throws with the members as they are then, or it throws in the middle
  of \<open>apply_changes\<close>, which leaves its target partly written. Around it, \<open>None\<close> is a call that
  does not return.\<close>

datatype 'a outcome = Returns 'a node_state | Throws error node_state | Torn error

definition bindM :: "'a outcome option \<Rightarrow> ('a \<Rightarrow> node_state \<Rightarrow> 'b outcome option) \<Rightarrow> 'b outcome option" where
  "bindM m f =
    (case m of None \<Rightarrow> None
     | Some r \<Rightarrow> (case r of Returns x n \<Rightarrow> f x n | Throws e n \<Rightarrow> Some (Throws e n) | Torn e \<Rightarrow> Some (Torn e)))"

lemma bindM_simps [simp]:
  "bindM None f = None" "bindM (Some (Returns x n)) f = f x n"
  "bindM (Some (Throws e n)) f = Some (Throws e n)" "bindM (Some (Torn e)) f = Some (Torn e)"
  by (simp_all add: bindM_def)

lemma bindM_Returns: "bindM m f = Some (Returns y n') \<longleftrightarrow> (\<exists>x n. m = Some (Returns x n) \<and> f x n = Some (Returns y n'))"
  by (auto simp: bindM_def split: option.splits outcome.splits)

text \<open>A step that may throw and changes no member.\<close>

definition checked :: "'a result option \<Rightarrow> node_state \<Rightarrow> 'a outcome option" where
  "checked r n = (case r of None \<Rightarrow> None | Some (Inl e) \<Rightarrow> Some (Throws e n) | Some (Inr x) \<Rightarrow> Some (Returns x n))"

lemma checked_simps [simp]:
  "checked None n = None" "checked (Some (Inl e)) n = Some (Throws e n)" "checked (Some (Inr x)) n = Some (Returns x n)"
  by (simp_all add: checked_def)

lemma checked_Returns: "checked r n = Some (Returns x n') \<longleftrightarrow> r = Some (Inr x) \<and> n' = n"
  by (auto simp: checked_def split: option.splits sum.splits)


section \<open>Blocks of the node\<close>

definition default_header :: SignedBlockHeader where
  "default_header = \<lparr>block_num = 0, rank = 0, timestamp = 0, transaction_digest = 0, parent_digest = 0,
     delegate_signature = 0\<rparr>"

definition empty_block :: FullBlock where
  "empty_block = \<lparr>block_num = 0, rank = 0, timestamp = 0, transaction_digest = 0, parent_digest = 0,
     delegate_signature = 0, parents = [], childs = [], user_transactions = []\<rparr>"

definition get_block_optional :: "node_state \<Rightarrow> BlockIdType \<Rightarrow> FullBlock option" where
  "get_block_optional n i = map_of (nd_full_block n) i"

definition get_block :: "node_state \<Rightarrow> BlockIdType \<Rightarrow> FullBlock" where
  "get_block n i = (case map_of (nd_full_block n) i of Some b \<Rightarrow> b | None \<Rightarrow> empty_block)"

definition get_block_id :: "node_state \<Rightarrow> 64 word \<Rightarrow> BlockIdType" where
  "get_block_id n num = (case map_of (nd_block_num_to_id n) num of Some i \<Rightarrow> i | None \<Rightarrow> 0)"

definition get_block_by_num :: "node_state \<Rightarrow> 64 word \<Rightarrow> FullBlock" where
  "get_block_by_num n num = get_block n (get_block_id n num)"

definition get_block_header :: "node_state \<Rightarrow> BlockIdType \<Rightarrow> SignedBlockHeader" where
  "get_block_header n i = header_of (get_block n i)"

definition get_block_header_by_num :: "node_state \<Rightarrow> 64 word \<Rightarrow> SignedBlockHeader" where
  "get_block_header_by_num n num = get_block_header n (get_block_id n num)"

definition get_block_num :: "node_state \<Rightarrow> BlockIdType \<Rightarrow> 64 word" where
  "get_block_num n i = (if i = 0 then 0 else block_num (get_block n i))"

definition get_block_rank :: "node_state \<Rightarrow> BlockIdType \<Rightarrow> 64 word" where
  "get_block_rank n i = (if i = 0 then 0 else rank (get_block n i))"

definition get_block_digest :: "env \<Rightarrow> node_state \<Rightarrow> BlockIdType \<Rightarrow> DigestBlock" where
  "get_block_digest E n i = DigestBlock_of (env_trx_hash E) (get_block n i)"

definition find_block_by_id :: "node_state \<Rightarrow> BlockIdType \<Rightarrow> BlockIdType \<Rightarrow> FullBlock option" where
  "find_block_by_id n i child =
    (case map_of (nd_full_block n) i of Some b \<Rightarrow> if existChild b child then Some b else None | None \<Rightarrow> None)"

definition get_transactions_for_block :: "env \<Rightarrow> node_state \<Rightarrow> BlockIdType \<Rightarrow> TransactionEntry list result" where
  "get_transactions_for_block E n i =
    foldE (\<lambda>t entrys. case map_of (db_transaction_id_to_entry (nd_database n)) (trx_id (env_trx_hash E) t) of
        Some e \<Rightarrow> Inr (entrys @ [e]) | None \<Rightarrow> Inl key_not_found) (user_transactions (get_block n i)) []"

definition get_events :: "env \<Rightarrow> node_state \<Rightarrow> 64 word \<Rightarrow> TransactionIdType \<Rightarrow> EventOperation list" where
  "get_events E n num tid =
    concat (map (\<lambda>t. concat (map (\<lambda>op. case op of
        event_op e \<Rightarrow> if trx_id (env_trx_hash E) t = tid then [e] else [] | _ \<Rightarrow> []) (operations t)))
      (user_transactions (get_block_by_num n num)))"

definition get_head_block :: "node_state \<Rightarrow> SignedBlockHeader" where
  "get_head_block n = (case map_of (nd_my_last_block n) 1 of Some b \<Rightarrow> b | None \<Rightarrow> default_header)"

definition get_my_head_block :: "node_state \<Rightarrow> SignedBlockHeader" where
  "get_my_head_block n = (case map_of (nd_my_last_block n) 0 of Some b \<Rightarrow> b | None \<Rightarrow> default_header)"

definition get_my_head_block_num :: "node_state \<Rightarrow> 64 word" where
  "get_my_head_block_num n = produced (block_num (get_my_head_block n))"

definition get_node_index :: "node_state \<Rightarrow> 16 word" where
  "get_node_index n = node_index (block_num (get_my_head_block n))"

definition update_my_head_block :: "SignedBlockHeader \<Rightarrow> node_state \<Rightarrow> node_state" where
  "update_my_head_block b n = n\<lparr>nd_my_last_block := omap_update 0 b (nd_my_last_block n)\<rparr>"

definition update_head_block :: "SignedBlockHeader \<Rightarrow> node_state \<Rightarrow> node_state" where
  "update_head_block b n =
    (let store = n\<lparr>nd_my_last_block := omap_update 1 b (nd_my_last_block n)\<rparr> in
     case map_of (nd_my_last_block n) 1 of
       None \<Rightarrow> store
     | Some old_block \<Rightarrow>
         if timestamp old_block < timestamp b then store
         else if timestamp old_block = timestamp b
         then (if rank old_block < rank b then store
               else if node_index (block_num old_block) = node_index (block_num b) \<and>
                       produced (block_num old_block) < produced (block_num b) then store
               else n)
         else n)"

definition get_produced :: "32 word \<Rightarrow> node_state \<Rightarrow> 64 word" where
  "get_produced i n = (case map_of (nd_nodeindex_to_produced n) i of Some c \<Rightarrow> c | None \<Rightarrow> 0)"

definition update_last_index :: "64 word \<Rightarrow> node_state \<Rightarrow> node_state" where
  "update_last_index num n =
    (let i = ucast (node_index num);
         store = n\<lparr>nd_nodeindex_to_produced := omap_update i (produced num) (nd_nodeindex_to_produced n)\<rparr> in
     case map_of (nd_nodeindex_to_produced n) i of
       Some c \<Rightarrow> if produced num > c then store else n
     | None \<Rightarrow> store)"

definition get_index_list :: "node_state \<Rightarrow> 64 word list" where
  "get_index_list n = map (\<lambda>(i, c). BlockNumberType c (ucast i)) (nd_nodeindex_to_produced n)"

definition get_block_count :: "node_state \<Rightarrow> int \<Rightarrow> 64 word" where
  "get_block_count n index =
    (if index = -1 then fold (\<lambda>ic c. c + snd ic) (nd_nodeindex_to_produced n) 0
     else case map_of (nd_nodeindex_to_produced n) (word_of_int index) of Some c \<Rightarrow> c | None \<Rightarrow> 0)"

text \<open>The ancestors through the first parent, ending with the null id; it does not return on a cycle.\<close>

partial_function (option) fork_history :: "node_state \<Rightarrow> BlockIdType \<Rightarrow> BlockIdType list \<Rightarrow> BlockIdType list option" where
  "fork_history n next_id history =
    (case parents (get_block n next_id) of
       [] \<Rightarrow> Some (history @ [0])
     | p # _ \<Rightarrow> fork_history n p (history @ [p]))"

declare fork_history.simps [code]

definition get_fork_history :: "node_state \<Rightarrow> BlockIdType \<Rightarrow> BlockIdType list option" where
  "get_fork_history n i = fork_history n i [i]"


section \<open>Extending the chain\<close>

definition remove_pending_feeindex :: "env \<Rightarrow> TransactionIdType \<Rightarrow> node_state \<Rightarrow> node_state" where
  "remove_pending_feeindex E tid n =
    n\<lparr>nd_pending_fee_index := takeWhile (\<lambda>kv. trx_id (env_trx_hash E) (trx (snd kv)) \<noteq> tid) (nd_pending_fee_index n) @
        tl (dropWhile (\<lambda>kv. trx_id (env_trx_hash E) (trx (snd kv)) \<noteq> tid) (nd_pending_fee_index n))\<rparr>"

definition remove_pending :: "env \<Rightarrow> TransactionIdType \<Rightarrow> node_state \<Rightarrow> node_state" where
  "remove_pending E tid n =
    (let n = n\<lparr>nd_pending_transaction_db := AList.delete tid (nd_pending_transaction_db n)\<rparr>;
         n = remove_pending_feeindex E tid n
     in n\<lparr>nd_sending_trx_state := AList.delete tid (nd_sending_trx_state n)\<rparr>)"

text \<open>The scheduled \<open>revalidate_pending\<close> is an operation of its own.\<close>

definition clear_pending :: "env \<Rightarrow> FullBlock \<Rightarrow> node_state \<Rightarrow> node_state" where
  "clear_pending E b n =
    (fold (\<lambda>t n.
       let n = (case operations t of
                  transaction_op t0 # _ \<Rightarrow> remove_pending E (trx_id (env_trx_hash E) t0) n
                | _ \<Rightarrow> n)
       in remove_pending E (trx_id (env_trx_hash E) t) n) (user_transactions b) n)
    \<lparr>nd_pending_trx_state := empty_pending_state\<rparr>"

definition update_relay_fee :: "node_env \<Rightarrow> node_state \<Rightarrow> node_state" where
  "update_relay_fee N n =
    (if nv_wallet_open N
     then if nv_wallet_delegates N
       then n\<lparr>nd_relay_fee := (if nv_transaction_min_fee N > ALP_BLOCKCHAIN_DEFAULT_RELAY_FEE
                               then nv_transaction_min_fee N else ALP_BLOCKCHAIN_DEFAULT_RELAY_FEE)\<rparr>
       else n\<lparr>nd_relay_fee := ALP_BLOCKCHAIN_DEFAULT_RELAY_FEE\<rparr>
     else n)"

definition purge_unique_transactions :: "env \<Rightarrow> node_state \<Rightarrow> node_state" where
  "purge_unique_transactions E n =
    n\<lparr>nd_database := (nd_database n)
       \<lparr>db_unique_transactions := dropWhile (\<lambda>u. fst u \<le> env_now E) (db_unique_transactions (nd_database n))\<rparr>\<rparr>"

text \<open>Flushing the overlay of a block into the database.\<close>

definition apply_to_database :: "env \<Rightarrow> chain \<Rightarrow> node_state \<Rightarrow> unit outcome" where
  "apply_to_database E ch n =
    (case ch of
       ChainDatabase d \<Rightarrow> Returns () (n\<lparr>nd_database := d\<rparr>)
     | PendingChainState s prev \<Rightarrow>
         (case apply_changes E s prev of
            Inl e \<Rightarrow> Torn e
          | Inr (Some (ChainDatabase d)) \<Rightarrow> Returns () (n\<lparr>nd_database := d\<rparr>)
          | Inr _ \<Rightarrow> Returns () n))"

definition extend_chain ::
  "contract_env \<Rightarrow> env \<Rightarrow> node_env \<Rightarrow> FullBlock \<Rightarrow> node_state \<Rightarrow> EventOperation list outcome option" where
  "extend_chain CE E N b n =
    (let bid = block_id (nv_header_hash N) b in
     case block_changes CE E N (nd_database n) b of
       None \<Rightarrow> None
     | Some (Inl e) \<Rightarrow> Some (Throws e (n\<lparr>nd_extend_status := Some (bid, 2)\<rparr>))
     | Some (Inr (pay, events, ch)) \<Rightarrow>
         bindM (Some (apply_to_database E ch (n\<lparr>nd_extend_status := Some (bid, 1)\<rparr>))) (\<lambda>_ n.
         let n = clear_pending E b n;
             n = update_relay_fee N (n\<lparr>nd_extend_status := Some (bid, 2)\<rparr>);
             n = purge_unique_transactions E n
         in Some (Returns events n)))"


section \<open>Pushing a block\<close>

definition link_parent :: "BlockIdType \<Rightarrow> BlockIdType \<Rightarrow> node_state \<Rightarrow> node_state" where
  "link_parent bid pid n =
    (case get_block_optional n pid of
       None \<Rightarrow> n
     | Some p \<Rightarrow> if \<not> existChild p bid
         then n\<lparr>nd_full_block := AList.update pid (p\<lparr>childs := childs p @ [bid]\<rparr>) (nd_full_block n)\<rparr> else n)"

definition push_block ::
  "contract_env \<Rightarrow> env \<Rightarrow> node_env \<Rightarrow> FullBlock \<Rightarrow> node_state \<Rightarrow> bool outcome option" where
  "push_block CE E N b n =
    (let bid = block_id (nv_header_hash N) b in
     if get_block_optional n bid \<noteq> None then Some (Returns False n)
     else
       let n = fold (link_parent bid) (parents b) n in
       bindM (extend_chain CE E N b n) (\<lambda>_ n.
       let n = n\<lparr>nd_block_num_to_id := AList.update (block_num b) bid (nd_block_num_to_id n)\<rparr>;
           n = n\<lparr>nd_full_block := AList.update bid b (nd_full_block n)\<rparr>;
           n = update_last_index (block_num b) n;
           n = update_head_block (header_of b) n
       in Some (Returns True n)))"

section \<open>Signatures\<close>

lemma fresh_state_check:
  "trx st = empty_transaction \<Longrightarrow> thread_check E ch st t \<noteq> Inr False"
  by (auto simp: thread_check_def transaction_entry_analy_def empty_transaction_def transaction_signature_check_def
      bindE_eq_Inr)

lemma result_option_cases:
  obtains "r = None" | e where "r = Some (Inl e)" | x where "r = Some (Inr x)"
proof (cases r)
  case (Some y)
  then show thesis using that(2,3) by (cases y) simp_all
qed (rule that(1))

definition without_checks :: "apply_state result option \<Rightarrow> apply_state result option" where
  "without_checks r = bindO r (\<lambda>s. Some (Inr (s\<lparr>ap_checks := []\<rparr>)))"

lemma without_checks_simps [simp]:
  "without_checks None = None" "without_checks (Some (Inl e)) = Some (Inl e)"
  "without_checks (Some (Inr s)) = Some (Inr (s\<lparr>ap_checks := []\<rparr>))"
  by (simp_all add: without_checks_def)

lemma without_checks_bindO: "without_checks (bindO m f) = bindO m (\<lambda>x. without_checks (f x))"
  by (auto simp: bindO_def without_checks_def split: option.split sum.split)

lemma apply_transaction_checks:
  "without_checks (apply_transaction CE E N db b t s) =
    apply_transaction CE E (N\<lparr>nv_verify_signatures := False\<rparr>) db b t (s\<lparr>ap_checks := []\<rparr>)"
  "apply_transaction CE E N db b t s = Some (Inr s') \<Longrightarrow> \<not> list_ex (\<lambda>c. c = Inr False) (ap_checks s) \<Longrightarrow>
    \<not> list_ex (\<lambda>c. c = Inr False) (ap_checks s')"
  subgoal
    by (simp add: apply_transaction_def Let_def without_checks_bindO block_skipexec_def case_prod_unfold
        del: evaluate.simps)
  subgoal
    by (auto simp: apply_transaction_def Let_def bindO_eq_Inr fresh_state_check TransactionEvaluationState_init_def
        simp del: evaluate.simps split: if_splits)
  done

lemma apply_loop_checks:
  assumes "\<not> list_ex (\<lambda>c. c = Inr False) (ap_checks s)"
  shows "without_checks (foldO (apply_transaction CE E N db b) ts s) =
      foldO (apply_transaction CE E (N\<lparr>nv_verify_signatures := False\<rparr>) db b) ts (s\<lparr>ap_checks := []\<rparr>)"
    and "foldO (apply_transaction CE E N db b) ts s = Some (Inr s') \<Longrightarrow> \<not> list_ex (\<lambda>c. c = Inr False) (ap_checks s')"
  using assms
proof (induction ts arbitrary: s)
  case (Cons t ts)
  {
    case 1
    show ?case
    proof (cases "apply_transaction CE E N db b t s")
      case None
      then show ?thesis by (simp flip: apply_transaction_checks(1))
    next
      case (Some r)
      then show ?thesis
        using apply_transaction_checks(2) [of CE E N db b t s] 1 Cons.IH(1)
        by (cases r) (simp_all flip: apply_transaction_checks(1))
    qed
  next
    case 2
    then show ?case unfolding foldO.simps bindO_eq_Inr by (metis apply_transaction_checks(2) Cons.IH(2))
  }
qed simp_all

lemma apply_unchecked:
  "apply_transactions CE E N db b ch = apply_transactions CE E (N\<lparr>nv_verify_signatures := False\<rparr>) db b ch"
proof -
  let ?s = "\<lparr>ap_num = 0, ap_chain = ch, ap_events = [], ap_checks = []\<rparr>"
  let ?N = "N\<lparr>nv_verify_signatures := False\<rparr>"
  have w: "foldO (apply_transaction CE E ?N db b) (user_transactions b) ?s =
      without_checks (foldO (apply_transaction CE E N db b) (user_transactions b) ?s)"
    using apply_loop_checks(1) [of ?s CE E N db b] by simp
  have c: "\<not> list_ex (\<lambda>c. c = Inr False) (ap_checks s)"
    if "foldO (apply_transaction CE E N db b) (user_transactions b) ?s = Some (Inr s)" for s
    using apply_loop_checks(2) [of ?s, OF _ that] by simp
  show ?thesis
    unfolding apply_transactions_def w without_checks_def
    by (cases "foldO (apply_transaction CE E N db b) (user_transactions b) ?s" rule: result_option_cases) (use c in simp_all)
qed


section \<open>Shares\<close>

text \<open>The difference between issued and held shares, as the 64-bit amounts see it, does not change.\<close>

definition same_unheld :: "chain_view \<Rightarrow> chain_view \<Rightarrow> bool" where
  "same_unheld v w \<longleftrightarrow> (\<forall>a. s64 (unheld v a) = s64 (unheld w a))"

lemma same_unheldI: "(\<And>a. unheld w a = unheld v a) \<Longrightarrow> same_unheld v w"
  by (simp add: same_unheld_def)

lemma same_unheld_trans: "same_unheld u v \<Longrightarrow> same_unheld v w \<Longrightarrow> same_unheld u w"
  by (simp add: same_unheld_def)

definition kept_books :: "env \<Rightarrow> nat \<Rightarrow> chain \<Rightarrow> chain \<Rightarrow> bool" where
  "kept_books E m ch ch' \<longleftrightarrow> books E m (view ch') \<and> same_unheld (view ch) (view ch')"

lemma kept_books_trans: "kept_books E m ch c \<Longrightarrow> kept_books E k c ch' \<Longrightarrow> kept_books E k ch ch'"
  by (auto simp: kept_books_def intro: same_unheld_trans)

lemma set_chain_location_keeps:
  "set_chain_location E tid loc ch = Inr ch' \<Longrightarrow> books E m (view ch) \<Longrightarrow> kept_books E m ch ch'"
  unfolding set_chain_location_def kept_books_def
  by (auto split: option.splits intro!: same_unheldI dest: store_transaction_books)

lemma record_locations_keeps:
  assumes "record_locations E loc t ch = Inr ch'" and "books E m (view ch)"
  shows "kept_books E m ch ch'"
proof -
  obtain c where c: "set_chain_location E (trx_id (env_trx_hash E) t) loc ch = Inr c"
    using assms(1) by (auto simp: record_locations_def bindE_eq_Inr)
  note 1 = set_chain_location_keeps [OF c assms(2)]
  show ?thesis
  proof (cases "result_trx_type t")
    case origin_transaction
    then show ?thesis using assms(1) c 1 by (simp add: record_locations_def)
  next
    case complete_result_transaction
    then obtain t0 where "set_chain_location E (trx_id (env_trx_hash E) t0) loc c = Inr ch'"
      using assms(1) c by (auto simp: record_locations_def bindE_eq_Inr)
    then show ?thesis using 1 by (meson kept_books_def kept_books_trans set_chain_location_keeps)
  next
    case incomplete_result_transaction
    then obtain t0 c2 where "set_chain_location E (trx_id (env_trx_hash E) t0) loc c = Inr c2"
      "set_chain_location E (result_trx_id t) loc c2 = Inr ch'"
      using assms(1) c by (auto simp: record_locations_def bindE_eq_Inr)
    then show ?thesis using 1 by (meson kept_books_def kept_books_trans set_chain_location_keeps)
  qed
qed

lemma ledger_ok_init: "ledger_ok st" if "balance st = []" "withdraws st = []" "deposits st = []"
  using that by (simp add: ledger_ok_def map_amount_def arith_defs)

lemma apply_transaction_keeps:
  assumes "apply_transaction CE E N db b t s = Some (Inr s')" and "\<forall>op \<in> set (operations t). plain_op op"
    and "books E (length (operations t) + m) (view (ap_chain s))"
  shows "kept_books E m (ap_chain s) (ap_chain s')"
proof -
  let ?st = "\<lambda>skip. (TransactionEvaluationState_init False)\<lparr>skip_signature_check := True, skipexec := skip\<rparr>"
  obtain skip st' ch where e: "evaluate CE E True t (?st skip) (ap_chain s) = Some (Inr (st', ch))"
    and r: "\<exists>loc. record_locations E loc t ch = Inr (ap_chain s')"
  proof -
    have "\<exists>skip st' ch. evaluate CE E True t (?st skip) (ap_chain s) = Some (Inr (st', ch)) \<and>
        (\<exists>loc. record_locations E loc t ch = Inr (ap_chain s'))"
      using assms(1) unfolding apply_transaction_def Let_def
      by (auto simp: bindO_eq_Inr simp del: evaluate.simps split: if_splits) blast+
    then show thesis using that by blast
  qed
  have st: "balance (?st skip) = []" "withdraws (?st skip) = []" "deposits (?st skip) = []"
    by (simp_all add: TransactionEvaluationState_init_def)
  have "books E m (view ch) \<and> (\<forall>a. unheld (view ch) a = unheld (view (ap_chain s)) a)"
    by (rule plain_transaction_conserves [OF e assms(2,3) ledger_ok_init [OF st] st(1)])
  then have "kept_books E m (ap_chain s) ch" by (simp add: kept_books_def same_unheld_def)
  then show ?thesis using r by (meson kept_books_def kept_books_trans record_locations_keeps)
qed

definition operation_count :: "SignedTransaction list \<Rightarrow> nat" where
  "operation_count ts = sum_list (map (\<lambda>t. length (operations t)) ts)"

lemma apply_loop_keeps:
  assumes "foldO (apply_transaction CE E N db b) ts s = Some (Inr s')"
    and "\<forall>t \<in> set ts. \<forall>op \<in> set (operations t). plain_op op" and "books E (operation_count ts + m) (view (ap_chain s))"
  shows "kept_books E m (ap_chain s) (ap_chain s')"
  using assms
proof (induction ts arbitrary: s)
  case Nil
  then show ?case by (simp add: kept_books_def same_unheld_def operation_count_def)
next
  case (Cons t ts)
  obtain s1 where 1: "apply_transaction CE E N db b t s = Some (Inr s1)"
    and 2: "foldO (apply_transaction CE E N db b) ts s1 = Some (Inr s')"
    using Cons.prems(1) by (auto simp: bindO_eq_Inr)
  have "kept_books E (operation_count ts + m) (ap_chain s) (ap_chain s1)"
    using apply_transaction_keeps [OF 1, of "operation_count ts + m"] Cons.prems(2,3)
    by (simp add: operation_count_def add.assoc)
  then show ?case using Cons.IH [OF 2] Cons.prems(2) by (auto simp: kept_books_def intro: same_unheld_trans)
qed

lemma apply_transactions_keeps:
  assumes "apply_transactions CE E N db b ch = Some (Inr (events, ch'))"
    and "\<forall>t \<in> set (user_transactions b). \<forall>op \<in> set (operations t). plain_op op"
    and "books E (operation_count (user_transactions b) + m) (view ch)"
  shows "kept_books E m ch ch'"
  using assms(1) unfolding apply_transactions_def bindO_eq_Inr
  by (auto dest!: apply_loop_keeps [where m = m, OF _ assms(2)] simp: assms(3) split: if_splits)

lemma s64_ex: "\<exists>k. s64 x = x + 18446744073709551616 * k"
proof
  have "(x + 9223372036854775808) mod 18446744073709551616 =
      x + 9223372036854775808 - 18446744073709551616 * ((x + 9223372036854775808) div 18446744073709551616)"
    by (rule minus_mult_div_eq_mod [symmetric])
  then show "s64 x = x + 18446744073709551616 * - ((x + 9223372036854775808) div 18446744073709551616)"
    by (simp add: s64_def)
qed

lemma s64_add_multiple: "s64 (x + 18446744073709551616 * k) = s64 x"
proof -
  have "x + 18446744073709551616 * k + 9223372036854775808 = x + 9223372036854775808 + k * 18446744073709551616" by simp
  then show ?thesis by (simp only: s64_def mod_mult_self1)
qed

lemma s64_balanced:
  "s64 (u - (s64 (p + s64 (S + c)) - p) + (s64 (s64 (s + S) - s64 (q - c)) - s - (s64 (f - q) - f))) = s64 u"
proof -
  obtain k1 where 1: "s64 (s + S) = s + S + 18446744073709551616 * k1" using s64_ex by blast
  obtain k2 where 2: "s64 (q - c) = q - c + 18446744073709551616 * k2" using s64_ex by blast
  obtain k3 where 3: "s64 (s64 (s + S) - s64 (q - c)) = s64 (s + S) - s64 (q - c) + 18446744073709551616 * k3"
    using s64_ex by blast
  obtain k4 where 4: "s64 (f - q) = f - q + 18446744073709551616 * k4" using s64_ex by blast
  obtain k5 where 5: "s64 (S + c) = S + c + 18446744073709551616 * k5" using s64_ex by blast
  obtain k6 where 6: "s64 (p + s64 (S + c)) = p + s64 (S + c) + 18446744073709551616 * k6" using s64_ex by blast
  have "u - (s64 (p + s64 (S + c)) - p) + (s64 (s64 (s + S) - s64 (q - c)) - s - (s64 (f - q) - f)) =
      u + 18446744073709551616 * (k1 - k2 + k3 - k4 - k5 - k6)"
    unfolding 3 6 unfolding 1 2 4 5 by (simp add: algebra_simps)
  then show ?thesis by (simp only: s64_add_multiple)
qed

lemma pay_delegate_keeps:
  assumes "pay_delegate E db k ch = Inr (p, ch')" and "books E m (view ch)"
  shows "kept_books E m ch ch'"
proof -
  obtain base i entry info ch1 where *: "get_asset_entry ch 0 = Some base" "get_account_entry ch i = Some entry"
    "delegate_info entry = Some info"
    and pc: "delegate_paycheck (pay_rate info) (collected_fees base) = Inr p"
    and s1: "store_account_entry E
      (entry\<lparr>delegate_info := Some (pay_stats (s64 (signee_shares_issued p + signee_fees_collected p)) info)\<rparr>) ch = Inr ch1"
    and s2: "store_asset_entry (pay_asset p base) ch1 = Inr ch'"
    using pay_delegateE [OF assms(1)] by metis
  let ?n = "s64 (signee_shares_issued p + signee_fees_collected p)"
  let ?x = "entry\<lparr>delegate_info := Some (pay_stats ?n info)\<rparr>"
  have x: "account_pay ?x = s64 (pay_balance info + ?n)" "in_int64 (account_pay ?x)" "account_pay entry = pay_balance info"
    using *(3) by (simp_all add: account_pay_def pay_stats_def)
  have i: "ac_id ?x = i" using books_account [OF assms(2) *(2)] by simp
  note st1 = store_account_books [OF s1 assms(2) i x(2) *(2)]
  have g: "get_asset_entry ch1 0 = Some base"
    using *(1) view_store_account_entry [OF s1] by (simp add: view_chain_accessors)
  have as: "as_id (pay_asset p base) = 0" "in_int64 (current_share_supply (pay_asset p base))"
    "in_int64 (collected_fees (pay_asset p base))"
    using books_asset [OF assms(2) *(1)] by (simp_all add: pay_asset_def)
  note st2 = store_asset_books [OF s2 st1(1) as]
  let ?q = "collected_fees base sdiv blocks_per_two_weeks"
  have d: "signee_fees_destroyed p = s64 (?q - signee_fees_collected p)"
    using pc by (auto simp: delegate_paycheck_def Let_def split: if_splits)
  have "s64 (unheld (view ch') a) = s64 (unheld (view ch) a)" for a
    unfolding st2(2) st1(2) g x(1,3) by (simp add: pay_asset_def d s64_balanced)
  then show ?thesis using st2(1) by (simp add: kept_books_def same_unheld_def)
qed

lemma production_infoE:
  assumes "update_delegate_production_info E db h bid k ch = Inr ch'"
  obtains i entry info ch1 where "get_account_entry ch i = Some entry" and "delegate_info entry = Some info"
    and "store_account_entry E (entry\<lparr>delegate_info := Some (info\<lparr>blocks_produced := blocks_produced info + 1,
      last_block_num_produced := block_num h\<rparr>)\<rparr>) ch = Inr ch1"
    and "ch' = ch1 \<or> (\<exists>e. store_slot_entry E e ch1 = Inr ch')"
proof -
  obtain signee where a: "get_delegate_entry_for_signee E db k = Inr signee"
    using assms by (auto simp: update_delegate_production_info_def bindE_eq_Inr)
  obtain entry where b: "get_account_entry ch (ac_id signee) = Some entry"
    using assms a by (cases "get_account_entry ch (ac_id signee)") (simp_all add: update_delegate_production_info_def)
  obtain info where c: "delegate_info entry = Some info"
    using assms a b by (cases "delegate_info entry") (simp_all add: update_delegate_production_info_def)
  obtain ch1 where s: "store_account_entry E (entry\<lparr>delegate_info := Some (info\<lparr>blocks_produced := blocks_produced info + 1,
      last_block_num_produced := block_num h\<rparr>)\<rparr>) ch = Inr ch1"
    using assms a b c by (auto simp: update_delegate_production_info_def bindE_eq_Inr Let_def)
  have "ch' = ch1 \<or> (\<exists>e. store_slot_entry E e ch1 = Inr ch')"
    using assms a b c s by (auto simp: update_delegate_production_info_def Let_def split: if_splits)
  then show thesis by (rule that [OF b c s])
qed

lemma production_info_keeps:
  assumes "update_delegate_production_info E db h bid k ch = Inr ch'" and "books E m (view ch)"
  shows "kept_books E m ch ch'"
proof -
  obtain i entry info ch1 where *: "get_account_entry ch i = Some entry" "delegate_info entry = Some info"
    and s: "store_account_entry E (entry\<lparr>delegate_info := Some (info\<lparr>blocks_produced := blocks_produced info + 1,
      last_block_num_produced := block_num h\<rparr>)\<rparr>) ch = Inr ch1"
    and r: "ch' = ch1 \<or> (\<exists>e. store_slot_entry E e ch1 = Inr ch')"
    by (rule production_infoE [OF assms(1)])
  have e: "ac_id entry = i" "in_int64 (account_pay entry)" using books_account [OF assms(2) *(1)] by simp_all
  have pay: "account_pay (entry\<lparr>delegate_info := Some (info\<lparr>blocks_produced := n, last_block_num_produced := l\<rparr>)\<rparr>) =
      account_pay entry" for n l using *(2) by (simp add: account_pay_def)
  have 1: "kept_books E m ch ch1"
    using store_account_books [OF s assms(2) _ _ *(1)] e by (simp add: pay kept_books_def same_unheld_def)
  have "kept_books E m ch1 ch'" if "store_slot_entry E e ch1 = Inr ch'" for e
  proof (cases "env_statistics_enabled E")
    case True
    then have "slot_store (E\<lparr>env_statistics_enabled := True\<rparr>) (slot_index e) e ch1 = Inr ch'"
      using that by (simp add: store_slot_entry_def env_enabled)
    from slot_db.view_store [OF this] show ?thesis
      using 1 by (simp add: kept_books_def same_unheld_def books_def account_room_def unheld_def issued_def holdings_def)
  next
    case False
    then have "ch' = ch1" using that by (simp add: store_slot_entry_def slot_store_def)
    then show ?thesis using 1 by (simp add: kept_books_def same_unheld_def)
  qed
  then show ?thesis using r 1 kept_books_trans by blast
qed

lemma store_property_keeps:
  "store_property_entry k x ch = Inr ch' \<Longrightarrow> k \<noteq> last_account_id \<Longrightarrow> books E m (view ch) \<Longrightarrow> kept_books E m ch ch'"
  by (simp add: kept_books_def same_unheld_def store_property_books)

lemma delegate_list_keeps:
  assumes "update_active_delegate_list N d num ch = Inr ch'" and "books E m (view ch)"
  shows "kept_books E m ch ch'"
  using assms store_property_keeps [of active_delegate_list_id _ ch ch' E m]
  by (auto simp: update_active_delegate_list_def set_active_delegates_def bindE_eq_Inr Let_def kept_books_def same_unheld_def
      split: if_splits)

lemma random_seed_keeps:
  assumes "update_random_seed N secret ch = Inr ch'" and "books E m (view ch)"
  shows "kept_books E m ch ch'"
  using assms store_property_keeps [of last_random_seed_id _ ch ch' E m]
  by (auto simp: update_random_seed_def bindE_eq_Inr)

lemma block_changesE:
  assumes "block_changes CE E N d b = Some (Inr (pay, events, ch'))"
  obtains signee c1 c2 c3 c4 where
    "update_delegate_production_info E (ChainDatabase d) (header_of b) (block_id (nv_header_hash N) b) signee
      (PendingChainState empty_pending_state (Some (ChainDatabase d))) = Inr c1"
    and "apply_transactions CE E N (ChainDatabase d) b c1 = Some (Inr (events, c2))"
    and "pay_delegate E (ChainDatabase d) signee c2 = Inr (pay, c3)"
    and "(if node_index (block_num b) = nv_nodeindex N
      then update_active_delegate_list N d (produced (block_num b)) c3 else Inr c3) = Inr c4"
    and "update_random_seed N (parent_digest b) c4 = Inr ch'"
  using assms unfolding block_changes_def Let_def bindO_eq_Inr
  by (clarsimp simp: case_prod_unfold bindO_eq_Inr, unfold snd_conv, blast)

text \<open>A block keeps the books and leaves the room for accounts that its transactions do not use.\<close>

lemma block_changes_keeps:
  assumes "block_changes CE E N d b = Some (Inr (pay, events, ch'))"
    and "\<forall>t \<in> set (user_transactions b). \<forall>op \<in> set (operations t). plain_op op"
    and "books E (operation_count (user_transactions b) + m) (view (ChainDatabase d))"
  shows "kept_books E m (ChainDatabase d) ch'"
proof -
  let ?db = "ChainDatabase d" and ?ch = "PendingChainState empty_pending_state (Some (ChainDatabase d))"
  let ?k = "operation_count (user_transactions b) + m"
  obtain signee c1 c2 c3 c4 where
    1: "update_delegate_production_info E ?db (header_of b) (block_id (nv_header_hash N) b) signee ?ch = Inr c1"
    and 2: "apply_transactions CE E N ?db b c1 = Some (Inr (events, c2))"
    and 3: "pay_delegate E ?db signee c2 = Inr (pay, c3)"
    and 4: "(if node_index (block_num b) = nv_nodeindex N
      then update_active_delegate_list N d (produced (block_num b)) c3 else Inr c3) = Inr c4"
    and 5: "update_random_seed N (parent_digest b) c4 = Inr ch'"
    by (rule block_changesE [OF assms(1)])
  have k1: "kept_books E ?k ?ch c1" using production_info_keeps [OF 1, of ?k] assms(3) by (simp add: view_empty_overlay)
  have k2: "kept_books E m c1 c2" using apply_transactions_keeps [OF 2 assms(2), of m] k1 by (simp add: kept_books_def)
  have k3: "kept_books E m c2 c3" using pay_delegate_keeps [OF 3, of m] k2 by (simp add: kept_books_def)
  have k4: "kept_books E m c3 c4" using 4 delegate_list_keeps k3 by (auto simp: kept_books_def same_unheld_def split: if_splits)
  have k5: "kept_books E m c4 ch'" using random_seed_keeps [OF 5, of E m] k4 by (simp add: kept_books_def)
  show ?thesis
    using k1 k2 k3 k4 k5 by (simp add: kept_books_def same_unheld_def view_empty_overlay)
qed

text \<open>A block with Alice's transfer, produced by Alice.\<close>

definition sample_block_database :: chain_database where
  "sample_block_database = empty_database
    \<lparr>db_property_id_to_entry := [(last_account_id, \<lparr>pr_id = last_account_id, pr_value = int_variant 1\<rparr>),
       (last_asset_id, \<lparr>pr_id = last_asset_id, pr_value = int_variant 1\<rparr>)],
     db_account_id_to_entry := [(1, sample_account)], db_account_address_to_id := [(77, 1)],
     db_asset_id_to_entry := [(0, sample_asset 0), (1, sample_asset 1)],
     db_balance_id_to_entry := [(9, sample_balance 9 0 100), (8, sample_balance 8 1 50)]\<rparr>"

definition sample_block :: FullBlock where
  "sample_block = empty_block\<lparr>block_num := 1, user_transactions := [sample_transfer]\<rparr>"

definition sample_producer :: node_env where
  "sample_producer = sample_node\<lparr>nv_generating_block := True\<rparr>"

lemma sample_transfer_on:
  assumes "v_balance (view c) = v_balance (view sample_chain)" "v_asset (view c) = v_asset (view sample_chain)"
    "v_slate (view c) = v_slate (view sample_chain)"
  shows "case evaluate sample_contract_env sample_env True sample_transfer
      ((TransactionEvaluationState_init False)\<lparr>skip_signature_check := True, skipexec := False\<rparr>) c of
    Some (Inr (st', c')) \<Rightarrow> v_account (view c') = v_account (view c) \<and> v_property (view c') = v_property (view c) \<and>
      v_transaction (view c') (trx_id (env_trx_hash sample_env) sample_transfer) \<noteq> None \<and>
      (\<exists>base. v_asset (view c') 0 = Some base \<and> collected_fees base = 15)
  | _ \<Rightarrow> False"
  by (subst evaluate.simps, simp add: prepare_run sample_transfer_def sample_env_simps)
    (simp add: assms transaction_run ledger_run chain_run sample_entry_defs sample_env_simps sample_transfer_def
      if_distrib [of view] view_simps split: option.split cong: if_cong)

lemma sample_block_view: "view (ChainDatabase sample_block_database) = view sample_chain"
  by (simp add: view_defs sample_chain_def sample_block_database_def)

lemma sample_signee:
  "get_account_entry_by_address (ChainDatabase sample_block_database) (env_addr_of sample_env 77) = Inr (Some sample_account)"
  by (simp add: get_account_entry_by_address_def sample_block_database_def cd_account_lookup_by_address_def
      cd_account_lookup_by_id_def sample_env_simps)

definition sample_info :: "DelegateStats \<Rightarrow> AccountEntry" where
  "sample_info i = sample_account\<lparr>delegate_info := Some i\<rparr>"

lemma sample_stats:
  "delegate_info sample_account = Some (DelegateStats_init\<lparr>pay_rate := 50, signing_key_history := [(1, 77)],
     pay_balance := 60, votes_for := 40\<rparr>)" "ac_id sample_account = 1" "is_delegate sample_account"
  by (simp_all add: sample_account_def is_delegate_def)

lemma sample_production:
  "\<exists>c1 i. update_delegate_production_info sample_env (ChainDatabase sample_block_database) h bid 77
      (PendingChainState empty_pending_state (Some (ChainDatabase sample_block_database))) = Inr c1 \<and>
    view c1 = (view sample_chain)\<lparr>v_account := [1 \<mapsto> sample_info i]\<rparr> \<and> pay_rate i = 50 \<and> signing_key_history i \<noteq> []"
proof -
  let ?db = "ChainDatabase sample_block_database"
  let ?c = "PendingChainState empty_pending_state (Some ?db)"
  define i where "i = (the (delegate_info sample_account))\<lparr>blocks_produced := blocks_produced (the (delegate_info sample_account)) + 1,
      last_block_num_produced := block_num h\<rparr>"
  have v: "v_account (view ?c) = [1 \<mapsto> sample_account]"
    using sample_view(2) by (simp add: view_empty_overlay sample_block_view view_chain_accessors)
  have ok: "account_ok sample_account" "account_ok (sample_info i)"
    by (simp_all add: account_ok_def i_def sample_info_def sample_account_def)
  have "\<forall>v' \<in> ran (v_account (view ?c)). account_ok v'" unfolding v by (simp add: ran_def ok)
  then obtain c1 where c1: "account_store sample_env 1 (sample_info i) ?c = Inr c1"
    using account_db.store_ok [of ?c "sample_info i" sample_env 1] ok by blast
  have s: "get_delegate_entry_for_signee sample_env ?db 77 = Inr sample_account"
    using sample_signee sample_stats by (simp add: get_delegate_entry_for_signee_def)
  have st: "store_account_entry sample_env (sample_account\<lparr>delegate_info := Some i\<rparr>) ?c = Inr c1"
    using c1 sample_stats(2) by (simp add: store_account_entry_def sample_info_def)
  have e: "get_account_entry ?c 1 = Some sample_account" using v by (simp add: view_chain_accessors)
  have u: "update_delegate_production_info sample_env ?db h bid 77 ?c = Inr c1"
    using st sample_stats
    by (simp add: update_delegate_production_info_def s e sample_env_simps Let_def i_def)
  have w: "view c1 = (view sample_chain)\<lparr>v_account := [1 \<mapsto> sample_info i]\<rparr>"
    using view_store_account_entry [OF st] sample_stats(2) v
    by (simp add: sample_info_def view_empty_overlay sample_block_view)
  have "pay_rate i = 50" "signing_key_history i \<noteq> []" using sample_stats(1) by (simp_all add: i_def)
  then show ?thesis using u w by blast
qed

lemma sample_transactions:
  assumes "view c = (view sample_chain)\<lparr>v_account := m\<rparr>"
  shows "\<exists>events c'. apply_transactions sample_contract_env sample_env sample_producer db sample_block c =
      Some (Inr (events, c')) \<and> v_account (view c') = m \<and> v_property (view c') = v_property (view sample_chain) \<and>
    (\<exists>base. v_asset (view c') 0 = Some base \<and> collected_fees base = 15)"
proof -
  let ?st = "(TransactionEvaluationState_init False)\<lparr>skip_signature_check := True, skipexec := False\<rparr>"
  let ?tid = "trx_id (env_trx_hash sample_env) sample_transfer"
  have "v_balance (view c) = v_balance (view sample_chain)" "v_asset (view c) = v_asset (view sample_chain)"
    "v_slate (view c) = v_slate (view sample_chain)" using assms by simp_all
  note run = sample_transfer_on [OF this]
  obtain st' c2 base where e: "evaluate sample_contract_env sample_env True sample_transfer ?st c = Some (Inr (st', c2))"
    and v: "v_account (view c2) = v_account (view c)" "v_property (view c2) = v_property (view c)"
      "v_transaction (view c2) ?tid \<noteq> None" "v_asset (view c2) 0 = Some base" "collected_fees base = 15"
    using run by (auto split: option.splits sum.splits)
  obtain entry where entry: "transaction_lookup_by_id c2 ?tid = Some entry" using v(3) by (auto simp: view_def)
  define loc where "loc = \<lparr>loc_block_num = block_num sample_block, loc_trx_num = of_nat 0\<rparr>"
  obtain c3 where c3: "transaction_store sample_env ?tid (entry\<lparr>chain_location := loc\<rparr>) c2 = Inr c3"
    by (simp add: transaction_store_def)
  have origin: "result_trx_type sample_transfer = origin_transaction" "length (operations sample_transfer) = 2"
    by (simp_all add: sample_transfer_def with_operations_def empty_transaction_def)
  have r: "record_locations sample_env loc sample_transfer c2 = Inr c3"
    using c3 entry origin by (simp add: record_locations_def set_chain_location_def)
  have "apply_transactions sample_contract_env sample_env sample_producer db sample_block c =
      apply_transactions sample_contract_env sample_env (sample_producer\<lparr>nv_verify_signatures := False\<rparr>) db sample_block c"
    by (rule apply_unchecked)
  also have "\<dots> = Some (Inr (event_vector st', c3))"
    using e r origin unfolding loc_def
    by (simp add: apply_transactions_def sample_block_def apply_transaction_def Let_def block_skipexec_def sample_producer_def
        sample_env_simps ALP_BLOCKCHAIN_MAX_TRX_SIZE_def del: evaluate.simps)
  finally show ?thesis
    using v assms transaction_db.view_store [OF c3] by auto
qed

lemma sample_pay:
  assumes "v_account (view c) = [1 \<mapsto> sample_info i]" and "pay_rate i = 50" and "signing_key_history i \<noteq> []"
    and "v_asset (view c) 0 = Some base" and "collected_fees base = 15"
  shows "\<exists>p c'. pay_delegate sample_env (ChainDatabase sample_block_database) 77 c = Inr (p, c') \<and>
    v_property (view c') = v_property (view c)"
proof -
  obtain p where p: "delegate_paycheck 50 15 = Inr p" and n: "s64 (signee_shares_issued p + signee_fees_collected p) \<ge> 0"
    by (simp add: delegate_paycheck_def get_max_delegate_pay_issued_per_block_def blocks_per_two_weeks_def fee_defs Let_def
        arith_defs signed_divide_int_def)
  let ?j = "pay_stats (s64 (signee_shares_issued p + signee_fees_collected p)) i"
  have ok: "account_ok (sample_info i)" "account_ok (sample_info ?j)"
    using assms(3) by (simp_all add: account_ok_def sample_info_def sample_account_def pay_stats_def)
  have "\<forall>v' \<in> ran (v_account (view c)). account_ok v'" unfolding assms(1) by (simp add: ran_def ok)
  then obtain c1 where c1: "account_store sample_env 1 (sample_info ?j) c = Inr c1"
    using account_db.store_ok [of c "sample_info ?j" sample_env 1] ok by blast
  obtain c2 where c2: "store_asset_entry (pay_asset p base) c1 = Inr c2" by (simp add: store_asset_entry_def asset_store_def Let_def)
  have e: "get_account_entry c 1 = Some (sample_info i)" "get_asset_entry c 0 = Some base"
    using assms by (simp_all add: view_chain_accessors)
  have st: "store_account_entry sample_env ((sample_info i)\<lparr>delegate_info := Some ?j\<rparr>) c = Inr c1"
    using c1 sample_stats(2) by (simp add: store_account_entry_def sample_info_def)
  have i: "delegate_info (sample_info i) = Some i" by (simp add: sample_info_def)
  have "pay_delegate sample_env (ChainDatabase sample_block_database) 77 c = Inr (p, c2)"
    using sample_signee p n st c2 assms(2,5) e i sample_stats(2) by (simp add: pay_delegate_def Let_def word_le_nat_alt)
  then show ?thesis
    using view_store_account_entry [OF st] view_store_asset_entry [OF c2] by auto
qed

lemma sample_block_changes:
  "\<exists>pay events ch'. block_changes sample_contract_env sample_env sample_producer sample_block_database sample_block =
    Some (Inr (pay, events, ch'))"
proof -
  let ?db = "ChainDatabase sample_block_database"
  obtain c1 i where 1: "update_delegate_production_info sample_env ?db (header_of sample_block)
      (block_id (nv_header_hash sample_producer) sample_block) 77 (PendingChainState empty_pending_state (Some ?db)) = Inr c1"
    and v1: "view c1 = (view sample_chain)\<lparr>v_account := [1 \<mapsto> sample_info i]\<rparr>" and i: "pay_rate i = 50" "signing_key_history i \<noteq> []"
    using sample_production by blast
  obtain events c2 base where 2: "apply_transactions sample_contract_env sample_env sample_producer ?db sample_block c1 = Some (Inr (events, c2))"
    and v2: "v_account (view c2) = [1 \<mapsto> sample_info i]" "v_property (view c2) = v_property (view sample_chain)"
    "v_asset (view c2) 0 = Some base" "collected_fees base = 15"
    using sample_transactions [OF v1] by blast
  obtain p c3 where 3: "pay_delegate sample_env ?db 77 c2 = Inr (p, c3)" and v3: "v_property (view c3) = v_property (view sample_chain)"
    using sample_pay [OF v2(1) i v2(3,4)] v2(2) by auto
  have "v_property (view c3) last_random_seed_id = None"
    unfolding v3 by (simp add: view_def sample_chain_def cd_property_lookup_by_id_def)
  then have "get_current_random_seed c3 = Inr 0" by (simp add: get_current_random_seed_def view_chain_accessors)
  then obtain c4 where 4: "update_random_seed sample_producer (parent_digest sample_block) c3 = Inr c4"
    using store_property_entry_total [of last_random_seed_id "hash_variant (nv_seed_hash sample_producer (parent_digest sample_block) 0)" c3]
    by (auto simp: update_random_seed_def)
  have b: "block_signee sample_env sample_producer ?db sample_block = Inr 77" "verify_header sample_env sample_producer sample_block = Inr ()"
    by (simp_all add: block_signee_def verify_header_def sample_producer_def sample_node_def sample_block_def empty_block_def
        validate_digest_def calculate_transaction_digest_def DigestBlock_of_def)
  have u: "update_active_delegate_list sample_producer sample_block_database (produced (block_num sample_block)) c3 = Inr c3"
    by (simp add: update_active_delegate_list_def produced_def sample_block_def config_defs take_bit_word_eq_self)
  show ?thesis
    by (simp add: block_changes_def Let_def b 1 2 3 4 u)
qed

lemma sample_block_plain: "\<forall>t \<in> set (user_transactions sample_block). \<forall>op \<in> set (operations t). plain_op op"
  using plain_sample by (simp add: sample_block_def)

section \<open>The block databases\<close>

lemma existChild_iff: "existChild b i \<longleftrightarrow> i \<in> set (childs b)"
  by (auto simp: existChild_def list_ex_iff)

text \<open>A block with one more child.\<close>

definition with_child :: "BlockIdType \<Rightarrow> FullBlock \<Rightarrow> FullBlock" where
  "with_child bid p = (if existChild p bid then p else p\<lparr>childs := childs p @ [bid]\<rparr>)"

lemma existChild_with_child [simp]: "existChild (with_child bid p) bid"
  by (simp add: with_child_def existChild_iff)

lemma with_child_idem [simp]: "with_child bid (with_child bid p) = with_child bid p"
  by (simp add: with_child_def [of bid "with_child bid p"])

lemma link_parent_block:
  "get_block_optional (link_parent bid pid n) i =
    (if i = pid then map_option (with_child bid) (get_block_optional n i) else get_block_optional n i)"
  by (auto simp: link_parent_def get_block_optional_def with_child_def update_conv' split: option.split)

lemma link_parents_block:
  "get_block_optional (fold (link_parent bid) ps n) i =
    (if i \<in> set ps then map_option (with_child bid) (get_block_optional n i) else get_block_optional n i)"
  by (induction ps arbitrary: n) (auto simp: link_parent_block option.map_comp comp_def)

text \<open>The members other than the blocks, which linking leaves alone, and the members that extending the
  chain leaves alone.\<close>

lemma link_parent_frame:
  "nd_database (link_parent bid pid n) = nd_database n"
  "nd_block_num_to_id (link_parent bid pid n) = nd_block_num_to_id n"
  "nd_nodeindex_to_produced (link_parent bid pid n) = nd_nodeindex_to_produced n"
  "nd_my_last_block (link_parent bid pid n) = nd_my_last_block n"
  by (simp_all add: link_parent_def split: option.split)

lemma link_parents_frame:
  "nd_database (fold (link_parent bid) ps n) = nd_database n"
  "nd_block_num_to_id (fold (link_parent bid) ps n) = nd_block_num_to_id n"
  "nd_nodeindex_to_produced (fold (link_parent bid) ps n) = nd_nodeindex_to_produced n"
  "nd_my_last_block (fold (link_parent bid) ps n) = nd_my_last_block n"
  by (induction ps arbitrary: n) (simp_all add: link_parent_frame)

definition same_blocks :: "node_state \<Rightarrow> node_state \<Rightarrow> bool" where
  "same_blocks n n' \<longleftrightarrow> nd_full_block n' = nd_full_block n \<and> nd_block_num_to_id n' = nd_block_num_to_id n \<and>
    nd_nodeindex_to_produced n' = nd_nodeindex_to_produced n \<and> nd_my_last_block n' = nd_my_last_block n"

lemma same_blocks_trans: "same_blocks n m \<Longrightarrow> same_blocks m n' \<Longrightarrow> same_blocks n n'"
  by (simp add: same_blocks_def)

lemma remove_pending_blocks: "same_blocks n (remove_pending E tid n)"
  by (simp add: same_blocks_def remove_pending_def remove_pending_feeindex_def)

lemma fold_same_blocks: "(\<And>x n. same_blocks n (f x n)) \<Longrightarrow> same_blocks n (fold f xs n)"
  by (induction xs arbitrary: n) (auto simp: same_blocks_def)

lemma clear_pending_blocks: "same_blocks n (clear_pending E b n)"
proof -
  let ?f = "\<lambda>t n. remove_pending E (trx_id (env_trx_hash E) t) (case operations t of
      transaction_op t0 # _ \<Rightarrow> remove_pending E (trx_id (env_trx_hash E) t0) n | _ \<Rightarrow> n)"
  have "same_blocks m (?f t m)" for t m
    by (rule same_blocks_trans [OF _ remove_pending_blocks])
      (auto simp: remove_pending_blocks split: list.split Operation.split, simp_all add: same_blocks_def)
  from fold_same_blocks [of ?f, OF this] show ?thesis
    by (simp add: clear_pending_def same_blocks_def Let_def)
qed

lemma extend_chain_blocks:
  "extend_chain CE E N b n = Some (Returns ev n') \<Longrightarrow> same_blocks n n'"
  "extend_chain CE E N b n = Some (Throws e n') \<Longrightarrow> same_blocks n n' \<and> nd_database n' = nd_database n"
proof -
  note defs = extend_chain_def Let_def apply_to_database_def
  have a: "same_blocks n (purge_unique_transactions E (update_relay_fee N
      ((clear_pending E b (n\<lparr>nd_extend_status := s, nd_database := d\<rparr>))\<lparr>nd_extend_status := s'\<rparr>)))"
    "same_blocks n (purge_unique_transactions E (update_relay_fee N
      ((clear_pending E b (n\<lparr>nd_extend_status := s\<rparr>))\<lparr>nd_extend_status := s'\<rparr>)))" for s s' d
    using clear_pending_blocks [of "n\<lparr>nd_extend_status := s, nd_database := d\<rparr>" E b]
      clear_pending_blocks [of "n\<lparr>nd_extend_status := s\<rparr>" E b]
    by (simp_all add: same_blocks_def purge_unique_transactions_def update_relay_fee_def)
  show "extend_chain CE E N b n = Some (Returns ev n') \<Longrightarrow> same_blocks n n'"
    using a by (auto simp: defs split: option.splits sum.splits prod.splits chain.splits)
  show "extend_chain CE E N b n = Some (Throws e n') \<Longrightarrow> same_blocks n n' \<and> nd_database n' = nd_database n"
    by (auto simp: defs same_blocks_def split: option.splits sum.splits prod.splits chain.splits)
qed

lemma update_last_index_produced:
  "get_produced i (update_last_index num n) =
    (if i = ucast (node_index num) then max (get_produced i n) (produced num) else get_produced i n)"
  by (auto simp: get_produced_def update_last_index_def Let_def max_def split: option.split)

lemma update_head_block_time:
  "timestamp (get_head_block n) \<le> timestamp (get_head_block (update_head_block b n))"
  by (auto simp: get_head_block_def update_head_block_def Let_def default_header_def split: option.split)

lemma update_frame:
  "nd_full_block (update_head_block h n) = nd_full_block n" "nd_block_num_to_id (update_head_block h n) = nd_block_num_to_id n"
  "nd_nodeindex_to_produced (update_head_block h n) = nd_nodeindex_to_produced n"
  "nd_full_block (update_last_index i n) = nd_full_block n" "nd_block_num_to_id (update_last_index i n) = nd_block_num_to_id n"
  "nd_my_last_block (update_last_index i n) = nd_my_last_block n"
  by (auto simp: update_head_block_def update_last_index_def Let_def split: option.split)

text \<open>C23: The pay of a block's delegate is exact. While all amounts are within the limits of a supply, the delegate
  gets its rate in percent of 200 new shares and of the fees of one two-week fraction, the rest of that fraction is
  destroyed, and the books balance as before.\<close>

theorem delegate_pay_is_exact:
  assumes "pay_delegate E db k ch = Inr (p, ch')" and "books E m (view ch)" and "amounts_bounded (view ch)"
  shows "books E m (view ch') \<and> unheld (view ch') a = unheld (view ch) a \<and>
    issued (view ch') 0 = issued (view ch) 0 + signee_shares_issued p - signee_fees_destroyed p"
  using pay_delegate_books [OF assms] by simp

theorem delegate_pay_is_exact_witness:
  "\<exists>p c'. pay_delegate sample_env (ChainDatabase sample_block_database) 77 (ChainDatabase sample_block_database) = Inr (p, c') \<and>
    unheld (view c') 0 = unheld (view sample_chain) 0"
proof -
  let ?c = "ChainDatabase sample_block_database"
  let ?i = "the (delegate_info sample_account)"
  have v: "v_account (view ?c) = [1 \<mapsto> sample_account]" "v_asset (view ?c) = [0 \<mapsto> sample_asset 0, 1 \<mapsto> sample_asset 1]"
    using sample_view(2,3) by (simp_all add: sample_block_view view_chain_accessors)
  have b: "books sample_env 0 (view ?c)" using books_Suc [OF books_Suc, of sample_env 0] books_sample
    by (simp add: sample_block_view numeral_2_eq_2)
  have a: "amounts_bounded (view ?c)"
    by (simp add: amounts_bounded_def v sample_entry_defs account_pay_def config_defs)
  obtain p c' where p: "pay_delegate sample_env ?c 77 ?c = Inr (p, c')"
  proof -
    obtain p where p: "delegate_paycheck 50 5 = Inr p" "s64 (signee_shares_issued p + signee_fees_collected p) \<ge> 0"
      by (simp add: delegate_paycheck_def get_max_delegate_pay_issued_per_block_def blocks_per_two_weeks_def fee_defs Let_def
          arith_defs signed_divide_int_def)
    let ?e = "sample_account\<lparr>delegate_info := Some (pay_stats (s64 (signee_shares_issued p + signee_fees_collected p)) ?i)\<rparr>"
    have ok: "account_ok sample_account" "account_ok ?e"
      by (simp_all add: account_ok_def sample_account_def pay_stats_def)
    have "\<forall>v' \<in> ran (v_account (view ?c)). account_ok v'" by (simp add: v ran_def ok)
    then obtain c1 where c1: "account_store sample_env 1 ?e ?c = Inr c1"
      using account_db.store_ok [of ?c ?e sample_env 1] ok by blast
    show thesis
      using that p c1 sample_signee sample_stats
      by (simp add: pay_delegate_def Let_def view_chain_accessors v sample_asset_def store_account_entry_def
          store_asset_entry_def asset_store_def)
  qed
  from delegate_pay_is_exact [OF p b a, of 0] show ?thesis using p by (auto simp: sample_block_view)
qed

text \<open>C13: Pushing a block. A known block is not pushed again and nothing changes. Otherwise, when the call
  returns, the block is stored under its id and its number, every other block is what it was except that
  the parents of the block have it as a child, the producing node's counter is the larger of its old
  value and the block's number, all other counters are unchanged, and the head block does not go back
  in time.\<close>

theorem push_block_stores:
  assumes "push_block CE E N b n = Some (Returns pushed n')"
  defines "bid \<equiv> block_id (nv_header_hash N) b"
  shows "(if get_block_optional n bid \<noteq> None then \<not> pushed \<and> n' = n
     else pushed \<and> get_block_optional n' bid = Some b \<and> get_block_id n' (block_num b) = bid \<and>
       (\<forall>i. i \<noteq> bid \<longrightarrow> get_block_optional n' i =
         (if i \<in> set (parents b) then map_option (with_child bid) (get_block_optional n i) else get_block_optional n i)) \<and>
       (\<forall>i. get_produced i n' =
         (if i = ucast (node_index (block_num b)) then max (get_produced i n) (produced (block_num b)) else get_produced i n)) \<and>
       timestamp (get_head_block n) \<le> timestamp (get_head_block n'))"
proof (cases "get_block_optional n bid")
  case None
  let ?l = "fold (link_parent bid) (parents b) n"
  obtain ev m where m: "extend_chain CE E N b ?l = Some (Returns ev m)"
    and n': "pushed" "n' = update_head_block (header_of b) (update_last_index (block_num b)
      (m\<lparr>nd_block_num_to_id := AList.update (block_num b) bid (nd_block_num_to_id m),
         nd_full_block := AList.update bid b (nd_full_block m)\<rparr>))"
    using assms None by (auto simp: push_block_def Let_def bindM_Returns)
  have s: "same_blocks ?l m" by (rule extend_chain_blocks(1) [OF m])
  have blocks: "get_block_optional n' i = (if i = bid then Some b else get_block_optional ?l i)" for i
    using s by (simp add: n' get_block_optional_def update_frame same_blocks_def update_conv')
  have "get_block_id n' (block_num b) = bid" by (simp add: n' get_block_id_def update_frame update_conv')
  moreover have "get_produced i n' =
      (if i = ucast (node_index (block_num b)) then max (get_produced i n) (produced (block_num b)) else get_produced i n)" for i
  proof -
    let ?m = "m\<lparr>nd_block_num_to_id := AList.update (block_num b) bid (nd_block_num_to_id m),
         nd_full_block := AList.update bid b (nd_full_block m)\<rparr>"
    have "get_produced i n' = get_produced i (update_last_index (block_num b) ?m)"
      by (simp add: n' get_produced_def [of _ "update_head_block h x" for h x] update_frame) (simp add: get_produced_def)
    moreover have "get_produced j ?m = get_produced j n" for j
      using s by (simp add: get_produced_def same_blocks_def link_parents_frame)
    ultimately show ?thesis by (simp add: update_last_index_produced)
  qed
  moreover have "timestamp (get_head_block n) \<le> timestamp (get_head_block n')"
  proof -
    have "get_head_block n = get_head_block (update_last_index (block_num b)
      (m\<lparr>nd_block_num_to_id := AList.update (block_num b) bid (nd_block_num_to_id m),
         nd_full_block := AList.update bid b (nd_full_block m)\<rparr>))"
      using s by (simp add: get_head_block_def update_frame same_blocks_def link_parents_frame)
    then show ?thesis using update_head_block_time by (simp add: n')
  qed
  ultimately show ?thesis using None n'(1) by (simp add: blocks link_parents_block)
next
  case (Some x)
  then show ?thesis using assms by (simp add: push_block_def Let_def)
qed

text \<open>C21: A block that is rejected leaves the database as it was and is not stored, but its parents keep it as
  a child: linking the parents comes before the block is checked and is not taken back. (A block with
  two children is no longer offered as a parent for new blocks.)\<close>

theorem rejected_block_stays_linked:
  assumes "push_block CE E N b n = Some (Throws e n')" and "p \<in> set (parents b)"
    and "get_block_optional n p = Some parent"
  shows "nd_database n' = nd_database n \<and> get_block_optional n' (block_id (nv_header_hash N) b) = None \<and>
    (\<exists>parent'. get_block_optional n' p = Some parent' \<and> existChild parent' (block_id (nv_header_hash N) b))"
proof -
  let ?bid = "block_id (nv_header_hash N) b"
  let ?l = "fold (link_parent ?bid) (parents b) n"
  have new: "get_block_optional n ?bid = None"
    using assms(1) by (auto simp: push_block_def Let_def split: if_splits)
  have t: "extend_chain CE E N b ?l = Some (Throws e n')"
    using assms(1) new
    by (auto simp: push_block_def Let_def bindM_def split: option.splits outcome.splits if_splits)
  note s = extend_chain_blocks(2) [OF t]
  have g: "get_block_optional n' i = get_block_optional ?l i" for i
    using s by (simp add: get_block_optional_def same_blocks_def)
  show ?thesis
    using s assms(2,3) new by (simp add: g link_parents_block link_parents_frame)
qed

text \<open>A node that knows one block, and the same block offered again under another number.\<close>

definition empty_node :: "chain_database \<Rightarrow> node_state" where
  "empty_node d = \<lparr>nd_database = d, nd_full_block = [], nd_block_num_to_id = [], nd_nodeindex_to_produced = [],
     nd_my_last_block = [], nd_pending_transaction_db = [], nd_pending_fee_index = [], nd_sending_trx_state = [],
     nd_pending_trx_state = empty_pending_state, nd_extend_status = None, nd_relay_fee = 0\<rparr>"

definition sample_node_state :: node_state where
  "sample_node_state = (empty_node sample_block_database)\<lparr>nd_full_block := [(7, empty_block)], nd_block_num_to_id := [(7, 7)]\<rparr>"

theorem rejected_block_stays_linked_witness:
  "\<exists>e n'. push_block sample_contract_env sample_env (sample_producer\<lparr>nv_ids_hash := \<lambda>_. 1\<rparr>)
      (sample_block\<lparr>parents := [7]\<rparr>) sample_node_state = Some (Throws e n') \<and>
    (\<exists>parent'. get_block_optional n' 7 = Some parent' \<and>
      existChild parent' (block_id (nv_header_hash (sample_producer\<lparr>nv_ids_hash := \<lambda>_. 1\<rparr>)) (sample_block\<lparr>parents := [7]\<rparr>)))"
proof -
  let ?N = "sample_producer\<lparr>nv_ids_hash := \<lambda>_. 1\<rparr>" and ?b = "sample_block\<lparr>parents := [7]\<rparr>"
  have "block_changes sample_contract_env sample_env ?N d ?b = Some (Inl invalid_block_digest)" for d
    by (simp add: block_changes_def Let_def block_signee_def verify_header_def sample_producer_def sample_node_def
        sample_block_def empty_block_def validate_digest_def calculate_transaction_digest_def DigestBlock_of_def)
  moreover have "get_block_optional sample_node_state (block_id (nv_header_hash ?N) ?b) = None"
    by (simp add: get_block_optional_def sample_node_state_def empty_node_def block_id_def sample_producer_def sample_node_def
        header_of_def sample_block_def empty_block_def)
  ultimately obtain e n' where p: "push_block sample_contract_env sample_env ?N ?b sample_node_state = Some (Throws e n')"
    by (simp add: push_block_def Let_def extend_chain_def)
  have "7 \<in> set (parents ?b)" "get_block_optional sample_node_state 7 = Some empty_block"
    by (simp_all add: get_block_optional_def sample_node_state_def)
  from rejected_block_stays_linked [OF p this] show ?thesis using p by blast
qed

theorem push_block_stores_witness:
  "\<exists>pushed n'. push_block sample_contract_env sample_env sample_producer sample_block
      (sample_node_state\<lparr>nd_full_block := [(1, sample_block)]\<rparr>) = Some (Returns pushed n') \<and> \<not> pushed"
proof -
  let ?n = "sample_node_state\<lparr>nd_full_block := [(1, sample_block)]\<rparr>"
  have k: "get_block_optional ?n (block_id (nv_header_hash sample_producer) sample_block) = Some sample_block"
    by (simp add: get_block_optional_def block_id_def sample_producer_def sample_node_def header_of_def sample_block_def)
  then have p: "push_block sample_contract_env sample_env sample_producer sample_block ?n = Some (Returns False ?n)"
    by (simp add: push_block_def)
  from push_block_stores [OF p] show ?thesis using k p by auto
qed

end
