(* ===== verification/Pending_Pool.thy ===== *)
theory Pending_Pool
  imports Block_Application "HOL-Library.Sublist"
begin

text \<open>
  The pool of pending transactions and block generation in \<open>ChainDatabase.cpp\<close>: a transaction that arrives
  is evaluated over the overlay \<open>_pending_trx_state\<close>, kept with its fee, evaluated again after each block
  (\<open>revalidate_pending\<close>) and packed into blocks (\<open>generate_block\<close>) whose parents are the blocks that do not
  have enough children yet.
\<close>

definition ALP_BLOCKCHAIN_MAX_PENDING_QUEUE_SIZE :: nat where "ALP_BLOCKCHAIN_MAX_PENDING_QUEUE_SIZE = 10000"
definition ALP_BLOCKCHAIN_REVALIDATE_MAX_TRX_COUNT :: nat where "ALP_BLOCKCHAIN_REVALIDATE_MAX_TRX_COUNT = 1000 * 6"
definition ALP_BLOCKCHAIN_MAX_FREE_MESSAGE_SIZE :: int where "ALP_BLOCKCHAIN_MAX_FREE_MESSAGE_SIZE = 1024"


section \<open>Evaluating a pending transaction\<close>

definition pending_chain :: "node_state \<Rightarrow> chain" where
  "pending_chain n = PendingChainState (nd_pending_trx_state n) (Some (ChainDatabase (nd_database n)))"

definition overlay_on :: "chain \<Rightarrow> chain" where
  "overlay_on ch = PendingChainState empty_pending_state (Some ch)"

definition apply_to_pending :: "env \<Rightarrow> chain \<Rightarrow> node_state \<Rightarrow> unit outcome" where
  "apply_to_pending E ch n =
    (case ch of
       ChainDatabase _ \<Rightarrow> Returns () n
     | PendingChainState s prev \<Rightarrow>
         (case apply_changes E s prev of
            Inl e \<Rightarrow> Torn e
          | Inr (Some (PendingChainState ps _)) \<Rightarrow> Returns () (n\<lparr>nd_pending_trx_state := ps\<rparr>)
          | Inr _ \<Rightarrow> Returns () n))"

definition pool_skipexec :: "node_env \<Rightarrow> chain \<Rightarrow> bool \<Rightarrow> bool result" where
  "pool_skipexec N db contract_vm_exec =
    bindE (if nv_generating_block N then Inr False
           else bindE (get_node_vm_enabled db) (\<lambda>enabled. Inr (\<not> enabled))) (\<lambda>skip.
    Inr (if skip \<and> contract_vm_exec then \<not> contract_vm_exec else skip))"

text \<open>\<open>evaluate(trx, false)\<close> with the handler of \<open>ignore_check_required_fee_state\<close>.\<close>

definition evaluate_keeping ::
  "contract_env \<Rightarrow> env \<Rightarrow> SignedTransaction \<Rightarrow> TransactionEvaluationState \<Rightarrow> chain \<Rightarrow> contract_result" where
  "evaluate_keeping CE E t st ch =
    (case evaluate CE E False t st ch of
       Some (Inl e) \<Rightarrow> if e = ignore_check_required_fee_state then evaluate CE E True t st ch else Some (Inl e)
     | r \<Rightarrow> r)"

definition has_result :: "TransactionEvaluationState \<Rightarrow> bool" where
  "has_result st \<longleftrightarrow> operations (p_result_trx st) \<noteq> []"

definition paid_fees :: "TransactionEvaluationState \<Rightarrow> ShareType" where
  "paid_fees st = s64 (get_fees st 0 + amount (alt_fees_paid st))"

text \<open>The check of the required fees is switched off by a constant.\<close>

definition evaluate_transaction ::
  "contract_env \<Rightarrow> env \<Rightarrow> node_env \<Rightarrow> SignedTransaction \<Rightarrow> ShareType \<Rightarrow> bool \<Rightarrow> bool \<Rightarrow> bool \<Rightarrow> node_state \<Rightarrow>
   TransactionEvaluationState outcome option" where
  "evaluate_transaction CE E N t required contract_vm_exec skip_check throw_exec n =
    bindM (checked (Some (pool_skipexec N (ChainDatabase (nd_database n)) contract_vm_exec)) n) (\<lambda>skip n.
    if \<not> origin_trx_basic_verify t then Some (Throws illegal_transaction n)
    else
      let no_check_required_fee = True;
          st = (TransactionEvaluationState_init skip)\<lparr>skip_signature_check := skip_check, throw_exec_exception := throw_exec\<rparr>
      in bindM (checked (evaluate_keeping CE E t st (overlay_on (pending_chain n))) n) (\<lambda>(st, ch) n.
         bindM (checked (Some (if has_result st then transaction_remove E (trx_id (env_trx_hash E) t) ch else Inr ch)) n) (\<lambda>ch n.
         if \<not> no_check_required_fee \<and> paid_fees st < required then Some (Throws insufficient_relay_fee n)
         else if \<not> has_result st
         then bindM (Some (apply_to_pending E ch n)) (\<lambda>_ n. Some (Returns st n))
         else bindM (checked (evaluate CE E True (p_result_trx st) (TransactionEvaluationState_init True)
                      (overlay_on (pending_chain n))) n) (\<lambda>(_, ch_res) n.
              bindM (Some (apply_to_pending E ch_res n)) (\<lambda>_ n.
              Some (Returns ((TransactionEvaluationState_init True)\<lparr>p_result_trx := p_result_trx st, trx := t\<rparr>) n))))))"

text \<open>The result \<^const>\<open>None\<close> of the call is the null pointer for a transaction that is already known.\<close>

definition store_pending_transaction ::
  "contract_env \<Rightarrow> env \<Rightarrow> node_env \<Rightarrow> SignedTransaction \<Rightarrow> bool \<Rightarrow> bool \<Rightarrow> bool \<Rightarrow> node_state \<Rightarrow>
   TransactionEvaluationState option outcome option" where
  "store_pending_transaction CE E N t override_limits contract_vm_exec cache n =
    (let tid = trx_id (env_trx_hash E) t in
     if map_of (nd_pending_transaction_db n) tid \<noteq> None then Some (Returns None n)
     else if map_of (db_transaction_id_to_entry (nd_database n)) tid \<noteq> None then Some (Returns None n)
     else
       let len = length (nd_pending_fee_index n);
           relay_fee = (if \<not> override_limits \<and> len > ALP_BLOCKCHAIN_MAX_PENDING_QUEUE_SIZE
             then s64 (nd_relay_fee n * int (len - ALP_BLOCKCHAIN_MAX_PENDING_QUEUE_SIZE) *
                       int (len - ALP_BLOCKCHAIN_MAX_PENDING_QUEUE_SIZE))
             else nd_relay_fee n)
       in bindM (evaluate_transaction CE E N t relay_fee contract_vm_exec False cache n) (\<lambda>st n.
          let fees = paid_fees st; st = (if has_result st then resize_result 0 st else st)
          in Some (Returns (Some st)
               (n\<lparr>nd_pending_fee_index := omap_update (fee_index fees tid) st (nd_pending_fee_index n),
                  nd_pending_transaction_db := omap_update tid t (nd_pending_transaction_db n)\<rparr>))))"

text \<open>The loop of \<open>revalidate_pending\<close>: it stops after the maximal number of valid transactions.\<close>

fun revalidate_loop ::
  "contract_env \<Rightarrow> env \<Rightarrow> node_env \<Rightarrow> (TransactionIdType \<times> SignedTransaction) list \<Rightarrow> nat \<Rightarrow> TransactionIdType list \<Rightarrow>
   node_state \<Rightarrow> TransactionIdType list outcome option" where
  "revalidate_loop CE E N [] cnt discard n = Some (Returns discard n)"
| "revalidate_loop CE E N ((tid, t) # rest) cnt discard n =
    (case evaluate_transaction CE E N t (nd_relay_fee n) False True False n of
       None \<Rightarrow> None
     | Some (Torn e) \<Rightarrow> Some (Torn e)
     | Some (Throws e n) \<Rightarrow> revalidate_loop CE E N rest cnt (discard @ [tid]) n
     | Some (Returns st n) \<Rightarrow>
         let st = (if has_result st then resize_result 0 st else st);
             n = n\<lparr>nd_pending_fee_index := omap_update (fee_index (get_fees st 0) tid) st (nd_pending_fee_index n)\<rparr>
         in if cnt + 1 > ALP_BLOCKCHAIN_REVALIDATE_MAX_TRX_COUNT then Some (Returns discard n)
            else revalidate_loop CE E N rest (cnt + 1) discard n)"

definition revalidate_pending :: "contract_env \<Rightarrow> env \<Rightarrow> node_env \<Rightarrow> node_state \<Rightarrow> unit outcome option" where
  "revalidate_pending CE E N n =
    bindM (revalidate_loop CE E N (nd_pending_transaction_db n) 0 []
             (n\<lparr>nd_pending_fee_index := [], nd_pending_trx_state := empty_pending_state\<rparr>)) (\<lambda>discard n.
    Some (Returns () (n\<lparr>nd_pending_transaction_db := fold AList.delete discard (nd_pending_transaction_db n)\<rparr>)))"

definition get_pending_transactions :: "node_state \<Rightarrow> TransactionEvaluationState list" where
  "get_pending_transactions n = map snd (nd_pending_fee_index n)"

definition remove_pending_transaction :: "env \<Rightarrow> TransactionIdType \<Rightarrow> node_state \<Rightarrow> node_state" where
  "remove_pending_transaction E tid n =
    remove_pending_feeindex E tid (n\<lparr>nd_pending_transaction_db := AList.delete tid (nd_pending_transaction_db n)\<rparr>)"

definition store_transaction_sending_state :: "node_env \<Rightarrow> TransactionIdType \<Rightarrow> string \<Rightarrow> node_state \<Rightarrow> node_state" where
  "store_transaction_sending_state N tid seedAddr n =
    n\<lparr>nd_sending_trx_state := AList.update tid (seedAddr, nv_wall N) (nd_sending_trx_state n)\<rparr>"

definition get_transaction_sending_state :: "node_state \<Rightarrow> TransactionIdType \<Rightarrow> (string \<times> time_point_sec) option" where
  "get_transaction_sending_state n tid = map_of (nd_sending_trx_state n) tid"

definition get_pending_transactions_for_send ::
  "env \<Rightarrow> node_env \<Rightarrow> node_state \<Rightarrow> (TransactionEvaluationState \<times> string) list" where
  "get_pending_transactions_for_send E N n =
    concat (map (\<lambda>kv. case map_of (nd_sending_trx_state n) (trx_id (env_trx_hash E) (trx (snd kv))) of
        None \<Rightarrow> [(snd kv, [])]
      | Some (seedAddr, sentTime) \<Rightarrow> if nv_wall N > sentTime + 60 then [(snd kv, seedAddr)] else [])
      (nd_pending_fee_index n))"


section \<open>Parents of a new block\<close>

text \<open>The inner loop: the last block of a node and at most nine before it, up to the first that is unknown or has
  enough children.\<close>

definition open_blocks :: "node_state \<Rightarrow> 64 word \<Rightarrow> FullBlock list" where
  "open_blocks n num =
    map the (takeWhile (\<lambda>o'. case o' of Some b \<Rightarrow> length (childs b) < MIN_CHILDREN_FOR_COMPLETE_BLOCK | None \<Rightarrow> False)
      (map (\<lambda>j. get_block_optional n (get_block_id n (num - of_nat j))) [0..<10]))"

definition max_rank :: "FullBlock list \<Rightarrow> 64 word" where
  "max_rank bs = fold (\<lambda>b r. if rank b > r then rank b else r) bs 0"

definition set_block_parents :: "node_env \<Rightarrow> node_state \<Rightarrow> FullBlock \<Rightarrow> FullBlock" where
  "set_block_parents N n newblock =
    (let found = concat (map (open_blocks n) (get_index_list n)) in
     newblock\<lparr>parents := parents newblock @ rev (map (block_id (nv_header_hash N)) found),
              rank := max_rank found + 1\<rparr>)"

definition set_digests :: "env \<Rightarrow> node_env \<Rightarrow> FullBlock \<Rightarrow> FullBlock" where
  "set_digests E N b =
    (let b = b\<lparr>transaction_digest := calculate_transaction_digest (nv_ids_hash N) (DigestBlock_of (env_trx_hash E) b)\<rparr>
     in b\<lparr>parent_digest := calculate_parent_digest (nv_ids_hash N) (DigestBlock_of (env_trx_hash E) b)\<rparr>)"

definition generate_empty_blocks :: "env \<Rightarrow> node_env \<Rightarrow> time_point_sec \<Rightarrow> node_state \<Rightarrow> FullBlock list" where
  "generate_empty_blocks E N block_timestamp n =
    (let found = concat (map (open_blocks n) (get_index_list n));
         candidates = map (block_id (nv_header_hash N)) found;
         num = BlockNumberType (get_produced (ucast (nv_nodeindex N)) n + 1) (nv_nodeindex N)
     in if \<not> list_ex (\<lambda>b. user_transactions b \<noteq> []) found then []
        else map (\<lambda>i. set_digests E N
               (empty_block\<lparr>parents := candidates, rank := max_rank found + 1, block_num := num + of_nat i,
                  timestamp := block_timestamp\<rparr>)) [0..<MIN_CHILDREN_FOR_COMPLETE_BLOCK])"


section \<open>Generating a block\<close>

record DelegateConfig =
  block_max_transaction_count :: "32 word"
  block_max_size :: "32 word"
  transaction_max_size :: "32 word"
  transaction_canonical_signatures_required :: bool
  transaction_min_fee :: ShareType
  transaction_imessage_max_soft_length :: int
  transaction_imessage_min_fee_coe :: int
  transaction_blacklist :: "TransactionIdType list"
  operation_blacklist :: "nat list"

text \<open>The tests before a transaction is evaluated.\<close>

definition excluded :: "env \<Rightarrow> DelegateConfig \<Rightarrow> nat \<Rightarrow> SignedTransaction \<Rightarrow> bool" where
  "excluded E config sz t \<longleftrightarrow>
    env_data_size E t > unat (transaction_max_size config) \<or>
    sz + env_data_size E t > unat (block_max_size config) \<or>
    trx_id (env_trx_hash E) t \<in> set (transaction_blacklist config) \<or>
    list_ex (\<lambda>op. op_type op \<in> set (operation_blacklist config)) (operations t)"

definition meets_fee :: "DelegateConfig \<Rightarrow> nat \<Rightarrow> TransactionEvaluationState \<Rightarrow> bool" where
  "meets_fee config len st \<longleftrightarrow>
    int len \<le> transaction_imessage_max_soft_length config \<and>
    (let imessage_fee = (if int len > ALP_BLOCKCHAIN_MAX_FREE_MESSAGE_SIZE
           then s64 (transaction_imessage_min_fee_coe config * (int len - ALP_BLOCKCHAIN_MAX_FREE_MESSAGE_SIZE)) else 0)
     in paid_fees st \<ge> s64 (transaction_min_fee config + imessage_fee))"

text \<open>The result transaction as it is put into the block; its id is taken before the other changes.\<close>

definition packed_result :: "env \<Rightarrow> DelegateConfig \<Rightarrow> SignedTransaction \<Rightarrow> SignedTransaction" where
  "packed_result E config r =
    (let rid = trx_id (env_trx_hash E) r in
     if env_data_size E r > unat (transaction_max_size config)
     then SignedTransaction (expiration r) (reserved r) (alp_account r) (alp_inport_asset r)
            (operations (resize_operations 1 r)) incomplete_result_transaction rid (signatures r)
     else SignedTransaction (expiration r) (reserved r) (alp_account r) (alp_inport_asset r)
            (operations r) complete_result_transaction rid (signatures r))"

text \<open>The evaluation of a candidate: the overlay to apply and the transaction to pack, or none.\<close>

definition evaluate_candidate ::
  "contract_env \<Rightarrow> env \<Rightarrow> DelegateConfig \<Rightarrow> chain \<Rightarrow> SignedTransaction \<Rightarrow> (chain \<times> SignedTransaction) option result option" where
  "evaluate_candidate CE E config pending t =
    (let fresh = (\<lambda>skip. (TransactionEvaluationState_init skip)
           \<lparr>enforce_canonical_signatures := transaction_canonical_signatures_required config, skip_signature_check := True\<rparr>)
     in bindO (evaluate CE E True t (fresh False) (overlay_on pending)) (\<lambda>(st, ch).
        if has_result st
        then bindO (evaluate CE E True (p_result_trx st) (fresh True) (overlay_on pending)) (\<lambda>(rst, rch).
          Some (Inr (if meets_fee config (imessage_length st) rst then Some (rch, packed_result E config (p_result_trx st))
                     else None)))
        else Some (Inr (if meets_fee config (imessage_length st) st then Some (ch, t) else None))))"

record generation =
  gen_chain :: chain
  gen_transactions :: "SignedTransaction list"
  gen_size :: nat

text \<open>The loop; exceptions of an evaluation skip the transaction, \<^const>\<open>Inl\<close> is an exception in \<open>apply_changes\<close>.\<close>

fun generate_loop ::
  "contract_env \<Rightarrow> env \<Rightarrow> DelegateConfig \<Rightarrow> SignedTransaction list \<Rightarrow> generation \<Rightarrow> generation result option" where
  "generate_loop CE E config [] g = Some (Inr g)"
| "generate_loop CE E config (t # ts) g =
    (if excluded E config (gen_size g) t then generate_loop CE E config ts g
     else case evaluate_candidate CE E config (gen_chain g) t of
       None \<Rightarrow> None
     | Some (Inl _) \<Rightarrow> generate_loop CE E config ts g
     | Some (Inr None) \<Rightarrow> generate_loop CE E config ts g
     | Some (Inr (Some (ch, t'))) \<Rightarrow>
         (case ch of
            ChainDatabase _ \<Rightarrow> Some (Inl undefined_behaviour)
          | PendingChainState s prev \<Rightarrow>
              (case apply_changes E s prev of
                 Inl e \<Rightarrow> Some (Inl e)
               | Inr p \<Rightarrow>
                   let g = \<lparr>gen_chain = (case p of Some c \<Rightarrow> c | None \<Rightarrow> gen_chain g),
                            gen_transactions = gen_transactions g @ [t'],
                            gen_size = gen_size g + env_data_size E t\<rparr>
                   in if length (gen_transactions g) \<ge> unat (block_max_transaction_count config) then Some (Inr g)
                      else generate_loop CE E config ts g)))"

text \<open>Without room for transactions the function ends without returning a value.\<close>

definition generate_block ::
  "contract_env \<Rightarrow> env \<Rightarrow> node_env \<Rightarrow> time_point_sec \<Rightarrow> DelegateConfig \<Rightarrow> node_state \<Rightarrow> FullBlock outcome option" where
  "generate_block CE E N block_timestamp config n =
    (let new_number = get_produced (ucast (nv_nodeindex N)) n + 1;
         sz = nv_block_size N empty_block;
         pending = map trx (get_pending_transactions n)
     in if \<not> (block_max_transaction_count config > 0 \<and> unat (block_max_size config) > sz)
        then Some (Throws undefined_behaviour n)
        else if pending = [] then Some (Returns empty_block n)
        else case generate_loop CE E config pending
               \<lparr>gen_chain = overlay_on (ChainDatabase (nd_database n)), gen_transactions = [], gen_size = sz\<rparr> of
          None \<Rightarrow> None
        | Some (Inl e) \<Rightarrow> Some (Torn e)
        | Some (Inr g) \<Rightarrow>
            let b = set_block_parents N n (empty_block\<lparr>user_transactions := gen_transactions g\<rparr>);
                b = set_digests E N (b\<lparr>block_num := BlockNumberType new_number (nv_nodeindex N), timestamp := block_timestamp\<rparr>)
            in Some (Returns b (clear_pending E b n)))"

text \<open>\<open>get_transaction_error\<close>: the exception of an evaluation on top of the database, or of the fee test; the
  first argument is the uninitialised \<open>skipexec\<close>.\<close>

definition get_transaction_error ::
  "bool \<Rightarrow> contract_env \<Rightarrow> env \<Rightarrow> SignedTransaction \<Rightarrow> ShareType \<Rightarrow> node_state \<Rightarrow> error option option" where
  "get_transaction_error skip CE E t min_fee n =
    (case evaluate CE E True t (TransactionEvaluationState_init skip) (overlay_on (ChainDatabase (nd_database n))) of
       None \<Rightarrow> None
     | Some (Inl e) \<Rightarrow> Some (Some e)
     | Some (Inr (st, ch)) \<Rightarrow> Some (if paid_fees st < min_fee then Some insufficient_relay_fee else None))"

section \<open>Properties\<close>

text \<open>A candidate that passes the static tests of the producer.\<close>

definition admissible :: "env \<Rightarrow> DelegateConfig \<Rightarrow> SignedTransaction \<Rightarrow> bool" where
  "admissible E config t \<longleftrightarrow>
    env_data_size E t \<le> unat (transaction_max_size config) \<and>
    trx_id (env_trx_hash E) t \<notin> set (transaction_blacklist config) \<and>
    (\<forall>op \<in> set (operations t). op_type op \<notin> set (operation_blacklist config))"

lemma not_excluded:
  "\<not> excluded E config sz t \<longleftrightarrow> admissible E config t \<and> sz + env_data_size E t \<le> unat (block_max_size config)"
  by (auto simp: excluded_def admissible_def list_ex_iff)

text \<open>A packed transaction is the candidate itself or the packed result of its execution.\<close>

definition packs :: "env \<Rightarrow> DelegateConfig \<Rightarrow> SignedTransaction \<Rightarrow> SignedTransaction \<Rightarrow> bool" where
  "packs E config t t' \<longleftrightarrow> t' = t \<or> (\<exists>r. t' = packed_result E config r)"

lemma evaluate_candidate_packs:
  "evaluate_candidate CE E config c t = Some (Inr (Some (ch, t'))) \<Longrightarrow> packs E config t t'"
  by (auto simp: evaluate_candidate_def packs_def Let_def bindO_eq_Inr simp del: evaluate.simps split: if_splits)

text \<open>What the loop adds to the block: the selection \<open>os\<close> of the candidates \<open>ts\<close>.\<close>

definition adds :: "env \<Rightarrow> DelegateConfig \<Rightarrow> SignedTransaction list \<Rightarrow> generation \<Rightarrow> SignedTransaction list \<Rightarrow> generation \<Rightarrow> bool" where
  "adds E config ts g os g' \<longleftrightarrow> subseq os ts \<and> (\<forall>t \<in> set os. admissible E config t) \<and>
    (\<exists>new. gen_transactions g' = gen_transactions g @ new \<and> list_all2 (packs E config) os new) \<and>
    gen_size g' = gen_size g + sum_list (map (env_data_size E) os) \<and>
    (gen_size g \<le> unat (block_max_size config) \<longrightarrow> gen_size g' \<le> unat (block_max_size config)) \<and>
    (length (gen_transactions g) < unat (block_max_transaction_count config) \<longrightarrow>
      length (gen_transactions g') \<le> unat (block_max_transaction_count config))"

lemma adds_skip: "adds E config ts g os g' \<Longrightarrow> adds E config (t # ts) g os g'"
  by (auto simp: adds_def intro: list_emb_Cons)

lemma adds_Nil: "adds E config ts g [] g"
  by (auto simp: adds_def)

lemma generate_loop_adds:
  "generate_loop CE E config ts g = Some (Inr g') \<Longrightarrow> \<exists>os. adds E config ts g os g'"
proof (induction ts arbitrary: g)
  case Nil
  then show ?case using adds_Nil by fastforce
next
  case (Cons t ts)
  have skip: "\<exists>os. adds E config (t # ts) g os g'" if "generate_loop CE E config ts g = Some (Inr g')"
    using Cons.IH [OF that] adds_skip by blast
  show ?case
  proof (cases "excluded E config (gen_size g) t")
    case True
    then show ?thesis using Cons.prems skip by simp
  next
    case ok: False
    let ?r = "evaluate_candidate CE E config (gen_chain g) t"
    show ?thesis
    proof (cases "\<exists>ch t'. ?r = Some (Inr (Some (ch, t')))")
      case False
      then have "generate_loop CE E config ts g = Some (Inr g')"
        using Cons.prems ok by (cases ?r rule: result_option_cases) (auto split: option.splits prod.splits)
      then show ?thesis by (rule skip)
    next
      case True
      then obtain ch t' where r: "?r = Some (Inr (Some (ch, t')))" by blast
      then obtain s prev where ch: "ch = PendingChainState s prev"
        using Cons.prems ok by (cases ch) simp_all
      then obtain p where p: "apply_changes E s prev = Inr p"
        using Cons.prems ok r by (cases "apply_changes E s prev") simp_all
      define g1 where "g1 = \<lparr>gen_chain = (case p of Some c \<Rightarrow> c | None \<Rightarrow> gen_chain g),
          gen_transactions = gen_transactions g @ [t'], gen_size = gen_size g + env_data_size E t\<rparr>"
      have step: "(if length (gen_transactions g1) \<ge> unat (block_max_transaction_count config) then Some (Inr g1)
          else generate_loop CE E config ts g1) = Some (Inr g')"
        using Cons.prems ok r p by (simp add: ch g1_def Let_def split: if_splits)
      have a: "admissible E config t" "gen_size g + env_data_size E t \<le> unat (block_max_size config)"
        using ok not_excluded by blast+
      have k: "packs E config t t'" by (rule evaluate_candidate_packs [OF r])
      have extend: "adds E config (t # ts) g (t # os) g'" if add: "adds E config ts g1 os g'"
          and fin: "length (gen_transactions g1) \<ge> unat (block_max_transaction_count config) \<longrightarrow> g' = g1" for os
      proof -
        obtain new where new: "gen_transactions g' = gen_transactions g1 @ new" "list_all2 (packs E config) os new"
          using add by (auto simp: adds_def)
        then have "gen_transactions g' = gen_transactions g @ (t' # new)" "list_all2 (packs E config) (t # os) (t' # new)"
          using k by (simp_all add: g1_def)
        moreover have "subseq (t # os) (t # ts)" "\<forall>t' \<in> set (t # os). admissible E config t'"
          using add a(1) by (simp_all add: adds_def)
        moreover have "gen_size g' = gen_size g + sum_list (map (env_data_size E) (t # os))"
          using add by (simp add: adds_def g1_def)
        moreover have "gen_size g' \<le> unat (block_max_size config)" using add a(2) by (simp add: adds_def g1_def)
        moreover have "length (gen_transactions g') \<le> unat (block_max_transaction_count config)"
          if "length (gen_transactions g) < unat (block_max_transaction_count config)"
        proof (cases "length (gen_transactions g1) < unat (block_max_transaction_count config)")
          case True
          then show ?thesis using add by (simp add: adds_def)
        next
          case False
          then show ?thesis using fin that by (simp add: g1_def)
        qed
        ultimately show "adds E config (t # ts) g (t # os) g'" unfolding adds_def by blast
      qed
      show ?thesis
      proof (cases "length (gen_transactions g1) \<ge> unat (block_max_transaction_count config)")
        case True
        then have "g' = g1" using step by simp
        then have "adds E config ts g1 [] g'" by (simp add: adds_Nil)
        then show ?thesis using extend [of "[]"] \<open>g' = g1\<close> by blast
      next
        case False
        then obtain os where "adds E config ts g1 os g'" using step Cons.IH [of g1] by auto
        then show ?thesis using extend False by blast
      qed
    qed
  qed
qed

text \<open>Removing a transaction from the pool.\<close>

lemma remove_pending_db:
  "map_of (nd_pending_transaction_db (remove_pending E tid n)) k =
    (if k = tid then None else map_of (nd_pending_transaction_db n) k)"
  by (simp add: remove_pending_def remove_pending_feeindex_def Let_def delete_conv')

lemma clear_pending_removes:
  "t \<in> set (user_transactions b) \<Longrightarrow>
    map_of (nd_pending_transaction_db (clear_pending E b n)) (trx_id (env_trx_hash E) t) = None"
proof -
  let ?f = "\<lambda>t n. remove_pending E (trx_id (env_trx_hash E) t) (case operations t of
      transaction_op t0 # _ \<Rightarrow> remove_pending E (trx_id (env_trx_hash E) t0) n | _ \<Rightarrow> n)"
  have keep: "map_of (nd_pending_transaction_db (?f t n)) k = None"
    if "map_of (nd_pending_transaction_db n) k = None \<or> k = trx_id (env_trx_hash E) t" for t n k
    using that by (auto simp: remove_pending_db split: list.split Operation.split)
  have none: "map_of (nd_pending_transaction_db (fold ?f ts n)) k = None"
    if "map_of (nd_pending_transaction_db n) k = None" for ts n k
    using that keep by (induction ts arbitrary: n) auto
  have "map_of (nd_pending_transaction_db (fold ?f ts n)) (trx_id (env_trx_hash E) t) = None" if "t \<in> set ts" for ts n
    using that
  proof (induction ts arbitrary: n)
    case (Cons u ts)
    show ?case
    proof (cases "u = t")
      case True
      then show ?thesis using none keep by simp
    next
      case False
      then show ?thesis using Cons by simp
    qed
  qed simp
  moreover assume "t \<in> set (user_transactions b)"
  ultimately show ?thesis by (simp add: clear_pending_def Let_def)
qed


text \<open>A producer that blacklists transfers and a pool that holds one.\<close>

definition sample_config :: DelegateConfig where
  "sample_config = \<lparr>block_max_transaction_count = 5, block_max_size = 1000, transaction_max_size = 500,
     transaction_canonical_signatures_required = False, transaction_min_fee = 0,
     transaction_imessage_max_soft_length = 1024, transaction_imessage_min_fee_coe = 1,
     transaction_blacklist = [], operation_blacklist = [1]\<rparr>"

definition sample_pool :: node_state where
  "sample_pool = (empty_node sample_block_database)\<lparr>nd_nodeindex_to_produced := [(0, 4)],
     nd_pending_fee_index := [(fee_index 10 2, sample_state\<lparr>trx := sample_transfer\<rparr>)],
     nd_pending_transaction_db := [(2, sample_transfer)]\<rparr>"


end
