(* ===== verification/Node_Runs.thy ===== *)
theory Node_Runs
  imports Pending_Pool
begin

text \<open>
  A node as a state machine. A step is one call of \<open>ChainDatabase\<close> that changes the node: pushing a block,
  generating one, accepting, revalidating and discarding pending transactions. The theorems are invariants of
  all reachable nodes, by induction over the steps. A call that does not return, and one that
  stops in the middle of writing the database, have no step.
\<close>

section \<open>Calls of a node\<close>

text \<open>The node a call leaves behind, when the node goes on: the call returned or it threw.\<close>

inductive leaves :: "'a outcome option \<Rightarrow> node_state \<Rightarrow> bool" where
  returned: "leaves (Some (Returns x n)) n"
| threw: "leaves (Some (Throws e n)) n"

inductive_simps leaves_simps [simp]:
  "leaves None n" "leaves (Some (Returns x m)) n" "leaves (Some (Throws e m)) n" "leaves (Some (Torn e)) n"

text \<open>The calls that do not push a block, in any environment and with any arguments.\<close>

inductive local_step :: "node_state \<Rightarrow> node_state \<Rightarrow> bool" where
  generate: "leaves (generate_block CE E N ts config n) n' \<Longrightarrow> local_step n n'"
| accept: "leaves (store_pending_transaction CE E N t override_limits contract_vm_exec cache n) n' \<Longrightarrow> local_step n n'"
| revalidate: "leaves (revalidate_pending CE E N n) n' \<Longrightarrow> local_step n n'"
| discard: "local_step n (remove_pending_transaction E tid n)"
| sent: "local_step n (store_transaction_sending_state N tid seedAddr n)"
| own_head: "local_step n (update_my_head_block h n)"

text \<open>Only the hash of block headers is the same for all calls.\<close>

inductive node_step :: "(SignedBlockHeader \<Rightarrow> BlockIdType) \<Rightarrow> node_state \<Rightarrow> node_state \<Rightarrow> bool"
  for hdr_hash :: "SignedBlockHeader \<Rightarrow> BlockIdType" where
  push: "nv_header_hash N = hdr_hash \<Longrightarrow> leaves (push_block CE E N b n) n' \<Longrightarrow> node_step hdr_hash n n'"
| local: "local_step n n' \<Longrightarrow> node_step hdr_hash n n'"

inductive reachable :: "(SignedBlockHeader \<Rightarrow> BlockIdType) \<Rightarrow> chain_database \<Rightarrow> node_state \<Rightarrow> bool"
  for hdr_hash :: "SignedBlockHeader \<Rightarrow> BlockIdType" and d :: chain_database where
  start: "reachable hdr_hash d (empty_node d)"
| step: "reachable hdr_hash d n \<Longrightarrow> node_step hdr_hash n n' \<Longrightarrow> reachable hdr_hash d n'"


section \<open>What local calls leave alone\<close>

text \<open>A relation between nodes that depends neither on the members of the pool nor on the node's own last block.\<close>

locale local_frame =
  fixes keeps :: "node_state \<Rightarrow> node_state \<Rightarrow> bool"
  assumes refl: "keeps n n"
    and trans: "keeps n m \<Longrightarrow> keeps m n' \<Longrightarrow> keeps n n'"
    and pool: "keeps n (n\<lparr>nd_pending_transaction_db := db, nd_pending_fee_index := fi, nd_sending_trx_state := ss,
      nd_pending_trx_state := ps\<rparr>)"
    and own_head: "keeps n (update_my_head_block h n)"
begin

lemma pool_members:
  "keeps n (n\<lparr>nd_pending_transaction_db := db\<rparr>)" "keeps n (n\<lparr>nd_pending_fee_index := fi\<rparr>)"
  "keeps n (n\<lparr>nd_sending_trx_state := ss\<rparr>)" "keeps n (n\<lparr>nd_pending_trx_state := ps\<rparr>)"
  "keeps n (n\<lparr>nd_pending_fee_index := fi, nd_pending_trx_state := ps\<rparr>)"
  "keeps n (n\<lparr>nd_pending_transaction_db := db, nd_pending_fee_index := fi\<rparr>)"
  using pool [where n = n and db = db and fi = "nd_pending_fee_index n" and ss = "nd_sending_trx_state n" and ps = "nd_pending_trx_state n"]
    pool [where n = n and db = "nd_pending_transaction_db n" and fi = fi and ss = "nd_sending_trx_state n" and ps = "nd_pending_trx_state n"]
    pool [where n = n and db = "nd_pending_transaction_db n" and fi = "nd_pending_fee_index n" and ss = ss and ps = "nd_pending_trx_state n"]
    pool [where n = n and db = "nd_pending_transaction_db n" and fi = "nd_pending_fee_index n" and ss = "nd_sending_trx_state n" and ps = ps]
    pool [where n = n and db = "nd_pending_transaction_db n" and fi = fi and ss = "nd_sending_trx_state n" and ps = ps]
    pool [where n = n and db = db and fi = fi and ss = "nd_sending_trx_state n" and ps = "nd_pending_trx_state n"]
  by simp_all

lemma pool_stored: "keeps n (n\<lparr>nd_pending_fee_index := fi, nd_pending_transaction_db := db\<rparr>)"
  by (rule trans [OF pool_members(2) pool_members(1)])

definition quiet :: "(node_state \<Rightarrow> 'a outcome option) \<Rightarrow> bool" where
  "quiet f \<longleftrightarrow> (\<forall>n n'. leaves (f n) n' \<longrightarrow> keeps n n')"

lemma quietD: "quiet f \<Longrightarrow> leaves (f n) n' \<Longrightarrow> keeps n n'"
  by (simp add: quiet_def)

lemma quiet_bindM:
  assumes "quiet f" and "\<And>x. quiet (g x)"
  shows "quiet (\<lambda>n. bindM (f n) g)"
  unfolding quiet_def
proof (intro allI impI)
  fix n n' assume *: "leaves (bindM (f n) g) n'"
  show "keeps n n'"
  proof (cases "f n")
    case (Some r)
    have r: "leaves (Some r) m \<Longrightarrow> keeps n m" for m using quietD [OF assms(1), of n m] Some by simp
    show ?thesis
    proof (cases r)
      case (Returns x m)
      then show ?thesis using * Some r [of m] quietD [OF assms(2), of x m n'] by (auto intro: trans)
    qed (use * Some r in auto)
  qed (use * in simp)
qed

lemma quiet_checked: "quiet (\<lambda>n. checked (r n) n)"
  by (auto simp: quiet_def checked_def refl split: option.splits sum.splits)

lemma quiet_if: "quiet f \<Longrightarrow> quiet g \<Longrightarrow> quiet (\<lambda>n. if c n then f n else g n)"
  by (simp add: quiet_def)

lemma quiet_Returns: "(\<And>n. keeps n (h n)) \<Longrightarrow> quiet (\<lambda>n. Some (Returns (x n) (h n)))"
  by (auto simp: quiet_def)

lemma quiet_Throws: "quiet (\<lambda>n. Some (Throws e n))"
  by (auto simp: quiet_def refl)

lemma quiet_apply_to_pending: "quiet (\<lambda>n. Some (apply_to_pending E ch n))"
  by (auto simp: quiet_def apply_to_pending_def refl pool_members split: chain.splits sum.splits option.splits)

lemmas quiet_intros = quiet_bindM quiet_checked quiet_if quiet_Returns quiet_Throws quiet_apply_to_pending refl

lemma quiet_evaluate_transaction: "quiet (\<lambda>n. evaluate_transaction CE E N t (fee n) vm skip throw n)"
  unfolding evaluate_transaction_def Let_def case_prod_unfold simp_thms if_False by (intro quiet_intros)

lemma quiet_store_pending: "quiet (store_pending_transaction CE E N t override_limits vm cache)"
  unfolding store_pending_transaction_def Let_def
  by (intro quiet_bindM quiet_if quiet_evaluate_transaction quiet_Returns refl pool_stored)

lemma quiet_revalidate_loop: "quiet (revalidate_loop CE E N ts cnt ds)"
proof (induction ts arbitrary: cnt ds)
  case (Cons x ts)
  obtain tid t where x: "x = (tid, t)" by (cases x)
  show ?case unfolding quiet_def
  proof (intro allI impI)
    fix n n' assume *: "leaves (revalidate_loop CE E N (x # ts) cnt ds n) n'"
    have ev: "keeps n m" if "leaves (evaluate_transaction CE E N t (nd_relay_fee n) False True False n) m" for m
      using that quiet_evaluate_transaction [of CE E N t nd_relay_fee False True False] by (simp add: quiet_def)
    show "keeps n n'"
    proof (cases "evaluate_transaction CE E N t (nd_relay_fee n) False True False n")
      case (Some r)
      show ?thesis
      proof (cases r)
        case (Returns st m)
        then have m: "keeps n m" using ev Some by simp
        have "keeps m n'" if "leaves (revalidate_loop CE E N ts c ds' (m\<lparr>nd_pending_fee_index := fi\<rparr>)) n'" for c ds' fi
          by (rule trans [OF pool_members(2) quietD [OF Cons that]])
        then show ?thesis using * Some Returns
          by (auto simp: x Let_def split: if_splits intro!: trans [OF m] intro: pool_members)
      next
        case (Throws e m)
        then show ?thesis using * Some ev quietD [OF Cons] by (auto simp: x intro: trans)
      qed (use * Some in \<open>simp add: x\<close>)
    qed (use * in \<open>simp add: x\<close>)
  qed
qed (simp add: quiet_def refl)

lemma quiet_revalidate_pending: "quiet (revalidate_pending CE E N)"
proof -
  have "quiet (\<lambda>n. bindM (revalidate_loop CE E N ts 0 [] n) (\<lambda>ds n.
      Some (Returns () (n\<lparr>nd_pending_transaction_db := fold AList.delete ds (nd_pending_transaction_db n)\<rparr>))))" for ts
    by (intro quiet_bindM quiet_revalidate_loop quiet_Returns pool_members)
  then show ?thesis unfolding revalidate_pending_def quiet_def by (blast intro: trans pool_members)
qed

lemma remove_pending_keeps: "keeps n (remove_pending E tid n)"
  using pool [where n = n and ps = "nd_pending_trx_state n"] by (simp add: remove_pending_def remove_pending_feeindex_def Let_def)

lemma clear_pending_keeps: "keeps n (clear_pending E b n)"
proof -
  have fold: "keeps m (fold f xs m)" if "\<And>x m. keeps m (f x m)" for f :: "SignedTransaction \<Rightarrow> node_state \<Rightarrow> node_state" and xs m
    using that by (induction xs arbitrary: m) (auto intro: refl trans)
  show ?thesis unfolding clear_pending_def Let_def
    by (rule trans [OF fold pool_members(4)], rule trans [OF _ remove_pending_keeps])
      (auto intro: refl remove_pending_keeps split: list.split Operation.split)
qed

lemma quiet_generate_block: "quiet (generate_block CE E N ts config)"
  by (auto simp: quiet_def generate_block_def Let_def refl clear_pending_keeps split: if_splits option.splits sum.splits)

lemma local_step_keeps: "local_step n n' \<Longrightarrow> keeps n n'"
proof (induction rule: local_step.induct)
  case (discard n E tid)
  show ?case by (simp add: remove_pending_transaction_def remove_pending_feeindex_def pool_members)
next
  case (sent n N tid seedAddr)
  show ?case by (simp add: store_transaction_sending_state_def pool_members)
qed (fact quietD [OF quiet_generate_block] quietD [OF quiet_store_pending] quietD [OF quiet_revalidate_pending] own_head)+

end

text \<open>The databases of blocks, and the database of the chain.\<close>

definition same_graph :: "node_state \<Rightarrow> node_state \<Rightarrow> bool" where
  "same_graph n n' \<longleftrightarrow> nd_full_block n' = nd_full_block n \<and> nd_block_num_to_id n' = nd_block_num_to_id n \<and>
    nd_nodeindex_to_produced n' = nd_nodeindex_to_produced n \<and>
    map_of (nd_my_last_block n') 1 = map_of (nd_my_last_block n) 1"

definition same_database :: "node_state \<Rightarrow> node_state \<Rightarrow> bool" where
  "same_database n n' \<longleftrightarrow> nd_database n' = nd_database n"

interpretation graph: local_frame same_graph
  by unfold_locales (simp_all add: same_graph_def update_my_head_block_def)

interpretation database: local_frame same_database
  by unfold_locales (simp_all add: same_database_def update_my_head_block_def)


section \<open>Well-formed nodes\<close>

text \<open>The header of a known block.\<close>

definition known_header :: "node_state \<Rightarrow> BlockIdType \<Rightarrow> SignedBlockHeader option" where
  "known_header n i = map_option header_of (get_block_optional n i)"

text \<open>Blocks are stored under their id; a number leads to a known block with that number and every known block's
  number leads somewhere; the counter of a node is at least the number of each block it produced; the head block is
  known and no known block is later.\<close>

definition blocks_indexed :: "(SignedBlockHeader \<Rightarrow> BlockIdType) \<Rightarrow> node_state \<Rightarrow> bool" where
  "blocks_indexed hdr_hash n \<longleftrightarrow>
    (\<forall>i h. known_header n i = Some h \<longrightarrow> hdr_hash h = i \<and> map_of (nd_block_num_to_id n) (block_num h) \<noteq> None) \<and>
    (\<forall>k i. map_of (nd_block_num_to_id n) k = Some i \<longrightarrow> (\<exists>h. known_header n i = Some h \<and> block_num h = k))"

definition blocks_counted :: "node_state \<Rightarrow> bool" where
  "blocks_counted n \<longleftrightarrow>
    (\<forall>i h. known_header n i = Some h \<longrightarrow> produced (block_num h) \<le> get_produced (ucast (node_index (block_num h))) n)"

definition head_latest :: "node_state \<Rightarrow> bool" where
  "head_latest n \<longleftrightarrow>
    (\<forall>i h. known_header n i = Some h \<longrightarrow>
      (\<exists>last. map_of (nd_my_last_block n) 1 = Some last \<and> timestamp h \<le> timestamp last)) \<and>
    (\<forall>last. map_of (nd_my_last_block n) 1 = Some last \<longrightarrow> (\<exists>i. known_header n i = Some last))"

definition node_wf :: "(SignedBlockHeader \<Rightarrow> BlockIdType) \<Rightarrow> node_state \<Rightarrow> bool" where
  "node_wf hdr_hash n \<longleftrightarrow> blocks_indexed hdr_hash n \<and> blocks_counted n \<and> head_latest n"

lemmas node_wf_defs = node_wf_def blocks_indexed_def blocks_counted_def head_latest_def

lemma node_wf_empty: "node_wf hdr_hash (empty_node d)"
  by (simp add: node_wf_defs empty_node_def known_header_def get_block_optional_def)

text \<open>Linking changes the children of known blocks only, so that all headers stay.\<close>

definition same_headers :: "node_state \<Rightarrow> node_state \<Rightarrow> bool" where
  "same_headers n n' \<longleftrightarrow> known_header n' = known_header n \<and> nd_block_num_to_id n' = nd_block_num_to_id n \<and>
    nd_nodeindex_to_produced n' = nd_nodeindex_to_produced n \<and> map_of (nd_my_last_block n') 1 = map_of (nd_my_last_block n) 1"

lemma same_headers_trans: "same_headers n m \<Longrightarrow> same_headers m n' \<Longrightarrow> same_headers n n'"
  by (simp add: same_headers_def)

lemma same_headers_wf: "same_headers n n' \<Longrightarrow> node_wf hdr_hash n \<Longrightarrow> node_wf hdr_hash n'"
  by (simp add: node_wf_defs same_headers_def get_produced_def)

lemma same_graph_headers: "same_graph n n' \<Longrightarrow> same_headers n n'"
  by (auto simp: same_headers_def same_graph_def known_header_def get_block_optional_def)

lemma same_blocks_headers: "same_blocks n n' \<Longrightarrow> same_headers n n'"
  by (auto simp: same_headers_def same_blocks_def known_header_def get_block_optional_def)

lemma link_parents_headers: "same_headers n (fold (link_parent bid) ps n)"
proof -
  have "header_of (with_child bid p) = header_of p" for p by (simp add: with_child_def header_of_def)
  then have "known_header (fold (link_parent bid) ps n) i = known_header n i" for i
    by (simp add: known_header_def link_parents_block option.map_comp comp_def)
  then show ?thesis by (auto simp: same_headers_def link_parents_frame)
qed

lemma head_block_choice:
  obtains h where "map_of (nd_my_last_block (update_head_block b n)) 1 = Some h" "timestamp b \<le> timestamp h"
    "h = b \<or> map_of (nd_my_last_block n) 1 = Some h"
    "\<And>o'. map_of (nd_my_last_block n) 1 = Some o' \<Longrightarrow> timestamp o' \<le> timestamp h"
proof (cases "map_of (nd_my_last_block n) 1")
  case None
  then show ?thesis using that [of b] by (simp add: update_head_block_def Let_def)
next
  case (Some o')
  show ?thesis
  proof (cases "map_of (nd_my_last_block (update_head_block b n)) 1 = Some b")
    case True
    then have "timestamp o' \<le> timestamp b" using Some by (auto simp: update_head_block_def Let_def split: if_splits)
    then show ?thesis using that [of b] True Some by simp
  next
    case False
    then have "map_of (nd_my_last_block (update_head_block b n)) 1 = Some o'" "timestamp b \<le> timestamp o'"
      using Some by (auto simp: update_head_block_def Let_def split: if_splits)
    then show ?thesis using that [of o'] Some by simp
  qed
qed

lemma stored_block_wf:
  fixes b :: FullBlock
  assumes wf: "node_wf hdr_hash m" and new: "known_header m (block_id hdr_hash b) = None"
  defines "bid \<equiv> block_id hdr_hash b" and "hb \<equiv> header_of b"
  shows "node_wf hdr_hash (update_head_block hb (update_last_index (block_num b)
      (m\<lparr>nd_block_num_to_id := AList.update (block_num b) bid (nd_block_num_to_id m),
         nd_full_block := AList.update bid b (nd_full_block m)\<rparr>)))" (is "node_wf _ ?n")
proof -
  let ?m = "m\<lparr>nd_block_num_to_id := AList.update (block_num b) bid (nd_block_num_to_id m),
         nd_full_block := AList.update bid b (nd_full_block m)\<rparr>"
  have hb: "block_num hb = block_num b" "hdr_hash hb = bid" by (simp_all add: hb_def bid_def header_of_def block_id_def)
  have blocks: "known_header ?n i = (if i = bid then Some hb else known_header m i)" for i
    by (simp add: known_header_def get_block_optional_def update_frame update_conv' hb_def)
  have nums: "map_of (nd_block_num_to_id ?n) k = (if k = block_num hb then Some bid else map_of (nd_block_num_to_id m) k)" for k
    by (simp add: update_frame update_conv' hb)
  have "get_produced i ?n = get_produced i (update_last_index (block_num b) ?m)" for i
    by (simp add: get_produced_def [of _ "update_head_block h x" for h x] update_frame) (simp add: get_produced_def)
  moreover have "get_produced i ?m = get_produced i m" for i by (simp add: get_produced_def)
  ultimately have counts: "get_produced i ?n =
      (if i = ucast (node_index (block_num hb)) then max (get_produced i m) (produced (block_num hb)) else get_produced i m)" for i
    by (simp add: update_last_index_produced hb)
  obtain h where h: "map_of (nd_my_last_block ?n) 1 = Some h" "timestamp hb \<le> timestamp h"
    "h = hb \<or> map_of (nd_my_last_block m) 1 = Some h"
    "\<And>o'. map_of (nd_my_last_block m) 1 = Some o' \<Longrightarrow> timestamp o' \<le> timestamp h"
    using head_block_choice [of hb "update_last_index (block_num b) ?m"] by (auto simp: update_frame)
  have new': "known_header m bid = None" using new by (simp add: bid_def)
  have "blocks_indexed hdr_hash ?n"
    using wf new' unfolding node_wf_def blocks_indexed_def blocks nums by (auto simp: hb(2)) (metis option.distinct(1))
  moreover have "blocks_counted ?n"
    using wf unfolding node_wf_def blocks_counted_def blocks counts by (auto simp: le_max_iff_disj split: if_splits) metis
  moreover have "head_latest ?n"
    unfolding head_latest_def h(1) blocks
  proof (intro conjI allI impI)
    fix i x assume "(if i = bid then Some hb else known_header m i) = Some x"
    then show "\<exists>last. Some h = Some last \<and> timestamp x \<le> timestamp last"
      using wf h(2,4) by (auto simp: node_wf_def head_latest_def split: if_splits) (meson order.trans)
  next
    fix last assume "Some h = Some last"
    then show "\<exists>i. (if i = bid then Some hb else known_header m i) = Some last"
      using wf h(3) new' by (auto simp: node_wf_def head_latest_def) (metis option.distinct(1))
  qed
  ultimately show ?thesis by (simp add: node_wf_def)
qed

lemma push_block_wf:
  assumes wf: "node_wf hdr_hash n" and N: "nv_header_hash N = hdr_hash" and l: "leaves (push_block CE E N b n) n'"
  shows "node_wf hdr_hash n'"
proof (cases "get_block_optional n (block_id hdr_hash b)")
  case (Some x)
  then show ?thesis using wf N l by (simp add: push_block_def Let_def)
next
  case None
  let ?bid = "block_id hdr_hash b"
  let ?l = "fold (link_parent ?bid) (parents b) n"
  have known: "known_header m ?bid = None" if "same_headers n m" for m
    using that None by (simp add: same_headers_def known_header_def)
  show ?thesis
  proof (cases "extend_chain CE E N b ?l")
    case None': None
    then show ?thesis using l None N by (simp add: push_block_def Let_def)
  next
    case (Some r)
    show ?thesis
    proof (cases r)
      case (Returns ev m)
      have s: "same_headers n m"
        using Some Returns extend_chain_blocks(1) link_parents_headers same_blocks_headers same_headers_trans by blast
      have "n' = update_head_block (header_of b) (update_last_index (block_num b)
          (m\<lparr>nd_block_num_to_id := AList.update (block_num b) ?bid (nd_block_num_to_id m),
             nd_full_block := AList.update ?bid b (nd_full_block m)\<rparr>))"
        using l None Some Returns N by (simp add: push_block_def Let_def)
      then show ?thesis using stored_block_wf [OF same_headers_wf [OF s wf] known [OF s]] by simp
    next
      case (Throws e m)
      have s: "same_headers n m"
        using Some Throws extend_chain_blocks(2) link_parents_headers same_blocks_headers same_headers_trans by blast
      then show ?thesis using l None Some Throws N same_headers_wf [OF s wf] by (simp add: push_block_def Let_def)
    next
      case (Torn e)
      then show ?thesis using l None Some N by (simp add: push_block_def Let_def)
    qed
  qed
qed

lemma node_step_wf: "node_step hdr_hash n n' \<Longrightarrow> node_wf hdr_hash n \<Longrightarrow> node_wf hdr_hash n'"
  by (erule node_step.cases)
    (auto intro: push_block_wf same_headers_wf same_graph_headers graph.local_step_keeps)

lemma reachable_wf: "reachable hdr_hash d n \<Longrightarrow> node_wf hdr_hash n"
  by (induction rule: reachable.induct) (auto intro: node_wf_empty node_step_wf)


section \<open>Properties\<close>

lemma generate_block_number:
  assumes "generate_block CE E N ts config n = Some (Returns b n')" and "get_pending_transactions n \<noteq> []"
  shows "block_num b = BlockNumberType (get_produced (ucast (nv_nodeindex N)) n + 1) (nv_nodeindex N)"
  using assms by (auto simp: generate_block_def set_digests_def Let_def split: if_splits option.splits sum.splits)

lemma next_produced: "p < 2 ^ 48 - 1 \<Longrightarrow> take_bit 48 (p + 1) > (p :: 64 word)"
proof -
  assume *: "p < 2 ^ 48 - 1"
  then have u: "unat p < 2 ^ 48 - 1" by (simp add: word_less_nat_alt)
  then have "unat (p + 1) = unat p + 1" by (simp add: unat_word_ariths)
  then have "unat (take_bit 48 (p + 1)) = unat p + 1" using u by (simp add: take_bit_eq_mod unat_mod)
  then show ?thesis by (simp add: word_less_nat_alt)
qed

text \<open>C15: A block that a well-formed node generates, and so one generated in any run, has a number that no block
  known to the node has, as long as the 48 bits of the counter suffice.\<close>

theorem generated_number_is_fresh:
  assumes "node_wf hdr_hash n" and "generate_block CE E N ts config n = Some (Returns b n')"
    and "get_pending_transactions n \<noteq> []" and "get_produced (ucast (nv_nodeindex N)) n < 2 ^ 48 - 1"
    and "get_block_optional n i = Some known"
  shows "block_num known \<noteq> block_num b"
proof
  assume eq: "block_num known = block_num b"
  have num: "block_num b = BlockNumberType (get_produced (ucast (nv_nodeindex N)) n + 1) (nv_nodeindex N)"
    by (rule generate_block_number [OF assms(2,3)])
  have "known_header n i = Some (header_of known)" "block_num (header_of known) = block_num known"
    using assms(5) by (simp_all add: known_header_def header_of_def)
  then have "produced (block_num known) \<le> get_produced (ucast (node_index (block_num known))) n"
    using assms(1) unfolding node_wf_def blocks_counted_def
    by metis
  then show False using next_produced [OF assms(4)] by (simp add: eq num block_number_parts)
qed

text \<open>A producer with one known block, its fourth, and one pending transaction.\<close>

definition sample_run :: node_state where
  "sample_run = sample_pool\<lparr>nd_full_block := [(1, sample_block\<lparr>block_num := 4\<rparr>)], nd_block_num_to_id := [(4, 1)],
     nd_my_last_block := [(1, header_of (sample_block\<lparr>block_num := 4\<rparr>))]\<rparr>"

theorem generated_number_is_fresh_witness:
  "\<exists>b n'. generate_block sample_contract_env sample_env sample_producer 1008 sample_config sample_run = Some (Returns b n') \<and>
    block_num (sample_block\<lparr>block_num := 4\<rparr>) \<noteq> block_num b"
proof -
  have p: "map trx (get_pending_transactions sample_run) = [sample_transfer]"
    by (simp add: get_pending_transactions_def sample_run_def sample_pool_def)
  have x: "excluded sample_env sample_config 100 sample_transfer"
    by (simp add: excluded_def sample_config_def sample_transfer_def)
  have s: "nv_block_size sample_producer empty_block = 100" "nv_nodeindex sample_producer = 0"
    by (simp_all add: sample_producer_def sample_node_def)
  have c: "block_max_transaction_count sample_config > 0" "unat (block_max_size sample_config) = 1000"
    by (simp_all add: sample_config_def)
  obtain b n' where g: "generate_block sample_contract_env sample_env sample_producer 1008 sample_config sample_run =
      Some (Returns b n')"
    using p x s c by (simp add: generate_block_def Let_def)
  have known: "get_block_optional sample_run 1 = Some (sample_block\<lparr>block_num := 4\<rparr>)"
    by (simp add: get_block_optional_def sample_run_def)
  have parts: "node_index 4 = 0" "produced 4 = 4"
    using block_number_parts [of 4 0] by (simp_all add: BlockNumberType_def)
  have "node_wf (\<lambda>_. 1) sample_run"
    by (simp add: node_wf_defs known_header_def get_block_optional_def sample_run_def sample_pool_def get_produced_def header_of_def
        parts)
  moreover have "get_pending_transactions sample_run \<noteq> []" using p by auto
  moreover have "get_produced (ucast (nv_nodeindex sample_producer)) sample_run < 2 ^ 48 - 1"
    by (simp add: s get_produced_def sample_run_def sample_pool_def)
  ultimately have "block_num (sample_block\<lparr>block_num := 4\<rparr>) \<noteq> block_num b"
    by (rule generated_number_is_fresh [OF _ g _ _ known])
  then show ?thesis using g by blast
qed

end
