(* ===== verification/Commit.thy ===== *)
theory Commit
  imports Node_Runs
begin

text \<open>
  From the changes of a block to the database. Operations work through the store functions of the entry types,
  so that an invariant these keep is kept by transactions and by blocks (locale \<open>chain_invariant\<close>). The
  invariant used here says that the overlay of a block is well-formed and that all accounts in sight have the keys
  their accessors require: then flushing the overlay succeeds and shows in the database what the overlay showed, a
  block is either rejected as a whole or committed as a whole, and the shares are conserved in every run
  of a node.
\<close>

section \<open>Outcomes of a computation\<close>

definition ensures :: "'a result \<Rightarrow> ('a \<Rightarrow> bool) \<Rightarrow> bool" where
  "ensures r Q \<longleftrightarrow> (\<forall>x. r = Inr x \<longrightarrow> Q x)"

lemma ensuresD: "ensures r Q \<Longrightarrow> r = Inr x \<Longrightarrow> Q x"
  by (simp add: ensures_def)

lemma ensures_Inl: "ensures (Inl e) Q"
  by (simp add: ensures_def)

lemma ensures_Inr: "Q x \<Longrightarrow> ensures (Inr x) Q"
  by (simp add: ensures_def)

lemma ensures_bind: "(\<And>x. r = Inr x \<Longrightarrow> ensures (f x) Q) \<Longrightarrow> ensures (bindE r f) Q"
  by (auto simp: ensures_def bindE_eq_Inr)

lemma ensures_if: "(b \<Longrightarrow> ensures r Q) \<Longrightarrow> (\<not> b \<Longrightarrow> ensures r' Q) \<Longrightarrow> ensures (if b then r else r') Q"
  by simp

lemma ensures_option:
  "(y = None \<Longrightarrow> ensures r Q) \<Longrightarrow> (\<And>x. y = Some x \<Longrightarrow> ensures (f x) Q) \<Longrightarrow>
    ensures (case y of None \<Rightarrow> r | Some x \<Rightarrow> f x) Q"
  by (cases y) simp_all

lemma ensures_prod: "(\<And>a b. y = (a, b) \<Longrightarrow> ensures (f a b) Q) \<Longrightarrow> ensures (case y of (a, b) \<Rightarrow> f a b) Q"
  by (cases y) simp

lemma ensures_let: "(\<And>x. x = a \<Longrightarrow> ensures (f x) Q) \<Longrightarrow> ensures (let x = a in f x) Q"
  by (simp add: Let_def)

lemma ensures_fold:
  assumes "\<And>x s. Q s \<Longrightarrow> ensures (f x s) Q" and "Q s"
  shows "ensures (foldE f xs s) Q"
  using assms unfolding ensures_def by (metis foldE_invariant)

lemmas ensures_rules = ensures_bind ensures_if ensures_option ensures_prod ensures_let ensures_Inl ensures_Inr


section \<open>Invariants of the chain\<close>

text \<open>The changes that operations make to accounts keep the key histories.\<close>

lemma account_ok_frame [simp]:
  "account_ok (a\<lparr>ac_public_data := d\<rparr>) = account_ok a" "account_ok (a\<lparr>ac_last_update := t\<rparr>) = account_ok a"
  by (simp_all add: account_ok_def)

lemma make_delegate_ok:
  "make_delegate rate key a st c = Inr (x, st') \<Longrightarrow> account_ok a \<Longrightarrow> account_ok x"
  by (auto simp: make_delegate_def set_signing_key_def account_ok_def Let_def bindE_eq_Inr omap_update_not_Nil
      split: if_splits option.splits)

lemma update_active_key_ok: "update_active_key E op st c a = Inr x \<Longrightarrow> account_ok a \<Longrightarrow> account_ok x"
  by (drule update_active_key_cases) (auto simp: set_active_key_def account_ok_def omap_update_not_Nil split: if_splits)

lemma update_delegate_part_ok: "update_delegate_part op st c a = Inr (x, st') \<Longrightarrow> account_ok a \<Longrightarrow> account_ok x"
  by (auto simp: update_delegate_part_def bindE_eq_Inr make_delegate_ok split: if_splits option.splits)
    (simp add: account_ok_def)

lemma adjust_votes_ok: "adjust_votes_for a v = Inr x \<Longrightarrow> account_ok a \<Longrightarrow> account_ok x"
  by (auto simp: adjust_votes_for_def account_ok_def split: option.splits)

locale chain_invariant =
  fixes E :: env and inv :: "chain \<Rightarrow> bool"
  assumes property: "inv c \<Longrightarrow> property_store k p c = Inr c' \<Longrightarrow> inv c'"
    and account: "inv c \<Longrightarrow> account_ok a \<Longrightarrow> account_store E i a c = Inr c' \<Longrightarrow> inv c'"
    and account_ok: "inv c \<Longrightarrow> get_account_entry c i = Some a \<Longrightarrow> account_ok a"
    and asset: "inv c \<Longrightarrow> asset_store i x c = Inr c' \<Longrightarrow> inv c'"
    and slate: "inv c \<Longrightarrow> slate_store s e c = Inr c' \<Longrightarrow> inv c'"
    and balance: "inv c \<Longrightarrow> balance_store b y c = Inr c' \<Longrightarrow> inv c'"
    and transaction: "inv c \<Longrightarrow> transaction_store E t z c = Inr c' \<Longrightarrow> inv c'"
    and slot: "inv c \<Longrightarrow> slot_store E j w c = Inr c' \<Longrightarrow> inv c'"
begin

lemma stores:
  "inv c \<Longrightarrow> store_property_entry k v c = Inr c' \<Longrightarrow> inv c'"
  "inv c \<Longrightarrow> store_asset_entry x c = Inr c' \<Longrightarrow> inv c'"
  "inv c \<Longrightarrow> store_slate_entry E e c = Inr c' \<Longrightarrow> inv c'"
  "inv c \<Longrightarrow> store_balance_entry E y c = Inr c' \<Longrightarrow> inv c'"
  "inv c \<Longrightarrow> store_slot_entry E w c = Inr c' \<Longrightarrow> inv c'"
  unfolding store_property_entry_def store_asset_entry_def store_slate_entry_def
    store_balance_entry_def store_slot_entry_def
  by (blast intro: property asset slate balance slot)+

lemma store_account: "inv c \<Longrightarrow> account_ok a \<Longrightarrow> store_account_entry E a c = Inr c' \<Longrightarrow> inv c'"
  unfolding store_account_entry_def by (rule account)

lemma new_ids:
  "inv c \<Longrightarrow> new_account_id c = Inr (i, c') \<Longrightarrow> inv c'" "inv c \<Longrightarrow> new_asset_id c = Inr (j, c') \<Longrightarrow> inv c'"
  by (auto simp: new_account_id_def new_asset_id_def bindE_eq_Inr Let_def intro: stores)

lemma operations:
  assumes "inv c"
  shows
    "ensures (deposit_evaluate E op1 st c) (\<lambda>r. inv (snd r))"
    "ensures (withdraw_evaluate E op2 st c) (\<lambda>r. inv (snd r))"
    "ensures (issue_asset_evaluate op3 E st c) (\<lambda>r. inv (snd r))"
    "ensures (create_asset_evaluate op4 E st c) (\<lambda>r. inv (snd r))"
    "ensures (update_asset_evaluate op5 E st c) (\<lambda>r. inv (snd r))"
    "ensures (update_asset_ext_evaluate op6 E st c) (\<lambda>r. inv (snd r))"
    "ensures (define_slate_evaluate E op7 st c) (\<lambda>r. inv (snd r))"
    "ensures (imessage_memo_evaluate op8 st c) (\<lambda>r. inv (snd r))"
    "ensures (update_transfer_config_evaluate op9 st c) (\<lambda>r. inv (snd r))"
  unfolding deposit_evaluate_def withdraw_evaluate_def issue_asset_evaluate_def create_asset_evaluate_def
    update_asset_evaluate_def update_asset_ext_evaluate_def define_slate_evaluate_def imessage_memo_evaluate_def
    update_transfer_config_evaluate_def
  by (intro ensures_rules; simp only: snd_conv; ((rule assms | erule stores [rotated] | erule new_ids [rotated])+)?)+

lemma withdraw_pay: "inv c \<Longrightarrow> ensures (withdraw_pay_evaluate E op st c) (\<lambda>r. inv (snd r))"
  unfolding withdraw_pay_evaluate_def
  by (intro ensures_rules) (auto dest!: account_ok simp: account_ok_def elim!: store_account [rotated 2])

lemma register_account:
  assumes "inv c"
  shows "ensures (register_account_evaluate E op st c) (\<lambda>r. inv (snd r))"
proof -
  have "inv c'" if e: "register_account_evaluate E op st c = Inr (st', c')" for st' c'
  proof -
    obtain i c1 x1 x where i: "new_account_id c = Inr (i, c1)" and x1: "register_entry E op i = Inr x1"
      and x: "register_delegate_part op x1 st c1 = Inr (x, st')" and s: "store_account_entry E x c1 = Inr c'"
      using e unfolding register_account_evaluate_def Let_def by (auto simp: bindE_eq_Inr split: if_splits)
    have "account_ok x1"
      using x1 by (auto simp: register_entry_def set_active_key_def account_ok_def AccountEntry_init_def Let_def
          bindE_eq_Inr omap_update_not_Nil split: if_splits)
    then have "account_ok x" using x by (auto simp: register_delegate_part_def make_delegate_ok split: if_splits)
    then show ?thesis using store_account [OF new_ids(1) [OF assms i] _ s] by simp
  qed
  then show ?thesis by (auto simp: ensures_def)
qed

lemma update_account:
  assumes "inv c"
  shows "ensures (update_account_evaluate E op st c) (\<lambda>r. inv (snd r))"
  unfolding update_account_evaluate_def
proof (intro ensures_rules)
  fix cur r cur1 cur2 p x st' cur3 c'
  assume "get_account_entry c (ua_account_id op) = Some cur"
  then have ok: "account_ok cur" by (rule account_ok [OF assms])
  assume "update_active_key E op st c cur = Inr cur1"
    and cur2: "cur2 = (case ua_public_data op of None \<Rightarrow> cur1 | Some d \<Rightarrow> cur1\<lparr>ac_public_data := d\<rparr>)"
  then have "account_ok cur2" using update_active_key_ok [OF _ ok] by (auto split: option.splits)
  moreover assume "update_delegate_part op st c cur2 = Inr p" "p = (x, st')"
  ultimately have "account_ok x" using update_delegate_part_ok by blast
  moreover assume "cur3 = x\<lparr>ac_last_update := env_now E\<rparr>" "store_account_entry E cur3 c = Inr c'"
  ultimately show "inv (snd (st', c'))" using store_account [OF assms, of cur3 c'] by simp
qed

lemmas op_steps = operations withdraw_pay register_account update_account

lemma plain_operation:
  assumes "plain_op op" and "evaluate_operation CE E op (st, c) = Some (Inr (st', c'))" and "inv c"
  shows "inv c'"
proof -
  have e: "evaluate_basic_operation CE E op st c = Some (Inr (st', c'))"
    using assms(1,2) by (cases op) (simp_all add: plain_op_def as_transaction_def)
  show ?thesis
    by (insert assms(1) e; cases op; simp add: plain_op_def evaluate_basic_operation_def release_escrow_evaluate_def
        update_signing_key_evaluate_def update_balance_vote_evaluate_def assms(3);
      (erule op_steps [OF assms(3), THEN ensuresD, where x = "(st', c')", unfolded snd_conv])?)
qed

lemma plain_loop:
  "foldO (\<lambda>op stch. bindO (evaluate_operation CE E op stch) next_op) ops (st, c) = Some (Inr (st', c')) \<Longrightarrow>
    \<forall>op \<in> set ops. plain_op op \<Longrightarrow> inv c \<Longrightarrow> inv c'"
proof (induction ops arbitrary: st c)
  case (Cons op ops)
  from Cons.prems(1) obtain st1 c1 where "evaluate_operation CE E op (st, c) = Some (Inr (st1, c1))"
    and "foldO (\<lambda>op stch. bindO (evaluate_operation CE E op stch) next_op) ops
      (st1\<lparr>current_op_index := current_op_index st1 + 1\<rparr>, c1) = Some (Inr (st', c'))"
    by (auto simp: bindO_eq_Inr next_op_pair simp del: evaluate_operation.simps)
  then show ?case using Cons.IH Cons.prems(2,3) plain_operation by (metis list.set_intros(1,2))
qed simp

lemma collect_fees: "inv c \<Longrightarrow> ensures (foldE collect_fee fees c) inv"
  by (rule ensures_fold) (auto simp: collect_fee_def ensures_def bindE_eq_Inr intro: stores split: option.splits if_splits)

lemma votes: "inv c \<Longrightarrow> ensures (update_delegate_votes E st c) inv"
  unfolding update_delegate_votes_def
  by (rule ensures_fold) (auto simp: update_delegate_vote_def ensures_def bindE_eq_Inr
      intro: store_account adjust_votes_ok account_ok split: option.splits if_splits)

lemma plain_evaluate:
  assumes "evaluate CE E ign t st c = Some (Inr (st', c'))" and "\<forall>op \<in> set (operations t). plain_op op" and "inv c"
  shows "inv c'"
proof -
  obtain st0 st1 st2 c1 c2 where
    1: "foldO (\<lambda>op stch. bindO (evaluate_operation CE E op stch) next_op) (operations t) (st0, c) = Some (Inr (st1, c1))"
    and 2: "check_fees E (charge_signatures t st1) c1 = Inr (st2, c2)"
    and 3: "transaction_store E (trx_id (env_trx_hash E) t)
      \<lparr>te_state = st2\<lparr>trx := t\<rparr>, chain_location = TransactionLocation_init\<rparr> c2 = Inr c'"
    by (rule plain_transaction [OF assms(1,2)])
  obtain c3 fees where c3: "foldE collect_fee fees c1 = Inr c3" "update_delegate_votes E st2 c3 = Inr c2"
    using 2 by (auto simp: check_fees_def post_evaluate_def Let_def bindE_eq_Inr)
  show ?thesis
    using plain_loop [OF 1 assms(2,3)] c3 collect_fees [THEN ensuresD] votes [THEN ensuresD] transaction [OF _ 3] by blast
qed

lemma set_location: "inv c \<Longrightarrow> ensures (set_chain_location E tid loc c) inv"
  by (auto simp: set_chain_location_def ensures_def intro: transaction split: option.splits)

lemma locations: "inv c \<Longrightarrow> ensures (record_locations E loc t c) inv"
  by (cases "result_trx_type t"; simp add: record_locations_def; intro ensures_rules set_location;
      (assumption | erule set_location [THEN ensuresD, rotated])+)

lemma apply_one:
  assumes "apply_transaction CE E N db b t s = Some (Inr s')" and "\<forall>op \<in> set (operations t). plain_op op"
    and "inv (ap_chain s)"
  shows "inv (ap_chain s')"
proof -
  have "\<exists>ig st st' c loc. evaluate CE E ig t st (ap_chain s) = Some (Inr (st', c)) \<and> record_locations E loc t c = Inr (ap_chain s')"
    using assms(1) unfolding apply_transaction_def Let_def
    by (auto simp: bindO_eq_Inr simp del: evaluate.simps split: if_splits) blast+
  then show ?thesis using plain_evaluate [OF _ assms(2,3)] locations [THEN ensuresD] by blast
qed

lemma apply_all:
  assumes "apply_transactions CE E N db b c = Some (Inr (events, c'))" and "inv c"
    and "\<forall>t \<in> set (user_transactions b). \<forall>op \<in> set (operations t). plain_op op"
  shows "inv c'"
proof -
  have loop: "foldO (apply_transaction CE E N db b) ts s = Some (Inr s') \<Longrightarrow> inv (ap_chain s) \<Longrightarrow>
    \<forall>t \<in> set ts. \<forall>op \<in> set (operations t). plain_op op \<Longrightarrow> inv (ap_chain s')" for ts s s'
    by (induction ts arbitrary: s) (auto simp: bindO_eq_Inr dest: apply_one)
  show ?thesis
    using assms unfolding apply_transactions_def bindO_eq_Inr by (auto dest!: loop split: if_splits)
qed

lemma production:
  assumes "inv c"
  shows "ensures (update_delegate_production_info E db h bid k c) inv"
proof -
  have "inv c'" if p: "update_delegate_production_info E db h bid k c = Inr c'" for c'
  proof -
    obtain i entry info c1 where a: "get_account_entry c i = Some entry" "delegate_info entry = Some info"
      and s: "store_account_entry E (entry\<lparr>delegate_info := Some (info\<lparr>blocks_produced := blocks_produced info + 1,
        last_block_num_produced := block_num h\<rparr>)\<rparr>) c = Inr c1"
      and r: "c' = c1 \<or> (\<exists>e. store_slot_entry E e c1 = Inr c')"
      by (rule production_infoE [OF p])
    have "inv c1"
      by (rule store_account [OF assms _ s]) (use account_ok [OF assms a(1)] a(2) in \<open>simp add: account_ok_def\<close>)
    then show ?thesis using r stores(5) by blast
  qed
  then show ?thesis by (simp add: ensures_def)
qed

lemma pay:
  assumes "inv c"
  shows "ensures (pay_delegate E db k c) (\<lambda>r. inv (snd r))"
proof -
  have "inv c'" if p: "pay_delegate E db k c = Inr (p, c')" for p c'
  proof -
    obtain base i entry info c1 where a: "get_account_entry c i = Some entry" "delegate_info entry = Some info"
      and s: "store_account_entry E
        (entry\<lparr>delegate_info := Some (pay_stats (s64 (signee_shares_issued p + signee_fees_collected p)) info)\<rparr>) c = Inr c1"
      "store_asset_entry (pay_asset p base) c1 = Inr c'"
      by (rule pay_delegateE [OF p]) blast
    have "inv c1"
      by (rule store_account [OF assms _ s(1)]) (use account_ok [OF assms a(1)] a(2) in \<open>simp add: account_ok_def pay_stats_def\<close>)
    then show ?thesis using s(2) by (rule stores(2))
  qed
  then show ?thesis by (auto simp: ensures_def)
qed

lemma delegate_list: "inv c \<Longrightarrow> ensures (update_active_delegate_list N d num c) inv"
  by (auto simp: ensures_def update_active_delegate_list_def set_active_delegates_def bindE_eq_Inr Let_def intro: stores
      split: if_splits)

lemma random_seed: "inv c \<Longrightarrow> ensures (update_random_seed N secret c) inv"
  by (auto simp: ensures_def update_random_seed_def bindE_eq_Inr intro: stores)

lemma block:
  assumes "block_changes CE E N d b = Some (Inr (p, events, c'))"
    and "\<forall>t \<in> set (user_transactions b). \<forall>op \<in> set (operations t). plain_op op"
    and start: "inv (PendingChainState empty_pending_state (Some (ChainDatabase d)))"
  shows "inv c'"
proof -
  obtain signee c1 c2 c3 c4 where
    1: "update_delegate_production_info E (ChainDatabase d) (header_of b) (block_id (nv_header_hash N) b) signee
      (PendingChainState empty_pending_state (Some (ChainDatabase d))) = Inr c1"
    and 2: "apply_transactions CE E N (ChainDatabase d) b c1 = Some (Inr (events, c2))"
    and 3: "pay_delegate E (ChainDatabase d) signee c2 = Inr (p, c3)"
    and 4: "(if node_index (block_num b) = nv_nodeindex N
      then update_active_delegate_list N d (produced (block_num b)) c3 else Inr c3) = Inr c4"
    and 5: "update_random_seed N (parent_digest b) c4 = Inr c'"
    by (rule block_changesE [OF assms(1)])
  have "inv c1" by (rule production [THEN ensuresD, OF start 1])
  then have "inv c2" by (rule apply_all [OF 2 _ assms(2)])
  then have "inv c3" using pay [THEN ensuresD, OF _ 3] by simp
  then have "inv c4" using 4 delegate_list [THEN ensuresD] by (auto split: if_splits)
  then show ?thesis by (rule random_seed [THEN ensuresD, OF _ 5])
qed

end

section \<open>The database below an overlay\<close>

definition is_database :: "chain \<Rightarrow> bool" where
  "is_database c \<longleftrightarrow> (\<exists>d. c = ChainDatabase d)"

lemma is_database_on_chain: "is_database (on_chain f g c) \<longleftrightarrow> is_database c"
  by (auto simp: is_database_def on_chain_def split: chain.splits)

lemma is_database_methods [simp]:
  "is_database (property_insert_into_id_map kproperty xproperty c) \<longleftrightarrow> is_database c"
  "is_database (property_erase_from_id_map kproperty c) \<longleftrightarrow> is_database c"
  "is_database (account_insert_into_id_map kaccount xaccount c) \<longleftrightarrow> is_database c"
  "is_database (account_erase_from_id_map kaccount c) \<longleftrightarrow> is_database c"
  "is_database (asset_insert_into_id_map kasset xasset c) \<longleftrightarrow> is_database c"
  "is_database (asset_erase_from_id_map kasset c) \<longleftrightarrow> is_database c"
  "is_database (slate_insert_into_id_map kslate xslate c) \<longleftrightarrow> is_database c"
  "is_database (slate_erase_from_id_map kslate c) \<longleftrightarrow> is_database c"
  "is_database (balance_insert_into_id_map kbalance xbalance c) \<longleftrightarrow> is_database c"
  "is_database (balance_erase_from_id_map kbalance c) \<longleftrightarrow> is_database c"
  "is_database (contract_insert_into_id_map kcontract xcontract c) \<longleftrightarrow> is_database c"
  "is_database (contract_erase_from_id_map kcontract c) \<longleftrightarrow> is_database c"
  "is_database (contract_store_resultid_by_reqestid kresultid xresultid c) \<longleftrightarrow> is_database c"
  "is_database (contract_erase_resultid_by_reqestid kresultid c) \<longleftrightarrow> is_database c"
  "is_database (contract_store_requestid_by_resultid krequestid xrequestid c) \<longleftrightarrow> is_database c"
  "is_database (contract_erase_requestid_by_resultid krequestid c) \<longleftrightarrow> is_database c"
  "is_database (contract_store_contractid_by_trxid kcontractin_trx xcontractin_trx c) \<longleftrightarrow> is_database c"
  "is_database (contract_erase_contractid_by_trxid kcontractin_trx c) \<longleftrightarrow> is_database c"
  "is_database (contract_store_trxid_by_contractid kcontract_trx xcontract_trx c) \<longleftrightarrow> is_database c"
  "is_database (contract_erase_trxid_by_contract_id kcontract_trx c) \<longleftrightarrow> is_database c"
  "is_database (transaction_insert_into_id_map E kt xt c) \<longleftrightarrow> is_database c"
  "is_database (transaction_erase_from_id_map E kt c) \<longleftrightarrow> is_database c"
  "is_database (account_insert_into_name_map n i c) \<longleftrightarrow> is_database c"
  "is_database (account_erase_from_name_map n c) \<longleftrightarrow> is_database c"
  "is_database (account_insert_into_address_map a i c) \<longleftrightarrow> is_database c"
  "is_database (account_erase_from_address_map a c) \<longleftrightarrow> is_database c"
  "is_database (account_insert_into_vote_set v c) \<longleftrightarrow> is_database c"
  "is_database (account_erase_from_vote_set v c) \<longleftrightarrow> is_database c"
  "is_database (asset_insert_into_symbol_map n i c) \<longleftrightarrow> is_database c"
  "is_database (asset_erase_from_symbol_map n c) \<longleftrightarrow> is_database c"
  "is_database (slot_insert_into_timestamp_map t i c) \<longleftrightarrow> is_database c"
  "is_database (slot_erase_from_timestamp_map t c) \<longleftrightarrow> is_database c"
  "is_database (contract_insert_into_name_map n ci c) \<longleftrightarrow> is_database c"
  "is_database (contract_erase_from_name_map n c) \<longleftrightarrow> is_database c"
  "is_database (contractstorage_insert_into_id_map ci st c) \<longleftrightarrow> is_database c"
  "is_database (contractstorage_erase_from_id_map ci c) \<longleftrightarrow> is_database c"
  "is_database (transaction_insert_into_unique_set E t' c) \<longleftrightarrow> is_database c"
  "is_database (transaction_erase_from_unique_set E t' c) \<longleftrightarrow> is_database c"
  "is_database (slot_insert_into_index_map ks xs c) \<longleftrightarrow> is_database c"
  "is_database (slot_erase_from_index_map ks c) \<longleftrightarrow> is_database c"
    by (simp_all add: property_insert_into_id_map_def property_erase_from_id_map_def
    account_insert_into_id_map_def account_erase_from_id_map_def asset_insert_into_id_map_def
    asset_erase_from_id_map_def slate_insert_into_id_map_def slate_erase_from_id_map_def
    balance_insert_into_id_map_def balance_erase_from_id_map_def contract_insert_into_id_map_def
    contract_erase_from_id_map_def contract_store_resultid_by_reqestid_def
    contract_erase_resultid_by_reqestid_def contract_store_requestid_by_resultid_def
    contract_erase_requestid_by_resultid_def contract_store_contractid_by_trxid_def
    contract_erase_contractid_by_trxid_def contract_store_trxid_by_contractid_def
    contract_erase_trxid_by_contract_id_def transaction_insert_into_id_map_def
    transaction_erase_from_id_map_def account_insert_into_name_map_def account_erase_from_name_map_def
    account_insert_into_address_map_def account_erase_from_address_map_def account_insert_into_vote_set_def
    account_erase_from_vote_set_def asset_insert_into_symbol_map_def asset_erase_from_symbol_map_def
    slot_insert_into_timestamp_map_def slot_erase_from_timestamp_map_def contract_insert_into_name_map_def
    contract_erase_from_name_map_def contractstorage_insert_into_id_map_def
    contractstorage_erase_from_id_map_def transaction_insert_into_unique_set_def
    transaction_erase_from_unique_set_def slot_insert_into_index_map_def slot_erase_from_index_map_def
    is_database_on_chain)

lemma is_database_key_addresses [simp]:
  "is_database (erase_key_addresses E hist c) \<longleftrightarrow> is_database c"
  "is_database (insert_key_addresses E k hist c) \<longleftrightarrow> is_database c"
  unfolding erase_key_addresses_def insert_key_addresses_def
  by (induction hist arbitrary: c) simp_all

lemma is_database_account:
  "is_database c \<Longrightarrow> account_store E k x c = Inr c' \<Longrightarrow> is_database c'"
  "is_database c \<Longrightarrow> account_remove E k c = Inr c' \<Longrightarrow> is_database c'"
proof -
  have erase: "is_database c1" if "is_database c" "account_store_erase E prev x c = Inr c1" for prev c1
    using that by (auto simp: account_store_erase_def Let_def bindE_eq_Inr split: option.splits if_splits)
  have ins: "is_database c2" if "is_database c1" "account_store_insert E k x c1 = Inr c2" for c1 c2
    using that by (auto simp: account_store_insert_def Let_def bindE_eq_Inr split: option.splits if_splits)
  show "is_database c \<Longrightarrow> account_store E k x c = Inr c' \<Longrightarrow> is_database c'"
    unfolding account_store_def bindE_eq_Inr by (auto dest: erase intro: ins split: option.splits)
  show "is_database c \<Longrightarrow> account_remove E k c = Inr c' \<Longrightarrow> is_database c'"
    unfolding account_remove_def Let_def by (auto simp: bindE_eq_Inr split: if_splits option.splits)
qed

interpretation account_database: entry_invariant is_database "account_store E" "account_remove E" for E
  by unfold_locales (erule (1) is_database_account)+

interpretation property_database: entry_invariant is_database property_store property_remove
  by unfold_locales (auto simp: property_store_def property_remove_def Let_def split: if_splits option.splits)

interpretation asset_database: entry_invariant is_database asset_store asset_remove
  by unfold_locales (auto simp: asset_store_def asset_remove_def Let_def split: if_splits option.splits)

interpretation slate_database: entry_invariant is_database slate_store slate_remove
  by unfold_locales (auto simp: slate_store_def slate_remove_def Let_def split: if_splits option.splits)

interpretation balance_database: entry_invariant is_database balance_store balance_remove
  by unfold_locales (auto simp: balance_store_def balance_remove_def Let_def split: if_splits option.splits)

interpretation transaction_database: entry_invariant is_database "transaction_store E" "transaction_remove E" for E
  by unfold_locales (auto simp: transaction_store_def transaction_remove_def Let_def split: if_splits option.splits)

interpretation slot_database: entry_invariant is_database "slot_store E" "slot_remove E" for E
  by unfold_locales (auto simp: slot_store_def slot_remove_def Let_def split: if_splits option.splits)

interpretation contract_database: entry_invariant is_database contract_store contract_remove
  by unfold_locales (auto simp: contract_store_def contract_remove_def Let_def split: if_splits option.splits)

interpretation resultid_database: entry_invariant is_database resultid_store resultid_remove
  by unfold_locales (auto simp: resultid_store_def resultid_remove_def Let_def split: if_splits option.splits)

interpretation requestid_database: entry_invariant is_database requestid_store requestid_remove
  by unfold_locales (auto simp: requestid_store_def requestid_remove_def Let_def split: if_splits option.splits)

interpretation contractin_trx_database: entry_invariant is_database contractin_trx_store contractin_trx_remove
  by unfold_locales (auto simp: contractin_trx_store_def contractin_trx_remove_def Let_def split: if_splits option.splits)

interpretation contract_trx_database: entry_invariant is_database contract_trx_store contract_trx_remove
  by unfold_locales (auto simp: contract_trx_store_def contract_trx_remove_def Let_def split: if_splits option.splits)

interpretation contractstorage_database: entry_invariant is_database contractstorage_store contractstorage_remove
  by unfold_locales (auto simp: contractstorage_store_def contractstorage_remove_def Let_def split: if_splits option.splits)

lemmas database_apply_entrys =
  account_database.inv_apply_entrys
  property_database.inv_apply_entrys
  asset_database.inv_apply_entrys
  slate_database.inv_apply_entrys
  balance_database.inv_apply_entrys
  transaction_database.inv_apply_entrys
  slot_database.inv_apply_entrys
  contract_database.inv_apply_entrys
  resultid_database.inv_apply_entrys
  requestid_database.inv_apply_entrys
  contractin_trx_database.inv_apply_entrys
  contract_trx_database.inv_apply_entrys
  contractstorage_database.inv_apply_entrys

lemma apply_changes_database:
  "apply_changes E s (Some p) = Inr (Some p') \<Longrightarrow> is_database p \<Longrightarrow> is_database p'"
  unfolding apply_changes_def option.case bindE_eq_Inr
  by (elim exE conjE) ((drule (1) database_apply_entrys)+, simp)

section \<open>The overlay of a block\<close>

definition block_overlay :: "env \<Rightarrow> chain \<Rightarrow> chain \<Rightarrow> bool" where
  "block_overlay E p c \<longleftrightarrow> pending_on E (Some p) c \<and> (\<forall>a \<in> ran (v_account (view c)). account_ok a)"

lemma block_overlayI:
  "block_overlay E p c \<Longrightarrow> pending_on E (Some p) c' \<Longrightarrow> v_account (view c') = v_account (view c) \<Longrightarrow> block_overlay E p c'"
  by (simp add: block_overlay_def)

lemma slot_store_accounts: "slot_store E k x c = Inr c' \<Longrightarrow> v_account (view c') = v_account (view c)"
proof (cases "env_statistics_enabled E")
  case True
  moreover assume "slot_store E k x c = Inr c'"
  ultimately have "slot_store (E\<lparr>env_statistics_enabled := True\<rparr>) k x c = Inr c'" by (simp add: env_enabled)
  from slot_db.view_store [OF this] show ?thesis by simp
qed (simp add: slot_store_def)

interpretation overlay: chain_invariant E "block_overlay E p" for E p
proof
  fix c c' assume o: "block_overlay E p c"
  then have on: "pending_on E (Some p) c" by (simp add: block_overlay_def)
  show "property_store k x c = Inr c' \<Longrightarrow> block_overlay E p c'" for k x
    using block_overlayI [OF o property_inv.inv_store [OF on]] property_db.view_store [of k x c c'] by simp
  show "asset_store k x c = Inr c' \<Longrightarrow> block_overlay E p c'" for k x
    using block_overlayI [OF o asset_inv.inv_store [OF on]] asset_db.view_store [of k x c c'] by simp
  show "slate_store k x c = Inr c' \<Longrightarrow> block_overlay E p c'" for k x
    using block_overlayI [OF o slate_inv.inv_store [OF on]] slate_db.view_store [of k x c c'] by simp
  show "balance_store k x c = Inr c' \<Longrightarrow> block_overlay E p c'" for k x
    using block_overlayI [OF o balance_inv.inv_store [OF on]] balance_db.view_store [of k x c c'] by simp
  show "transaction_store E k x c = Inr c' \<Longrightarrow> block_overlay E p c'" for k x
    using block_overlayI [OF o transaction_inv.inv_store [OF on]] transaction_db.view_store [of E k x c c'] by simp
  show "slot_store E k x c = Inr c' \<Longrightarrow> block_overlay E p c'" for k x
    by (rule block_overlayI [OF o slot_inv.inv_store [OF on] slot_store_accounts])
  show "account_ok a \<Longrightarrow> account_store E i a c = Inr c' \<Longrightarrow> block_overlay E p c'" for i a
    using o account_inv.inv_store [OF on] account_db.all_ok_store [of c a E i c']
    by (simp add: block_overlay_def account_db.all_ok_def)
  show "get_account_entry c i = Some a \<Longrightarrow> account_ok a" for i a
    using o by (auto simp: block_overlay_def view_chain_accessors ran_def)
qed

text \<open>Flushing such an overlay into a database succeeds and gives a database that shows what the overlay showed.\<close>

lemma block_overlay_applies:
  assumes "block_overlay E (ChainDatabase d) c" and "\<forall>a \<in> ran (v_account (view (ChainDatabase d))). account_ok a"
  obtains s d' where "c = PendingChainState s (Some (ChainDatabase d))"
    and "apply_changes E s (Some (ChainDatabase d)) = Inr (Some (ChainDatabase d'))" and "view (ChainDatabase d') = view c"
proof -
  obtain s where c: "c = PendingChainState s (Some (ChainDatabase d))" and wf: "overlay_wf E s"
    using assms(1) by (auto simp: block_overlay_def pending_on_def)
  have "account_ok (snd kv)" if kv: "kv \<in> set (ps_account_id_to_entry s)" for kv
  proof -
    have "map_of (ps_account_id_to_entry s) (fst kv) = Some (snd kv)"
      using kv wf map_of_is_SomeI [of "ps_account_id_to_entry s" "fst kv" "snd kv"] by (simp add: overlay_wf_def)
    then have "v_account (view c) (fst kv) = Some (snd kv)" by (simp add: c view_overlay overlay_def)
    then have "snd kv \<in> ran (v_account (view c))" by (rule ranI)
    then show ?thesis using assms(1) by (simp add: block_overlay_def)
  qed
  then have "accounts_ok (ChainDatabase d) s" using assms(2) by (simp add: accounts_ok_def)
  then obtain p' where p': "apply_changes E s (Some (ChainDatabase d)) = Inr (Some p')"
    using apply_changes_total wf by blast
  obtain d' where "p' = ChainDatabase d'"
    using apply_changes_database [OF p'] by (auto simp: is_database_def)
  then show thesis using that c p' apply_changes_view [OF p' wf] by simp
qed

section \<open>Committing a block\<close>

definition plain_block :: "FullBlock \<Rightarrow> bool" where
  "plain_block b \<longleftrightarrow> (\<forall>t \<in> set (user_transactions b). \<forall>op \<in> set (operations t). plain_op op)"

text \<open>A database whose accounts all have their keys and whose books are consistent, with room for more accounts.\<close>

definition keyed :: "chain_database \<Rightarrow> bool" where
  "keyed d \<longleftrightarrow> (\<forall>a \<in> ran (v_account (view (ChainDatabase d))). account_ok a)"

definition sound_database :: "env \<Rightarrow> nat \<Rightarrow> chain_database \<Rightarrow> bool" where
  "sound_database E m d \<longleftrightarrow> keyed d \<and> books E m (view (ChainDatabase d))"

lemma extend_chain_database:
  "view (ChainDatabase (nd_database (purge_unique_transactions E (update_relay_fee N
    ((clear_pending E b n)\<lparr>nd_extend_status := s\<rparr>))))) = view (ChainDatabase (nd_database n))"
proof -
  have "nd_database (clear_pending E b n) = nd_database n"
    using database.clear_pending_keeps [of n E b] by (simp add: same_database_def)
  then have "nd_database (update_relay_fee N ((clear_pending E b n)\<lparr>nd_extend_status := s\<rparr>)) = nd_database n"
    by (simp add: update_relay_fee_def)
  then show ?thesis by (simp add: purge_unique_transactions_def view_defs)
qed

lemma block_changes_overlay:
  assumes "block_changes CE E N d b = Some (Inr (p, events, ch))" and "plain_block b" and "keyed d"
  shows "block_overlay E (ChainDatabase d) ch"
proof (rule overlay.block [OF assms(1)])
  show "block_overlay E (ChainDatabase d) (PendingChainState empty_pending_state (Some (ChainDatabase d)))"
    using assms(3) by (simp add: block_overlay_def pending_on_def view_empty_overlay keyed_def)
qed (use assms(2) in \<open>simp add: plain_block_def\<close>)

lemma extend_chain_commits:
  assumes "block_changes CE E N (nd_database n) b = Some (Inr (p, events, ch))" and "plain_block b" and "keyed (nd_database n)"
  obtains n' where "extend_chain CE E N b n = Some (Returns events n')" and "view (ChainDatabase (nd_database n')) = view ch"
proof -
  obtain s d' where ch: "ch = PendingChainState s (Some (ChainDatabase (nd_database n)))"
    and a: "apply_changes E s (Some (ChainDatabase (nd_database n))) = Inr (Some (ChainDatabase d'))"
    and v: "view (ChainDatabase d') = view ch"
    using block_overlay_applies [OF block_changes_overlay [OF assms]] assms(3) by (auto simp: keyed_def)
  let ?n = "n\<lparr>nd_extend_status := Some (block_id (nv_header_hash N) b, 1), nd_database := d'\<rparr>"
  show thesis
    by (rule that [OF _ trans [OF extend_chain_database [where n = ?n and E = E and b = b and N = N
              and s = "Some (block_id (nv_header_hash N) b, 2)"]]])
      (simp_all add: extend_chain_def Let_def assms(1) apply_to_database_def ch a v [unfolded ch])
qed

lemma update_frame_database:
  "nd_database (update_head_block h n) = nd_database n" "nd_database (update_last_index i n) = nd_database n"
  by (auto simp: update_head_block_def update_last_index_def Let_def split: option.split)

text \<open>What pushing a new block does to the database.\<close>

lemma push_block_commits:
  assumes "get_block_optional n (block_id (nv_header_hash N) b) = None" and "plain_block b" and "keyed (nd_database n)"
  shows "case block_changes CE E N (nd_database n) b of
      None \<Rightarrow> push_block CE E N b n = None
    | Some (Inl e) \<Rightarrow> \<exists>n'. push_block CE E N b n = Some (Throws e n') \<and> nd_database n' = nd_database n
    | Some (Inr (p, events, ch)) \<Rightarrow> \<exists>n'. push_block CE E N b n = Some (Returns True n') \<and>
        view (ChainDatabase (nd_database n')) = view ch"
proof -
  let ?l = "fold (link_parent (block_id (nv_header_hash N) b)) (parents b) n"
  have db: "nd_database ?l = nd_database n" by (rule link_parents_frame)
  show ?thesis
  proof (cases "block_changes CE E N (nd_database n) b" rule: result_option_cases)
    case 1
    then show ?thesis using assms(1) by (simp add: push_block_def Let_def extend_chain_def db)
  next
    case (2 e)
    then show ?thesis using assms(1) by (simp add: push_block_def Let_def extend_chain_def db)
  next
    case (3 x)
    obtain p events ch where x: "x = (p, events, ch)" by (cases x)
    obtain n' where "extend_chain CE E N b ?l = Some (Returns events n')" "view (ChainDatabase (nd_database n')) = view ch"
      using extend_chain_commits [of CE E N ?l b p events ch] 3 assms(2,3) by (auto simp: x db)
    then show ?thesis using assms(1) 3 by (simp add: push_block_def Let_def x update_frame_database)
  qed
qed

text \<open>C3: A block of non-contract operations is atomic. On a database whose accounts have their keys, pushing a
  new block either does not return because an operation does not return, or throws the exception of the
  first failing check and leaves the database as it was, or returns with exactly the changes of the
  block in the database: writing the changes never stops in the middle.\<close>

theorem pushed_block_is_atomic:
  assumes "get_block_optional n (block_id (nv_header_hash N) b) = None" and "plain_block b" and "keyed (nd_database n)"
  shows "case block_changes CE E N (nd_database n) b of
      None \<Rightarrow> push_block CE E N b n = None
    | Some (Inl e) \<Rightarrow> \<exists>n'. push_block CE E N b n = Some (Throws e n') \<and> nd_database n' = nd_database n
    | Some (Inr (p, events, ch)) \<Rightarrow> \<exists>n'. push_block CE E N b n = Some (Returns True n') \<and>
        view (ChainDatabase (nd_database n')) = view ch"
  by (rule push_block_commits [OF assms])


section \<open>Runs\<close>

text \<open>A run of blocks of non-contract operations and of local calls; the counter is the number of operations in
  the blocks offered. The calls agree with \<open>E\<close> on the addresses of withdraw conditions, and on nothing else.\<close>

inductive plain_run :: "env \<Rightarrow> node_state \<Rightarrow> nat \<Rightarrow> node_state \<Rightarrow> bool" for E :: env and n :: node_state where
  start: "plain_run E n 0 n"
| push: "plain_run E n k m \<Longrightarrow> env_cond_addr E' = env_cond_addr E \<Longrightarrow> plain_block b \<Longrightarrow> leaves (push_block CE E' N b m) n' \<Longrightarrow>
    plain_run E n (operation_count (user_transactions b) + k) n'"
| local: "plain_run E n k m \<Longrightarrow> local_step m n' \<Longrightarrow> plain_run E n k n'"

lemma books_addresses: "env_cond_addr E' = env_cond_addr E \<Longrightarrow> books E' = books E"
  by (simp add: books_def fun_eq_iff)

lemma books_less: "books E (k + m) v \<Longrightarrow> books E m v"
  by (auto simp: books_def account_room_def)

lemma push_block_sound:
  assumes l: "leaves (push_block CE E N b n) n'" and b: "plain_block b"
    and d: "sound_database E (operation_count (user_transactions b) + m) (nd_database n)"
  shows "sound_database E m (nd_database n') \<and>
    same_unheld (view (ChainDatabase (nd_database n))) (view (ChainDatabase (nd_database n')))"
proof -
  have keep: ?thesis if "nd_database n' = nd_database n"
    using that d books_less by (auto simp: sound_database_def same_unheld_def)
  have keyed: "keyed (nd_database n)" using d by (simp add: sound_database_def)
  show ?thesis
  proof (cases "get_block_optional n (block_id (nv_header_hash N) b)")
    case (Some x)
    then show ?thesis using l keep by (simp add: push_block_def Let_def)
  next
    case None
    note c = push_block_commits [OF None b keyed, of CE E]
    show ?thesis
    proof (cases "block_changes CE E N (nd_database n) b" rule: result_option_cases)
      case 1
      then show ?thesis using c l by simp
    next
      case (2 e)
      then show ?thesis using c l keep by auto
    next
      case (3 x)
      obtain p events ch where x: "x = (p, events, ch)" by (cases x)
      have v: "view (ChainDatabase (nd_database n')) = view ch" using c l 3 x by auto
      have "kept_books E m (ChainDatabase (nd_database n)) ch"
        using block_changes_keeps [of CE E N "nd_database n" b p events ch m] 3 b d
        by (simp add: x plain_block_def sound_database_def)
      moreover have "block_overlay E (ChainDatabase (nd_database n)) ch"
        using block_changes_overlay [OF _ b keyed] 3 by (simp add: x)
      ultimately show ?thesis
        by (simp add: sound_database_def keyed_def kept_books_def block_overlay_def v)
    qed
  qed
qed

lemma plain_run_sound:
  assumes "plain_run E n k n'" and "sound_database E (k + m) (nd_database n)"
  shows "sound_database E m (nd_database n') \<and>
    same_unheld (view (ChainDatabase (nd_database n))) (view (ChainDatabase (nd_database n')))"
  using assms
proof (induction arbitrary: m rule: plain_run.induct)
  case start
  then show ?case by (simp add: same_unheld_def)
next
  case (push k n1 E' b CE N n')
  have "sound_database E' = sound_database E" using books_addresses [OF push.hyps(2)] by (simp add: sound_database_def fun_eq_iff)
  then show ?case
    using push.IH [of "operation_count (user_transactions b) + m"] push.prems push_block_sound [OF push.hyps(4,3), of m]
    by (auto simp: add.commute add.left_commute intro: same_unheld_trans)
next
  case (local k n1 n')
  then have "nd_database n' = nd_database n1" using database.local_step_keeps by (auto simp: same_database_def)
  then show ?case using local.IH local.prems by simp
qed

text \<open>C2: No run of a node creates or destroys shares. Whatever blocks of non-contract operations are pushed,
  accepted and rejected, and whatever is done to the pool between them: if the books of the database
  are consistent at the start, with room for the accounts the operations may register, they are
  consistent at the end, and for every asset the difference between the issued supply and the
  shares held in balances, fees and delegate pay is what it was, as a 64-bit amount.\<close>

theorem run_conserves_shares:
  assumes "plain_run E n k n'" and "sound_database E k (nd_database n)"
  shows "sound_database E 0 (nd_database n') \<and>
    (\<forall>a. s64 (unheld (view (ChainDatabase (nd_database n'))) a) = s64 (unheld (view (ChainDatabase (nd_database n))) a))"
  using plain_run_sound [OF assms(1), of 0] assms(2) by (simp add: same_unheld_def)

text \<open>C12: The block databases of a node stay consistent in every run, from an empty node on and whatever
  blocks, transactions and configurations are passed to it, rejected calls included: each block is
  stored under the hash of its header, each block number leads to a known block with that number, the
  counter of each producing node is at least the number of every known block of that node, and the head block
  is a known block such that no known block is later.\<close>

theorem reachable_node_wf:
  assumes "reachable hdr_hash d n"
  shows "node_wf hdr_hash n"
  using assms by (rule reachable_wf)

text \<open>The block with Alice's transfer, pushed to a node that knows no block.\<close>

lemma sample_push_hyps:
  "get_block_optional (empty_node sample_block_database) i = None" "plain_block sample_block"
  "keyed (nd_database (empty_node sample_block_database))" "nd_database (empty_node d) = d"
proof -
  have "v_account (view (ChainDatabase sample_block_database)) = [1 \<mapsto> sample_account]"
    using sample_view(2) by (simp add: sample_block_view view_chain_accessors)
  moreover have "account_ok sample_account" by (simp add: account_ok_def sample_account_def)
  ultimately show "keyed (nd_database (empty_node sample_block_database))"
    by (simp add: keyed_def empty_node_def ran_def)
qed (use sample_block_plain in \<open>simp_all add: get_block_optional_def empty_node_def plain_block_def\<close>)

theorem pushed_block_is_atomic_witness:
  "\<exists>n'. push_block sample_contract_env sample_env sample_producer sample_block (empty_node sample_block_database) =
    Some (Returns True n')"
  using pushed_block_is_atomic [OF sample_push_hyps(1-3), where CE = sample_contract_env and E = sample_env and N = sample_producer]
    sample_block_changes by (auto simp: sample_push_hyps(4))

lemma sample_push:
  obtains n' where "push_block sample_contract_env sample_env sample_producer sample_block (empty_node sample_block_database) =
    Some (Returns True n')"
  using push_block_commits [OF sample_push_hyps(1-3), where CE = sample_contract_env and E = sample_env and N = sample_producer]
    sample_block_changes that by (auto simp: sample_push_hyps(4))

theorem run_conserves_shares_witness:
  "\<exists>n'. push_block sample_contract_env sample_env sample_producer sample_block (empty_node sample_block_database) =
      Some (Returns True n') \<and>
    s64 (unheld (view (ChainDatabase (nd_database n'))) 0) = s64 (unheld (view (ChainDatabase sample_block_database)) 0)"
proof -
  obtain n' where n': "push_block sample_contract_env sample_env sample_producer sample_block (empty_node sample_block_database) =
      Some (Returns True n')"
    by (rule sample_push)
  have "operation_count (user_transactions sample_block) = 2"
    by (simp add: operation_count_def sample_block_def sample_transfer_def with_operations_def)
  moreover from n' have "plain_run sample_env (empty_node sample_block_database) (operation_count (user_transactions sample_block) + 0) n'"
    by (intro plain_run.push [OF plain_run.start, where N = sample_producer and CE = sample_contract_env and E' = sample_env])
      (simp_all add: sample_push_hyps(2))
  ultimately have "plain_run sample_env (empty_node sample_block_database) 2 n'" by simp
  moreover have "sound_database sample_env 2 (nd_database (empty_node sample_block_database))"
    using sample_push_hyps(3) books_sample by (simp add: sound_database_def sample_push_hyps(4) sample_block_view)
  ultimately have "sound_database sample_env 0 (nd_database n') \<and> (\<forall>a. s64 (unheld (view (ChainDatabase (nd_database n'))) a) =
      s64 (unheld (view (ChainDatabase (nd_database (empty_node sample_block_database)))) a))"
    by (rule run_conserves_shares)
  then show ?thesis using n' by (auto simp: sample_push_hyps(4))
qed

theorem reachable_node_wf_witness:
  "\<exists>n'. push_block sample_contract_env sample_env sample_producer sample_block (empty_node sample_block_database) =
      Some (Returns True n') \<and> node_wf (nv_header_hash sample_producer) n'"
proof -
  obtain n' where n': "push_block sample_contract_env sample_env sample_producer sample_block (empty_node sample_block_database) =
      Some (Returns True n')"
    by (rule sample_push)
  then have "leaves (push_block sample_contract_env sample_env sample_producer sample_block (empty_node sample_block_database)) n'"
    by simp
  then have "reachable (nv_header_hash sample_producer) sample_block_database n'"
    by (intro reachable.step [OF reachable.start] node_step.push [OF refl])
  from reachable_node_wf [OF this] show ?thesis using n' by blast
qed

end
