(* ===== verification/Spec2Isabelle.thy ===== *)
theory Spec2Isabelle
  imports Commit
begin

text \<open>
  A verification library for the core of TTCHAIN 2.0, the chain library under
  \<open>src/Chain/libraries/blockchain\<close> with its headers under \<open>src/Chain/libraries/include/blockchain\<close>:
  what a transaction does to the ledger, how a block is applied, undone and produced, and who is allowed to
  cause which change.

  \<^bold>\<open>The program and its parts.\<close>
  A node keeps a \<open>ChainDatabase\<close>: maps of properties, accounts, assets, balances, voting slates,
  transactions, slots and contracts, databases of the blocks it knows, and a pool of pending
  transactions. A transaction is a list of operations. It is evaluated by a
  \<open>TransactionEvaluationState\<close>, which checks signatures, keeps the ledger of what the operations take and
  give, and reads and writes entries through the abstract class \<open>ChainInterface\<close>. Behind the interface
  stands either the database or a \<open>PendingChainState\<close>, an overlay that records changes over a previous
  state; \<open>apply_changes\<close> flushes it and \<open>get_undo_state\<close> saves what it overwrites. A block is applied by
  \<open>push_block\<close>, which links it to its parents and calls \<open>extend_chain\<close>: all its transactions are evaluated
  over one overlay, the producer is paid, the statistics of the producer, the random seed and the list of
  active delegates are updated, and the overlay is flushed. Blocks are produced by \<open>generate_block\<close> from the
  pool, in the slots that the shuffled list of active delegates assigns.

  \<^bold>\<open>Theories, in the order of their imports.\<close>

  \<^item> \<open>Prelude\<close>: scalar types (\<open>Types.hpp\<close>), exceptions (\<open>Exceptions.hpp\<close>), the result type of
  functions that throw with its sequencing \<^const>\<open>bindE\<close> and loop \<^const>\<open>foldE\<close>, the fixed-width integers,
  and containers as association lists.
  \<^item> \<open>Assets\<close>: \<open>fc::safe\<close>, \<open>Asset.cpp\<close>: checked addition, subtraction and multiplication, prices, and
  the text form of a ratio. The checked operations are exact or throw; converting with a price and
  converting the result again creates no shares; printing a ratio and parsing it is the identity.
  \<^item> \<open>Entries\<close>: \<open>WithdrawTypes.cpp\<close> and the \<open>*Entry.cpp\<close> files, one record per entry class with
  its methods. Memo messages are read as they were written.
  \<^item> \<open>Names\<close>: the name checks of \<open>ChainInterface.cpp\<close>, proved equal to a grammar of labels.
  \<^item> \<open>Transactions\<close>, \<open>Blocks\<close>: \<open>Operations.hpp\<close>, \<open>Transaction.cpp\<close>, \<open>Block.cpp\<close>, \<open>Time.cpp\<close>; the
  transaction builders, the combinations of operations a transaction may have, block numbers and slots.
  \<^item> \<open>Chain_State\<close>: the records \<open>db_state\<close> (\<open>ChainDatabaseImpl.hpp\<close>), \<open>pending_state\<close>
  (\<open>PendingChainState.hpp\<close>) and the datatype \<open>chain\<close> of the two, one definition per virtual method and
  entry type, and the functions \<open>lookup\<close>, \<open>store\<close> and \<open>remove\<close> of each entry type, sanity checks included.
  \<^item> \<open>Overlay\<close>, \<open>Undo\<close>: \<open>PendingChainState.cpp\<close>. The abstract specification of a chain is the record
  \<open>chain_view\<close> of partial maps; \<open>view\<close> is the abstraction function. Every store and remove is a
  pointwise update of the view, flushing an overlay makes the state below look like the overlay, and
  applying the saved undo state brings the earlier view back.
  \<^item> \<open>Chain_Interface\<close>: \<open>ChainInterface.cpp\<close>, with the withdrawal from a contract into a result
  transaction.
  \<^item> \<open>Eval_State\<close>: \<open>TransactionEvaluationState.cpp\<close> without the operations; \<open>Balance_Ops\<close>, \<open>Account_Ops\<close>,
  \<open>Asset_Ops\<close>, \<open>Contract_Balances\<close> and \<open>Contract_Ops\<close>: one definition per \<open>evaluate\<close> method of the
  \<open>*Operations.cpp\<close> files, every guard and early return included; \<open>Evaluate\<close>: the evaluation of a
  transaction with the transactions nested in it.
  \<^item> \<open>Ledger\<close>: accounting. For each asset, issued supply minus holdings (balances, collected fees, delegate
  pay) is kept by every operation up to the ledger of the transaction, and by the transaction as a whole;
  accepted transactions pay the fees they require.
  \<^item> \<open>Authority\<close>, \<open>Contract_Laws\<close>: which signature and which permission each operation needs, what a
  contract call costs, where result operations may stand, how storage changes are merged.
  \<^item> \<open>Delegates\<close>: \<open>ChainDatabase.cpp\<close>: ranking, shuffling, slots, statistics, pay and supply.
  \<^item> \<open>Block_Application\<close>: \<open>ChainDatabase.cpp\<close>: \<open>apply_transactions\<close>, \<open>extend_chain\<close>, \<open>push_block\<close> and the
  databases of blocks, on the record \<open>node_state\<close>. \<open>Pending_Pool\<close>: \<open>store_pending_transaction\<close>,
  \<open>revalidate_pending\<close> and \<open>generate_block\<close>.
  \<^item> \<open>Node_Runs\<close>: the node as a state machine. The step relation \<open>node_step\<close> has one rule for each call that
  changes the node, in any environment, with rejected calls as steps too; by induction over reachable
  nodes the block databases stay consistent, and the number of a generated block is new.
  \<^item> \<open>Commit\<close>: an invariant that all stores keep is kept by every transaction and block of non-contract
  operations; it follows that \<open>apply_changes\<close> cannot fail on the overlay of such a block, that \<open>push_block\<close> is
  atomic, and that no run of a node creates or destroys shares.

  \<^bold>\<open>Conventions.\<close>
  A function that may throw returns \<^const>\<open>Inl\<close> with the exception or \<^const>\<open>Inr\<close>; a named exception
  class carries its number, a failed \<open>FC_ASSERT\<close> is \<open>fc_assert\<close>, and code whose behaviour the
  language leaves open is an error value of its own. A \<open>ChainInterface\<close> call takes the chain and returns
  the changed one, so that state changed before a throw is dropped, as the callers do. Where the callers keep
  it, which is the database of a node, a call has an \<open>outcome\<close>: it returns with a node, throws
  with the node it leaves behind, or stops in the middle of writing the database.

  Code outside the repository or without source is an argument: the hash functions and the recovery of
  keys from signatures are functions in the records of the environment, and a run of the Lua virtual machine
  is a function on the evaluation state and the chain. What a theorem needs of them is one of its
  hypotheses.

  \<^bold>\<open>Loops and fuel.\<close>
  Loops over containers are structural recursion. The name checks and the evaluation of nested
  transactions have a termination proof, by the length of the name and the size of the operation. The
  loops that select balances for a contract payment and the walk over the history of a fork
  can run forever in the code and are partial functions into \<^typ>\<open>'a option\<close>, with \<^const>\<open>None\<close> for a call that
  does not return; that selection returns on balances of the paid asset is proved, and so is that it does not
  return on a balance of another asset. The search for the next slot of a delegate counts up to 100
  candidate slots; 99 suffice, as the liveness theorem shows, since every active delegate owns one slot of
  each round of 99.

  \<^bold>\<open>Interfaces.\<close>
  The locale \<open>entry_type\<close> states what the entry functions of one type promise to their clients, over the view;
  it is interpreted on all twelve entry types of the view. \<open>entry_invariant\<close> states that stores and removes
  keep a property of the chain and is interpreted on thirteen types with the relation of an overlay to the
  state below. \<open>conserving\<close> is the contract of an operation with the ledger; its client is the loop
  over the operations of a transaction, and it is interpreted on each of the twelve plain operations and on
  their dispatch. \<open>local_frame\<close> collects what the calls of the pool cannot reach and is interpreted on
  the block databases and on the chain database. \<open>chain_invariant\<close> states what operations, transactions and
  blocks inherit from the stores and is interpreted on the overlays of blocks; \<open>entry_invariant\<close> is interpreted a
  second time to show that flushing into a database gives a database.

  \<^bold>\<open>Bounds.\<close>
  Share amounts are integers, with the range of \<open>int64_t\<close> checked where the code uses \<open>fc::safe\<close> and wrapped
  by \<open>s64\<close> where it does not; identifiers, times, block numbers and bit sets are words of their C++ width.

  \<^bold>\<open>Not modelled.\<close>
  The Lua compiler and virtual machine (a parameter); the wallet, client, command line, network and
  RPC libraries, which are input and output around the chain; the adapters of LevelDB, whose place the maps of
  \<open>db_state\<close> take; word lists and helpers in \<open>utilities\<close>; base58 and hash encodings of keys and addresses;
  the genesis data and the table of hard forks; the builder of transactions for wallets; packing, digests,
  signing and encryption, which are library code. Of the chain database: opening,
  re-indexing and repairing files on disk, the entry that records statistics of each block, observers, the
  migration of blocks of the previous version, exports and queries for the user interface; \<open>pop_block\<close>, whose
  body is commented out in the code. Of the asset class: conversions from and to floating point.
  Vendored libraries are not part of the program; of \<open>fc\<close> only the checked integers are modelled.
\<close>

end
